(* ===== verification/Prelude.thy ===== *)
theory Prelude
  imports Complex_Main "HOL-Library.Char_ord" "HOL-Library.List_Lexorder" "HOL-Library.Multiset"
begin

text \<open>
  Shared ground of the development: Python's dynamic values and dictionaries, the string,
  number-formatting and rounding functions of the standard library the sources call,
  exceptions as values, and the effect type that threads the log of calls to the MCP services.

  Strings are lists of characters; the model is about ASCII text (the character classes of
  \<open>str.strip\<close>, \<open>str.upper\<close> and of regular expressions are the ASCII ones). Floating-point
  numbers are rationals: the scores of the program are sums of decimal constants that are
  rounded to three or four decimals before they are compared, where exact arithmetic and
  correctly rounded binary arithmetic agree.
\<close>

named_theorems py_simps \<open>defining equations of the Python library functions\<close>
named_theorems eff_simps \<open>defining equations of the effect combinators\<close>

section \<open>Values and dictionaries\<close>

datatype pyval =
    PNone
  | PBool bool
  | PInt int
  | PFloat rat
  | PStr string
  | PList "pyval list"
  | PDict "(string \<times> pyval) list"

type_synonym pydict = "(string \<times> pyval) list"

text \<open>A dictionary is an association list in insertion order; \<open>d[k] = v\<close> overwrites in
  place or appends.\<close>

fun dict_set :: "string \<Rightarrow> 'v \<Rightarrow> (string \<times> 'v) list \<Rightarrow> (string \<times> 'v) list" where
  "dict_set k v [] = [(k, v)]"
| "dict_set k v ((k', v') # d) =
     (if k = k' then (k, v) # d else (k', v') # dict_set k v d)"

definition dict_without :: "string \<Rightarrow> (string \<times> 'v) list \<Rightarrow> (string \<times> 'v) list" where
  "dict_without k d = filter (\<lambda>(k', _). k' \<noteq> k) d"

definition dict_get :: "(string \<times> 'v) list \<Rightarrow> string \<Rightarrow> 'v \<Rightarrow> 'v" where
  "dict_get d k dflt = (case map_of d k of None \<Rightarrow> dflt | Some v \<Rightarrow> v)"

text \<open>\<open>d.get(k)\<close> with Python's \<open>None\<close> for a missing key.\<close>

abbreviation dict_get0 :: "pydict \<Rightarrow> string \<Rightarrow> pyval" where
  "dict_get0 d k \<equiv> dict_get d k PNone"

fun truthy :: "pyval \<Rightarrow> bool" where
  "truthy PNone = False"
| "truthy (PBool b) = b"
| "truthy (PInt i) = (i \<noteq> 0)"
| "truthy (PFloat x) = (x \<noteq> 0)"
| "truthy (PStr s) = (s \<noteq> [])"
| "truthy (PList xs) = (xs \<noteq> [])"
| "truthy (PDict d) = (d \<noteq> [])"

text \<open>\<open>a or b\<close>\<close>

definition py_or :: "pyval \<Rightarrow> pyval \<Rightarrow> pyval" where
  "py_or a b = (if truthy a then a else b)"

text \<open>\<open>json.dumps(v, sort_keys=True)\<close> reads a value through the form whose dictionaries are
  sorted by key, recursively.\<close>

fun canon :: "pyval \<Rightarrow> pyval" where
  "canon (PList xs) = PList (map canon xs)"
| "canon (PDict d) = PDict (sort_key fst (map (\<lambda>kv. (fst kv, canon (snd kv))) d))"
| "canon v = v"

section \<open>Strings\<close>

definition nl :: string where
  "nl = [CHR 0x0A]"

text \<open>The UTF-8 bytes of the em dash, which several messages of the sources contain.\<close>

definition em_dash :: string where
  "em_dash = [CHR 0xE2, CHR 0x80, CHR 0x94]"

definition is_space :: "char \<Rightarrow> bool" where
  "is_space c = (c \<in> {CHR '' '', CHR 0x09, CHR 0x0A, CHR 0x0B, CHR 0x0C, CHR 0x0D,
                       CHR 0x1C, CHR 0x1D, CHR 0x1E, CHR 0x1F})"

definition is_upper :: "char \<Rightarrow> bool" where
  "is_upper c = (CHR ''A'' \<le> c \<and> c \<le> CHR ''Z'')"

definition is_lower :: "char \<Rightarrow> bool" where
  "is_lower c = (CHR ''a'' \<le> c \<and> c \<le> CHR ''z'')"

definition is_digit :: "char \<Rightarrow> bool" where
  "is_digit c = (CHR ''0'' \<le> c \<and> c \<le> CHR ''9'')"

definition is_word :: "char \<Rightarrow> bool" where
  "is_word c = (is_upper c \<or> is_lower c \<or> is_digit c \<or> c = CHR ''_'')"

definition to_upper :: "char \<Rightarrow> char" where
  "to_upper c = (if is_lower c then char_of (of_char c - 32 :: nat) else c)"

definition to_lower :: "char \<Rightarrow> char" where
  "to_lower c = (if is_upper c then char_of (of_char c + 32 :: nat) else c)"

definition str_upper :: "string \<Rightarrow> string" where
  "str_upper s = map to_upper s"

definition str_lower :: "string \<Rightarrow> string" where
  "str_lower s = map to_lower s"

definition str_lstrip :: "string \<Rightarrow> string" where
  "str_lstrip s = dropWhile is_space s"

definition str_strip :: "string \<Rightarrow> string" where
  "str_strip s = rev (dropWhile is_space (rev (dropWhile is_space s)))"

text \<open>\<open>s.rstrip(c)\<close> for one character.\<close>

definition str_rstrip_char :: "char \<Rightarrow> string \<Rightarrow> string" where
  "str_rstrip_char c s = rev (dropWhile (\<lambda>x. x = c) (rev s))"

fun is_prefix :: "'a list \<Rightarrow> 'a list \<Rightarrow> bool" where
  "is_prefix [] ys = True"
| "is_prefix (x # xs) [] = False"
| "is_prefix (x # xs) (y # ys) = (x = y \<and> is_prefix xs ys)"

text \<open>\<open>pat in s\<close>\<close>

fun str_contains :: "'a list \<Rightarrow> 'a list \<Rightarrow> bool" where
  "str_contains p [] = (p = [])"
| "str_contains p (c # s) = (is_prefix p (c # s) \<or> str_contains p s)"

text \<open>\<open>s.split()\<close>: maximal runs of non-space characters.\<close>

fun str_split_aux :: "string \<Rightarrow> string \<Rightarrow> string list" where
  "str_split_aux acc [] = (if acc = [] then [] else [rev acc])"
| "str_split_aux acc (c # s) =
     (if is_space c then (if acc = [] then str_split_aux [] s else rev acc # str_split_aux [] s)
      else str_split_aux (c # acc) s)"

definition str_split :: "string \<Rightarrow> string list" where
  "str_split s = str_split_aux [] s"

text \<open>\<open>sep.join(xs)\<close>\<close>

fun str_join :: "string \<Rightarrow> string list \<Rightarrow> string" where
  "str_join sep [] = []"
| "str_join sep [x] = x"
| "str_join sep (x # y # xs) = x @ sep @ str_join sep (y # xs)"

section \<open>Numbers and their formats\<close>

fun nat_digits :: "nat \<Rightarrow> string" where
  "nat_digits n = (if n < 10 then [char_of (48 + n)]
                   else nat_digits (n div 10) @ [char_of (48 + n mod 10)])"

declare nat_digits.simps [simp del]

definition show_nat :: "nat \<Rightarrow> string" where
  "show_nat n = nat_digits n"

definition show_int :: "int \<Rightarrow> string" where
  "show_int i = (if i < 0 then ''-'' @ nat_digits (nat (- i)) else nat_digits (nat i))"

text \<open>The \<open>{:,}\<close> format: groups of three digits from the right.\<close>

fun group3 :: "string \<Rightarrow> string" where
  "group3 (a # b # c # d # ds) = a # b # c # CHR '','' # group3 (d # ds)"
| "group3 ds = ds"

definition show_commas :: "int \<Rightarrow> string" where
  "show_commas i = (let ds = rev (group3 (rev (nat_digits (nat \<bar>i\<bar>))))
                    in if i < 0 then ''-'' @ ds else ds)"

text \<open>\<open>round(x, n)\<close>: the nearest multiple of \<open>10 ^ -n\<close>, ties to the even one.\<close>

definition round_half_even :: "rat \<Rightarrow> int" where
  "round_half_even x =
     (let f = \<lfloor>x\<rfloor>; d = x - of_int f
      in if d < 1/2 then f else if d > 1/2 then f + 1 else if even f then f else f + 1)"

definition py_round :: "nat \<Rightarrow> rat \<Rightarrow> rat" where
  "py_round n x = of_int (round_half_even (x * 10 ^ n)) / 10 ^ n"

text \<open>\<open>int(x)\<close> on a float truncates towards zero.\<close>

definition py_int :: "rat \<Rightarrow> int" where
  "py_int x = (if x < 0 then - \<lfloor>- x\<rfloor> else \<lfloor>x\<rfloor>)"

text \<open>The \<open>{:.0%}\<close> format.\<close>

definition show_percent :: "rat \<Rightarrow> string" where
  "show_percent x = show_int (round_half_even (100 * x)) @ ''%''"

text \<open>The \<open>{:.nf}\<close> format, for a positive \<open>n\<close>.\<close>

definition pad_left :: "nat \<Rightarrow> string \<Rightarrow> string" where
  "pad_left n s = replicate (n - length s) (CHR ''0'') @ s"

definition show_fixed :: "nat \<Rightarrow> rat \<Rightarrow> string" where
  "show_fixed n x =
     (let k = round_half_even (x * 10 ^ n); m = nat \<bar>k\<bar>
      in (if x < 0 then ''-'' else []) @ nat_digits (m div 10 ^ n) @ ''.''
           @ pad_left n (nat_digits (m mod 10 ^ n)))"

text \<open>\<open>repr(s)\<close> of a string without control characters.\<close>

definition py_repr :: "string \<Rightarrow> string" where
  "py_repr s =
     (let dq = CHR 0x22; sq = CHR 0x27; bs = CHR 0x5C;
          q = (if sq \<in> set s \<and> dq \<notin> set s then dq else sq)
      in q # concat (map (\<lambda>c. if c = q \<or> c = bs then [bs, c] else [c]) s) @ [q])"

section \<open>Exceptions and effects\<close>

text \<open>The exceptions the modelled code raises or lets through.\<close>

datatype exn =
    MCPCallError string
  | TransportError string   \<comment> \<open>an \<open>httpx\<close> error other than a timeout or a status error\<close>
  | ValueError string
  | TypeError string
  | KeyError string
  | AttributeError string
  | RuntimeError string
  | InterceptionError string
  | HTTPException int string
  | GraphRecursionError
  | SimulationTimeoutError string
  | SimulationFailedError string
  | EmbeddingUnavailableError string

text \<open>A call to an MCP service: base URL, tool name, arguments.\<close>

record mcp_call =
  mc_url :: string
  mc_tool :: string
  mc_args :: pydict

text \<open>
  The services are not part of the program's process. What they answer may depend on every
  call made so far, so an environment is a function from the log of earlier calls and the
  call at hand to an exception or a value.
\<close>

type_synonym mcp_env = "mcp_call list \<Rightarrow> mcp_call \<Rightarrow> exn + pyval"

type_synonym 'a eff = "mcp_call list \<Rightarrow> (exn + 'a) \<times> mcp_call list"

definition ret :: "'a \<Rightarrow> 'a eff" where
  "ret x l = (Inr x, l)"

definition raise_exn :: "exn \<Rightarrow> 'a eff" where
  "raise_exn e l = (Inl e, l)"

definition bind_eff :: "'a eff \<Rightarrow> ('a \<Rightarrow> 'b eff) \<Rightarrow> 'b eff" where
  "bind_eff m f l = (case m l of (Inl e, l') \<Rightarrow> (Inl e, l') | (Inr x, l') \<Rightarrow> f x l')"

text \<open>\<open>try: m except: h\<close>; the handler sees the log as the failed body left it.\<close>

definition try_eff :: "'a eff \<Rightarrow> (exn \<Rightarrow> 'a eff) \<Rightarrow> 'a eff" where
  "try_eff m h l = (case m l of (Inl e, l') \<Rightarrow> h e l' | (Inr x, l') \<Rightarrow> (Inr x, l'))"

text \<open>\<open>try: m finally: f\<close>, with an \<open>f\<close> that does not raise.\<close>

definition finally_eff :: "'a eff \<Rightarrow> (mcp_call list \<Rightarrow> mcp_call list) \<Rightarrow> 'a eff" where
  "finally_eff m f l = (case m l of (r, l') \<Rightarrow> (r, f l'))"

definition invoke :: "mcp_env \<Rightarrow> mcp_call \<Rightarrow> pyval eff" where
  "invoke env c l = (env l c, l @ [c])"

fun is_mcp_error :: "exn \<Rightarrow> bool" where
  "is_mcp_error (MCPCallError _) = True"
| "is_mcp_error _ = False"

text \<open>\<open>except MCPCallError\<close> lets every other exception through.\<close>

definition catch_mcp :: "'a eff \<Rightarrow> 'a eff \<Rightarrow> 'a eff" where
  "catch_mcp m h = try_eff m (\<lambda>e. if is_mcp_error e then h else raise_exn e)"

text \<open>Pure code that may raise, inside an effectful function; a loop that stops at the first
  exception; and the reading of a value that has to be a dictionary or a list.\<close>

definition lift_exn :: "exn + 'a \<Rightarrow> 'a eff" where
  "lift_exn r l = (r, l)"

fun map_exn :: "('a \<Rightarrow> exn + 'b) \<Rightarrow> 'a list \<Rightarrow> exn + 'b list" where
  "map_exn f [] = Inr []"
| "map_exn f (x # xs) =
     (case f x of Inl e \<Rightarrow> Inl e
      | Inr y \<Rightarrow> (case map_exn f xs of Inl e \<Rightarrow> Inl e | Inr ys \<Rightarrow> Inr (y # ys)))"

definition as_dict :: "pyval \<Rightarrow> exn + pydict" where
  "as_dict v = (case v of PDict d \<Rightarrow> Inr d | _ \<Rightarrow> Inl (AttributeError ''get''))"

definition as_list :: "pyval \<Rightarrow> exn + pyval list" where
  "as_list v = (case v of PList xs \<Rightarrow> Inr xs | _ \<Rightarrow> Inl (TypeError ''object is not a list''))"

section \<open>Conversions\<close>

text \<open>\<open>float(v)\<close> and \<open>int(v)\<close>. The texts accepted as numbers are plain decimals.\<close>

definition digits_value :: "string \<Rightarrow> int" where
  "digits_value ds = foldl (\<lambda>a d. 10 * a + int (of_char d - 48)) 0 ds"

definition parse_nat :: "string \<Rightarrow> int option" where
  "parse_nat s = (if s \<noteq> [] \<and> list_all is_digit s then Some (digits_value s) else None)"

definition parse_int :: "string \<Rightarrow> int option" where
  "parse_int s =
     (case s of CHR ''-'' # t \<Rightarrow> map_option uminus (parse_nat t)
      | CHR ''+'' # t \<Rightarrow> parse_nat t
      | _ \<Rightarrow> parse_nat s)"

definition parse_float :: "string \<Rightarrow> rat option" where
  "parse_float s =
     (let (a, b) = (takeWhile (\<lambda>c. c \<noteq> CHR ''.'') s, dropWhile (\<lambda>c. c \<noteq> CHR ''.'') s)
      in if b = [] then map_option of_int (parse_int a)
         else (case (parse_int a, parse_nat (tl b)) of
           (Some i, Some f) \<Rightarrow>
             Some (if is_prefix ''-'' a then of_int i - of_int f / 10 ^ length (tl b)
                   else of_int i + of_int f / 10 ^ length (tl b))
         | _ \<Rightarrow> None))"

definition py_float :: "pyval \<Rightarrow> exn + rat" where
  "py_float v =
     (case v of
        PInt i \<Rightarrow> Inr (of_int i)
      | PFloat x \<Rightarrow> Inr x
      | PBool b \<Rightarrow> Inr (if b then 1 else 0)
      | PStr s \<Rightarrow> (case parse_float (str_strip s) of
                     None \<Rightarrow> Inl (ValueError ''could not convert string to float'')
                   | Some x \<Rightarrow> Inr x)
      | _ \<Rightarrow> Inl (TypeError ''float() argument must be a string or a real number''))"

definition py_int_of :: "pyval \<Rightarrow> exn + int" where
  "py_int_of v =
     (case v of
        PInt i \<Rightarrow> Inr i
      | PFloat x \<Rightarrow> Inr (py_int x)
      | PBool b \<Rightarrow> Inr (if b then 1 else 0)
      | PStr s \<Rightarrow> (case parse_int (str_strip s) of
                     None \<Rightarrow> Inl (ValueError ''invalid literal for int()'')
                   | Some i \<Rightarrow> Inr i)
      | _ \<Rightarrow> Inl (TypeError ''int() argument must be a string or a real number''))"

text \<open>\<open>key in v\<close> for a string key.\<close>

definition py_in :: "string \<Rightarrow> pyval \<Rightarrow> exn + bool" where
  "py_in k v =
     (case v of
        PStr s \<Rightarrow> Inr (str_contains k s)
      | PList xs \<Rightarrow> Inr (PStr k \<in> set xs)
      | PDict d \<Rightarrow> Inr (k \<in> fst ` set d)
      | _ \<Rightarrow> Inl (TypeError ''argument is not iterable''))"

text \<open>\<open>k in str(v)\<close> for a word \<open>k\<close>: some string inside the value contains it.\<close>

fun mentions :: "string \<Rightarrow> pyval \<Rightarrow> bool" where
  "mentions k (PStr s) = str_contains k s"
| "mentions k (PList xs) = list_ex (mentions k) xs"
| "mentions k (PDict d) = list_ex (\<lambda>kv. str_contains k (fst kv) \<or> mentions k (snd kv)) d"
| "mentions k _ = False"

text \<open>Reading entries with their expected types.\<close>

definition need_str :: "pyval \<Rightarrow> exn + string" where
  "need_str v = (case v of PStr s \<Rightarrow> Inr s | _ \<Rightarrow> Inl (ValueError ''Input should be a valid string''))"

definition need_opt_str :: "pyval \<Rightarrow> exn + string option" where
  "need_opt_str v = (case v of PNone \<Rightarrow> Inr None | PStr s \<Rightarrow> Inr (Some s)
     | _ \<Rightarrow> Inl (ValueError ''Input should be a valid string''))"

definition need_int :: "pyval \<Rightarrow> exn + int" where
  "need_int v = (case v of PInt i \<Rightarrow> Inr i | _ \<Rightarrow> Inl (ValueError ''Input should be a valid integer''))"

definition need_num :: "pyval \<Rightarrow> exn + rat" where
  "need_num v = (case v of PInt i \<Rightarrow> Inr (of_int i) | PFloat x \<Rightarrow> Inr x
     | _ \<Rightarrow> Inl (ValueError ''Input should be a valid number''))"

definition list_entry :: "pydict \<Rightarrow> string \<Rightarrow> exn + pyval list" where
  "list_entry d k = as_list (dict_get d k (PList []))"

definition dict_entries :: "pydict \<Rightarrow> string \<Rightarrow> exn + pydict list" where
  "dict_entries d k = (case list_entry d k of Inl e \<Rightarrow> Inl e | Inr xs \<Rightarrow> map_exn as_dict xs)"

section \<open>Generic lemmas\<close>

lemma map_of_dict_set [simp]:
  "map_of (dict_set k v d) k' = (if k' = k then Some v else map_of d k')"
  by (induction d) auto

lemma dict_get_dict_set [simp]:
  "dict_get (dict_set k v d) k' z = (if k' = k then v else dict_get d k' z)"
  by (simp add: dict_get_def)

lemma dict_without_dict_set_same [simp]:
  "dict_without k (dict_set k v d) = dict_without k d"
  by (induction d) (auto simp: dict_without_def)

lemma dict_without_idem [simp]: "dict_without k (dict_without k d) = dict_without k d"
  by (induction d) (auto simp: dict_without_def)

lemma dict_set_keys: "fst ` set (dict_set k v d) = insert k (fst ` set d)"
  by (induction k v d rule: dict_set.induct) (simp_all add: insert_commute)

lemma dict_set_distinct [intro]:
  "distinct (map fst d) \<Longrightarrow> distinct (map fst (dict_set k v d))"
proof (induction d)
  case Nil
  then show ?case by simp
next
  case (Cons kv d)
  obtain a b where kv: "kv = (a, b)" by (cases kv)
  from Cons have IH: "distinct (map fst (dict_set k v d))" and a: "a \<notin> fst ` set d"
    by (auto simp: kv)
  show ?case
    using IH a Cons.prems dict_set_keys [of k v d] by (auto simp: kv)
qed

lemma is_prefix_append: "is_prefix p (p @ s)"
  by (induction p) auto

lemma is_prefix_take: "is_prefix p s \<longleftrightarrow> take (length p) s = p"
  by (induction p s rule: is_prefix.induct) auto

lemma str_contains_iff: "str_contains p s \<longleftrightarrow> (\<exists>u v. s = u @ p @ v)"
proof (induction s)
  case Nil
  then show ?case by simp
next
  case (Cons c s)
  have pre: "is_prefix p (c # s) \<longleftrightarrow> (\<exists>v. c # s = p @ v)"
    by (metis append_take_drop_id is_prefix_append is_prefix_take)
  have "(\<exists>u v. c # s = u @ p @ v) \<longleftrightarrow> (\<exists>v. c # s = p @ v) \<or> (\<exists>u v. s = u @ p @ v)"
    (is "?l \<longleftrightarrow> ?r")
  proof
    assume ?l
    then obtain u v where "c # s = u @ p @ v" by blast
    then show ?r by (cases u) auto
  next
    assume ?r
    then show ?l by (metis append_Cons append_Nil)
  qed
  then show ?case using Cons pre by simp
qed

lemma str_contains_mono: "str_contains p s \<Longrightarrow> str_contains p (u @ s @ v)"
  unfolding str_contains_iff by (metis append.assoc)

lemma dropWhile_is_suffix: "\<exists>u. s = u @ dropWhile P s"
  by (metis takeWhile_dropWhile_id)

lemma str_strip_infix: "\<exists>u v. s = u @ str_strip s @ v"
proof -
  let ?t = "dropWhile is_space s"
  obtain u where u: "s = u @ ?t" using dropWhile_is_suffix by blast
  obtain w where "rev ?t = w @ dropWhile is_space (rev ?t)" using dropWhile_is_suffix by blast
  then have "?t = str_strip s @ rev w"
    unfolding str_strip_def by (metis rev_append rev_rev_ident)
  with u show ?thesis by metis
qed

lemma str_upper_append [simp]: "str_upper (s @ t) = str_upper s @ str_upper t"
  by (simp add: str_upper_def)

lemma length_str_upper [simp]: "length (str_upper s) = length s"
  by (simp add: str_upper_def)

lemma py_round_id: "x * 10 ^ n = of_int k \<Longrightarrow> py_round n x = x"
  by (simp add: py_round_def round_half_even_def field_simps)

lemma round_half_even_mono_bounds: "\<lfloor>x\<rfloor> \<le> round_half_even x \<and> round_half_even x \<le> \<lfloor>x\<rfloor> + 1"
  by (simp add: round_half_even_def Let_def)

lemma round_half_even_of_int [simp]: "round_half_even (of_int k) = k"
  by (simp add: round_half_even_def)

lemma round_half_even_ge: "of_int k \<le> x \<Longrightarrow> k \<le> round_half_even x"
  using round_half_even_mono_bounds [of x] by (meson le_floor_iff order_trans)

lemma round_half_even_le: "x \<le> of_int k \<Longrightarrow> round_half_even x \<le> k"
proof -
  assume x: "x \<le> of_int k"
  show "round_half_even x \<le> k"
  proof (cases "x = of_int k")
    case True
    then show ?thesis by simp
  next
    case False
    with x have "\<lfloor>x\<rfloor> < k" by (simp add: floor_less_iff)
    with round_half_even_mono_bounds [of x] show ?thesis by linarith
  qed
qed

lemma round_half_even_mono: "x \<le> y \<Longrightarrow> round_half_even x \<le> round_half_even y"
proof (cases "\<lfloor>x\<rfloor> = \<lfloor>y\<rfloor>")
  case True
  assume "x \<le> y"
  with True show ?thesis by (auto simp: round_half_even_def Let_def)
next
  case False
  assume "x \<le> y"
  then have "\<lfloor>x\<rfloor> \<le> \<lfloor>y\<rfloor>" by (rule floor_mono)
  with False have "\<lfloor>x\<rfloor> + 1 \<le> \<lfloor>y\<rfloor>" by simp
  with round_half_even_mono_bounds [of x] round_half_even_mono_bounds [of y]
  show ?thesis by linarith
qed

lemma py_round_mono: "x \<le> y \<Longrightarrow> py_round n x \<le> py_round n y"
  by (simp add: py_round_def divide_right_mono round_half_even_mono mult_right_mono)

lemma py_round_nonneg: "0 \<le> x \<Longrightarrow> 0 \<le> py_round n x"
proof -
  assume "0 \<le> x"
  then have "of_int 0 \<le> x * 10 ^ n" by simp
  from round_half_even_ge [OF this] show ?thesis by (simp add: py_round_def)
qed

lemma py_round_le_one: "x \<le> 1 \<Longrightarrow> py_round n x \<le> 1"
proof -
  assume "x \<le> 1"
  then have "x * 10 ^ n \<le> of_int (10 ^ n)" by simp
  from round_half_even_le [OF this] have "of_int (round_half_even (x * 10 ^ n)) \<le> (10 ^ n :: rat)"
    by (metis of_int_le_iff of_int_numeral of_int_power)
  then show ?thesis by (simp add: py_round_def)
qed

subsection \<open>The effect combinators\<close>

lemma eff_ret [eff_simps]: "ret x l = (Inr x, l)"
  by (simp add: ret_def)

lemma eff_raise [eff_simps]: "raise_exn e l = (Inl e, l)"
  by (simp add: raise_exn_def)

lemma eff_invoke [eff_simps]: "invoke env c l = (env l c, l @ [c])"
  by (simp add: invoke_def)

lemma eff_lift [eff_simps]: "lift_exn r l = (r, l)"
  by (simp add: lift_exn_def)

lemma map_exn_all2: "map_exn f xs = Inr ys \<Longrightarrow> list_all2 (\<lambda>x y. f x = Inr y) xs ys"
  by (induction xs arbitrary: ys) (auto split: sum.splits)

lemma map_exn_length: "map_exn f xs = Inr ys \<Longrightarrow> length ys = length xs"
  by (induction xs arbitrary: ys) (auto split: sum.splits)

lemma bind_eff_Inr: "m l = (Inr x, l') \<Longrightarrow> bind_eff m f l = f x l'"
  by (simp add: bind_eff_def)

lemma bind_eff_Inl: "m l = (Inl e, l') \<Longrightarrow> bind_eff m f l = (Inl e, l')"
  by (simp add: bind_eff_def)

lemma bind_eff_Inr_iff:
  "bind_eff m f l = (Inr y, l2) \<longleftrightarrow> (\<exists>x l1. m l = (Inr x, l1) \<and> f x l1 = (Inr y, l2))"
  by (auto simp: bind_eff_def split: prod.splits sum.splits)

section \<open>Write-once data\<close>

text \<open>Data that, once written, no step changes; the client's view of it.\<close>

locale write_once =
  fixes step :: "'s \<Rightarrow> 's \<Rightarrow> bool"
    and inv :: "'s \<Rightarrow> bool"
    and written :: "'s \<Rightarrow> 'k \<Rightarrow> 'd option"
  assumes step_inv: "step s s' \<Longrightarrow> inv s \<Longrightarrow> inv s'"
    and step_keeps: "step s s' \<Longrightarrow> inv s \<Longrightarrow> written s k = Some d \<Longrightarrow> written s' k = Some d"
begin

lemma run_inv: "step\<^sup>*\<^sup>* s s' \<Longrightarrow> inv s \<Longrightarrow> inv s'"
  by (induction rule: rtranclp_induct) (auto intro: step_inv)

lemma run_keeps: "step\<^sup>*\<^sup>* s s' \<Longrightarrow> inv s \<Longrightarrow> written s k = Some d \<Longrightarrow> written s' k = Some d"
proof (induction rule: rtranclp_induct)
  case (step y z)
  then show ?case by (blast intro: step_keeps run_inv)
qed

lemma never_rewritten:
  "step\<^sup>*\<^sup>* s s' \<Longrightarrow> inv s \<Longrightarrow> written s k = Some d \<Longrightarrow> written s' k = Some d' \<Longrightarrow> d' = d"
  using run_keeps by fastforce

end

section \<open>Rankings\<close>

text \<open>A listing that puts the greatest keys first: what is cut off ranks below what is shown.\<close>

locale ranking =
  fixes order :: "'a list \<Rightarrow> 'a list" and key :: "'a \<Rightarrow> 'k :: linorder"
  assumes perm: "mset (order xs) = mset xs"
    and descending: "sorted_wrt (\<lambda>x y. key y \<le> key x) (order xs)"
begin

lemma set_order: "set (order xs) = set xs"
  using perm by (metis set_mset_mset)

lemma length_order: "length (order xs) = length xs"
  using perm by (metis size_mset)

lemma length_top: "length (take k (order xs)) = min k (length xs)"
  by (simp add: length_order)

lemma shown_or_outranked:
  assumes "x \<in> set xs"
  shows "x \<in> set (take k (order xs)) \<or> (\<forall>y \<in> set (take k (order xs)). key x \<le> key y)"
proof -
  from assms have "x \<in> set (take k (order xs)) \<or> x \<in> set (drop k (order xs))"
    by (metis Un_iff append_take_drop_id set_append set_order)
  moreover have "key d \<le> key t" if "t \<in> set (take k (order xs))" "d \<in> set (drop k (order xs))" for t d
    using descending [of xs] that by (metis append_take_drop_id sorted_wrt_append)
  ultimately show ?thesis by blast
qed

lemma first_is_greatest:
  assumes "x \<in> set xs"
  shows "key x \<le> key (hd (order xs))"
proof (cases "order xs")
  case Nil
  with assms set_order [of xs] show ?thesis by simp
next
  case (Cons y ys)
  with assms set_order [of xs] descending [of xs] show ?thesis by auto
qed

end

end
