(* ===== verification/Handoff_Schema.thy ===== *)
theory Handoff_Schema
  imports Prelude
begin

text \<open>
  \<open>orchestrator/handoff_schema.py\<close>: the enumerations, the nested models and the
  \<open>HandoffContract\<close> that flows through the pipeline, with \<open>add_provenance\<close> and the model
  validator. Field names are the source's; the fields of the small models carry a prefix.
  A \<open>datetime\<close> is an integer (microseconds of UTC); \<open>None\<close> is \<open>None\<close> of an option type.
\<close>

named_theorems schema_simps \<open>values of the enumerations and field equations of the schema\<close>

datatype OperationType = OT_DDL | OT_DELETE | OT_UPDATE | OT_INSERT | OT_SELECT | OT_UNKNOWN

datatype ReversibilityClass = REVERSIBLE_AUTOMATED | REVERSIBLE_PITR | PARTIAL | PERMANENT

datatype RiskTier = TIER_AUTO | TIER_STANDARD | TIER_FULL_CONTRACT

datatype ApprovalState = PENDING | APPROVED | REJECTED | MODIFIED | AUTO_REJECTED | TIMED_OUT

datatype SourceType = INTERNAL_SYSTEM | EXTERNAL_USER_INPUT | EXTERNAL_AGENT

text \<open>The \<open>.value\<close> of the string enumerations.\<close>

fun op_value :: "OperationType \<Rightarrow> string" where
  "op_value OT_DDL = ''DDL''"
| "op_value OT_DELETE = ''DELETE''"
| "op_value OT_UPDATE = ''UPDATE''"
| "op_value OT_INSERT = ''INSERT''"
| "op_value OT_SELECT = ''SELECT''"
| "op_value OT_UNKNOWN = ''UNKNOWN''"

fun rev_value :: "ReversibilityClass \<Rightarrow> string" where
  "rev_value REVERSIBLE_AUTOMATED = ''REVERSIBLE_AUTOMATED''"
| "rev_value REVERSIBLE_PITR = ''REVERSIBLE_PITR''"
| "rev_value PARTIAL = ''PARTIAL''"
| "rev_value PERMANENT = ''PERMANENT''"

fun tier_value :: "RiskTier \<Rightarrow> string" where
  "tier_value TIER_AUTO = ''AUTO''"
| "tier_value TIER_STANDARD = ''STANDARD''"
| "tier_value TIER_FULL_CONTRACT = ''FULL_CONTRACT''"

text \<open>The tiers are ordered by how much review they ask for.\<close>

fun tier_rank :: "RiskTier \<Rightarrow> nat" where
  "tier_rank TIER_AUTO = 0"
| "tier_rank TIER_STANDARD = 1"
| "tier_rank TIER_FULL_CONTRACT = 2"

lemma tier_rank_inj: "tier_rank s = tier_rank t \<Longrightarrow> s = t"
  by (cases s; cases t) simp_all

instantiation RiskTier :: linorder
begin

definition less_eq_RiskTier :: "RiskTier \<Rightarrow> RiskTier \<Rightarrow> bool" where
  "less_eq_RiskTier s t \<longleftrightarrow> tier_rank s \<le> tier_rank t"

definition less_RiskTier :: "RiskTier \<Rightarrow> RiskTier \<Rightarrow> bool" where
  "less_RiskTier s t \<longleftrightarrow> tier_rank s < tier_rank t"

instance
  by standard (auto simp: less_eq_RiskTier_def less_RiskTier_def intro: tier_rank_inj)

end

fun approval_value :: "ApprovalState \<Rightarrow> string" where
  "approval_value PENDING = ''PENDING''"
| "approval_value APPROVED = ''APPROVED''"
| "approval_value REJECTED = ''REJECTED''"
| "approval_value MODIFIED = ''MODIFIED''"
| "approval_value AUTO_REJECTED = ''AUTO_REJECTED''"
| "approval_value TIMED_OUT = ''TIMED_OUT''"

fun source_value :: "SourceType \<Rightarrow> string" where
  "source_value INTERNAL_SYSTEM = ''internal_system''"
| "source_value EXTERNAL_USER_INPUT = ''external_user_input''"
| "source_value EXTERNAL_AGENT = ''external_agent''"

record CascadeEntry =
  ce_table :: string
  ce_estimated_rows :: int
  ce_actual_rows :: "int option"
  ce_cascade_action :: string
  ce_depth :: int

record ExternalTrigger =
  et_trigger_name :: string
  et_event :: string
  et_extension :: string
  et_estimated_calls :: "int option"
  et_target_endpoint :: "string option"
  et_sandbox_log_entry :: "string option"

record HistoricalOperation =
  ho_operation_id :: string
  ho_intent_summary :: string
  ho_tables :: "string list"
  ho_outcome :: string
  ho_decision_reason :: string
  ho_similarity_score :: rat
  ho_jaccard_score :: rat
  ho_rerank_score :: rat

record PolicyViolation =
  pv_rule_id :: string
  pv_rule_name :: string
  pv_severity :: string
  pv_description :: string

record ProvenanceEntry =
  pe_agent :: string
  pe_field_written :: string
  pe_timestamp :: int
  pe_llm_involved :: bool

record HandoffContract =
  operation_id :: string
  tenant_id :: string
  submitted_by :: string
  source_type :: SourceType
  submission_timestamp :: int
  raw_sql :: string
  raw_intent :: "string option"
  intent_summary :: string
  operation_type :: OperationType
  primary_table :: string
  condition :: string
  estimated_primary_rows :: int
  row_confidence :: rat
  cascade :: "CascadeEntry list"
  external_triggers :: "ExternalTrigger list"
  reversibility :: "ReversibilityClass option"
  reversibility_reason :: string
  automated_recovery_sql :: "string option"
  permanent_components :: "string list"
  prompt_injection_risk :: bool
  retrieval_available :: bool
  historical_precedents :: "HistoricalOperation list"
  simulation_available :: bool
  simulation_executed :: bool
  actual_primary_rows :: "int option"
  actual_cascade :: "CascadeEntry list"
  sandbox_trigger_log :: "pyval list"
  simulation_timeout :: bool
  sequence_gap_warning :: bool
  risk_tier :: "RiskTier option"
  risk_score :: rat
  intent_summary_prose :: string
  rollback_plan :: "string option"
  contract_assembled :: bool
  approval_contract_json :: string
  policy_violations :: "PolicyViolation list"
  auto_reject_triggered :: bool
  auto_reject_reason :: "string option"
  required_tier_from_policy :: "string option"
  approval_state :: ApprovalState
  human_decision :: "string option"
  decision_reason :: "string option"
  decision_timestamp :: "int option"
  approver_id :: "string option"
  modification_constraints :: "string option"
  execution_success :: "bool option"
  execution_timestamp :: "int option"
  actual_rows_post_execution :: "int option"
  blast_radius_accuracy_delta :: "rat option"
  workflow_provenance :: "ProvenanceEntry list"
  reanalysis_count :: int
  stale_fields :: "string list"

text \<open>The constructor with its required fields; every other field has its declared default.\<close>

definition new_contract ::
  "string \<Rightarrow> string \<Rightarrow> string \<Rightarrow> SourceType \<Rightarrow> int \<Rightarrow> string \<Rightarrow> HandoffContract" where
  "new_contract oid tid sub src ts sql =
     \<lparr> operation_id = oid, tenant_id = tid, submitted_by = sub, source_type = src,
       submission_timestamp = ts, raw_sql = sql, raw_intent = None,
       intent_summary = '''', operation_type = OT_UNKNOWN, primary_table = '''',
       condition = '''', estimated_primary_rows = 0, row_confidence = 0, cascade = [],
       external_triggers = [], reversibility = None, reversibility_reason = '''',
       automated_recovery_sql = None, permanent_components = [], prompt_injection_risk = False,
       retrieval_available = True, historical_precedents = [], simulation_available = True,
       simulation_executed = False, actual_primary_rows = None, actual_cascade = [],
       sandbox_trigger_log = [], simulation_timeout = False, sequence_gap_warning = False,
       risk_tier = None, risk_score = 0, intent_summary_prose = '''', rollback_plan = None,
       contract_assembled = False, approval_contract_json = '''',
       policy_violations = [], auto_reject_triggered = False, auto_reject_reason = None,
       required_tier_from_policy = None,
       approval_state = PENDING, human_decision = None, decision_reason = None,
       decision_timestamp = None, approver_id = None, modification_constraints = None,
       execution_success = None, execution_timestamp = None, actual_rows_post_execution = None,
       blast_radius_accuracy_delta = None,
       workflow_provenance = [], reanalysis_count = 0, stale_fields = [] \<rparr>"

definition add_provenance ::
  "string \<Rightarrow> string \<Rightarrow> int \<Rightarrow> bool \<Rightarrow> HandoffContract \<Rightarrow> HandoffContract" where
  "add_provenance agent fld now llm c =
     c\<lparr> workflow_provenance := workflow_provenance c @
          [\<lparr> pe_agent = agent, pe_field_written = fld, pe_timestamp = now,
             pe_llm_involved = llm \<rparr>] \<rparr>"

text \<open>The model validator: it runs whenever a contract is built or read back from JSON.\<close>

definition validate_decision_reason_length :: "HandoffContract \<Rightarrow> exn + HandoffContract" where
  "validate_decision_reason_length c =
     (if human_decision c \<in> {Some ''APPROVE'', Some ''REJECT''}
         \<and> (case decision_reason c of None \<Rightarrow> False | Some r \<Rightarrow> r \<noteq> [] \<and> length r < 10)
      then Inl (ValueError ''decision_reason must be at least 10 characters for APPROVE/REJECT decisions'')
      else Inr c)"

text \<open>The six fields a human decision consists of, copied between contract objects by the
  workflow store and by HUMAN_REVIEW.\<close>

definition copy_decision :: "HandoffContract \<Rightarrow> HandoffContract \<Rightarrow> HandoffContract" where
  "copy_decision src c =
     c\<lparr> approval_state := approval_state src, human_decision := human_decision src,
        decision_reason := decision_reason src, decision_timestamp := decision_timestamp src,
        approver_id := approver_id src,
        modification_constraints := modification_constraints src \<rparr>"

section \<open>Lemmas\<close>

lemma op_value_inject [simp]: "op_value a = op_value b \<longleftrightarrow> a = b"
  by (cases a; cases b) simp_all

lemma rev_value_inject [simp]: "rev_value a = rev_value b \<longleftrightarrow> a = b"
  by (cases a; cases b) simp_all

lemma tier_value_inject [simp]: "tier_value a = tier_value b \<longleftrightarrow> a = b"
  by (cases a; cases b) simp_all

lemma source_value_inject [simp]: "source_value a = source_value b \<longleftrightarrow> a = b"
  by (cases a; cases b) simp_all

lemma copy_decision_sel [simp]:
  "approval_state (copy_decision s c) = approval_state s"
  "human_decision (copy_decision s c) = human_decision s"
  "decision_reason (copy_decision s c) = decision_reason s"
  "decision_timestamp (copy_decision s c) = decision_timestamp s"
  "approver_id (copy_decision s c) = approver_id s"
  "modification_constraints (copy_decision s c) = modification_constraints s"
  "operation_id (copy_decision s c) = operation_id c"
  "tenant_id (copy_decision s c) = tenant_id c"
  "raw_sql (copy_decision s c) = raw_sql c"
  "auto_reject_triggered (copy_decision s c) = auto_reject_triggered c"
  "execution_success (copy_decision s c) = execution_success c"
  by (simp_all add: copy_decision_def)

lemma copy_decision_self [simp]: "copy_decision c c = c"
  by (simp add: copy_decision_def)

lemma add_provenance_sel [simp]:
  "approval_state (add_provenance a f t l c) = approval_state c"
  "human_decision (add_provenance a f t l c) = human_decision c"
  "decision_reason (add_provenance a f t l c) = decision_reason c"
  "decision_timestamp (add_provenance a f t l c) = decision_timestamp c"
  "approver_id (add_provenance a f t l c) = approver_id c"
  "modification_constraints (add_provenance a f t l c) = modification_constraints c"
  "operation_id (add_provenance a f t l c) = operation_id c"
  "operation_type (add_provenance a f t l c) = operation_type c"
  "tenant_id (add_provenance a f t l c) = tenant_id c"
  "raw_sql (add_provenance a f t l c) = raw_sql c"
  "source_type (add_provenance a f t l c) = source_type c"
  "policy_violations (add_provenance a f t l c) = policy_violations c"
  "auto_reject_triggered (add_provenance a f t l c) = auto_reject_triggered c"
  "auto_reject_reason (add_provenance a f t l c) = auto_reject_reason c"
  "required_tier_from_policy (add_provenance a f t l c) = required_tier_from_policy c"
  "risk_score (add_provenance a f t l c) = risk_score c"
  "risk_tier (add_provenance a f t l c) = risk_tier c"
  "execution_success (add_provenance a f t l c) = execution_success c"
  "reversibility (add_provenance a f t l c) = reversibility c"
  "historical_precedents (add_provenance a f t l c) = historical_precedents c"
  "stale_fields (add_provenance a f t l c) = stale_fields c"
  "reanalysis_count (add_provenance a f t l c) = reanalysis_count c"
  by (simp_all add: add_provenance_def)

section \<open>Steps of the pipeline\<close>

text \<open>The human decision on a contract.\<close>

definition decision_of ::
  "HandoffContract \<Rightarrow> ApprovalState \<times> string option \<times> string option \<times> int option \<times> string option
     \<times> string option" where
  "decision_of c = (approval_state c, human_decision c, decision_reason c, decision_timestamp c,
     approver_id c, modification_constraints c)"

lemma copy_decision_of: "decision_of (copy_decision s c) = decision_of s"
  by (simp add: decision_of_def)

lemma decision_of_state: "decision_of c = decision_of c' \<Longrightarrow> approval_state c = approval_state c'"
  by (simp add: decision_of_def)

lemma decision_of_add_provenance [simp]: "decision_of (add_provenance a f t b c) = decision_of c"
  by (simp add: decision_of_def)

text \<open>What identifies an operation: no step may change it.\<close>

definition contract_identity ::
  "HandoffContract \<Rightarrow> string \<times> string \<times> string \<times> SourceType \<times> int \<times> string \<times> string option" where
  "contract_identity c = (operation_id c, tenant_id c, submitted_by c, source_type c,
     submission_timestamp c, raw_sql c, raw_intent c)"

definition provenance_grows :: "HandoffContract \<Rightarrow> HandoffContract \<Rightarrow> bool" where
  "provenance_grows c c' \<longleftrightarrow>
     take (length (workflow_provenance c)) (workflow_provenance c') = workflow_provenance c"

lemma contract_identity_add_provenance [simp]:
  "contract_identity (add_provenance a f t b c) = contract_identity c"
  by (simp add: contract_identity_def add_provenance_def)

lemma provenance_grows_refl [simp]: "provenance_grows c c"
  by (simp add: provenance_grows_def)

lemma provenance_grows_iff:
  "provenance_grows c c' \<longleftrightarrow> (\<exists>new. workflow_provenance c' = workflow_provenance c @ new)"
  unfolding provenance_grows_def by (metis append_eq_conv_conj append_take_drop_id)

lemma provenance_grows_trans:
  "provenance_grows a b \<Longrightarrow> provenance_grows b c \<Longrightarrow> provenance_grows a c"
  by (auto simp: provenance_grows_iff)

lemma provenance_grows_add: "provenance_grows c (add_provenance a f t b c)"
  by (simp add: provenance_grows_def add_provenance_def)

text \<open>The contract every node of the workflow keeps: it returns the contract it was given with
  the same identity, and its provenance is only appended to.\<close>

locale contract_step =
  fixes step :: "HandoffContract \<Rightarrow> HandoffContract eff"
  assumes keeps: "step c l = (Inr c', l') \<Longrightarrow>
    contract_identity c' = contract_identity c \<and> provenance_grows c c'"
begin

lemma keeps_identity: "step c l = (Inr c', l') \<Longrightarrow> contract_identity c' = contract_identity c"
  using keeps by blast

lemma keeps_sql: "step c l = (Inr c', l') \<Longrightarrow> raw_sql c' = raw_sql c"
  using keeps_identity [of c l c' l'] by (simp add: contract_identity_def)

lemma keeps_operation: "step c l = (Inr c', l') \<Longrightarrow> operation_id c' = operation_id c"
  using keeps_identity [of c l c' l'] by (simp add: contract_identity_def)

lemma keeps_provenance: "step c l = (Inr c', l') \<Longrightarrow> provenance_grows c c'"
  using keeps by blast

end

text \<open>An agent also leaves the human decision and the policy verdict alone.\<close>

locale agent_step = contract_step +
  assumes keeps_verdict: "step c l = (Inr c', l') \<Longrightarrow>
    decision_of c' = decision_of c \<and> auto_reject_triggered c' = auto_reject_triggered c"
begin

lemma keeps_state: "step c l = (Inr c', l') \<Longrightarrow> approval_state c' = approval_state c"
  using keeps_verdict decision_of_state by blast

end

end
