(* ===== verification/MCP_Transport.thy ===== *)
theory MCP_Transport
  imports Handoff_Schema
begin

text \<open>
  The transport between the pipeline and the MCP services: API-key validation
  (\<open>mcp_servers/base/auth.py\<close>), the \<open>POST /call\<close> endpoint every server shares
  (\<open>mcp_servers/base/server_base.py\<close>), the HTTP client (\<open>orchestrator/mcp_client.py\<close>) and the
  agents' \<open>call_tool\<close> (\<open>agents/base_agent.py\<close>). HTTP itself is a datatype of outcomes.
\<close>

section \<open>Authentication\<close>

definition constant_time_compare :: "string \<Rightarrow> string \<Rightarrow> bool" where
  "constant_time_compare a b =
     (if length a \<noteq> length b then False
      else fold (\<lambda>(x, y) acc. or acc (xor (of_char x :: nat) (of_char y))) (zip a b) 0 = 0)"

text \<open>The accepted key is the environment's, with \<open>''''\<close> for an unset one.\<close>

definition validate_api_key :: "bool \<Rightarrow> string \<Rightarrow> string \<Rightarrow> exn + unit" where
  "validate_api_key use_mock_auth valid provided =
     (if use_mock_auth then Inr ()
      else if valid = [] then Inr ()
      else if \<not> constant_time_compare provided valid
      then Inl (HTTPException 401 ''Invalid or missing API key'')
      else Inr ())"

section \<open>The servers\<close>

text \<open>A tool takes the keyword arguments; binding them to the parameters is the first thing
  that can fail.\<close>

record tool_sig =
  ts_required :: "string list"
  ts_optional :: "string list"

definition binds :: "tool_sig \<Rightarrow> pydict \<Rightarrow> bool" where
  "binds sg args =
     (list_all (\<lambda>p. p \<in> set (map fst args)) (ts_required sg)
      \<and> list_all (\<lambda>k. k \<in> set (ts_required sg) \<union> set (ts_optional sg)) (map fst args))"

type_synonym tool_fn = "pydict \<Rightarrow> exn + pyval"

record mcp_server =
  sv_name :: string
  sv_require_auth :: bool
  sv_tools :: "(string \<times> (tool_sig \<times> tool_fn)) list"

definition call_fn :: "tool_sig \<times> tool_fn \<Rightarrow> pydict \<Rightarrow> exn + pyval" where
  "call_fn t args =
     (if binds (fst t) args then snd t args
      else Inl (TypeError ''unexpected or missing keyword argument''))"

text \<open>The text of an exception as \<open>str(exc)\<close> gives it.\<close>

fun exn_text :: "exn \<Rightarrow> string" where
  "exn_text (MCPCallError s) = s"
| "exn_text (TransportError s) = s"
| "exn_text (ValueError s) = s"
| "exn_text (TypeError s) = s"
| "exn_text (KeyError s) = py_repr s"
| "exn_text (AttributeError s) = s"
| "exn_text (RuntimeError s) = s"
| "exn_text (InterceptionError s) = s"
| "exn_text (HTTPException c s) = show_int c @ '': '' @ s"
| "exn_text GraphRecursionError = ''Recursion limit reached''"
| "exn_text (SimulationTimeoutError s) = s"
| "exn_text (SimulationFailedError s) = s"
| "exn_text (EmbeddingUnavailableError s) = s"

text \<open>\<open>POST /call\<close>: a status code and a JSON body. FastAPI turns an \<open>HTTPException\<close> into a
  response with its status code and a \<open>detail\<close>.\<close>

definition server_call_tool ::
  "mcp_server \<Rightarrow> bool \<Rightarrow> string \<Rightarrow> string \<Rightarrow> string \<Rightarrow> pydict \<Rightarrow> int \<times> pyval" where
  "server_call_tool sv use_mock_auth valid key tool args =
     (case (if sv_require_auth sv then validate_api_key use_mock_auth valid key else Inr ()) of
        Inl _ \<Rightarrow> (401, PDict [(''detail'', PStr ''Invalid or missing API key'')])
      | Inr _ \<Rightarrow>
        (case map_of (sv_tools sv) tool of
           None \<Rightarrow> (404, PDict [(''detail'',
                     PStr (''Tool '' @ tool @ '' not found on server '' @ sv_name sv))])
         | Some t \<Rightarrow>
           (case call_fn t args of
              Inl e \<Rightarrow> (500, PDict [(''detail'', PStr (exn_text e))])
            | Inr v \<Rightarrow> (200, PDict [(''result'', v), (''error'', PNone)]))))"

section \<open>The client\<close>

datatype http_outcome =
    HTimeout
  | HTransportError string
  | HNotJson int               \<comment> \<open>a status code with a body that is not JSON\<close>
  | HResponse int pyval

definition is_success_status :: "int \<Rightarrow> bool" where
  "is_success_status code = (200 \<le> code \<and> code \<le> 299)"

definition mcp_failed :: "string \<Rightarrow> string \<Rightarrow> string \<Rightarrow> exn" where
  "mcp_failed url tool detail =
     MCPCallError (''MCP call '' @ url @ ''/'' @ tool @ '' failed: '' @ detail)"

text \<open>The text an \<open>f\<close>-string makes of the \<open>error\<close> entry.\<close>

fun detail_text :: "pyval \<Rightarrow> string" where
  "detail_text PNone = ''None''"
| "detail_text (PStr s) = s"
| "detail_text (PBool b) = (if b then ''True'' else ''False'')"
| "detail_text (PInt i) = show_int i"
| "detail_text _ = ''...''"

text \<open>\<open>if "error" in data: raise ...; return data.get("result", data)\<close>\<close>

definition client_unwrap :: "string \<Rightarrow> string \<Rightarrow> pyval \<Rightarrow> exn + pyval" where
  "client_unwrap url tool data =
     (case data of
        PDict d \<Rightarrow>
          (case map_of d ''error'' of
             Some e \<Rightarrow> Inl (mcp_failed url tool (detail_text e))
           | None \<Rightarrow> Inr (dict_get d ''result'' data))
      | PList xs \<Rightarrow>
          (if PStr ''error'' \<in> set xs then Inl (TypeError ''list indices must be integers'')
           else Inl (AttributeError ''get''))
      | PStr s \<Rightarrow>
          (if str_contains ''error'' s then Inl (TypeError ''string indices must be integers'')
           else Inl (AttributeError ''get''))
      | _ \<Rightarrow> Inl (TypeError ''argument is not iterable''))"

definition mcp_client_call ::
  "string \<Rightarrow> string \<Rightarrow> http_outcome \<Rightarrow> exn + pyval" where
  "mcp_client_call url tool outcome =
     (case outcome of
        HTimeout \<Rightarrow> Inl (mcp_failed url tool ''timeout'')
      | HTransportError s \<Rightarrow> Inl (TransportError s)
      | HNotJson code \<Rightarrow>
          (if is_success_status code then Inl (ValueError ''Expecting value'')
           else Inl (mcp_failed url tool (''HTTP '' @ show_int code)))
      | HResponse code data \<Rightarrow>
          (if is_success_status code then client_unwrap url tool data
           else Inl (mcp_failed url tool (''HTTP '' @ show_int code))))"

text \<open>The base URLs of the convenience wrappers.\<close>

definition POSTGRES_READER_URL :: string where
  "POSTGRES_READER_URL = ''http://contragate-mcp:8010''"
definition TRANSACTION_SANDBOX_URL :: string where
  "TRANSACTION_SANDBOX_URL = ''http://contragate-mcp:8011''"
definition MEMORY_STORE_URL :: string where
  "MEMORY_STORE_URL = ''http://contragate-mcp:8012''"
definition AUDIT_LOGGER_URL :: string where
  "AUDIT_LOGGER_URL = ''http://contragate-mcp:8013''"
definition POLICY_STORE_URL :: string where
  "POLICY_STORE_URL = ''http://contragate-mcp:8014''"
definition NOTIFIER_URL :: string where
  "NOTIFIER_URL = ''http://contragate-notifier:8020''"

text \<open>Calling a tool from the pipeline: the environment answers with what
  \<open>mcp_client.call\<close> returns or raises.\<close>

definition mcp :: "mcp_env \<Rightarrow> string \<Rightarrow> string \<Rightarrow> pydict \<Rightarrow> pyval eff" where
  "mcp env url tool args = invoke env \<lparr> mc_url = url, mc_tool = tool, mc_args = args \<rparr>"

text \<open>The environment in which every address is one of the repository's own servers.\<close>

definition deployed_env ::
  "(string \<Rightarrow> mcp_server option) \<Rightarrow> bool \<Rightarrow> string \<Rightarrow> string \<Rightarrow> mcp_env" where
  "deployed_env servers use_mock_auth valid key l c =
     (case servers (mc_url c) of
        None \<Rightarrow> mcp_client_call (mc_url c) (mc_tool c) HTimeout
      | Some sv \<Rightarrow>
          (case server_call_tool sv use_mock_auth valid key (mc_tool c) (mc_args c) of
             (code, body) \<Rightarrow> mcp_client_call (mc_url c) (mc_tool c) (HResponse code body)))"

section \<open>The agents' base class\<close>

definition wrap_untrusted :: "string \<Rightarrow> string" where
  "wrap_untrusted t = ''<untrusted_input>'' @ nl @ t @ nl @ ''</untrusted_input>''"

text \<open>What an agent object holds, with the clock, the digest of \<open>hash_payload\<close> and the
  services it reaches.\<close>

record agent_ctx =
  cx_env :: mcp_env
  cx_hash :: "pyval \<Rightarrow> string"
  cx_now :: string
  cx_agent :: string
  cx_operation_id :: string

definition hash_payload :: "(pyval \<Rightarrow> string) \<Rightarrow> pyval \<Rightarrow> string" where
  "hash_payload H v = H (canon v)"

fun dispatch :: "string \<Rightarrow> string option" where
  "dispatch s =
     (if s = ''postgres-reader'' then Some POSTGRES_READER_URL
      else if s = ''audit-logger'' then Some AUDIT_LOGGER_URL
      else if s = ''policy-store'' then Some POLICY_STORE_URL
      else if s = ''memory-store'' then Some MEMORY_STORE_URL
      else if s = ''transaction-sandbox'' then Some TRANSACTION_SANDBOX_URL
      else if s = ''notifier'' then Some NOTIFIER_URL
      else None)"

text \<open>The scheduled audit record of a tool call: its outcome is ignored.\<close>

definition log_tool_call :: "agent_ctx \<Rightarrow> string \<Rightarrow> string \<Rightarrow> string \<Rightarrow> mcp_call" where
  "log_tool_call cx tool ih oh =
     \<lparr> mc_url = AUDIT_LOGGER_URL, mc_tool = ''log_tool_call'',
       mc_args = [(''operation_id'', PStr (cx_operation_id cx)), (''agent_name'', PStr (cx_agent cx)),
                  (''tool_name'', PStr tool), (''input_hash'', PStr ih),
                  (''output_hash'', PStr oh), (''timestamp'', PStr (cx_now cx))] \<rparr>"

definition call_tool :: "agent_ctx \<Rightarrow> string \<Rightarrow> string \<Rightarrow> pydict \<Rightarrow> pyval eff" where
  "call_tool cx server tool args =
     (case dispatch server of
        None \<Rightarrow> raise_exn (ValueError (''Unknown MCP server: '' @ py_repr server))
      | Some url \<Rightarrow>
          bind_eff (mcp (cx_env cx) url tool args)
            (\<lambda>r l. (Inr r, l @ [log_tool_call cx tool (hash_payload (cx_hash cx) (PDict args))
                                 (hash_payload (cx_hash cx) r)])))"

definition log_agent_output :: "agent_ctx \<Rightarrow> string \<Rightarrow> string \<Rightarrow> mcp_call list \<Rightarrow> mcp_call list" where
  "log_agent_output cx summary chash l =
     l @ [\<lparr> mc_url = AUDIT_LOGGER_URL, mc_tool = ''log_agent_output'',
            mc_args = [(''operation_id'', PStr (cx_operation_id cx)),
                       (''agent_name'', PStr (cx_agent cx)), (''output_summary'', PStr summary),
                       (''handoff_contract_hash'', PStr chash),
                       (''timestamp'', PStr (cx_now cx))] \<rparr>]"

text \<open>A content block of a language model's response, as the two agents that use one read it.\<close>

record llm_block =
  bl_type :: string
  bl_name :: string
  bl_input :: pyval

section \<open>Lemmas\<close>

lemma or_xor_zero:
  fixes x y acc :: nat
  shows "or acc (xor x y) = 0 \<longleftrightarrow> acc = 0 \<and> x = y"
  unfolding bit_eq_iff by (simp add: bit_or_iff bit_xor_iff) blast

lemma fold_or_xor_zero:
  "fold (\<lambda>(x, y) acc. or acc (xor (of_char x :: nat) (of_char y))) ps a = 0
     \<longleftrightarrow> a = 0 \<and> (\<forall>(x, y) \<in> set ps. x = y)"
proof (induction ps arbitrary: a)
  case Nil
  then show ?case by simp
next
  case (Cons p ps)
  then show ?case by (cases p) (auto simp: or_xor_zero)
qed

lemma zip_all_eq: "length a = length b \<Longrightarrow> (\<forall>(x, y) \<in> set (zip a b). x = y) \<longleftrightarrow> a = b"
  by (induction a b rule: list_induct2) auto

lemma client_unwrap_error_key:
  "map_of d ''error'' = Some e \<Longrightarrow>
     client_unwrap url tool (PDict d) = Inl (mcp_failed url tool (detail_text e))"
  by (simp add: client_unwrap_def)

lemma mcp_failed_is_mcp_error [simp]: "is_mcp_error (mcp_failed u t d)"
  by (simp add: mcp_failed_def)

lemma compare_keys_iff: "constant_time_compare a b \<longleftrightarrow> a = b"
  by (auto simp: constant_time_compare_def fold_or_xor_zero zip_all_eq)

section \<open>Properties\<close>

text \<open>
  A request to \<open>POST /call\<close> of a server that requires authentication, with a key set and
  mock authentication off, is refused with 401 exactly when the caller did not present that key,
  whatever the tool and its arguments are: the comparison loop without an early exit decides
  equality of the keys, and no tool outcome is reported as 401.
\<close>

theorem server_call_tool_authenticated:
  assumes "sv_require_auth sv" and "valid \<noteq> []"
  shows "fst (server_call_tool sv False valid key tool args) = 401 \<longleftrightarrow> key \<noteq> valid"
  using assms
  by (auto simp: server_call_tool_def validate_api_key_def compare_keys_iff
      split: option.splits sum.splits)

definition echo_server :: mcp_server where
  "echo_server = \<lparr> sv_name = ''echo'', sv_require_auth = True,
     sv_tools = [(''echo'', (\<lparr> ts_required = [], ts_optional = [''x''] \<rparr>, \<lambda>a. Inr (PDict a)))] \<rparr>"

theorem server_call_tool_authenticated_witness:
  "fst (server_call_tool echo_server False ''secret'' ''guess!'' ''echo'' []) = 401"
  using server_call_tool_authenticated [of echo_server "''secret''" "''guess!''" "''echo''" "[]"]
  by (simp add: echo_server_def)

text \<open>
  C37. The client and the servers disagree on the response format: a server answers a successful
  call with a body that has both a \<open>result\<close> and an \<open>error\<close> entry, and the client takes the mere
  presence of the key \<open>error\<close> for a failure. So against the repository's own servers every
  call of \<open>mcp_client.call\<close> raises \<open>MCPCallError\<close>, whatever the tool does, whether or not the
  key is accepted.
\<close>

theorem deployed_calls_always_fail:
  "\<exists>msg. deployed_env servers use_mock_auth valid key l c = Inl (MCPCallError msg)"
proof (cases "servers (mc_url c)")
  case None
  then show ?thesis by (simp add: deployed_env_def mcp_client_call_def mcp_failed_def)
next
  case (Some sv)
  have "\<exists>msg. mcp_client_call u t (HResponse (fst r) (snd r)) = Inl (MCPCallError msg)"
    if "r = server_call_tool sv use_mock_auth valid key (mc_tool c) (mc_args c)" for r u t
    using that
    by (auto simp: server_call_tool_def mcp_client_call_def is_success_status_def
        mcp_failed_def client_unwrap_def split: sum.splits option.splits)
  with Some show ?thesis by (auto simp: deployed_env_def split: prod.splits)
qed

end
