(* ===== verification/Policy_Rules.thy ===== *)
theory Policy_Rules
  imports Handoff_Schema
begin

text \<open>
  The policy gate: the rule engine of \<open>mcp_servers/policy_store/rule_engine.py\<close> and the
  policy-store tools of \<open>mcp_servers/policy_store/server.py\<close> over their database tables. The
  loop of \<open>evaluate_operation\<close> is shown to compute a declarative verdict on the set of rules
  that match; the locale \<open>verdict_algebra\<close> holds what clients of a verdict rely on.
\<close>

section \<open>The rule engine\<close>

definition SENSITIVE_TABLES :: "string list" where
  "SENSITIVE_TABLES = [''users'', ''orders'', ''invoices'']"

definition BULK_ROW_THRESHOLD :: int where
  "BULK_ROW_THRESHOLD = 10000"

definition PII_EXPLAIN_COST_THRESHOLD :: rat where
  "PII_EXPLAIN_COST_THRESHOLD = 100000"

text \<open>A rule dictionary; an absent key is \<open>None\<close>. The business hours are those of the rule's
  condition when the condition is a dictionary that has them.\<close>

record policy_rule =
  pr_rule_id :: string
  pr_rule_name :: "string option"
  pr_severity :: "string option"
  pr_action :: "string option"
  pr_description :: "string option"
  pr_hours_start :: "int option"
  pr_hours_end :: "int option"

text \<open>What is evaluated.\<close>

record op_facts =
  of_operation_type :: string
  of_tables :: "string list"
  of_estimated_rows :: int
  of_source_type :: string
  of_has_external_triggers :: bool
  of_submission_hour :: int
  of_explain_cost :: rat

record triggered_rule =
  tr_rule_id :: string
  tr_rule_name :: string
  tr_severity :: string
  tr_description :: string
  tr_action :: string

record policy_result =
  triggered_rules :: "triggered_rule list"
  has_hard_violation :: bool
  has_soft_violation :: bool
  required_tier :: "string option"
  pr_auto_reject_reason :: "string option"

definition tables_meet :: "string list \<Rightarrow> string list \<Rightarrow> bool" where
  "tables_meet xs ys = list_ex (\<lambda>x. x \<in> set ys) xs"

definition match_rule :: "policy_rule \<Rightarrow> op_facts \<Rightarrow> bool \<Rightarrow> bool \<Rightarrow> int \<Rightarrow> int \<Rightarrow> bool" where
  "match_rule r f pii sensitive biz_start biz_end =
     (if pr_rule_id r = ''POLICY_DDL_NO_BACKUP'' then
        of_operation_type f \<in> {''DROP'', ''TRUNCATE''}
      else if pr_rule_id r = ''POLICY_PII_STANDARD_REVIEW'' then pii
      else if pr_rule_id r = ''POLICY_EXTERNAL_INPUT'' then
        of_source_type f = ''external_user_input''
      else if pr_rule_id r = ''POLICY_BULK_DELETE_SENSITIVE'' then
        of_operation_type f \<in> {''DELETE'', ''UPDATE''} \<and> sensitive
          \<and> of_estimated_rows f > BULK_ROW_THRESHOLD
      else if pr_rule_id r = ''POLICY_PAYMENT_WEBHOOK'' then of_has_external_triggers f
      else if pr_rule_id r = ''POLICY_AFTER_HOURS'' then
        (let start = (case pr_hours_start r of None \<Rightarrow> biz_start | Some h \<Rightarrow> h);
             fin = (case pr_hours_end r of None \<Rightarrow> biz_end | Some h \<Rightarrow> h)
         in \<not> (start \<le> of_submission_hour f \<and> of_submission_hour f < fin))
      else if pr_rule_id r = ''POLICY_AUTO_REJECT_PATTERN'' then False
      else if pr_rule_id r = ''POLICY_PII_EXPENSIVE_READ'' then
        of_operation_type f = ''SELECT'' \<and> pii
          \<and> of_explain_cost f > PII_EXPLAIN_COST_THRESHOLD
      else False)"

definition rule_name_of :: "policy_rule \<Rightarrow> string" where
  "rule_name_of r = (case pr_rule_name r of None \<Rightarrow> pr_rule_id r | Some n \<Rightarrow> n)"

definition trigger_of :: "policy_rule \<Rightarrow> triggered_rule" where
  "trigger_of r =
     \<lparr> tr_rule_id = pr_rule_id r, tr_rule_name = rule_name_of r,
       tr_severity = (case pr_severity r of None \<Rightarrow> ''SOFT'' | Some s \<Rightarrow> s),
       tr_description = (case pr_description r of None \<Rightarrow> rule_name_of r | Some d \<Rightarrow> d),
       tr_action = (case pr_action r of None \<Rightarrow> ''REQUIRE_REVIEW'' | Some a \<Rightarrow> a) \<rparr>"

definition empty_result :: policy_result where
  "empty_result = \<lparr> triggered_rules = [], has_hard_violation = False,
     has_soft_violation = False, required_tier = None, pr_auto_reject_reason = None \<rparr>"

text \<open>The body of the loop for a rule that matched.\<close>

definition add_trigger :: "triggered_rule \<Rightarrow> policy_result \<Rightarrow> policy_result" where
  "add_trigger t v =
     (let v1 = v\<lparr> triggered_rules := triggered_rules v @ [t] \<rparr>;
          v2 = (if tr_severity t = ''HARD''
                then v1\<lparr> has_hard_violation := True,
                         pr_auto_reject_reason :=
                           (case pr_auto_reject_reason v of None \<Rightarrow> Some (tr_description t)
                            | Some d \<Rightarrow> Some d) \<rparr>
                else v1\<lparr> has_soft_violation := True \<rparr>)
      in if tr_action t = ''REQUIRE_FULL_CONTRACT'' then v2\<lparr> required_tier := Some ''FULL_CONTRACT'' \<rparr>
         else if tr_action t = ''REQUIRE_STANDARD_REVIEW'' \<and> required_tier v = None
         then v2\<lparr> required_tier := Some ''STANDARD'' \<rparr>
         else v2)"

fun eval_loop ::
  "(policy_rule \<Rightarrow> bool) \<Rightarrow> policy_rule list \<Rightarrow> policy_result \<Rightarrow> policy_result" where
  "eval_loop m [] v = v"
| "eval_loop m (r # rs) v = eval_loop m rs (if m r then add_trigger (trigger_of r) v else v)"

definition evaluate_operation ::
  "op_facts \<Rightarrow> string list \<Rightarrow> policy_rule list \<Rightarrow> int \<times> int \<Rightarrow> policy_result" where
  "evaluate_operation f pii_tables all_rules business_hours =
     eval_loop
       (\<lambda>r. match_rule r f (tables_meet (of_tables f) pii_tables)
              (tables_meet (of_tables f) SENSITIVE_TABLES)
              (fst business_hours) (snd business_hours))
       all_rules empty_result"

section \<open>The policy-store server\<close>

record policy_row =
  row_rule :: policy_rule
  row_active :: bool
  row_tenant :: string

record policy_db =
  db_policy_rules :: "policy_row list"
  db_pii_registry :: "string list"
  db_thresholds :: "((string \<times> string) \<times> rat) list"
  db_nt_extensions :: "(string \<times> string) list"   \<comment> \<open>extension name, tenant\<close>

text \<open>\<open>ORDER BY severity DESC\<close>: \<open>SOFT\<close> sorts after \<open>HARD\<close>, so descending order puts it first.
  The rows of one severity keep their order in the table.\<close>

definition severity_of :: "policy_row \<Rightarrow> string" where
  "severity_of row = (case pr_severity (row_rule row) of None \<Rightarrow> '''' | Some s \<Rightarrow> s)"

definition active_rows :: "policy_db \<Rightarrow> string \<Rightarrow> policy_row list" where
  "active_rows db tid = filter (\<lambda>row. row_active row \<and> row_tenant row = tid) (db_policy_rules db)"

definition active_rules :: "policy_db \<Rightarrow> string \<Rightarrow> policy_rule list" where
  "active_rules db tid =
     map row_rule (rev (sort_key severity_of (rev (active_rows db tid))))"

definition get_active_policies :: "policy_db \<Rightarrow> string \<Rightarrow> policy_rule list" where
  "get_active_policies db tid =
     map row_rule (rev (sort_key severity_of (rev
       (sort_key (\<lambda>row. pr_rule_id (row_rule row)) (active_rows db tid)))))"

definition is_pii_table :: "policy_db \<Rightarrow> string \<Rightarrow> string \<Rightarrow> bool" where
  "is_pii_table db t tid = (t \<in> set (db_pii_registry db))"

definition threshold_defaults :: "(string \<times> rat) list" where
  "threshold_defaults =
     [(''explain_cost_threshold'', 50000), (''explain_cost_pii_threshold'', 100000),
      (''bulk_row_threshold'', 10000), (''jaccard_similarity_threshold'', 3/10),
      (''auto_reject_lookback_days'', 30), (''review_timeout_seconds'', 1800),
      (''sandbox_statement_timeout_ms'', 5000)]"

definition get_threshold :: "policy_db \<Rightarrow> string \<Rightarrow> string \<Rightarrow> rat" where
  "get_threshold db key tid =
     (case map_of (db_thresholds db) (key, tid) of
        Some v \<Rightarrow> v
      | None \<Rightarrow> dict_get threshold_defaults key 0)"

definition get_non_transactional_extensions :: "policy_db \<Rightarrow> string \<Rightarrow> string list" where
  "get_non_transactional_extensions db tid =
     (let rows = map fst (filter (\<lambda>(_, t). t = tid) (db_nt_extensions db))
      in if rows = [] then [''pg_net'', ''dblink''] else rows)"

definition evaluate_rules :: "policy_db \<Rightarrow> string \<Rightarrow> op_facts \<Rightarrow> policy_result" where
  "evaluate_rules db tid f =
     evaluate_operation f (db_pii_registry db) (active_rules db tid) (7, 20)"

section \<open>Verdicts\<close>

text \<open>
  What the components behind the policy gate rely on, for any way of adding a triggered rule
  to a verdict: hard violations, the required tier and the reason for an automatic rejection
  are those of the triggered rules. The client's lemmas are about runs of the loop.
\<close>

locale verdict_algebra =
  fixes add :: "triggered_rule \<Rightarrow> policy_result \<Rightarrow> policy_result"
  assumes add_triggers: "triggered_rules (add t v) = triggered_rules v @ [t]"
    and add_hard: "has_hard_violation (add t v) \<longleftrightarrow> has_hard_violation v \<or> tr_severity t = ''HARD''"
    and add_soft: "has_soft_violation (add t v) \<longleftrightarrow> has_soft_violation v \<or> tr_severity t \<noteq> ''HARD''"
    and add_tier: "required_tier (add t v) =
      (if tr_action t = ''REQUIRE_FULL_CONTRACT'' then Some ''FULL_CONTRACT''
       else if tr_action t = ''REQUIRE_STANDARD_REVIEW'' \<and> required_tier v = None then Some ''STANDARD''
       else required_tier v)"
    and add_reason: "pr_auto_reject_reason (add t v) =
      (if tr_severity t = ''HARD'' \<and> pr_auto_reject_reason v = None
       then Some (tr_description t) else pr_auto_reject_reason v)"
begin

lemma fold_triggers: "triggered_rules (fold add ts v) = triggered_rules v @ ts"
  by (induction ts arbitrary: v) (simp_all add: add_triggers)

lemma fold_hard:
  "has_hard_violation (fold add ts v)
     \<longleftrightarrow> has_hard_violation v \<or> (\<exists>t \<in> set ts. tr_severity t = ''HARD'')"
  by (induction ts arbitrary: v) (auto simp: add_hard)

lemma fold_soft:
  "has_soft_violation (fold add ts v)
     \<longleftrightarrow> has_soft_violation v \<or> (\<exists>t \<in> set ts. tr_severity t \<noteq> ''HARD'')"
  by (induction ts arbitrary: v) (auto simp: add_soft)

lemma fold_tier_some:
  "required_tier v \<noteq> None \<Longrightarrow> required_tier (fold add ts v) =
     (if \<exists>t \<in> set ts. tr_action t = ''REQUIRE_FULL_CONTRACT'' then Some ''FULL_CONTRACT''
      else required_tier v)"
  by (induction ts arbitrary: v) (simp_all add: add_tier)

lemma fold_tier:
  "required_tier v = None \<Longrightarrow> required_tier (fold add ts v) =
     (if \<exists>t \<in> set ts. tr_action t = ''REQUIRE_FULL_CONTRACT'' then Some ''FULL_CONTRACT''
      else if \<exists>t \<in> set ts. tr_action t = ''REQUIRE_STANDARD_REVIEW'' then Some ''STANDARD''
      else None)"
proof (induction ts arbitrary: v)
  case (Cons t ts)
  consider "tr_action t = ''REQUIRE_FULL_CONTRACT''" | "tr_action t = ''REQUIRE_STANDARD_REVIEW''"
    | "tr_action t \<noteq> ''REQUIRE_FULL_CONTRACT''" "tr_action t \<noteq> ''REQUIRE_STANDARD_REVIEW''"
    by blast
  then show ?case
    by cases (use Cons in \<open>simp_all add: add_tier fold_tier_some\<close>)
qed simp

lemma fold_reason_some:
  "pr_auto_reject_reason v = Some d \<Longrightarrow> pr_auto_reject_reason (fold add ts v) = Some d"
  by (induction ts arbitrary: v) (simp_all add: add_reason)

lemma fold_reason:
  "pr_auto_reject_reason v = None \<Longrightarrow> pr_auto_reject_reason (fold add ts v) =
     map_option tr_description (List.find (\<lambda>t. tr_severity t = ''HARD'') ts)"
proof (induction ts arbitrary: v)
  case (Cons t ts)
  then show ?case
    by (cases "tr_severity t = ''HARD''") (auto simp: add_reason fold_reason_some)
qed simp

end

interpretation pv: verdict_algebra add_trigger
  by unfold_locales (auto simp: add_trigger_def Let_def split: option.splits)

section \<open>Lemmas on the engine\<close>

lemma eval_loop_fold:
  "eval_loop m rs v = fold add_trigger (map trigger_of (filter m rs)) v"
  by (induction rs arbitrary: v) simp_all

text \<open>The rules that match an operation.\<close>

definition matching :: "op_facts \<Rightarrow> string list \<Rightarrow> int \<times> int \<Rightarrow> policy_rule \<Rightarrow> bool" where
  "matching f pii_tables bh r =
     match_rule r f (tables_meet (of_tables f) pii_tables)
       (tables_meet (of_tables f) SENSITIVE_TABLES) (fst bh) (snd bh)"

lemma evaluate_operation_fold:
  "evaluate_operation f pii rules bh =
     fold add_trigger (map trigger_of (filter (matching f pii bh) rules)) empty_result"
  unfolding evaluate_operation_def eval_loop_fold matching_def [abs_def] ..

lemma empty_result_sel [simp]:
  "triggered_rules empty_result = []" "\<not> has_hard_violation empty_result"
  "\<not> has_soft_violation empty_result" "required_tier empty_result = None"
  "pr_auto_reject_reason empty_result = None"
  by (simp_all add: empty_result_def)

lemma hard_violation_iff:
  "has_hard_violation (evaluate_operation f pii rules bh)
     \<longleftrightarrow> (\<exists>r \<in> set rules. matching f pii bh r \<and> pr_severity r = Some ''HARD'')"
  by (auto simp: evaluate_operation_fold pv.fold_hard trigger_of_def split: option.splits)

lemma match_rule_unknown:
  "pr_rule_id r \<notin> {''POLICY_DDL_NO_BACKUP'', ''POLICY_PII_STANDARD_REVIEW'',
     ''POLICY_EXTERNAL_INPUT'', ''POLICY_BULK_DELETE_SENSITIVE'', ''POLICY_PAYMENT_WEBHOOK'',
     ''POLICY_AFTER_HOURS'', ''POLICY_PII_EXPENSIVE_READ''} \<Longrightarrow> \<not> match_rule r f p s b e"
  by (simp add: match_rule_def)

text \<open>With an operation type of the \<open>OperationType\<close> enumeration, the two rules that reject
  automatically match nothing.\<close>

lemma auto_reject_rules_unmatched:
  assumes "of_operation_type f = op_value ot"
    and "pr_rule_id r \<in> {''POLICY_DDL_NO_BACKUP'', ''POLICY_AUTO_REJECT_PATTERN''}"
  shows "\<not> matching f pii bh r"
  using assms by (cases ot) (auto simp: matching_def match_rule_def)

lemma set_active_rules:
  "set (active_rules db tid) = {row_rule row | row. row \<in> set (db_policy_rules db)
     \<and> row_active row \<and> row_tenant row = tid}"
  by (auto simp: active_rules_def active_rows_def)

section \<open>Properties\<close>

text \<open>
  C33. The rule engine's loop computes the declarative verdict: the triggered rules are exactly
  the matching rules in table order; a hard violation is reported iff a matching rule is HARD,
  a soft one iff a matching rule is not; the reason for an automatic rejection is the
  description of the first HARD match; FULL_CONTRACT is required iff some match demands it,
  whatever its position, and STANDARD only if none does and some match demands a standard
  review.
\<close>

theorem evaluate_operation_verdict:
  "let ts = map trigger_of (filter (matching f pii bh) rules);
       v = evaluate_operation f pii rules bh
   in triggered_rules v = ts
    \<and> has_hard_violation v = list_ex (\<lambda>t. tr_severity t = ''HARD'') ts
    \<and> has_soft_violation v = list_ex (\<lambda>t. tr_severity t \<noteq> ''HARD'') ts
    \<and> pr_auto_reject_reason v =
        map_option tr_description (List.find (\<lambda>t. tr_severity t = ''HARD'') ts)
    \<and> required_tier v =
        (if list_ex (\<lambda>t. tr_action t = ''REQUIRE_FULL_CONTRACT'') ts then Some ''FULL_CONTRACT''
         else if list_ex (\<lambda>t. tr_action t = ''REQUIRE_STANDARD_REVIEW'') ts then Some ''STANDARD''
         else None)"
  unfolding Let_def evaluate_operation_fold
  by (simp add: pv.fold_triggers pv.fold_hard pv.fold_soft pv.fold_reason pv.fold_tier
      list_ex_iff) blast

text \<open>
  Policy evaluation is scoped to the tenant: rules of other tenants and inactive rules do
  not influence the verdict of \<open>evaluate_rules\<close>; two databases that agree on the tenant's
  active rules and on the PII registry give the same verdict.
\<close>

theorem evaluate_rules_tenant_scoped:
  assumes "filter (\<lambda>row. row_active row \<and> row_tenant row = tid) (db_policy_rules db)
         = filter (\<lambda>row. row_active row \<and> row_tenant row = tid) (db_policy_rules db')"
    and "db_pii_registry db = db_pii_registry db'"
  shows "evaluate_rules db tid f = evaluate_rules db' tid f"
  using assms by (simp add: evaluate_rules_def active_rules_def active_rows_def)

definition sample_rule :: "string \<Rightarrow> string \<Rightarrow> string \<Rightarrow> policy_rule" where
  "sample_rule rid sev act = \<lparr> pr_rule_id = rid, pr_rule_name = Some rid, pr_severity = Some sev,
     pr_action = Some act, pr_description = Some ''description'', pr_hours_start = None,
     pr_hours_end = None \<rparr>"

definition sample_db :: "policy_row list \<Rightarrow> policy_db" where
  "sample_db rows = \<lparr> db_policy_rules = rows, db_pii_registry = [''users''],
     db_thresholds = [], db_nt_extensions = [] \<rparr>"

definition sample_facts :: op_facts where
  "sample_facts = \<lparr> of_operation_type = ''SELECT'', of_tables = [''users''],
     of_estimated_rows = 5, of_source_type = ''internal_system'',
     of_has_external_triggers = False, of_submission_hour = 12, of_explain_cost = 10 \<rparr>"

definition sample_rows :: "policy_row list" where
  "sample_rows =
     [\<lparr> row_rule = sample_rule ''POLICY_PII_STANDARD_REVIEW'' ''SOFT'' ''REQUIRE_FULL_CONTRACT'',
        row_active = True, row_tenant = ''t1'' \<rparr>,
      \<lparr> row_rule = sample_rule ''POLICY_AFTER_HOURS'' ''HARD'' ''AUTO_REJECT'',
        row_active = True, row_tenant = ''t2'' \<rparr>]"

theorem evaluate_rules_tenant_scoped_witness:
  "evaluate_rules (sample_db sample_rows) ''t1'' sample_facts
     = evaluate_rules (sample_db [hd sample_rows]) ''t1'' sample_facts"
  by (rule evaluate_rules_tenant_scoped) (simp_all add: sample_db_def sample_rows_def)

end
