(* ===== verification/Guards.thy ===== *)
theory Guards
  imports Handoff_Schema
begin

text \<open>
  \<open>orchestrator/guards.py\<close>: the routing functions and the predicates on a contract that decide
  the transitions of the state machine. Routing keys are the strings of the source.
\<close>

definition is_fast_path :: "HandoffContract \<Rightarrow> bool" where
  "is_fast_path c =
     (if operation_type c \<noteq> OT_SELECT then False
      else if policy_violations c \<noteq> [] then False
      else if risk_score c \<ge> 3/10 then False
      else if (case required_tier_from_policy c of None \<Rightarrow> False | Some t \<Rightarrow> t \<noteq> []) then False
      else True)"

definition route_from_risk_gate :: "HandoffContract \<Rightarrow> string" where
  "route_from_risk_gate c =
     (if auto_reject_triggered c then ''auto_reject''
      else if is_fast_path c then ''auto_execute''
      else ''full_pipeline'')"

definition route_from_human_review :: "HandoffContract \<Rightarrow> string" where
  "route_from_human_review c =
     (if approval_state c = TIMED_OUT then ''timed_out''
      else if approval_state c = APPROVED then ''approved''
      else if approval_state c = REJECTED then ''rejected''
      else if approval_state c = MODIFIED then ''modified''
      else ''rejected'')"

definition requires_full_contract_by_reversibility :: "HandoffContract \<Rightarrow> bool" where
  "requires_full_contract_by_reversibility c = (reversibility c = Some PERMANENT)"

definition requires_full_contract_by_history :: "HandoffContract \<Rightarrow> bool" where
  "requires_full_contract_by_history c =
     list_ex (\<lambda>h. ho_outcome h = ''REJECTED'') (historical_precedents c)"

definition human_approved :: "HandoffContract \<Rightarrow> bool" where
  "human_approved c = (approval_state c = APPROVED)"

definition human_rejected :: "HandoffContract \<Rightarrow> bool" where
  "human_rejected c = (approval_state c \<in> {REJECTED, AUTO_REJECTED, TIMED_OUT})"

definition human_modified :: "HandoffContract \<Rightarrow> bool" where
  "human_modified c = (approval_state c = MODIFIED)"

definition timed_out :: "HandoffContract \<Rightarrow> bool" where
  "timed_out c = (approval_state c = TIMED_OUT)"

definition should_auto_execute :: "HandoffContract \<Rightarrow> bool" where
  "should_auto_execute c = (risk_tier c = Some TIER_AUTO \<and> \<not> auto_reject_triggered c)"

definition should_auto_reject :: "HandoffContract \<Rightarrow> bool" where
  "should_auto_reject c = auto_reject_triggered c"

definition needs_selective_reanalysis :: "HandoffContract \<Rightarrow> bool" where
  "needs_selective_reanalysis c = (reanalysis_count c > 0 \<and> stale_fields c \<noteq> [])"

definition sandbox_retry_needed :: "HandoffContract \<Rightarrow> int \<Rightarrow> bool" where
  "sandbox_retry_needed c attempt = (simulation_timeout c \<and> attempt < 2)"

lemma route_from_risk_gate_keys:
  "route_from_risk_gate c \<in> {''auto_reject'', ''auto_execute'', ''full_pipeline''}"
  by (simp add: route_from_risk_gate_def)

lemma route_auto_execute_iff:
  "route_from_risk_gate c = ''auto_execute'' \<longleftrightarrow>
     \<not> auto_reject_triggered c \<and> operation_type c = OT_SELECT \<and> policy_violations c = []
     \<and> risk_score c < 3/10 \<and> required_tier_from_policy c \<in> {None, Some []}"
  by (auto simp: route_from_risk_gate_def is_fast_path_def split: option.splits)

lemma route_auto_reject_iff:
  "route_from_risk_gate c = ''auto_reject'' \<longleftrightarrow> auto_reject_triggered c"
  by (simp add: route_from_risk_gate_def)

lemma route_from_human_review_keys:
  "route_from_human_review c \<in> {''timed_out'', ''approved'', ''rejected'', ''modified''}"
  by (simp add: route_from_human_review_def)

lemma route_approved_iff: "route_from_human_review c = ''approved'' \<longleftrightarrow> approval_state c = APPROVED"
  by (auto simp: route_from_human_review_def)

lemma route_modified_iff: "route_from_human_review c = ''modified'' \<longleftrightarrow> approval_state c = MODIFIED"
  by (auto simp: route_from_human_review_def)

end
