(* ===== verification/PyRegex.thy ===== *)
theory PyRegex
  imports Prelude
begin

text \<open>
  The part of Python's \<open>re\<close> module the sources use: patterns built from character classes,
  sequencing, alternation, greedy and lazy repetition, one capturing group with a
  backreference, word boundaries, the two anchors and positive lookahead. The matcher is the
  backtracking one: it lists every way to match in the order in which Python tries them, so
  the head of the list is the match Python reports.
\<close>

datatype regex =
    RCls "char \<Rightarrow> bool"
  | REps
  | RSeq regex regex
  | RAlt regex regex
  | RStar bool regex        \<comment> \<open>\<open>True\<close>: greedy, \<open>False\<close>: lazy\<close>
  | RGrp regex              \<comment> \<open>the capturing group\<close>
  | RBack                   \<comment> \<open>the text the group captured\<close>
  | RWordB                  \<comment> \<open>\<open>\b\<close>\<close>
  | RBegin                  \<comment> \<open>\<open>^\<close>\<close>
  | REnd                    \<comment> \<open>\<open>$\<close>\<close>
  | RLook regex             \<comment> \<open>\<open>(?=...)\<close>\<close>

text \<open>A position: the character before it, the text after it, and the captured group.\<close>

type_synonym rstate = "char option \<times> string \<times> string option"

function rmatch :: "regex \<Rightarrow> rstate \<Rightarrow> rstate list" where
  "rmatch (RCls P) (p, s, c) =
     (case s of [] \<Rightarrow> [] | x # xs \<Rightarrow> if P x then [(Some x, xs, c)] else [])"
| "rmatch REps (p, s, c) = [(p, s, c)]"
| "rmatch (RSeq r1 r2) (p, s, c) = concat (map (rmatch r2) (rmatch r1 (p, s, c)))"
| "rmatch (RAlt r1 r2) (p, s, c) = rmatch r1 (p, s, c) @ rmatch r2 (p, s, c)"
| "rmatch (RStar g r) (p, s, c) =
     (let more = concat (map (\<lambda>(p', s', c'). if length s' < length s
                                              then rmatch (RStar g r) (p', s', c') else [])
                             (rmatch r (p, s, c)))
      in if g then more @ [(p, s, c)] else (p, s, c) # more)"
| "rmatch (RGrp r) (p, s, c) =
     map (\<lambda>(p', s', _). (p', s', Some (take (length s - length s') s))) (rmatch r (p, s, c))"
| "rmatch RBack (p, s, c) =
     (case c of None \<Rightarrow> []
      | Some t \<Rightarrow> if is_prefix t s
                  then [(if t = [] then p else Some (last t), drop (length t) s, c)] else [])"
| "rmatch RWordB (p, s, c) =
     (if (case p of None \<Rightarrow> False | Some x \<Rightarrow> is_word x)
         \<noteq> (case s of [] \<Rightarrow> False | x # _ \<Rightarrow> is_word x)
      then [(p, s, c)] else [])"
| "rmatch RBegin (p, s, c) = (if p = None then [(p, s, c)] else [])"
| "rmatch REnd (p, s, c) = (if s = [] \<or> s = nl then [(p, s, c)] else [])"
| "rmatch (RLook r) (p, s, c) = (if rmatch r (p, s, c) = [] then [] else [(p, s, c)])"
  by pat_completeness auto
termination
  by (relation "measures [\<lambda>(r, _). size r, \<lambda>(_, _, s, _). length s]") auto

declare rmatch.simps(5) [simp del]

text \<open>\<open>re.match\<close>, and \<open>re.search\<close> with the text where the match starts.\<close>

definition re_match :: "regex \<Rightarrow> string \<Rightarrow> rstate option" where
  "re_match r s = (case rmatch r (None, s, None) of [] \<Rightarrow> None | st # _ \<Rightarrow> Some st)"

fun re_search_from :: "regex \<Rightarrow> char option \<Rightarrow> string \<Rightarrow> (string \<times> rstate) option" where
  "re_search_from r p s =
     (case rmatch r (p, s, None) of
        st # _ \<Rightarrow> Some (s, st)
      | [] \<Rightarrow> (case s of [] \<Rightarrow> None | x # xs \<Rightarrow> re_search_from r (Some x) xs))"

declare re_search_from.simps [simp del]

definition re_search :: "regex \<Rightarrow> string \<Rightarrow> (string \<times> rstate) option" where
  "re_search r s = re_search_from r None s"

text \<open>Whether the pattern occurs.\<close>

definition re_found :: "regex \<Rightarrow> string \<Rightarrow> bool" where
  "re_found r s = (re_search r s \<noteq> None)"

text \<open>\<open>m.group(1)\<close> and \<open>m.group(0)\<close>\<close>

fun group1 :: "rstate \<Rightarrow> string" where
  "group1 (p, s, None) = []"
| "group1 (p, s, Some g) = g"

definition group0 :: "string \<times> rstate \<Rightarrow> string" where
  "group0 m = (case m of (s, (_, t, _)) \<Rightarrow> take (length s - length t) s)"

text \<open>\<open>re.finditer\<close>: successive matches that do not overlap.\<close>

function re_finditer :: "regex \<Rightarrow> char option \<Rightarrow> string \<Rightarrow> (string \<times> rstate) list" where
  "re_finditer r p s =
     (case rmatch r (p, s, None) of
        (p', t, c) # _ \<Rightarrow>
          (s, (p', t, c)) #
            (if length t < length s then re_finditer r p' t
             else (case s of [] \<Rightarrow> [] | x # xs \<Rightarrow> re_finditer r (Some x) xs))
      | [] \<Rightarrow> (case s of [] \<Rightarrow> [] | x # xs \<Rightarrow> re_finditer r (Some x) xs))"
  by pat_completeness auto
termination
  by (relation "measure (\<lambda>(r, p, s). length s)") auto

declare re_finditer.simps [simp del]

text \<open>\<open>r.sub(rep, s)\<close> with a constant replacement.\<close>

function re_sub_from :: "regex \<Rightarrow> string \<Rightarrow> char option \<Rightarrow> string \<Rightarrow> string" where
  "re_sub_from r rep p s =
     (case rmatch r (p, s, None) of
        (p', t, c) # _ \<Rightarrow>
          (if length t < length s then rep @ re_sub_from r rep p' t
           else rep @ (case s of [] \<Rightarrow> [] | x # xs \<Rightarrow> x # re_sub_from r rep (Some x) xs))
      | [] \<Rightarrow> (case s of [] \<Rightarrow> [] | x # xs \<Rightarrow> x # re_sub_from r rep (Some x) xs))"
  by pat_completeness auto
termination
  by (relation "measure (\<lambda>(r, rep, p, s). length s)") auto

declare re_sub_from.simps [simp del]

definition re_sub :: "regex \<Rightarrow> string \<Rightarrow> string \<Rightarrow> string" where
  "re_sub r rep s = re_sub_from r rep None s"

subsection \<open>Pattern abbreviations\<close>

text \<open>A literal, case-sensitive or with \<open>re.IGNORECASE\<close>.\<close>

fun rlit :: "string \<Rightarrow> regex" where
  "rlit [] = REps"
| "rlit (x # xs) = RSeq (RCls (\<lambda>y. y = x)) (rlit xs)"

fun rlit_ci :: "string \<Rightarrow> regex" where
  "rlit_ci [] = REps"
| "rlit_ci (x # xs) = RSeq (RCls (\<lambda>y. to_upper y = to_upper x)) (rlit_ci xs)"

fun ralts :: "regex list \<Rightarrow> regex" where
  "ralts [] = RCls (\<lambda>_. False)"
| "ralts [r] = r"
| "ralts (r # r' # rs) = RAlt r (ralts (r' # rs))"

fun rseqs :: "regex list \<Rightarrow> regex" where
  "rseqs [] = REps"
| "rseqs [r] = r"
| "rseqs (r # r' # rs) = RSeq r (rseqs (r' # rs))"

definition rspaces :: regex where  \<comment> \<open>\<open>\s*\<close>\<close>
  "rspaces = RStar True (RCls is_space)"

definition rspaces1 :: regex where  \<comment> \<open>\<open>\s+\<close>\<close>
  "rspaces1 = RSeq (RCls is_space) (RStar True (RCls is_space))"

definition rword1 :: regex where  \<comment> \<open>\<open>\w+\<close>\<close>
  "rword1 = RSeq (RCls is_word) (RStar True (RCls is_word))"

definition ropt :: "regex \<Rightarrow> regex" where  \<comment> \<open>\<open>(?:r)?\<close>\<close>
  "ropt r = RAlt r REps"

definition rany :: regex where  \<comment> \<open>\<open>.\<close> with \<open>re.DOTALL\<close>\<close>
  "rany = RCls (\<lambda>_. True)"

section \<open>What a match leaves of the text\<close>

text \<open>Every way to match consumes a prefix of the text.\<close>

lemma rmatch_suffix: "(p', t, c') \<in> set (rmatch r (p, s, c)) \<Longrightarrow> \<exists>u. s = u @ t"
proof (induction r "(p, s, c)" arbitrary: p s c p' t c' rule: rmatch.induct)
  case (1 P p s c)
  then show ?case by (cases s) (auto split: if_splits)
next
  case (3 r1 r2 p s c)
  then obtain q u d where 1: "(q, u, d) \<in> set (rmatch r1 (p, s, c))"
    and 2: "(p', t, c') \<in> set (rmatch r2 (q, u, d))"
    by auto
  from "3.hyps"(1) [OF 1] "3.hyps"(2) [OF 1 2] show ?case by auto
next
  case (4 r1 r2 p s c)
  from "4.prems" consider "(p', t, c') \<in> set (rmatch r1 (p, s, c))"
    | "(p', t, c') \<in> set (rmatch r2 (p, s, c))" by auto
  then show ?case using "4.hyps" by cases blast+
next
  case (5 g r p s c)
  from "5.prems" consider "(p', t, c') = (p, s, c)"
    | q u d where "(q, u, d) \<in> set (rmatch r (p, s, c))" "length u < length s"
        "(p', t, c') \<in> set (rmatch (RStar g r) (q, u, d))"
    by (auto simp: rmatch.simps(5) [of g r p s c] Let_def split: if_splits)
  then show ?case
  proof cases
    case 1
    then show ?thesis by simp
  next
    case 2
    from "5.hyps"(1) [OF 2(1)] "5.hyps"(2) [OF 2(1) refl refl 2(2) 2(3)]
    show ?thesis by auto
  qed
next
  case (6 r p s c)
  then show ?case by force
next
  case (7 p s c)
  then show ?case
    by (auto split: option.splits if_splits simp: is_prefix_take) (metis append_take_drop_id)
qed (auto split: if_splits)

lemma re_search_from_suffix:
  "re_search_from r p s = Some (s', st) \<Longrightarrow> \<exists>u. s = u @ s'"
proof (induction s arbitrary: p)
  case Nil
  then show ?case
    by (auto simp: re_search_from.simps [of r p "[]"] split: list.splits)
next
  case (Cons x xs)
  show ?case
  proof (cases "rmatch r (p, x # xs, None)")
    case Nil
    with Cons.prems have "re_search_from r (Some x) xs = Some (s', st)"
      by (simp add: re_search_from.simps [of r p "x # xs"])
    from Cons.IH [OF this] show ?thesis by (metis append_Cons)
  next
    case (Cons a as)
    with Cons.prems show ?thesis
      by (simp add: re_search_from.simps [of r p "x # xs"])
  qed
qed

end
