(* ===== verification/Intake.thy ===== *)
theory Intake
  imports Handoff_Schema PyRegex
begin

text \<open>
  The two entry points of a tool call: \<open>proxy/interceptor.py\<close> parses the JSON-RPC body into a
  manifest, \<open>orchestrator/states/intake.py\<close> turns a manifest into the initial contract. The
  random part of an operation id and the clock are arguments.
\<close>

section \<open>Interception\<close>

definition dml_write_pattern :: regex where
  "dml_write_pattern = rseqs [RBegin, rspaces,
     RGrp (ralts (map rlit_ci [''INSERT'', ''UPDATE'', ''DELETE'', ''TRUNCATE'', ''DROP'',
                                ''ALTER'', ''CREATE''])), RWordB]"

record ToolCallManifest =
  tm_tool_name :: pyval
  tm_sql :: string
  tm_intent :: pyval
  tm_submitted_by :: string
  tm_source_type :: string
  tm_tenant_id :: string
  tm_raw_request :: pydict
  tm_target_mcp_url :: string

definition manifest_to_dict :: "ToolCallManifest \<Rightarrow> pydict" where
  "manifest_to_dict m =
     [(''tool_name'', tm_tool_name m), (''sql'', PStr (tm_sql m)), (''intent'', tm_intent m),
      (''submitted_by'', PStr (tm_submitted_by m)), (''source_type'', PStr (tm_source_type m)),
      (''tenant_id'', PStr (tm_tenant_id m)), (''target_mcp_url'', PStr (tm_target_mcp_url m))]"

definition is_write_operation :: "ToolCallManifest \<Rightarrow> bool" where
  "is_write_operation m = (re_match dml_write_pattern (tm_sql m) \<noteq> None)"

text \<open>The tool name and the argument object of the three accepted body formats.\<close>

definition call_parts :: "pydict \<Rightarrow> exn + (pyval \<times> pyval)" where
  "call_parts body =
     (if map_of body ''method'' \<noteq> None \<and> map_of body ''params'' \<noteq> None then
        (case map_of body ''params'' of
           Some (PDict params) \<Rightarrow>
             Inr (dict_get params ''name'' (PStr ''unknown_tool''),
                  dict_get params ''arguments'' (dict_get params ''input'' (PDict [])))
         | _ \<Rightarrow> Inl (AttributeError ''get''))
      else if map_of body ''tool'' \<noteq> None then
        Inr (dict_get0 body ''tool'',
             dict_get body ''args'' (dict_get body ''arguments'' (PDict body)))
      else Inr (dict_get body ''tool_name'' (PStr ''unknown_tool''), PDict body))"

definition extract_sql :: "pydict \<Rightarrow> pyval" where
  "extract_sql args =
     py_or (py_or (py_or (dict_get0 args ''sql'') (dict_get0 args ''query''))
              (dict_get0 args ''statement'')) (dict_get0 args ''command'')"

definition intercept ::
  "pydict \<Rightarrow> string \<Rightarrow> string \<Rightarrow> string \<Rightarrow> string \<Rightarrow> exn + ToolCallManifest" where
  "intercept body caller_id src tid url =
     (case call_parts body of
        Inl e \<Rightarrow> Inl e
      | Inr (tool, argv) \<Rightarrow>
        (case argv of
           PDict args \<Rightarrow>
             (let sql = extract_sql args in
              if \<not> truthy sql
              then Inl (InterceptionError ''does not contain a recognizable SQL argument'')
              else (case sql of
                PStr s \<Rightarrow>
                  (if str_strip s = []
                   then Inl (InterceptionError ''does not contain a recognizable SQL argument'')
                   else Inr \<lparr> tm_tool_name = tool, tm_sql = str_strip s,
                              tm_intent = py_or (dict_get0 args ''intent'') (dict_get0 args ''description''),
                              tm_submitted_by = caller_id, tm_source_type = src, tm_tenant_id = tid,
                              tm_raw_request = body, tm_target_mcp_url = url \<rparr>)
              | _ \<Rightarrow> Inl (AttributeError ''strip'')))
         | _ \<Rightarrow> Inl (AttributeError ''get'')))"

section \<open>INTAKE\<close>

definition dml_pattern :: regex where
  "dml_pattern = rseqs [RBegin, rspaces,
     RGrp (ralts (map rlit_ci [''SELECT'', ''INSERT'', ''UPDATE'', ''DELETE'', ''TRUNCATE'',
                                ''DROP'', ''ALTER'', ''CREATE''])), RWordB]"

definition generate_operation_id :: "string \<Rightarrow> string" where
  "generate_operation_id uid = ''cg_'' @ take 8 uid"

definition detect_operation_type :: "string \<Rightarrow> OperationType" where
  "detect_operation_type sql =
     (case re_match dml_pattern sql of
        None \<Rightarrow> OT_UNKNOWN
      | Some m \<Rightarrow>
        (let kw = str_upper (group1 m) in
         if kw = ''SELECT'' then OT_SELECT
         else if kw = ''INSERT'' then OT_INSERT
         else if kw = ''UPDATE'' then OT_UPDATE
         else if kw = ''DELETE'' then OT_DELETE
         else if kw \<in> {''TRUNCATE'', ''DROP'', ''ALTER'', ''CREATE''} then OT_DDL
         else OT_UNKNOWN))"

definition detect_source_type :: "pydict \<Rightarrow> SourceType" where
  "detect_source_type manifest =
     (let raw = dict_get manifest ''source_type'' (PStr ''internal_system'') in
      if raw = PStr ''internal_system'' then INTERNAL_SYSTEM
      else if raw = PStr ''external_user_input'' then EXTERNAL_USER_INPUT
      else if raw = PStr ''external_agent'' then EXTERNAL_AGENT
      else INTERNAL_SYSTEM)"

text \<open>A string field of the contract: Pydantic rejects any other value.\<close>

definition str_field :: "pyval \<Rightarrow> exn + string" where
  "str_field v = (case v of PStr s \<Rightarrow> Inr s | _ \<Rightarrow> Inl (ValueError ''Input should be a valid string''))"

definition opt_str_field :: "pyval \<Rightarrow> exn + string option" where
  "opt_str_field v = (case v of PNone \<Rightarrow> Inr None | PStr s \<Rightarrow> Inr (Some s)
     | _ \<Rightarrow> Inl (ValueError ''Input should be a valid string''))"

definition run_intake :: "string \<Rightarrow> string \<Rightarrow> int \<Rightarrow> pydict \<Rightarrow> exn + HandoffContract" where
  "run_intake default_tenant uid now manifest =
     (let sqlv = py_or (py_or (dict_get0 manifest ''sql'') (dict_get0 manifest ''query''))
                   (dict_get0 manifest ''statement'');
          missing = Inl (ValueError ''Manifest must contain a non-empty sql field'')
      in if \<not> truthy sqlv then missing
         else (case sqlv of
           PStr sql \<Rightarrow>
             (if str_strip sql = [] then missing
              else
                (let src = detect_source_type manifest;
                     oidv = py_or (dict_get0 manifest ''operation_id'') (PStr (generate_operation_id uid))
                 in case (str_field oidv, str_field (dict_get manifest ''tenant_id'' (PStr default_tenant)),
                          str_field (dict_get manifest ''submitted_by'' (PStr ''unknown_agent'')),
                          opt_str_field (dict_get0 manifest ''intent'')) of
                      (Inr oid, Inr tid, Inr sub, Inr intent) \<Rightarrow>
                        Inr (add_provenance ''INTAKE''
                               ''operation_id,source_type,operation_type,prompt_injection_risk'' now False
                               ((new_contract oid tid sub src now sql)
                                  \<lparr> raw_intent := intent,
                                    operation_type := detect_operation_type sql,
                                    prompt_injection_risk :=
                                      src \<in> {EXTERNAL_USER_INPUT, EXTERNAL_AGENT},
                                    approval_state := PENDING \<rparr>))
                    | _ \<Rightarrow> Inl (ValueError ''Input should be a valid string'')))
         | _ \<Rightarrow> Inl (AttributeError ''strip'')))"

section \<open>Lemmas\<close>

lemma run_intake_Inr:
  assumes "run_intake dt uid now m = Inr c"
  shows "\<exists>sql. raw_sql c = sql \<and> str_strip sql \<noteq> [] \<and> operation_type c = detect_operation_type sql"
    and "approval_state c = PENDING" and "\<not> auto_reject_triggered c"
    and "reanalysis_count c = 0" and "stale_fields c = []" and "execution_success c = None"
    and "prompt_injection_risk c \<longleftrightarrow> source_type c \<noteq> INTERNAL_SYSTEM"
    and "source_type c = detect_source_type m"
    and "human_decision c = None"
  using assms
  by (auto simp: run_intake_def Let_def new_contract_def add_provenance_def
      split: if_splits pyval.splits prod.splits sum.splits)
    (metis SourceType.exhaust)+

lemma run_intake_operation_id:
  assumes "run_intake dt uid now m = Inr c" and "map_of m ''operation_id'' = Some (PStr oid)"
    and "oid \<noteq> []"
  shows "operation_id c = oid"
  using assms
  by (auto simp: run_intake_def Let_def new_contract_def add_provenance_def py_or_def
      dict_get_def str_field_def
      split: if_splits pyval.splits prod.splits sum.splits)

end
