(* ===== verification/Risk_Gate.thy ===== *)
theory Risk_Gate
  imports MCP_Transport Policy_Rules Guards Intake
begin

text \<open>
  The two risk gates. \<open>orchestrator/states/risk_gate.py\<close> is the RISK_GATE node of the workflow:
  EXPLAIN through the postgres-reader service, policy evaluation through the policy store, a
  preliminary score. \<open>proxy/risk_gate.py\<close> is the proxy's quick check in front of it, which also
  decides the fast path that executes without a review.
\<close>

section \<open>Reading EXPLAIN output\<close>

record explain_summary =
  es_total_cost :: rat
  es_estimated_rows :: int
  es_scan_type :: string
  es_partitions_involved :: bool

definition explain_defaults :: explain_summary where
  "explain_defaults = \<lparr> es_total_cost = 0, es_estimated_rows = 0, es_scan_type = ''unknown'',
     es_partitions_involved = False \<rparr>"

definition explain_sql :: "string \<Rightarrow> string" where
  "explain_sql sql = ''EXPLAIN (FORMAT JSON) '' @ str_rstrip_char (CHR '';'') (str_strip sql)"

text \<open>The plan dictionary inside an EXPLAIN answer: \<open>None\<close> when there is none to read.\<close>

definition plan_of :: "pyval \<Rightarrow> exn + pyval option" where
  "plan_of v =
     (case v of
        PList (PDict d # _) \<Rightarrow> Inr (Some (dict_get d ''Plan'' (PDict [])))
      | PList (_ # _) \<Rightarrow> Inl (AttributeError ''get'')
      | PDict d \<Rightarrow> Inr (Some (dict_get d ''Plan'' v))
      | _ \<Rightarrow> Inr None)"

definition plan_cost :: "pydict \<Rightarrow> exn + rat" where
  "plan_cost p = py_float (dict_get p ''Total Cost'' (dict_get p ''total_cost'' (PFloat 0)))"

definition plan_rows :: "pydict \<Rightarrow> exn + int" where
  "plan_rows p = py_int_of (dict_get p ''Plan Rows'' (dict_get p ''plan_rows'' (PInt 0)))"

text \<open>The fields are assigned one after the other; an exception of the caught kinds leaves the
  rest at their defaults. An \<open>AttributeError\<close> is not caught.\<close>

definition parse_explain_result :: "pyval \<Rightarrow> exn + explain_summary" where
  "parse_explain_result v =
     (case plan_of v of
        Inl e \<Rightarrow> Inl e
      | Inr None \<Rightarrow> Inr explain_defaults
      | Inr (Some (PDict p)) \<Rightarrow>
          Inr (case plan_cost p of Inl _ \<Rightarrow> explain_defaults
            | Inr cost \<Rightarrow>
              (let r1 = explain_defaults\<lparr> es_total_cost := cost \<rparr> in
               case plan_rows p of Inl _ \<Rightarrow> r1
               | Inr rows \<Rightarrow>
                 (let r2 = r1\<lparr> es_estimated_rows := rows \<rparr> in
                  case py_in ''Seq'' (dict_get p ''Node Type'' (dict_get p ''node_type'' (PStr ''''))) of
                    Inl _ \<Rightarrow> r2
                  | Inr sq \<Rightarrow> r2\<lparr> es_scan_type := (if sq then ''seq_scan'' else ''index_scan''),
                                  es_partitions_involved := mentions ''Append'' (PDict p) \<rparr>)))
      | Inr (Some _) \<Rightarrow> Inl (AttributeError ''get''))"

section \<open>The RISK_GATE node\<close>

definition EXPLAIN_COST_THRESHOLD :: rat where
  "EXPLAIN_COST_THRESHOLD = 50000"

definition table_pattern :: "string \<Rightarrow> regex" where
  "table_pattern kw = rseqs [rlit kw, rspaces1, RGrp rword1]"

text \<open>\<open>list(dict.fromkeys(xs))\<close>: the first occurrences, in order.\<close>

fun dedup :: "'a list \<Rightarrow> 'a list" where
  "dedup [] = []"
| "dedup (x # xs) = x # filter (\<lambda>y. y \<noteq> x) (dedup xs)"

definition extract_tables :: "string \<Rightarrow> string list" where
  "extract_tables sql =
     (let raw = str_upper sql;
          names = concat (map (\<lambda>kw. map (\<lambda>m. str_lower (group1 (snd m)))
                                        (re_finditer (table_pattern kw) None raw))
                    [''FROM'', ''JOIN'', ''INTO'', ''UPDATE'', ''TABLE'', ''TRUNCATE''])
      in dedup (filter (\<lambda>n. n \<notin> {''where'', ''set'', ''on'', ''select'', ''values''}) names))"

definition base_score :: "OperationType \<Rightarrow> rat" where
  "base_score ot =
     (case ot of OT_SELECT \<Rightarrow> 5/100 | OT_INSERT \<Rightarrow> 2/10 | OT_UPDATE \<Rightarrow> 4/10 | OT_DELETE \<Rightarrow> 6/10
      | OT_DDL \<Rightarrow> 85/100 | OT_UNKNOWN \<Rightarrow> 5/10)"

definition compute_risk_score :: "HandoffContract \<Rightarrow> rat \<Rightarrow> int \<Rightarrow> bool \<Rightarrow> rat" where
  "compute_risk_score c cost rows violations =
     (let s0 = base_score (operation_type c);
          s1 = (if cost > 500000 then min 1 (s0 + 2/10)
                else if cost > 100000 then min 1 (s0 + 1/10)
                else if cost > EXPLAIN_COST_THRESHOLD then min 1 (s0 + 5/100)
                else s0);
          s2 = (if violations then min 1 (s1 + 1/10) else s1);
          s3 = (if source_type c = EXTERNAL_USER_INPUT then min 1 (s2 + 15/100) else s2)
      in py_round 3 s3)"

text \<open>The policy verdict as the node reads it from the answer of \<open>evaluate_rules\<close>.\<close>

record gate_verdict =
  gv_violations :: "PolicyViolation list"
  gv_hard :: bool
  gv_reason :: "string option"
  gv_tier :: "string option"

definition verdict_of_result :: "policy_result \<Rightarrow> gate_verdict" where
  "verdict_of_result v =
     \<lparr> gv_violations = map (\<lambda>t. \<lparr> pv_rule_id = tr_rule_id t, pv_rule_name = tr_rule_name t,
                                  pv_severity = tr_severity t, pv_description = tr_description t \<rparr>)
                           (triggered_rules v),
       gv_hard = has_hard_violation v, gv_reason = pr_auto_reject_reason v,
       gv_tier = required_tier v \<rparr>"

text \<open>\<open>policy_result\<close> when the policy store is unavailable.\<close>

definition safe_defaults :: gate_verdict where
  "safe_defaults = verdict_of_result empty_result"

text \<open>Step 1: the cost and the rows of EXPLAIN, or the conservative cost when the service
  reports an error. Exceptions that are not \<open>MCPCallError\<close> pass through.\<close>

definition read_impact :: "mcp_env \<Rightarrow> HandoffContract \<Rightarrow> (rat \<times> int) eff" where
  "read_impact env c =
     catch_mcp
       (bind_eff (mcp env POSTGRES_READER_URL ''run_explain_tool''
                    [(''sql'', PStr (explain_sql (raw_sql c))), (''tenant_id'', PStr (tenant_id c))])
          (\<lambda>r. case r of
             PDict d \<Rightarrow>
               (case parse_explain_result (dict_get d ''explain_result'' r) of
                  Inl e \<Rightarrow> raise_exn e
                | Inr es \<Rightarrow> ret (es_total_cost es, es_estimated_rows es))
           | _ \<Rightarrow> raise_exn (AttributeError ''get'')))
       (ret (999999, 0))"

text \<open>Step 2: the policy gate. The answer of the service is read by \<open>decode\<close>, which gives the
  verdict of the JSON body or the exception its shape provokes.\<close>

definition policy_args :: "HandoffContract \<Rightarrow> rat \<Rightarrow> int \<Rightarrow> int \<Rightarrow> pydict" where
  "policy_args c cost rows hour =
     [(''operation_type'', PStr (op_value (operation_type c))),
      (''tables'', PList (map PStr (extract_tables (raw_sql c)))),
      (''estimated_rows'', PInt rows), (''source_type'', PStr (source_value (source_type c))),
      (''has_external_triggers'', PBool False), (''submission_hour'', PInt hour),
      (''tenant_id'', PStr (tenant_id c)), (''explain_cost'', PFloat cost)]"

definition policy_gate ::
  "mcp_env \<Rightarrow> (pyval \<Rightarrow> exn + gate_verdict) \<Rightarrow> int \<Rightarrow> HandoffContract \<Rightarrow> rat \<times> int \<Rightarrow> gate_verdict eff"
  where
  "policy_gate env decode hour c impact =
     bind_eff
       (catch_mcp
          (bind_eff (mcp env POLICY_STORE_URL ''evaluate_rules''
                       (policy_args c (fst impact) (snd impact) hour))
             (\<lambda>r. ret (Some r)))
          (ret None))
       (\<lambda>r. case r of None \<Rightarrow> ret safe_defaults
            | Some v \<Rightarrow> (case decode v of Inl e \<Rightarrow> raise_exn e | Inr g \<Rightarrow> ret g))"

text \<open>Steps 3 and 4: what is written to the contract.\<close>

definition apply_verdict ::
  "int \<Rightarrow> rat \<times> int \<Rightarrow> gate_verdict \<Rightarrow> HandoffContract \<Rightarrow> HandoffContract" where
  "apply_verdict now impact g c =
     (let c1 = c\<lparr> policy_violations := gv_violations g, auto_reject_triggered := gv_hard g,
                  auto_reject_reason := gv_reason g, required_tier_from_policy := gv_tier g \<rparr>;
          c2 = c1\<lparr> risk_score := compute_risk_score c1 (fst impact) (snd impact)
                                   (gv_violations g \<noteq> []) \<rparr>;
          c3 = (if required_tier_from_policy c2 = Some ''FULL_CONTRACT''
                then c2\<lparr> risk_tier := Some TIER_FULL_CONTRACT \<rparr> else c2);
          c4 = (if auto_reject_triggered c3 then c3\<lparr> approval_state := AUTO_REJECTED \<rparr> else c3)
      in add_provenance ''RISK_GATE''
           (''policy_violations,auto_reject_triggered,auto_reject_reason,'' @
            ''required_tier_from_policy,risk_score'') now False c4)"

definition run_risk_gate ::
  "mcp_env \<Rightarrow> (pyval \<Rightarrow> exn + gate_verdict) \<Rightarrow> int \<Rightarrow> int \<Rightarrow> HandoffContract \<Rightarrow> HandoffContract eff"
  where
  "run_risk_gate env decode now hour c =
     bind_eff (read_impact env c)
       (\<lambda>impact. bind_eff (policy_gate env decode hour c impact)
          (\<lambda>g. ret (apply_verdict now impact g c)))"

section \<open>The proxy's quick check\<close>

record RiskGateResult =
  rg_routing :: string
  rg_explain_cost :: rat
  rg_explain_rows :: int
  rg_hard_violation :: bool
  rg_auto_reject_reason :: "string option"
  rg_policy_required_tier :: "string option"

definition is_write_sql :: "string \<Rightarrow> bool" where
  "is_write_sql sql = (re_match dml_write_pattern sql \<noteq> None)"

definition clean_sql :: "string \<Rightarrow> string" where
  "clean_sql sql = str_strip (str_rstrip_char (CHR '';'') (str_strip sql))"

text \<open>The EXPLAIN part: the HTTP outcome is only looked at when the text has no embedded
  semicolon; any exception keeps the conservative defaults.\<close>

definition quick_explain :: "string \<Rightarrow> http_outcome \<Rightarrow> rat \<times> int" where
  "quick_explain sql out =
     (if CHR '';'' \<in> set (clean_sql sql) then (999999, 0)
      else (case out of
        HResponse code (PDict body) \<Rightarrow>
          (if code \<noteq> 200 then (999999, 0)
           else (case dict_get body ''result'' (PDict []) of
             PDict data \<Rightarrow>
               (let er = dict_get data ''explain_result'' (PDict data);
                    plan = (case er of
                              PList (PDict d # _) \<Rightarrow> Inr (dict_get d ''Plan'' (PDict []))
                            | PList (_ # _) \<Rightarrow> Inl (AttributeError ''get'')
                            | PDict d \<Rightarrow> Inr (dict_get d ''Plan'' er)
                            | _ \<Rightarrow> Inr (PDict []))
                in case plan of
                     Inr (PDict p) \<Rightarrow>
                       (case py_float (dict_get p ''Total Cost''
                                (dict_get p ''total_cost'' (PFloat 999999))) of
                          Inl _ \<Rightarrow> (999999, 0)
                        | Inr cost \<Rightarrow>
                          (case plan_rows p of Inl _ \<Rightarrow> (cost, 0) | Inr rows \<Rightarrow> (cost, rows)))
                   | _ \<Rightarrow> (999999, 0))
           | _ \<Rightarrow> (999999, 0)))
      | _ \<Rightarrow> (999999, 0)))"

text \<open>The policy part: the JSON \<open>result\<close> of the answer, read for a hard violation.\<close>

definition quick_policy :: "http_outcome \<Rightarrow> bool \<times> pyval" where
  "quick_policy out =
     (case out of
        HResponse code (PDict body) \<Rightarrow>
          (if code \<noteq> 200 then (False, PNone)
           else (case dict_get body ''result'' (PDict []) of
             PDict p \<Rightarrow> (truthy (dict_get p ''has_hard_violation'' (PBool False)),
                          dict_get0 p ''auto_reject_reason'')
           | _ \<Rightarrow> (False, PNone)))
      | _ \<Rightarrow> (False, PNone))"

definition quick_check ::
  "rat \<Rightarrow> string \<Rightarrow> string \<Rightarrow> string \<Rightarrow> http_outcome \<Rightarrow> http_outcome \<Rightarrow> RiskGateResult" where
  "quick_check threshold sql op src explain_out policy_out =
     (let (cost, rows) = quick_explain sql explain_out;
          (hard, reason) = quick_policy policy_out
      in if hard then
           \<lparr> rg_routing = ''auto_reject'', rg_explain_cost = cost, rg_explain_rows = rows,
             rg_hard_violation = True,
             rg_auto_reject_reason = (case reason of PStr s \<Rightarrow> Some s | _ \<Rightarrow> None),
             rg_policy_required_tier = None \<rparr>
         else if op = ''SELECT'' \<and> \<not> is_write_sql sql \<and> cost < threshold
                 \<and> src = ''internal_system'' then
           \<lparr> rg_routing = ''auto_execute'', rg_explain_cost = cost, rg_explain_rows = rows,
             rg_hard_violation = False, rg_auto_reject_reason = None,
             rg_policy_required_tier = None \<rparr>
         else
           \<lparr> rg_routing = ''full_pipeline'', rg_explain_cost = cost, rg_explain_rows = rows,
             rg_hard_violation = False, rg_auto_reject_reason = None,
             rg_policy_required_tier = None \<rparr>)"

text \<open>The operation type the proxy derives for the check (\<open>proxy/main.py\<close>).\<close>

definition proxy_op_type :: "string \<Rightarrow> string" where
  "proxy_op_type sql =
     (let w = (case re_match (rseqs [RBegin, rspaces, RGrp rword1]) sql of
                 None \<Rightarrow> ''UNKNOWN'' | Some m \<Rightarrow> str_upper (group1 m))
      in if w \<in> {''SELECT'', ''INSERT'', ''UPDATE'', ''DELETE''} then w else ''DDL'')"

section \<open>Lemmas\<close>

lemma base_score_bounds: "0 \<le> base_score ot \<and> base_score ot \<le> 1"
  by (cases ot) (simp_all add: base_score_def)

lemma compute_risk_score_bounds:
  "0 \<le> compute_risk_score c cost rows v \<and> compute_risk_score c cost rows v \<le> 1"
proof -
  have "0 \<le> base_score (operation_type c)" "base_score (operation_type c) \<le> 1"
    using base_score_bounds by blast+
  then show ?thesis
    by (auto simp: compute_risk_score_def Let_def intro!: py_round_nonneg py_round_le_one)
qed

lemma apply_verdict_sel [simp]:
  "policy_violations (apply_verdict now i g c) = gv_violations g"
  "auto_reject_triggered (apply_verdict now i g c) = gv_hard g"
  "auto_reject_reason (apply_verdict now i g c) = gv_reason g"
  "required_tier_from_policy (apply_verdict now i g c) = gv_tier g"
  "operation_type (apply_verdict now i g c) = operation_type c"
  "source_type (apply_verdict now i g c) = source_type c"
  "operation_id (apply_verdict now i g c) = operation_id c"
  "tenant_id (apply_verdict now i g c) = tenant_id c"
  "raw_sql (apply_verdict now i g c) = raw_sql c"
  "approval_state (apply_verdict now i g c) = (if gv_hard g then AUTO_REJECTED else approval_state c)"
  "human_decision (apply_verdict now i g c) = human_decision c"
  "execution_success (apply_verdict now i g c) = execution_success c"
  "reanalysis_count (apply_verdict now i g c) = reanalysis_count c"
  "stale_fields (apply_verdict now i g c) = stale_fields c"
  by (simp_all add: apply_verdict_def Let_def)

lemma apply_verdict_score:
  "risk_score (apply_verdict now i g c) =
     compute_risk_score c (fst i) (snd i) (gv_violations g \<noteq> [])"
  by (simp add: apply_verdict_def Let_def compute_risk_score_def)

lemma score_select:
  "operation_type c = OT_SELECT \<Longrightarrow> source_type c \<noteq> EXTERNAL_USER_INPUT \<Longrightarrow>
     compute_risk_score c cost rows False =
       (if cost > 500000 then 1/4 else if cost > 100000 then 3/20
        else if cost > 50000 then 1/10 else 1/20)"
  by (simp add: compute_risk_score_def base_score_def EXPLAIN_COST_THRESHOLD_def min_def
      py_round_def round_half_even_def Let_def)

lemma safe_defaults_sel [simp]:
  "gv_violations safe_defaults = []" "\<not> gv_hard safe_defaults"
  "gv_reason safe_defaults = None" "gv_tier safe_defaults = None"
  by (simp_all add: safe_defaults_def verdict_of_result_def)

lemma read_impact_mcp_error:
  "env l \<lparr> mc_url = POSTGRES_READER_URL, mc_tool = ''run_explain_tool'',
       mc_args = [(''sql'', PStr (explain_sql (raw_sql c))), (''tenant_id'', PStr (tenant_id c))] \<rparr>
     = Inl (MCPCallError m) \<Longrightarrow>
   \<exists>l'. read_impact env c l = (Inr (999999, 0), l')"
  by (simp add: read_impact_def catch_mcp_def try_eff_def bind_eff_def mcp_def eff_simps)

lemma policy_gate_mcp_error:
  "\<forall>l x. \<exists>m. env l x = Inl (MCPCallError m) \<Longrightarrow>
   \<exists>l'. policy_gate env decode hour c i l = (Inr safe_defaults, l')"
  by (auto simp: policy_gate_def catch_mcp_def try_eff_def bind_eff_def mcp_def eff_simps
      split: sum.splits prod.splits) (metis Inr_not_Inl is_mcp_error.simps(1) sum.inject(1))+

text \<open>The facts the policy store evaluates for a contract: the JSON arguments of
  \<open>policy_args\<close> as the server's parameters.\<close>

definition policy_facts :: "HandoffContract \<Rightarrow> rat \<Rightarrow> int \<Rightarrow> int \<Rightarrow> op_facts" where
  "policy_facts c cost rows hour =
     \<lparr> of_operation_type = op_value (operation_type c), of_tables = extract_tables (raw_sql c),
       of_estimated_rows = rows, of_source_type = source_value (source_type c),
       of_has_external_triggers = False, of_submission_hour = hour, of_explain_cost = cost \<rparr>"

definition quick_facts :: "string \<Rightarrow> string \<Rightarrow> rat \<Rightarrow> int \<Rightarrow> int \<Rightarrow> op_facts" where
  "quick_facts sql src cost rows hour =
     \<lparr> of_operation_type = proxy_op_type sql, of_tables = [], of_estimated_rows = rows,
       of_source_type = src, of_has_external_triggers = False, of_submission_hour = hour,
       of_explain_cost = cost \<rparr>"

lemma proxy_op_type_value: "\<exists>ot. proxy_op_type sql = op_value ot"
proof -
  have "proxy_op_type sql \<in> op_value ` {OT_SELECT, OT_INSERT, OT_UPDATE, OT_DELETE, OT_DDL}"
    by (simp add: proxy_op_type_def Let_def)
  then show ?thesis by blast
qed

lemma no_hard_verdict:
  assumes "of_operation_type f = op_value ot"
    and "\<forall>r \<in> set rules. pr_severity r = Some ''HARD'' \<longrightarrow>
           pr_rule_id r \<in> {''POLICY_DDL_NO_BACKUP'', ''POLICY_AUTO_REJECT_PATTERN''}"
  shows "\<not> has_hard_violation (evaluate_operation f pii rules bh)"
  using assms auto_reject_rules_unmatched unfolding hard_violation_iff by blast

section \<open>Properties\<close>

text \<open>
  The proxy's fast path executes a statement without review only if it is a SELECT by its
  first keyword and not a write by the write pattern, comes from an internal system, no hard
  violation was reported, and, for a threshold at most the conservative cost, EXPLAIN really
  answered with a plan cost below the threshold and the statement has no embedded semicolon:
  a multi-statement text and an unavailable EXPLAIN service never take the fast path.
\<close>

theorem quick_check_auto_execute_safe:
  assumes "threshold \<le> 999999"
    and "rg_routing (quick_check threshold sql (proxy_op_type sql) src eo po) = ''auto_execute''"
  shows "proxy_op_type sql = ''SELECT'' \<and> \<not> is_write_sql sql \<and> src = ''internal_system''
       \<and> \<not> fst (quick_policy po) \<and> CHR '';'' \<notin> set (clean_sql sql)
       \<and> (\<exists>body. eo = HResponse 200 (PDict body)) \<and> fst (quick_explain sql eo) < threshold"
proof -
  have r: "proxy_op_type sql = ''SELECT''" "\<not> is_write_sql sql" "src = ''internal_system''"
    "\<not> fst (quick_policy po)" and cost: "fst (quick_explain sql eo) < threshold"
    using assms(2) by (auto simp: quick_check_def Let_def split: prod.splits if_splits)
  from cost assms(1) have "fst (quick_explain sql eo) \<noteq> 999999" by simp
  then have "CHR '';'' \<notin> set (clean_sql sql)" "\<exists>body. eo = HResponse 200 (PDict body)"
    by (auto simp: quick_explain_def split: http_outcome.splits pyval.splits if_splits)
  with r cost show ?thesis by blast
qed

definition sample_plan_answer :: http_outcome where
  "sample_plan_answer = HResponse 200 (PDict [(''result'', PDict [(''explain_result'',
     PList [PDict [(''Plan'', PDict [(''Total Cost'', PFloat 12), (''Plan Rows'', PInt 5)])]])]),
     (''error'', PNone)])"

theorem quick_check_auto_execute_safe_witness:
  "rg_routing (quick_check 50000 ''SELECT 1'' (proxy_op_type ''SELECT 1'') ''internal_system''
      sample_plan_answer HTimeout) = ''auto_execute''
   \<and> CHR '';'' \<notin> set (clean_sql ''SELECT 1'')"
proof -
  have h: "rg_routing (quick_check 50000 ''SELECT 1'' (proxy_op_type ''SELECT 1'')
      ''internal_system'' sample_plan_answer HTimeout) = ''auto_execute''"
    by code_simp
  show ?thesis using h quick_check_auto_execute_safe [OF _ h] by simp
qed


definition failing_env :: mcp_env where
  "failing_env l c = Inl (MCPCallError ''unavailable'')"

definition sample_contract :: "string \<Rightarrow> OperationType \<Rightarrow> HandoffContract" where
  "sample_contract sql ot =
     (new_contract ''cg_1'' ''demo'' ''agent'' INTERNAL_SYSTEM 0 sql)\<lparr> operation_type := ot \<rparr>"

lemma run_risk_gate_unavailable:
  assumes "\<forall>l x. \<exists>m. env l x = Inl (MCPCallError m)"
  shows "\<exists>l'. run_risk_gate env decode now hour c l
           = (Inr (apply_verdict now (999999, 0) safe_defaults c), l')"
proof -
  obtain l1 where 1: "read_impact env c l = (Inr (999999, 0), l1)"
    using read_impact_mcp_error assms by meson
  obtain l2 where 2: "policy_gate env decode hour c (999999, 0) l1 = (Inr safe_defaults, l2)"
    using policy_gate_mcp_error [OF assms] by blast
  show ?thesis by (simp add: run_risk_gate_def bind_eff_Inr 1 2 eff_simps)
qed


text \<open>
  An unavailable EXPLAIN service does not keep a read from the fast path of the workflow:
  when both services answer with errors, the conservative cost 999999 only raises the score of
  a SELECT to 0.25, below the 0.3 that the guard asks for, so every SELECT that is not external
  user input is routed to auto-execute.
\<close>

theorem risk_gate_unavailable_auto_executes:
  assumes "\<forall>l x. \<exists>m. env l x = Inl (MCPCallError m)"
    and "operation_type c = OT_SELECT" and "source_type c \<noteq> EXTERNAL_USER_INPUT"
  shows "\<exists>c' l'. run_risk_gate env decode now hour c l = (Inr c', l')
           \<and> risk_score c' = 1/4 \<and> route_from_risk_gate c' = ''auto_execute''"
proof -
  obtain l' where r: "run_risk_gate env decode now hour c l
      = (Inr (apply_verdict now (999999, 0) safe_defaults c), l')"
    using run_risk_gate_unavailable [OF assms(1)] by blast
  have s: "risk_score (apply_verdict now (999999, 0) safe_defaults c) = 1/4"
    using assms(2,3) by (simp add: apply_verdict_score score_select)
  with r assms(2) show ?thesis by (auto simp: route_auto_execute_iff)
qed

theorem risk_gate_unavailable_auto_executes_witness:
  "\<exists>c' l'. run_risk_gate failing_env (\<lambda>_. Inr safe_defaults) 1 12
             (sample_contract ''SELECT * FROM users'' OT_SELECT) [] = (Inr c', l')
         \<and> risk_score c' = 1/4 \<and> route_from_risk_gate c' = ''auto_execute''"
  by (rule risk_gate_unavailable_auto_executes)
    (simp_all add: failing_env_def sample_contract_def new_contract_def)

text \<open>
  The automatic rejections of the seeded rule set cannot fire. Both gates send the policy
  store an operation type of the enumeration, where DROP and TRUNCATE are both DDL, while the
  rule POLICY_DDL_NO_BACKUP looks for the verbs; and POLICY_AUTO_REJECT_PATTERN is never matched
  by the engine. So if these two are the tenant's only HARD rules, as in the seed, no statement
  at all gets a hard violation at the RISK_GATE node or at the proxy.
\<close>

theorem seeded_hard_rules_never_fire:
  assumes "\<forall>r \<in> set (active_rules db tid). pr_severity r = Some ''HARD'' \<longrightarrow>
             pr_rule_id r \<in> {''POLICY_DDL_NO_BACKUP'', ''POLICY_AUTO_REJECT_PATTERN''}"
  shows "\<not> has_hard_violation (evaluate_rules db tid (policy_facts c cost rows hour))
    \<and> \<not> has_hard_violation (evaluate_rules db tid (quick_facts sql src cost rows hour))"
proof
  show "\<not> has_hard_violation (evaluate_rules db tid (policy_facts c cost rows hour))"
    unfolding evaluate_rules_def
    by (rule no_hard_verdict [OF _ assms]) (simp add: policy_facts_def)
  obtain ot where "proxy_op_type sql = op_value ot" using proxy_op_type_value by blast
  then show "\<not> has_hard_violation (evaluate_rules db tid (quick_facts sql src cost rows hour))"
    unfolding evaluate_rules_def
    by (intro no_hard_verdict [OF _ assms]) (simp add: quick_facts_def)
qed

definition seeded_hard_rows :: "policy_row list" where
  "seeded_hard_rows =
     [\<lparr> row_rule = sample_rule ''POLICY_DDL_NO_BACKUP'' ''HARD'' ''AUTO_REJECT'',
        row_active = True, row_tenant = ''demo_tenant'' \<rparr>,
      \<lparr> row_rule = sample_rule ''POLICY_AUTO_REJECT_PATTERN'' ''HARD'' ''AUTO_REJECT'',
        row_active = True, row_tenant = ''demo_tenant'' \<rparr>]"

theorem seeded_hard_rules_never_fire_witness:
  "\<not> has_hard_violation (evaluate_rules (sample_db seeded_hard_rows) ''demo_tenant''
      (policy_facts (sample_contract ''DROP TABLE users'' OT_DDL) 1 1 12))"
  by (rule seeded_hard_rules_never_fire [THEN conjunct1])
    (auto simp: set_active_rules sample_db_def seeded_hard_rows_def sample_rule_def)


section \<open>The node as a step of the pipeline\<close>

interpretation gate_node: contract_step "run_risk_gate env decode now hour" for env decode now hour
proof
  fix c l c' l'
  assume "run_risk_gate env decode now hour c l = (Inr c', l')"
  then obtain impact g where "c' = apply_verdict now impact g c"
    by (auto simp: run_risk_gate_def bind_eff_Inr_iff eff_simps)
  then show "contract_identity c' = contract_identity c \<and> provenance_grows c c'"
    by (simp add: apply_verdict_def Let_def provenance_grows_def) (simp add: contract_identity_def add_provenance_def)
qed

lemma run_risk_gate_decision:
  assumes "run_risk_gate env decode now hour c l = (Inr c', l')"
  shows "approval_state c' = AUTO_REJECTED \<or> decision_of c' = decision_of c"
proof -
  from assms obtain impact g where "c' = apply_verdict now impact g c"
    by (auto simp: run_risk_gate_def bind_eff_Inr_iff eff_simps)
  then show ?thesis by (simp add: apply_verdict_def Let_def) (simp add: decision_of_def)
qed

end
