(* ===== verification/Reversibility.thy ===== *)
theory Reversibility
  imports Handoff_Schema PyRegex
begin

text \<open>
  \<open>sql_analysis_lib/trigger_detector.py\<close> and \<open>sql_analysis_lib/reversibility_rules.py\<close>: which
  triggers of a table reach outside the transaction, and the deterministic classification of an
  operation. The database is a record of the answers to the catalogue queries of the library.
\<close>

section \<open>The catalogue\<close>

record trigger_row =
  tg_name :: string
  tg_table :: string
  tg_type :: int
  tg_function :: string
  tg_function_def :: "string option"

record fk_row =
  fk_child_table :: string
  fk_child_column :: string
  fk_parent_column :: string
  fk_action :: string

text \<open>\<open>db_triggers\<close> and \<open>db_children\<close> are the rows of the parameterised queries, in their
  order; \<open>db_explain\<close> is what executing an EXPLAIN and fetching its row gives or raises, and
  \<open>db_compose\<close> the text \<open>psycopg2.sql\<close> composes for a table and a condition.\<close>

record pg_db =
  db_extensions :: "string list"
  db_triggers :: "string \<Rightarrow> trigger_row list"
  db_children :: "string \<Rightarrow> fk_row list"
  db_reltuples :: "string \<Rightarrow> int option"
  db_stats :: "string \<Rightarrow> (int \<times> rat option) option"
  db_explain :: "string \<Rightarrow> exn + pyval option"
  db_compose :: "string \<Rightarrow> string \<Rightarrow> string"
  db_soft_delete :: "string \<Rightarrow> string option"

section \<open>Trigger detection\<close>

record TriggerInfo =
  ti_trigger_name :: string
  ti_table_name :: string
  ti_event :: string
  ti_timing :: string
  ti_function_name :: string
  ti_invokes_non_transactional :: bool
  ti_non_transactional_extension :: "string option"
  ti_estimated_external_calls :: "int option"
  ti_target_endpoint :: "string option"

record TriggerAnalysis =
  ta_table :: string
  ta_triggers :: "TriggerInfo list"
  ta_has_permanent_side_effects :: bool
  ta_non_transactional_triggers :: "TriggerInfo list"

definition DEFAULT_NON_TRANSACTIONAL_EXTENSIONS :: "string list" where
  "DEFAULT_NON_TRANSACTIONAL_EXTENSIONS = [''pg_net'', ''dblink'']"

text \<open>\<open>\bname\s*\(\<close>\<close>

definition call_pattern :: "string \<Rightarrow> regex" where
  "call_pattern name = rseqs [RWordB, rlit name, rspaces, RCls (\<lambda>c. c = CHR ''('')]"

definition EXTENSION_PATTERNS :: "string \<Rightarrow> regex list" where
  "EXTENSION_PATTERNS ext =
     (if ext = ''pg_net'' then
        map call_pattern [''net.http_post'', ''net.http_get'', ''net.http_delete'',
                          ''net.http_collect_response'']
      else if ext = ''dblink'' then
        map call_pattern [''dblink'', ''dblink_exec'', ''dblink_send_query'', ''dblink_connect'']
      else [call_pattern ext])"

text \<open>\<open>https?://[^\s'",)]+\<close>\<close>

definition is_url_char :: "char \<Rightarrow> bool" where
  "is_url_char c = (\<not> is_space c \<and> c \<notin> {CHR 0x27, CHR 0x22, CHR '','', CHR '')''})"

definition URL_PATTERN :: regex where
  "URL_PATTERN = rseqs [rlit ''http'', ropt (rlit ''s''), rlit ''://'', RCls is_url_char,
                        RStar True (RCls is_url_char)]"

definition decode_timing :: "int \<Rightarrow> string" where
  "decode_timing tgtype =
     (if and tgtype 64 \<noteq> 0 then ''INSTEAD OF''
      else if and tgtype 2 \<noteq> 0 then ''BEFORE''
      else ''AFTER'')"

definition decode_event :: "int \<Rightarrow> string" where
  "decode_event tgtype =
     (let events = (if and tgtype 4 \<noteq> 0 then [''INSERT''] else [])
                 @ (if and tgtype 8 \<noteq> 0 then [''DELETE''] else [])
                 @ (if and tgtype 16 \<noteq> 0 then [''UPDATE''] else [])
                 @ (if and tgtype 32 \<noteq> 0 then [''TRUNCATE''] else [])
      in if events \<noteq> [] then str_join '' OR '' events else ''UNKNOWN'')"

fun detect_extension :: "string \<Rightarrow> string list \<Rightarrow> string list \<Rightarrow> string option" where
  "detect_extension body [] installed = None"
| "detect_extension body (ext # exts) installed =
     (if ext \<in> set installed
         \<and> list_ex (\<lambda>p. re_found p (str_lower body)) (EXTENSION_PATTERNS ext)
      then Some ext else detect_extension body exts installed)"

definition rstrip_quotes :: "string \<Rightarrow> string" where
  "rstrip_quotes s = rev (dropWhile (\<lambda>c. c \<in> {CHR 0x27, CHR 0x22}) (rev s))"

definition extract_endpoint :: "string \<Rightarrow> string option" where
  "extract_endpoint body = map_option (\<lambda>m. rstrip_quotes (group0 m)) (re_search URL_PATTERN body)"

definition trigger_info :: "string list \<Rightarrow> string list \<Rightarrow> trigger_row \<Rightarrow> TriggerInfo" where
  "trigger_info exts installed row =
     (let body = (case tg_function_def row of None \<Rightarrow> '''' | Some b \<Rightarrow> b);
          ext = detect_extension body exts installed
      in \<lparr> ti_trigger_name = tg_name row, ti_table_name = tg_table row,
           ti_event = decode_event (tg_type row), ti_timing = decode_timing (tg_type row),
           ti_function_name = tg_function row, ti_invokes_non_transactional = (ext \<noteq> None),
           ti_non_transactional_extension = ext, ti_estimated_external_calls = None,
           ti_target_endpoint = (if ext \<noteq> None \<and> ext \<noteq> Some [] then extract_endpoint body else None) \<rparr>)"

definition detect_triggers :: "string \<Rightarrow> pg_db \<Rightarrow> string list option \<Rightarrow> TriggerAnalysis" where
  "detect_triggers table db exts_arg =
     (let exts = (case exts_arg of None \<Rightarrow> DEFAULT_NON_TRANSACTIONAL_EXTENSIONS | Some e \<Rightarrow> e);
          infos = map (trigger_info exts (db_extensions db)) (db_triggers db table);
          nt = filter ti_invokes_non_transactional infos
      in \<lparr> ta_table = table, ta_triggers = infos, ta_has_permanent_side_effects = (length nt > 0),
           ta_non_transactional_triggers = nt \<rparr>)"

section \<open>Reversibility classification\<close>

definition DDL_OPERATIONS :: "string list" where
  "DDL_OPERATIONS = [''DROP'', ''TRUNCATE'', ''ALTER'', ''CREATE'', ''DDL'',
                     ''drop'', ''truncate'', ''alter'', ''create'', ''ddl'']"

definition KNOWN_DML_OPERATIONS :: "string list" where
  "KNOWN_DML_OPERATIONS = [''SELECT'', ''INSERT'', ''UPDATE'', ''DELETE'', ''READ'',
                           ''select'', ''insert'', ''update'', ''delete'', ''read'']"

record ReversibilityResult =
  rr_classification :: ReversibilityClass
  rr_reason :: string
  rr_automated_recovery_sql :: "string option"
  rr_pitr_available :: bool
  rr_pitr_window_hours :: "rat option"
  rr_permanent_components :: "string list"

definition rr_result ::
  "ReversibilityClass \<Rightarrow> string \<Rightarrow> bool \<Rightarrow> rat option \<Rightarrow> string list \<Rightarrow> ReversibilityResult" where
  "rr_result cls reason pitr hours comps =
     \<lparr> rr_classification = cls, rr_reason = reason, rr_automated_recovery_sql = None,
       rr_pitr_available = pitr, rr_pitr_window_hours = hours, rr_permanent_components = comps \<rparr>"

definition or_text :: "string option \<Rightarrow> string \<Rightarrow> string" where
  "or_text s d = (case s of None \<Rightarrow> d | Some t \<Rightarrow> if t = [] then d else t)"

text \<open>The classification of the change to the database alone: \<open>Some\<close> a class with its reason,
  \<open>None\<close> for a permanent change (the source's sentinel).\<close>

definition classify_db_change ::
  "(rat \<Rightarrow> string) \<Rightarrow> string \<Rightarrow> bool \<Rightarrow> bool \<Rightarrow> rat option \<Rightarrow> int
   \<Rightarrow> exn + (ReversibilityClass \<times> string) option" where
  "classify_db_change show_float optype soft pitr hours rows =
     (let op = str_upper optype in
      if op \<in> {''SELECT'', ''READ''} then
        Inr (Some (REVERSIBLE_AUTOMATED, ''Read-only operation; no data modification''))
      else if op = ''INSERT'' then
        Inr (Some (REVERSIBLE_AUTOMATED, ''INSERT rows can be deleted by primary key (''
                     @ show_int rows @ '' row(s) estimated)''))
      else if op \<in> {''DELETE'', ''UPDATE''} then
        (if soft then
           Inr (Some (REVERSIBLE_AUTOMATED, ''Soft-delete column present; rows can be restored ''
                  @ ''by updating deleted_at/is_deleted ('' @ show_int rows @ '' row(s))''))
         else if pitr then
           Inr (Some (REVERSIBLE_PITR, ''PITR snapshot available (window: ''
                  @ (case hours of None \<Rightarrow> ''None'' | Some h \<Rightarrow> show_float h)
                  @ ''h); restore via point-in-time recovery''))
         else Inr None)
      else if optype \<in> set KNOWN_DML_OPERATIONS then
        Inr (Some (REVERSIBLE_AUTOMATED, ''Known DML operation ('' @ optype
                     @ '') classified as reversible''))
      else Inl (ValueError (''Unknown operation type '' @ optype)))"

definition classify_reversibility ::
  "(rat \<Rightarrow> string) \<Rightarrow> string \<Rightarrow> string \<Rightarrow> bool \<Rightarrow> TriggerAnalysis \<Rightarrow> bool \<Rightarrow> rat option \<Rightarrow> int
   \<Rightarrow> exn + ReversibilityResult" where
  "classify_reversibility show_float optype table soft ta pitr hours rows =
     (if pitr \<and> (case hours of None \<Rightarrow> True | Some h \<Rightarrow> h \<le> 0)
      then Inl (ValueError ''pitr_confirmed=True requires pitr_window_hours to be a positive number of hours'')
      else if optype \<in> set DDL_OPERATIONS then
        Inr (rr_result PERMANENT
               (''DDL operation ('' @ optype @ '') is irreversible; no automated recovery possible'')
               pitr hours [str_upper optype])
      else
        (let has_nt = ta_has_permanent_side_effects ta;
             nts = ta_non_transactional_triggers ta;
             comps = map (\<lambda>t. ''trigger:'' @ ti_trigger_name t @ '':''
                              @ or_text (ti_non_transactional_extension t) ''unknown'') nts;
             op = str_upper optype;
             base = ''No recovery path for '' @ op @ '' on '' @ table @ '' ('' @ show_int rows
         in case classify_db_change show_float optype soft pitr hours rows of
              Inl e \<Rightarrow> Inl e
            | Inr None \<Rightarrow>
                (let comps' = comps @ [''no_recovery_path_for_'' @ table] in
                 if has_nt then
                   Inr (rr_result PERMANENT
                     (base @ '' row(s)); additionally '' @ show_nat (length nts)
                      @ '' non-transactional trigger(s) produce permanent external effects'')
                     pitr hours comps')
                 else Inr (rr_result PERMANENT (base @ '' row(s))'') pitr hours comps'))
            | Inr (Some (cls, reason)) \<Rightarrow>
                (if has_nt then
                   Inr (rr_result PARTIAL
                     (''Database change is '' @ rev_value cls @ '' but '' @ show_nat (length nts)
                      @ '' trigger(s) cause permanent external effects (''
                      @ str_join '', '' (map (\<lambda>t. or_text (ti_non_transactional_extension t) ''?'') nts)
                      @ '')'') pitr hours comps)
                 else Inr (rr_result cls reason pitr hours []))))"

section \<open>Lemmas\<close>

lemma detect_extension_Some:
  "detect_extension body exts installed = Some e \<Longrightarrow>
     e \<in> set exts \<and> e \<in> set installed
     \<and> (\<exists>p \<in> set (EXTENSION_PATTERNS e). re_found p (str_lower body))"
  by (induction exts) (auto simp: list_ex_iff split: if_splits)

lemma detect_extension_None:
  "detect_extension body exts installed = None \<longleftrightarrow>
     (\<forall>e \<in> set exts. e \<in> set installed \<longrightarrow>
        (\<forall>p \<in> set (EXTENSION_PATTERNS e). \<not> re_found p (str_lower body)))"
  by (induction exts) (auto simp: list_ex_iff)

text \<open>Every known operation that is not one of the five verbs is DDL, so the branch for the
  remaining known operations is never taken.\<close>

lemma known_dml_upper:
  "optype \<in> set KNOWN_DML_OPERATIONS \<Longrightarrow>
     str_upper optype \<in> {''SELECT'', ''READ'', ''INSERT'', ''DELETE'', ''UPDATE''}"
proof -
  have "list_all (\<lambda>op. str_upper op \<in> {''SELECT'', ''READ'', ''INSERT'', ''DELETE'', ''UPDATE''})
      KNOWN_DML_OPERATIONS"
    by code_simp
  then show "optype \<in> set KNOWN_DML_OPERATIONS \<Longrightarrow> ?thesis" by (simp only: list_all_iff)
qed

definition recognised_operation :: "string \<Rightarrow> bool" where
  "recognised_operation op \<longleftrightarrow> op \<in> set DDL_OPERATIONS
     \<or> str_upper op \<in> {''SELECT'', ''READ'', ''INSERT'', ''DELETE'', ''UPDATE''}"

lemma classify_db_change_Inl:
  "(\<exists>e. classify_db_change sf op soft pitr hours rows = Inl e) \<longleftrightarrow>
     str_upper op \<notin> {''SELECT'', ''READ'', ''INSERT'', ''DELETE'', ''UPDATE''}"
  using known_dml_upper [of op] by (auto simp: classify_db_change_def Let_def)

lemma classify_db_change_None:
  "classify_db_change sf op soft pitr hours rows = Inr None \<longleftrightarrow>
     str_upper op \<in> {''DELETE'', ''UPDATE''} \<and> \<not> soft \<and> \<not> pitr"
  by (auto simp: classify_db_change_def Let_def)

lemma classify_db_change_cls:
  "classify_db_change sf op soft pitr hours rows = Inr (Some (cls, reason)) \<Longrightarrow>
     cls = (if str_upper op \<in> {''DELETE'', ''UPDATE''} \<and> \<not> soft then REVERSIBLE_PITR
            else REVERSIBLE_AUTOMATED)"
  using known_dml_upper [of op] by (auto simp: classify_db_change_def Let_def split: if_splits)

lemma detect_triggers_consistent:
  "ta_has_permanent_side_effects (detect_triggers table db exts)
     \<longleftrightarrow> ta_non_transactional_triggers (detect_triggers table db exts) \<noteq> []"
  by (simp add: detect_triggers_def Let_def)

section \<open>Properties\<close>

text \<open>
  The reversibility classification is total on recognised operations, fails closed on all
  others and on an unusable recovery window, and never proposes recovery SQL. A result is
  PERMANENT exactly for DDL and for a DELETE or UPDATE with neither a soft-delete column nor
  confirmed point-in-time recovery; PARTIAL exactly for the others with side effects that
  survive a rollback; REVERSIBLE_PITR only with a confirmed window. An operation is never called
  reversible when a part of it is not.
\<close>

theorem classify_reversibility_spec:
  "case classify_reversibility show_float op table soft ta pitr hours rows of
     Inl _ \<Rightarrow> \<not> recognised_operation op \<or> (pitr \<and> (\<forall>h. hours = Some h \<longrightarrow> h \<le> 0))
   | Inr r \<Rightarrow>
       recognised_operation op
     \<and> rr_automated_recovery_sql r = None
     \<and> (let permanent = (op \<in> set DDL_OPERATIONS
              \<or> str_upper op \<in> {''DELETE'', ''UPDATE''} \<and> \<not> soft \<and> \<not> pitr);
            partial = (\<not> permanent \<and> ta_has_permanent_side_effects ta)
        in (rr_classification r = PERMANENT \<longleftrightarrow> permanent)
         \<and> (rr_classification r = PARTIAL \<longleftrightarrow> partial)
         \<and> (rr_classification r = REVERSIBLE_PITR \<longleftrightarrow> \<not> permanent \<and> \<not> partial
              \<and> str_upper op \<in> {''DELETE'', ''UPDATE''} \<and> \<not> soft))"
proof (cases "op \<in> set DDL_OPERATIONS")
  case True
  then show ?thesis
    by (auto simp: classify_reversibility_def recognised_operation_def rr_result_def
        split: option.splits)
next
  case False
  show ?thesis
  proof (cases "classify_db_change show_float op soft pitr hours rows")
    case (Inl e)
    with classify_db_change_Inl [of show_float op soft pitr hours rows] False show ?thesis
      by (auto simp: classify_reversibility_def recognised_operation_def Let_def)
  next
    case (Inr o')
    then have known: "recognised_operation op"
      using classify_db_change_Inl [of show_float op soft pitr hours rows]
      by (auto simp: recognised_operation_def)
    have none: "o' = None \<longleftrightarrow> str_upper op \<in> {''DELETE'', ''UPDATE''} \<and> \<not> soft \<and> \<not> pitr"
      using classify_db_change_None [of show_float op soft pitr hours rows] Inr by simp
    have cls: "cls = (if str_upper op \<in> {''DELETE'', ''UPDATE''} \<and> \<not> soft then REVERSIBLE_PITR
            else REVERSIBLE_AUTOMATED)" if "o' = Some (cls, reason)" for cls reason
      using classify_db_change_cls [of show_float op soft pitr hours rows] Inr that by simp
    show ?thesis
      using Inr known none False cls
      by (auto simp: classify_reversibility_def rr_result_def Let_def split: option.splits if_splits)
  qed
qed

definition quiet_analysis :: "TriggerAnalysis" where
  "quiet_analysis = \<lparr> ta_table = ''users'', ta_triggers = [],
     ta_has_permanent_side_effects = False, ta_non_transactional_triggers = [] \<rparr>"

theorem classify_reversibility_spec_witness:
  "\<exists>r. classify_reversibility (\<lambda>_. '''') ''DELETE'' ''users'' False quiet_analysis False None 3 = Inr r
     \<and> rr_classification r = PERMANENT"
  using classify_reversibility_spec [where show_float = "\<lambda>_. ''''" and op = "''DELETE''"
      and table = "''users''" and soft = False and ta = quiet_analysis and pitr = False
      and hours = None and rows = 3]
  by (auto simp: recognised_operation_def str_upper_def to_upper_def is_lower_def less_eq_char_def
      split: sum.splits)

text \<open>
  Trigger detection reports every trigger of the table once, in order, and flags one as
  non-transactional exactly when an extension that was asked for and is installed has a call
  pattern that occurs in the lower-cased body of its function; the overall flag says whether
  there is one.
\<close>

theorem detect_triggers_exact:
  "let ta = detect_triggers table db (Some exts);
       calls = (\<lambda>row e. e \<in> set (db_extensions db) \<and> (\<exists>p \<in> set (EXTENSION_PATTERNS e).
                  re_found p (str_lower (case tg_function_def row of None \<Rightarrow> '''' | Some b \<Rightarrow> b))))
   in map ti_trigger_name (ta_triggers ta) = map tg_name (db_triggers db table)
    \<and> map ti_invokes_non_transactional (ta_triggers ta)
        = map (\<lambda>row. \<exists>e \<in> set exts. calls row e) (db_triggers db table)
    \<and> (ta_has_permanent_side_effects ta
        \<longleftrightarrow> (\<exists>row \<in> set (db_triggers db table). \<exists>e \<in> set exts. calls row e))
    \<and> list_all (\<lambda>t. \<exists>e \<in> set exts. e \<in> set (db_extensions db)
                      \<and> ti_non_transactional_extension t = Some e) (ta_non_transactional_triggers ta)"
proof -
  let ?body = "\<lambda>row. case tg_function_def row of None \<Rightarrow> '''' | Some b \<Rightarrow> b"
  have flag: "ti_invokes_non_transactional (trigger_info exts (db_extensions db) row) \<longleftrightarrow>
      (\<exists>e \<in> set exts. e \<in> set (db_extensions db) \<and> (\<exists>p \<in> set (EXTENSION_PATTERNS e).
          re_found p (str_lower (?body row))))" for row
    using detect_extension_None [of "?body row" exts "db_extensions db"]
    by (auto simp: trigger_info_def Let_def)
  have ext: "\<exists>e \<in> set exts. e \<in> set (db_extensions db)
      \<and> ti_non_transactional_extension (trigger_info exts (db_extensions db) row) = Some e"
    if "ti_invokes_non_transactional (trigger_info exts (db_extensions db) row)" for row
    using that detect_extension_Some [of "?body row" exts "db_extensions db"]
    by (auto simp: trigger_info_def Let_def)
  have name: "ti_trigger_name (trigger_info exts (db_extensions db) row) = tg_name row" for row
    by (simp add: trigger_info_def Let_def)
  show ?thesis
    unfolding detect_triggers_def Let_def
    using ext by (auto simp: list_all_iff filter_empty_conv comp_def name flag)
qed

end
