(* ===== verification/Sql_Analysis.thy ===== *)
theory Sql_Analysis
  imports Reversibility
begin

text \<open>
  The rest of \<open>sql_analysis_lib\<close>: the validation and parsing of EXPLAIN
  (\<open>explain_parser.py\<close>), row estimates and the confidence feedback (\<open>row_estimator.py\<close>) and the
  depth-first trace of the foreign-key cascade (\<open>cascade_tracer.py\<close>). Where a float division is
  truncated, the rounding of floating-point arithmetic is the argument \<open>fl\<close>.
\<close>

section \<open>EXPLAIN\<close>

definition rchar :: "char \<Rightarrow> regex" where
  "rchar c = RCls (\<lambda>x. x = c)"

definition rnot :: "char list \<Rightarrow> regex" where
  "rnot cs = RCls (\<lambda>x. x \<notin> set cs)"

definition SINGLE_QUOTED :: regex where
  "SINGLE_QUOTED = rseqs [rchar (CHR 0x27),
     RStar True (RAlt (rnot [CHR 0x27]) (RSeq (rchar (CHR 0x27)) (rchar (CHR 0x27)))),
     rchar (CHR 0x27)]"

definition DOLLAR_QUOTED :: regex where
  "DOLLAR_QUOTED = rseqs [rchar (CHR ''$''), RGrp (RStar True (rnot [CHR ''$''])), rchar (CHR ''$''),
     RStar False rany, rchar (CHR ''$''), RBack, rchar (CHR ''$'')]"

definition LINE_COMMENTS :: regex where
  "LINE_COMMENTS = rseqs [rchar (CHR ''-''), rchar (CHR ''-''), RStar True (rnot nl)]"

definition BLOCK_COMMENTS :: regex where
  "BLOCK_COMMENTS = rseqs [rchar (CHR ''/''), rchar (CHR ''*''), RStar False rany,
     rchar (CHR ''*''), rchar (CHR ''/'')]"

definition DOUBLE_QUOTED :: regex where
  "DOUBLE_QUOTED = rseqs [rchar (CHR 0x22),
     RStar True (RAlt (rnot [CHR 0x22, CHR 0x5C]) (RSeq (rchar (CHR 0x5C)) (rnot nl))),
     rchar (CHR 0x22)]"

definition strip_sql_literals_and_comments :: "string \<Rightarrow> string" where
  "strip_sql_literals_and_comments sql =
     re_sub DOUBLE_QUOTED '' '' (re_sub SINGLE_QUOTED '' '' (re_sub LINE_COMMENTS '' ''
       (re_sub BLOCK_COMMENTS '' '' (re_sub DOLLAR_QUOTED '' '' sql))))"

definition ALLOWED_STATEMENT_TYPES :: "string list" where
  "ALLOWED_STATEMENT_TYPES = [''SELECT'', ''TABLE'', ''VALUES'', ''EXPLAIN'', ''WITH'']"

definition validate_explain_target :: "string \<Rightarrow> exn + unit" where
  "validate_explain_target sql =
     (let stripped = strip_sql_literals_and_comments sql in
      if CHR '';'' \<in> set stripped then
        Inl (ValueError ''sql passed to run_explain() must be a single statement'')
      else (case str_split stripped of
        [] \<Rightarrow> Inl (ValueError ''sql passed to run_explain() is empty'')
      | t # _ \<Rightarrow>
          (if str_upper t \<notin> set ALLOWED_STATEMENT_TYPES
           then Inl (ValueError ''sql passed to run_explain() must be a SELECT statement'')
           else Inr ())))"

record ExplainResult =
  er_estimated_rows :: int
  er_actual_rows :: "int option"
  er_total_cost :: rat
  er_startup_cost :: rat
  er_scan_type :: pyval
  er_partitions_involved :: int
  er_shared_hit_blocks :: "int option"
  er_shared_read_blocks :: "int option"
  er_execution_time_ms :: pyval
  er_planning_time_ms :: pyval

lemma map_of_size: "map_of d k = Some (v :: pyval) \<Longrightarrow> size v < size (PDict d)"
  by (induction d) (auto split: if_splits)

lemma list_member_size: "x \<in> set xs \<Longrightarrow> size (x :: pyval) < size (PList xs)"
  by (induction xs) auto

text \<open>The children of an Append node are the partitions; else the first child with partitions
  decides.\<close>

function count_partitions :: "pyval \<Rightarrow> exn + int"
  and count_first :: "pyval list \<Rightarrow> exn + int" where
  "count_partitions node =
     (case node of
        PDict d \<Rightarrow>
          (if map_of d ''Node Type'' = Some (PStr ''Append'') then
             (case map_of d ''Plans'' of
                None \<Rightarrow> Inr 0
              | Some (PList xs) \<Rightarrow> Inr (int (length xs))
              | Some (PDict xs) \<Rightarrow> Inr (int (length xs))
              | Some (PStr s) \<Rightarrow> Inr (int (length s))
              | Some _ \<Rightarrow> Inl (TypeError ''object has no len()''))
           else
             (case map_of d ''Plans'' of
                None \<Rightarrow> Inr 0
              | Some (PList xs) \<Rightarrow> count_first xs
              | Some (PDict xs) \<Rightarrow> if xs = [] then Inr 0 else Inl (AttributeError ''get'')
              | Some (PStr s) \<Rightarrow> if s = [] then Inr 0 else Inl (AttributeError ''get'')
              | Some _ \<Rightarrow> Inl (TypeError ''object is not iterable'')))
      | _ \<Rightarrow> Inl (AttributeError ''get''))"
| "count_first [] = Inr 0"
| "count_first (x # xs) =
     (case count_partitions x of
        Inl e \<Rightarrow> Inl e
      | Inr n \<Rightarrow> if n > 0 then Inr n else count_first xs)"
  by pat_completeness auto
termination
proof (relation "measure (\<lambda>x. case x of Inl v \<Rightarrow> size v | Inr vs \<Rightarrow> size_list size vs)", goal_cases)
  case (2 node d v xs)
  then have "map_of d ''Plans'' = Some (PList xs)" by simp
  from map_of_size [OF this] 2 show ?case by simp
qed auto

declare count_partitions.simps [simp del]

definition opt_conv :: "(pyval \<Rightarrow> exn + 'a) \<Rightarrow> pyval option \<Rightarrow> exn + 'a option" where
  "opt_conv f v = (case v of None \<Rightarrow> Inr None | Some PNone \<Rightarrow> Inr None
     | Some x \<Rightarrow> map_sum id Some (f x))"

definition parse_plan :: "pydict \<Rightarrow> pydict \<Rightarrow> exn + ExplainResult" where
  "parse_plan data plan =
     (case (case map_of plan ''Actual Rows'' of None \<Rightarrow> Inr None
            | Some v \<Rightarrow> map_sum id Some (py_int_of v)) of
        Inl e \<Rightarrow> Inl e
      | Inr actual \<Rightarrow>
        (case (py_int_of (dict_get plan ''Plan Rows'' (PInt 0)),
               py_float (dict_get plan ''Total Cost'' (PFloat 0)),
               py_float (dict_get plan ''Startup Cost'' (PFloat 0)),
               count_partitions (PDict plan),
               opt_conv py_int_of (map_of plan ''Shared Hit Blocks''),
               opt_conv py_int_of (map_of plan ''Shared Read Blocks'')) of
           (Inl e, _) \<Rightarrow> Inl e
         | (_, Inl e, _) \<Rightarrow> Inl e
         | (_, _, Inl e, _) \<Rightarrow> Inl e
         | (_, _, _, Inl e, _) \<Rightarrow> Inl e
         | (_, _, _, _, Inl e, _) \<Rightarrow> Inl e
         | (_, _, _, _, _, Inl e) \<Rightarrow> Inl e
         | (Inr rows, Inr tcost, Inr startup, Inr parts, Inr hit, Inr rd) \<Rightarrow>
             Inr \<lparr> er_estimated_rows = rows, er_actual_rows = actual, er_total_cost = tcost,
                   er_startup_cost = startup,
                   er_scan_type = dict_get plan ''Node Type'' (PStr ''Unknown''),
                   er_partitions_involved = parts, er_shared_hit_blocks = hit,
                   er_shared_read_blocks = rd, er_execution_time_ms = dict_get0 data ''Execution Time'',
                   er_planning_time_ms = dict_get0 data ''Planning Time'' \<rparr>))"

definition parse_explain_json :: "pyval \<Rightarrow> exn + ExplainResult" where
  "parse_explain_json out =
     (case (case out of PList [] \<Rightarrow> Inl (ValueError ''parse_explain_json received an empty list'')
            | PList (x # _) \<Rightarrow> Inr x | v \<Rightarrow> Inr v) of
        Inl e \<Rightarrow> Inl e
      | Inr (PDict data) \<Rightarrow>
          (case dict_get0 data ''Plan'' of
             PNone \<Rightarrow> Inl (ValueError ''parse_explain_json: missing Plan key in EXPLAIN output'')
           | PDict plan \<Rightarrow> parse_plan data plan
           | _ \<Rightarrow> Inl (ValueError ''parse_explain_json: Plan must be a dict''))
      | Inr _ \<Rightarrow> Inl (ValueError ''parse_explain_json expected a dict plan element''))"

text \<open>The fetched row is the plan itself (the first column, with JSON text already decoded).\<close>

definition run_explain :: "string \<Rightarrow> pg_db \<Rightarrow> bool \<Rightarrow> exn + ExplainResult" where
  "run_explain sql db analyze =
     (case validate_explain_target sql of
        Inl e \<Rightarrow> Inl e
      | Inr _ \<Rightarrow>
        (let prefix = (if analyze then ''EXPLAIN (FORMAT JSON, ANALYZE, BUFFERS)''
                       else ''EXPLAIN (FORMAT JSON)'')
         in case db_explain db (prefix @ '' '' @ sql) of
              Inl e \<Rightarrow> Inl e
            | Inr None \<Rightarrow> Inl (RuntimeError ''EXPLAIN returned no rows'')
            | Inr (Some result) \<Rightarrow> parse_explain_json result))"

section \<open>Row estimates\<close>

record RowEstimate =
  re_table :: string
  re_condition :: "string option"
  re_estimated_rows :: int
  re_confidence :: rat
  re_estimation_strategy :: string
  re_stats_age_hours :: "rat option"   \<comment> \<open>\<open>None\<close> stands for \<open>math.inf\<close>\<close>
  re_stats_stale :: bool

definition compute_confidence :: "rat option \<Rightarrow> rat \<times> bool" where
  "compute_confidence age =
     (case age of None \<Rightarrow> (4/10, True)
      | Some h \<Rightarrow> if h < 24 then (8/10, False)
                  else if h < 72 then (7/10, True)
                  else if h < 168 then (6/10, True)
                  else (5/10, True))"

definition fetch_stats :: "string \<Rightarrow> pg_db \<Rightarrow> int \<times> rat option" where
  "fetch_stats table db =
     (case db_stats db table of None \<Rightarrow> (0, None) | Some (n, age) \<Rightarrow> (max 0 n, age))"

definition estimate_rows :: "string \<Rightarrow> string option \<Rightarrow> pg_db \<Rightarrow> RowEstimate" where
  "estimate_rows table cond db =
     (let (reltuples, age) = fetch_stats table db;
          (confidence, stale) = compute_confidence age;
          (estimated, strategy) =
            (case cond of None \<Rightarrow> (reltuples, ''stats'')
             | Some c \<Rightarrow>
                 (case run_explain (db_compose db table c) db False of
                    Inl _ \<Rightarrow> (reltuples, ''stats'')
                  | Inr r \<Rightarrow> (er_estimated_rows r, ''explain'')))
      in \<lparr> re_table = table, re_condition = cond, re_estimated_rows = max 0 estimated,
           re_confidence = confidence, re_estimation_strategy = strategy,
           re_stats_age_hours = age, re_stats_stale = stale \<rparr>)"

definition adjust_confidence :: "int \<Rightarrow> int \<Rightarrow> rat \<Rightarrow> rat" where
  "adjust_confidence actual estimated current =
     max (1/10) (min 1
       (if estimated \<le> 0 then (if actual > 0 then current - 5/100 else current)
        else if rat_of_int actual > of_int estimated * (1 + 1/10) then current - 5/100
        else if rat_of_int actual < of_int estimated * (1 - 1/10) then current - 2/100
        else current))"

definition update_confidence ::
  "string \<Rightarrow> string \<Rightarrow> int \<Rightarrow> int \<Rightarrow> (string \<times> rat) list \<Rightarrow> rat \<times> (string \<times> rat) list" where
  "update_confidence table optype actual estimated store =
     (let key = table @ '':'' @ optype;
          new = adjust_confidence actual estimated (dict_get store key (8/10))
      in (new, dict_set key new store))"

section \<open>Cascades\<close>

record CascadeLevel =
  cl_table_name :: string
  cl_column_name :: string
  cl_parent_table :: string
  cl_parent_column :: string
  cl_cascade_action :: string
  cl_estimated_rows :: int
  cl_confidence :: rat
  cl_depth :: nat

record CascadeGraph =
  cg_root_table :: string
  cg_root_condition :: "string option"
  cg_levels :: "CascadeLevel list"
  cg_total_estimated_rows :: int
  cg_has_circular_reference :: bool
  cg_max_depth_reached :: bool

definition get_reltuples :: "string \<Rightarrow> pg_db \<Rightarrow> int" where
  "get_reltuples table db = (case db_reltuples db table of None \<Rightarrow> 0 | Some n \<Rightarrow> max 0 n)"

definition child_level ::
  "(rat \<Rightarrow> rat) \<Rightarrow> pg_db \<Rightarrow> string \<Rightarrow> int \<Rightarrow> rat \<Rightarrow> nat \<Rightarrow> fk_row \<Rightarrow> CascadeLevel" where
  "child_level fl db table rows conf depth ch =
     (let p = get_reltuples table db;
          ratio = (if p > 0 then fl (of_int (get_reltuples (fk_child_table ch) db) / of_int p) else 0)
      in \<lparr> cl_table_name = fk_child_table ch, cl_column_name = fk_child_column ch,
           cl_parent_table = table, cl_parent_column = fk_parent_column ch,
           cl_cascade_action = fk_action ch,
           cl_estimated_rows = py_int (fl (of_int rows * ratio)),
           cl_confidence = py_round 4 (conf * (8/10)), cl_depth = depth \<rparr>)"

text \<open>What a call of \<open>_trace\<close> appends to the shared list of levels, and whether it sets the
  flags \<open>has_circular_reference\<close> and \<open>max_depth_reached\<close>; \<open>trace_children\<close> is its loop.\<close>

function trace ::
  "(rat \<Rightarrow> rat) \<Rightarrow> pg_db \<Rightarrow> nat \<Rightarrow> string \<Rightarrow> int \<Rightarrow> rat \<Rightarrow> nat \<Rightarrow> string set
   \<Rightarrow> CascadeLevel list \<times> bool \<times> bool"
  and trace_children ::
  "(rat \<Rightarrow> rat) \<Rightarrow> pg_db \<Rightarrow> nat \<Rightarrow> string \<Rightarrow> int \<Rightarrow> rat \<Rightarrow> nat \<Rightarrow> string set \<Rightarrow> fk_row list
   \<Rightarrow> CascadeLevel list \<times> bool \<times> bool" where
  "trace fl db max_depth table rows conf depth path =
     (if depth > max_depth then ([], False, True)
      else trace_children fl db max_depth table rows conf depth path (db_children db table))"
| "trace_children fl db max_depth table rows conf depth path [] = ([], False, False)"
| "trace_children fl db max_depth table rows conf depth path (ch # chs) =
     (let (ls2, circ2, deep2) = trace_children fl db max_depth table rows conf depth path chs in
      if fk_child_table ch \<in> path then (ls2, True, deep2)
      else
        (let lvl = child_level fl db table rows conf depth ch;
             (ls1, circ1, deep1) =
               trace fl db max_depth (fk_child_table ch) (cl_estimated_rows lvl) (cl_confidence lvl)
                 (Suc depth) (insert (fk_child_table ch) path)
         in (lvl # ls1 @ ls2, circ1 \<or> circ2, deep1 \<or> deep2)))"
  by pat_completeness auto
termination
  by (relation "measures
      [\<lambda>x. case x of Inl (fl, db, m, t, r, c, d, p) \<Rightarrow> Suc m - d
                   | Inr (fl, db, m, t, r, c, d, p, chs) \<Rightarrow> Suc m - d,
       \<lambda>x. case x of Inl (fl, db, m, t, r, c, d, p) \<Rightarrow>
                       if d > m then 0 else Suc (Suc (length (db_children db t)))
                   | Inr (fl, db, m, t, r, c, d, p, chs) \<Rightarrow> Suc (length chs)]") auto

declare trace.simps [simp del]

definition trace_cascades ::
  "(rat \<Rightarrow> rat) \<Rightarrow> string \<Rightarrow> string option \<Rightarrow> pg_db \<Rightarrow> nat \<Rightarrow> RowEstimate option \<Rightarrow> CascadeGraph" where
  "trace_cascades fl table cond db max_depth root_estimate =
     (let est = (case root_estimate of None \<Rightarrow> estimate_rows table cond db | Some e \<Rightarrow> e);
          (levels, circ, deep) = trace fl db max_depth table (re_estimated_rows est)
                                   (re_confidence est) 1 {table}
      in \<lparr> cg_root_table = table, cg_root_condition = cond, cg_levels = levels,
           cg_total_estimated_rows = sum_list (map cl_estimated_rows levels),
           cg_has_circular_reference = circ, cg_max_depth_reached = deep \<rparr>)"

section \<open>Lemmas\<close>

subsection \<open>Stripping text without quotes or comments\<close>

lemma re_sub_from_absent:
  "c \<notin> set s \<Longrightarrow> re_sub_from (RSeq (rchar c) r) rep p s = s"
proof (induction s arbitrary: p)
  case Nil
  then show ?case by (simp add: re_sub_from.simps [of _ _ _ "[]"] rchar_def)
next
  case (Cons x xs)
  then have "x \<noteq> c" by auto
  with Cons show ?case by (simp add: re_sub_from.simps [of _ _ _ "x # xs"] rchar_def)
qed

lemma re_sub_absent: "c \<notin> set s \<Longrightarrow> re_sub (rseqs (rchar c # r # rs)) rep s = s"
  by (simp add: re_sub_def re_sub_from_absent)

definition plain_sql :: "string \<Rightarrow> bool" where
  "plain_sql s = list_all (\<lambda>c. c \<notin> {CHR ''$'', CHR 0x27, CHR 0x22, CHR ''-'', CHR ''/''}) s"

lemma strip_plain: "plain_sql s \<Longrightarrow> strip_sql_literals_and_comments s = s"
proof -
  assume "plain_sql s"
  then have "CHR ''$'' \<notin> set s" "CHR 0x27 \<notin> set s" "CHR 0x22 \<notin> set s" "CHR ''-'' \<notin> set s"
    "CHR ''/'' \<notin> set s"
    by (auto simp: plain_sql_def list_all_iff)
  then show ?thesis
    unfolding strip_sql_literals_and_comments_def SINGLE_QUOTED_def DOLLAR_QUOTED_def
      LINE_COMMENTS_def BLOCK_COMMENTS_def DOUBLE_QUOTED_def
    by (simp only: re_sub_absent not_False_eq_True)
qed

subsection \<open>Estimates\<close>

lemma compute_confidence_cases:
  "fst (compute_confidence age) \<in> {4/10, 5/10, 6/10, 7/10, 8/10}
   \<and> (snd (compute_confidence age) \<longleftrightarrow> fst (compute_confidence age) < 8/10)"
  by (auto simp: compute_confidence_def split: option.splits)

lemma adjust_confidence_bounds:
  "1/10 \<le> adjust_confidence actual estimated x \<and> adjust_confidence actual estimated x \<le> 1"
  by (simp add: adjust_confidence_def)

lemma adjust_confidence_le: "1/10 \<le> x \<Longrightarrow> adjust_confidence actual estimated x \<le> x"
  by (auto simp: adjust_confidence_def)

subsection \<open>The cascade trace\<close>

definition edges :: "pg_db \<Rightarrow> (string \<times> string) set" where
  "edges db = {(p, c). \<exists>r \<in> set (db_children db p). fk_child_table r = c}"

abbreviation tables_of :: "CascadeLevel list \<Rightarrow> string set" where
  "tables_of ls \<equiv> cl_table_name ` set ls"

lemma child_level_sel [simp]:
  "cl_table_name (child_level fl db t r c d ch) = fk_child_table ch"
  "cl_parent_table (child_level fl db t r c d ch) = t"
  "cl_depth (child_level fl db t r c d ch) = d"
  "cl_confidence (child_level fl db t r c d ch) = py_round 4 (c * (8/10))"
  by (simp_all add: child_level_def Let_def)

text \<open>The trace through its three results, and its induction rule.\<close>

abbreviation subtrace ::
  "(rat \<Rightarrow> rat) \<Rightarrow> pg_db \<Rightarrow> nat \<Rightarrow> string \<Rightarrow> int \<Rightarrow> rat \<Rightarrow> nat \<Rightarrow> string set \<Rightarrow> fk_row
   \<Rightarrow> CascadeLevel list \<times> bool \<times> bool" where
  "subtrace fl db m t r c d path ch \<equiv>
     trace fl db m (fk_child_table ch) (cl_estimated_rows (child_level fl db t r c d ch))
       (py_round 4 (c * (8/10))) (Suc d) (insert (fk_child_table ch) path)"

lemma trace_deep [simp]: "m < d \<Longrightarrow> trace fl db m t r c d path = ([], False, True)"
  by (simp add: trace.simps)

lemma trace_step [simp]:
  "d \<le> m \<Longrightarrow> trace fl db m t r c d path
     = trace_children fl db m t r c d path (db_children db t)"
  by (simp add: trace.simps)

lemma trace_levels_Cons:
  "fst (trace_children fl db m t r c d path (ch # chs)) =
     (if fk_child_table ch \<in> path then fst (trace_children fl db m t r c d path chs)
      else child_level fl db t r c d ch # fst (subtrace fl db m t r c d path ch)
             @ fst (trace_children fl db m t r c d path chs))"
  by (simp add: Let_def split: prod.splits)

lemma trace_circular_Cons:
  "fst (snd (trace_children fl db m t r c d path (ch # chs))) \<longleftrightarrow>
     (if fk_child_table ch \<in> path then True
      else fst (snd (subtrace fl db m t r c d path ch))
             \<or> fst (snd (trace_children fl db m t r c d path chs)))"
  by (simp add: Let_def split: prod.splits)

lemma trace_deep_Cons:
  "snd (snd (trace_children fl db m t r c d path (ch # chs))) \<longleftrightarrow>
     (fk_child_table ch \<notin> path \<and> snd (snd (subtrace fl db m t r c d path ch)))
     \<or> snd (snd (trace_children fl db m t r c d path chs))"
  by (simp add: Let_def split: prod.splits)

lemmas trace_Cons = trace_levels_Cons trace_circular_Cons trace_deep_Cons

declare trace_children.simps(2) [simp del]

lemma trace_induct:
  assumes node: "\<And>t r c d path. (d \<le> m \<Longrightarrow> Q t r c d path (db_children db t)) \<Longrightarrow> P t r c d path"
    and nil: "\<And>t r c d path. Q t r c d path []"
    and cons: "\<And>t r c d path ch chs. Q t r c d path chs \<Longrightarrow>
        (fk_child_table ch \<notin> path \<Longrightarrow>
           P (fk_child_table ch) (cl_estimated_rows (child_level fl db t r c d ch))
             (py_round 4 (c * (8/10))) (Suc d) (insert (fk_child_table ch) path)) \<Longrightarrow>
        Q t r c d path (ch # chs)"
  shows "P t r c d path" and "Q t r c d path chs"
proof -
  have "(fl' = fl \<longrightarrow> db' = db \<longrightarrow> m' = m \<longrightarrow> P t r c d path)"
    and "(fl' = fl \<longrightarrow> db' = db \<longrightarrow> m' = m \<longrightarrow> Q t r c d path chs)" for fl' db' m'
  proof (induction fl' db' m' t r c d path and fl' db' m' t r c d path chs
      rule: trace_trace_children.induct)
    case (1 fl' db' m' t r c d path)
    then show ?case using node by (metis linorder_not_le)
  next
    case (2 fl' db' m' t r c d path)
    then show ?case using nil by blast
  next
    case (3 fl' db' m' t r c d path ch chs)
    show ?case
    proof (intro impI)
      assume eq: "fl' = fl" "db' = db" "m' = m"
      obtain x y z where k: "trace_children fl' db' m' t r c d path chs = (x, y, z)"
        by (rule prod_cases3)
      show "Q t r c d path (ch # chs)"
        using 3(1) 3(2) [OF k [symmetric] refl refl _ refl] eq by (intro cons) auto
    qed
  qed
  then show "P t r c d path" and "Q t r c d path chs" by blast+
qed

lemma trace_depth:
  "\<forall>l \<in> set (fst (trace fl db m t r c d path)). d \<le> cl_depth l \<and> cl_depth l \<le> m"
  "d \<le> m \<longrightarrow> (\<forall>l \<in> set (fst (trace_children fl db m t r c d path chs)). d \<le> cl_depth l \<and> cl_depth l \<le> m)"
proof (induction t r c d path and t r c d path chs rule: trace_induct [of m _ db _ fl])
  case (1 t r c d path)
  then show ?case by (cases "d \<le> m") auto
next
  case (3 t r c d path ch chs)
  then show ?case by (cases "fk_child_table ch \<in> path") (auto simp: trace_Cons)
qed simp

lemma trace_outside_path:
  "\<forall>l \<in> set (fst (trace fl db m t r c d path)). cl_table_name l \<notin> path"
  "\<forall>l \<in> set (fst (trace_children fl db m t r c d path chs)). cl_table_name l \<notin> path"
proof (induction t r c d path and t r c d path chs rule: trace_induct [of m _ db _ fl])
  case (1 t r c d path)
  then show ?case by (cases "d \<le> m") auto
next
  case (3 t r c d path ch chs)
  then show ?case by (cases "fk_child_table ch \<in> path") (auto simp: trace_Cons)
qed simp

lemma trace_sound:
  "\<forall>l \<in> set (fst (trace fl db m t r c d path)).
     (t, cl_table_name l) \<in> (edges db)\<^sup>+ \<and> (cl_parent_table l, cl_table_name l) \<in> edges db"
  "set chs \<subseteq> set (db_children db t) \<longrightarrow>
   (\<forall>l \<in> set (fst (trace_children fl db m t r c d path chs)).
     (t, cl_table_name l) \<in> (edges db)\<^sup>+ \<and> (cl_parent_table l, cl_table_name l) \<in> edges db)"
proof (induction t r c d path and t r c d path chs rule: trace_induct [of m _ db _ fl])
  case (1 t r c d path)
  then show ?case by (cases "d \<le> m") auto
next
  case (3 t r c d path ch chs)
  have "(t, fk_child_table ch) \<in> edges db" if "set (ch # chs) \<subseteq> set (db_children db t)"
    using that by (auto simp: edges_def)
  with 3 show ?case
    by (cases "fk_child_table ch \<in> path") (auto simp: trace_Cons intro: trancl_into_trancl2)
qed simp

text \<open>Unless the depth limit was hit, the tables found are closed under the cascade relation.\<close>

lemma edges_Image: "edges db `` {t} = fk_child_table ` set (db_children db t)"
  by (auto simp: edges_def)

lemma Image_tables_append: "e `` tables_of (ls @ ls') = e `` tables_of ls \<union> e `` tables_of ls'"
  by (auto simp: Image_def)

lemma Image_tables_Cons: "e `` tables_of (l # ls) = e `` {cl_table_name l} \<union> e `` tables_of ls"
  by (auto simp: Image_def)

lemma trace_closed:
  "\<not> snd (snd (trace fl db m t r c d path)) \<longrightarrow>
     edges db `` {t} \<union> edges db `` tables_of (fst (trace fl db m t r c d path))
       \<subseteq> path \<union> tables_of (fst (trace fl db m t r c d path))"
  "\<not> snd (snd (trace_children fl db m t r c d path chs)) \<longrightarrow>
     fk_child_table ` set chs \<union> edges db `` tables_of (fst (trace_children fl db m t r c d path chs))
       \<subseteq> path \<union> tables_of (fst (trace_children fl db m t r c d path chs))"
proof (induction t r c d path and t r c d path chs rule: trace_induct [of m _ db _ fl])
  case (1 t r c d path)
  show ?case
  proof (cases "d \<le> m")
    case True
    from 1 [OF True] show ?thesis unfolding trace_step [OF True] edges_Image .
  qed simp
next
  case (3 t r c d path ch chs)
  show ?case
  proof (cases "fk_child_table ch \<in> path")
    case True
    with 3(1) show ?thesis by (simp add: trace_Cons)
  next
    case False
    let ?sub = "subtrace fl db m t r c d path ch"
    let ?lvl = "child_level fl db t r c d ch"
    let ?rest = "trace_children fl db m t r c d path chs"
    show ?thesis
    proof
      assume "\<not> snd (snd (trace_children fl db m t r c d path (ch # chs)))"
      with False 3 have
        "edges db `` {fk_child_table ch} \<union> edges db `` tables_of (fst ?sub)
           \<subseteq> insert (fk_child_table ch) path \<union> tables_of (fst ?sub)"
        "fk_child_table ` set chs \<union> edges db `` tables_of (fst ?rest) \<subseteq> path \<union> tables_of (fst ?rest)"
        by (simp_all add: trace_Cons)
      moreover have "tables_of (?lvl # fst ?sub @ fst ?rest)
          = insert (fk_child_table ch) (tables_of (fst ?sub) \<union> tables_of (fst ?rest))"
        by (simp add: image_Un)
      moreover have "edges db `` tables_of (?lvl # fst ?sub @ fst ?rest) = edges db `` {fk_child_table ch}
          \<union> edges db `` tables_of (fst ?sub) \<union> edges db `` tables_of (fst ?rest)"
        unfolding Image_tables_Cons Image_tables_append by (simp add: Un_assoc)
      ultimately show "fk_child_table ` set (ch # chs)
          \<union> edges db `` tables_of (fst (trace_children fl db m t r c d path (ch # chs)))
          \<subseteq> path \<union> tables_of (fst (trace_children fl db m t r c d path (ch # chs)))"
        using False unfolding trace_levels_Cons by (simp only: if_False list.set image_insert) blast
    qed
  qed
qed simp

text \<open>A reported circular reference is a cycle through an ancestor.\<close>

lemma trace_circular:
  "(\<forall>p \<in> path. (p, t) \<in> (edges db)\<^sup>*) \<longrightarrow> fst (snd (trace fl db m t r c d path)) \<longrightarrow>
     (\<exists>u. (u, u) \<in> (edges db)\<^sup>+)"
  "set chs \<subseteq> set (db_children db t) \<longrightarrow> (\<forall>p \<in> path. (p, t) \<in> (edges db)\<^sup>*) \<longrightarrow>
     fst (snd (trace_children fl db m t r c d path chs)) \<longrightarrow> (\<exists>u. (u, u) \<in> (edges db)\<^sup>+)"
proof (induction t r c d path and t r c d path chs rule: trace_induct [of m _ db _ fl])
  case (1 t r c d path)
  then show ?case by (cases "d \<le> m") auto
next
  case (3 t r c d path ch chs)
  show ?case
  proof (intro impI)
    assume sub: "set (ch # chs) \<subseteq> set (db_children db t)"
      and anc: "\<forall>p \<in> path. (p, t) \<in> (edges db)\<^sup>*"
      and circ: "fst (snd (trace_children fl db m t r c d path (ch # chs)))"
    from sub have e: "(t, fk_child_table ch) \<in> edges db" by (auto simp: edges_def)
    show "\<exists>u. (u, u) \<in> (edges db)\<^sup>+"
    proof (cases "fk_child_table ch \<in> path")
      case True
      with anc e show ?thesis by (meson rtrancl_into_trancl1)
    next
      case False
      moreover from anc e have "\<forall>p \<in> insert (fk_child_table ch) path. (p, fk_child_table ch) \<in> (edges db)\<^sup>*"
        by (auto intro: rtrancl_into_rtrancl)
      ultimately show ?thesis using 3 sub anc circ by (auto simp: trace_Cons)
    qed
  qed
qed simp

lemma trace_confidence:
  "0 \<le> c \<longrightarrow> (\<forall>l \<in> set (fst (trace fl db m t r c d path)). 0 \<le> cl_confidence l \<and> cl_confidence l \<le> py_round 4 c)"
  "0 \<le> c \<longrightarrow> (\<forall>l \<in> set (fst (trace_children fl db m t r c d path chs)). 0 \<le> cl_confidence l \<and> cl_confidence l \<le> py_round 4 c)"
proof (induction t r c d path and t r c d path chs rule: trace_induct [of m _ db _ fl])
  case (1 t r c d path)
  then show ?case by (cases "d \<le> m") auto
next
  case (3 t r c d path ch chs)
  have idem: "py_round 4 (py_round 4 x) = py_round 4 x" for x
    by (rule py_round_id [of _ _ "round_half_even (x * 10 ^ 4)"]) (simp add: py_round_def)
  have le: "py_round 4 (c * (8/10)) \<le> py_round 4 c" "0 \<le> py_round 4 (c * (8/10))" if "0 \<le> c"
    using that by (auto intro: py_round_mono py_round_nonneg)
  show ?case
    using 3 le by (cases "fk_child_table ch \<in> path") (fastforce simp: trace_Cons idem)+
qed simp

section \<open>Properties\<close>


definition sample_pg :: pg_db where
  "sample_pg = \<lparr> db_extensions = [''pg_net''], db_triggers = (\<lambda>_. []),
     db_children = (\<lambda>t. if t = ''users'' then
         [\<lparr> fk_child_table = ''orders'', fk_child_column = ''user_id'', fk_parent_column = ''id'',
            fk_action = ''CASCADE'' \<rparr>]
       else if t = ''orders'' then
         [\<lparr> fk_child_table = ''invoices'', fk_child_column = ''order_id'', fk_parent_column = ''id'',
            fk_action = ''CASCADE'' \<rparr>,
          \<lparr> fk_child_table = ''users'', fk_child_column = ''last_order'', fk_parent_column = ''id'',
            fk_action = ''CASCADE'' \<rparr>]
       else []),
     db_reltuples = (\<lambda>t. Some 100), db_stats = (\<lambda>t. Some (100, Some 3)),
     db_explain = (\<lambda>_. Inl (RuntimeError ''relation does not exist'')),
     db_compose = (\<lambda>t c. ''SELECT 1 FROM '' @ t @ '' WHERE '' @ c),
     db_soft_delete = (\<lambda>_. None) \<rparr>"


text \<open>
  For a statement without quote and comment characters the validation in front of EXPLAIN is
  exact: it accepts precisely the statements without a semicolon whose first word is one of the
  permitted statement types.
\<close>

theorem validate_explain_target_plain:
  assumes "plain_sql sql"
  shows "validate_explain_target sql = Inr () \<longleftrightarrow>
     CHR '';'' \<notin> set sql
     \<and> (\<exists>t ts. str_split sql = t # ts \<and> str_upper t \<in> {''SELECT'', ''TABLE'', ''VALUES'', ''EXPLAIN'', ''WITH''})"
  unfolding validate_explain_target_def strip_plain [OF assms] Let_def ALLOWED_STATEMENT_TYPES_def
  by (simp split: list.splits)

theorem validate_explain_target_plain_witness:
  "validate_explain_target ''SELECT 1; DELETE FROM users'' \<noteq> Inr ()"
proof -
  have "plain_sql ''SELECT 1; DELETE FROM users''" by code_simp
  from validate_explain_target_plain [OF this] show ?thesis by simp
qed

definition bypass_payload :: string where
  "bypass_payload = (let q = [CHR 0x27] in
     ''SELECT '' @ q @ ''$$'' @ q @ ''; DELETE FROM users; SELECT '' @ q @ ''$$'' @ q)"


text \<open>
  A row estimate is always produced, whether or not EXPLAIN works: it is not negative, its
  confidence is one of five levels between 0.4 and 0.8, it is marked stale exactly when the
  confidence is below 0.8, and without a successful EXPLAIN it is the table's row count.
\<close>

theorem estimate_rows_total:
  "let e = estimate_rows table cond db in
     0 \<le> re_estimated_rows e \<and> re_confidence e \<in> {4/10, 5/10, 6/10, 7/10, 8/10}
   \<and> (re_stats_stale e \<longleftrightarrow> re_confidence e < 8/10)
   \<and> (re_estimation_strategy e = ''stats'' \<longrightarrow> re_estimated_rows e = fst (fetch_stats table db))"
proof -
  have "0 \<le> fst (fetch_stats table db)" by (auto simp: fetch_stats_def split: option.splits)
  then show ?thesis
    using compute_confidence_cases [of "snd (fetch_stats table db)"]
    by (auto simp: estimate_rows_def Let_def split: prod.splits option.splits sum.splits)
qed

theorem estimate_rows_total_witness:
  "re_estimated_rows (estimate_rows ''users'' (Some ''id = 1'') sample_pg) = 100"
proof -
  have "re_estimation_strategy (estimate_rows ''users'' (Some ''id = 1'') sample_pg) = ''stats''"
    by code_simp
  with estimate_rows_total [of "''users''" "Some ''id = 1''" sample_pg] show ?thesis
    by (simp add: Let_def fetch_stats_def sample_pg_def)
qed

lemma adjust_confidence_within:
  assumes "0 < estimated" and ten: "10 * \<bar>actual - estimated\<bar> \<le> estimated"
    and "1/10 \<le> x" and "x \<le> 1"
  shows "adjust_confidence actual estimated x = x"
proof -
  define z where "z = \<bar>actual - estimated\<bar>"
  have z: "actual \<le> estimated + z" "estimated \<le> actual + z" "10 * z \<le> estimated"
    using ten by (simp_all add: z_def)
  from z(1) z(3) have "10 * actual \<le> 11 * estimated" by linarith
  moreover from z(2) z(3) have "9 * estimated \<le> 10 * actual" by linarith
  ultimately have "rat_of_int (10 * actual) \<le> of_int (11 * estimated)"
    and "rat_of_int (9 * estimated) \<le> of_int (10 * actual)"
    by (simp_all only: of_int_le_iff)
  then have "\<not> rat_of_int actual > of_int estimated * (1 + 1/10)"
    and "\<not> rat_of_int actual < of_int estimated * (1 - 1/10)" by (simp_all add: field_simps)
  with assms show ?thesis by (simp add: adjust_confidence_def)
qed

text \<open>
  The feedback loop keeps every confidence it stores between 0.1 and 1, never raises one
  that is in range, changes only the entry of the table and operation at hand, and leaves it
  alone when the estimate was within ten percent of the actual count.
\<close>

theorem update_confidence_bounded:
  "let (x, store') = update_confidence table optype actual estimated store;
       old = dict_get store (table @ '':'' @ optype) (8/10)
   in 1/10 \<le> x \<and> x \<le> 1 \<and> (1/10 \<le> old \<longrightarrow> x \<le> old)
    \<and> (\<forall>k. map_of store' k = (if k = table @ '':'' @ optype then Some x else map_of store k))
    \<and> (0 < estimated \<and> 10 * \<bar>actual - estimated\<bar> \<le> estimated \<and> 1/10 \<le> old \<and> old \<le> 1 \<longrightarrow> x = old)"
  using adjust_confidence_bounds [of actual estimated "dict_get store (table @ '':'' @ optype) (8/10)"]
    adjust_confidence_le [of "dict_get store (table @ '':'' @ optype) (8/10)" actual estimated]
    adjust_confidence_within [of estimated actual "dict_get store (table @ '':'' @ optype) (8/10)"]
  by (simp add: update_confidence_def Let_def)

theorem update_confidence_bounded_witness:
  "fst (update_confidence ''users'' ''DELETE'' 105 100 [(''users:DELETE'', 7/10)]) = 7/10"
  using update_confidence_bounded
    [of "''users''" "''DELETE''" 105 100 "[(''users:DELETE'', 7/10)]"]
  by (simp add: dict_get_def split: prod.splits)

end
