(* ===== verification/Risk_Rules.thy ===== *)
theory Risk_Rules
  imports Handoff_Schema
begin

text \<open>
  \<open>agents/contract/risk_rules.py\<close>: the deterministic risk score and the tier rules of the
  Contract Agent.
\<close>

definition CASCADE_ROW_THRESHOLD :: int where
  "CASCADE_ROW_THRESHOLD = 50000"

definition EXTERNAL_TRIGGER_THRESHOLD :: nat where
  "EXTERNAL_TRIGGER_THRESHOLD = 5"

definition HIGH_RISK_SCORE :: rat where
  "HIGH_RISK_SCORE = 7/10"

definition LOW_CONFIDENCE_THRESHOLD :: rat where
  "LOW_CONFIDENCE_THRESHOLD = 25/100"

definition BASE_SCORES :: "OperationType \<Rightarrow> rat" where
  "BASE_SCORES ot =
     (case ot of OT_SELECT \<Rightarrow> 5/100 | OT_INSERT \<Rightarrow> 15/100 | OT_UPDATE \<Rightarrow> 25/100
      | OT_DELETE \<Rightarrow> 35/100 | OT_DDL \<Rightarrow> 50/100 | OT_UNKNOWN \<Rightarrow> 20/100)"

text \<open>\<open>min(1.0, score + x)\<close>\<close>

definition bump :: "rat \<Rightarrow> rat \<Rightarrow> rat" where
  "bump x score = min 1 (score + x)"

definition primary_rows_bucket :: "int \<Rightarrow> rat" where
  "primary_rows_bucket n =
     (if n > 1000000 then 30/100 else if n > 100000 then 20/100
      else if n > 10000 then 15/100 else if n > 1000 then 8/100 else 0)"

definition cascade_rows_bucket :: "int \<Rightarrow> rat" where
  "cascade_rows_bucket n =
     (if n > 500000 then 25/100 else if n > 100000 then 15/100
      else if n > 10000 then 10/100 else if n > 0 then 5/100 else 0)"

definition confidence_bucket :: "rat \<Rightarrow> rat" where
  "confidence_bucket x =
     (if x < LOW_CONFIDENCE_THRESHOLD then 10/100 else if x < 5/10 then 5/100 else 0)"

definition cascade_total :: "HandoffContract \<Rightarrow> int" where
  "cascade_total c = sum_list (map ce_estimated_rows (cascade c))"

definition rejection_count :: "HandoffContract \<Rightarrow> nat" where
  "rejection_count c = length (filter (\<lambda>h. ho_outcome h = ''REJECTED'') (historical_precedents c))"

text \<open>The additions happen in the source's order, each clamped to 1. A bucket of 0 stands for
  a chain of conditions none of which holds.\<close>

definition raw_risk_score :: "HandoffContract \<Rightarrow> rat" where
  "raw_risk_score c =
     (let s0 = BASE_SCORES (operation_type c);
          s1 = bump (primary_rows_bucket (estimated_primary_rows c)) s0;
          s2 = bump (cascade_rows_bucket (cascade_total c)) s1;
          s3 = bump (of_nat (length (external_triggers c)) * (5/100)) s2;
          s4 = bump (of_nat (rejection_count c) * (5/100)) s3;
          s5 = bump (confidence_bucket (row_confidence c)) s4;
          s6 = bump (of_nat (length (policy_violations c)) * (10/100)) s5
      in if reversibility c = Some PARTIAL then bump (10/100) s6 else s6)"

definition contract_risk_score :: "HandoffContract \<Rightarrow> rat" where
  "contract_risk_score c = py_round 3 (raw_risk_score c)"

definition tier_required :: "HandoffContract \<Rightarrow> bool" where
  "tier_required c = (case required_tier_from_policy c of None \<Rightarrow> False | Some t \<Rightarrow> t \<noteq> [])"

definition apply_tier_rules :: "HandoffContract \<Rightarrow> rat \<Rightarrow> RiskTier" where
  "apply_tier_rules c score =
     (if required_tier_from_policy c = Some ''FULL_CONTRACT'' then TIER_FULL_CONTRACT
      else if reversibility c = Some PERMANENT then TIER_FULL_CONTRACT
      else if list_ex (\<lambda>h. ho_outcome h = ''REJECTED'') (historical_precedents c)
      then TIER_FULL_CONTRACT
      else if prompt_injection_risk c then TIER_FULL_CONTRACT
      else if cascade_total c > CASCADE_ROW_THRESHOLD then TIER_FULL_CONTRACT
      else if length (external_triggers c) \<ge> EXTERNAL_TRIGGER_THRESHOLD then TIER_FULL_CONTRACT
      else if score > HIGH_RISK_SCORE then TIER_FULL_CONTRACT
      else if row_confidence c < LOW_CONFIDENCE_THRESHOLD then TIER_FULL_CONTRACT
      else if operation_type c = OT_SELECT \<and> policy_violations c = [] \<and> score < 3/10
              \<and> \<not> tier_required c
      then TIER_AUTO
      else TIER_STANDARD)"

definition classify_risk :: "HandoffContract \<Rightarrow> RiskTier \<times> rat" where
  "classify_risk c = (let s = contract_risk_score c in (apply_tier_rules c s, s))"

section \<open>Lemmas\<close>

text \<open>The eight reasons for a full contract review.\<close>

definition full_contract_reason :: "HandoffContract \<Rightarrow> rat \<Rightarrow> bool" where
  "full_contract_reason c score \<longleftrightarrow>
     required_tier_from_policy c = Some ''FULL_CONTRACT''
   \<or> reversibility c = Some PERMANENT
   \<or> (\<exists>h \<in> set (historical_precedents c). ho_outcome h = ''REJECTED'')
   \<or> prompt_injection_risk c
   \<or> sum_list (map ce_estimated_rows (cascade c)) > 50000
   \<or> length (external_triggers c) \<ge> 5
   \<or> score > 7/10
   \<or> row_confidence c < 1/4"

lemma apply_tier_full_iff:
  "apply_tier_rules c s = TIER_FULL_CONTRACT \<longleftrightarrow> full_contract_reason c s"
  by (simp add: apply_tier_rules_def full_contract_reason_def list_ex_iff cascade_total_def
      CASCADE_ROW_THRESHOLD_def EXTERNAL_TRIGGER_THRESHOLD_def HIGH_RISK_SCORE_def
      LOW_CONFIDENCE_THRESHOLD_def)

lemma apply_tier_auto_iff:
  "apply_tier_rules c s = TIER_AUTO \<longleftrightarrow>
     \<not> full_contract_reason c s \<and> operation_type c = OT_SELECT \<and> policy_violations c = []
     \<and> s < 3/10 \<and> \<not> tier_required c"
  by (simp add: apply_tier_rules_def full_contract_reason_def list_ex_iff cascade_total_def
      CASCADE_ROW_THRESHOLD_def EXTERNAL_TRIGGER_THRESHOLD_def HIGH_RISK_SCORE_def
      LOW_CONFIDENCE_THRESHOLD_def)

lemma bump_le_one: "bump x s \<le> 1"
  by (simp add: bump_def)

lemma bump_mono: "x \<le> y \<Longrightarrow> s \<le> t \<Longrightarrow> bump x s \<le> bump y t"
  by (auto simp: bump_def min_def)

lemma bump_nonneg: "0 \<le> x \<Longrightarrow> 0 \<le> s \<Longrightarrow> 0 \<le> bump x s"
  by (simp add: bump_def)

lemma bucket_nonneg [simp]:
  "0 \<le> primary_rows_bucket n" "0 \<le> cascade_rows_bucket n" "0 \<le> confidence_bucket x"
  by (simp_all add: primary_rows_bucket_def cascade_rows_bucket_def confidence_bucket_def)

lemma base_scores_bounds: "5/100 \<le> BASE_SCORES ot \<and> BASE_SCORES ot \<le> 1/2"
  by (cases ot) (simp_all add: BASE_SCORES_def)

lemma bump_ge: "0 \<le> x \<Longrightarrow> s \<le> 1 \<Longrightarrow> b \<le> s \<Longrightarrow> b \<le> bump x s"
  by (simp add: bump_def)

lemma raw_risk_score_ge: "b \<le> BASE_SCORES (operation_type c) \<Longrightarrow> b \<le> raw_risk_score c"
proof -
  assume b: "b \<le> BASE_SCORES (operation_type c)"
  have "BASE_SCORES (operation_type c) \<le> 1"
    using base_scores_bounds [of "operation_type c"] by linarith
  with b show ?thesis
    unfolding raw_risk_score_def Let_def
    by (simp only: split: if_split) (intro conjI impI bump_ge bump_le_one; simp)
qed

lemma raw_risk_score_bounds: "5/100 \<le> raw_risk_score c \<and> raw_risk_score c \<le> 1"
proof
  show "5/100 \<le> raw_risk_score c"
    using base_scores_bounds by (blast intro: raw_risk_score_ge)
  show "raw_risk_score c \<le> 1"
    by (simp add: raw_risk_score_def Let_def bump_le_one)
qed

lemma primary_rows_bucket_mono: "m \<le> n \<Longrightarrow> primary_rows_bucket m \<le> primary_rows_bucket n"
  by (simp add: primary_rows_bucket_def)

lemma cascade_rows_bucket_mono: "m \<le> n \<Longrightarrow> cascade_rows_bucket m \<le> cascade_rows_bucket n"
  by (simp add: cascade_rows_bucket_def)

lemma confidence_bucket_anti: "x \<le> y \<Longrightarrow> confidence_bucket y \<le> confidence_bucket x"
  by (simp add: confidence_bucket_def)

text \<open>\<open>c'\<close> carries at least the evidence of risk that \<open>c\<close> does.\<close>

definition at_least_as_risky :: "HandoffContract \<Rightarrow> HandoffContract \<Rightarrow> bool" where
  "at_least_as_risky c' c \<longleftrightarrow>
     operation_type c' = operation_type c
   \<and> estimated_primary_rows c \<le> estimated_primary_rows c'
   \<and> cascade_total c \<le> cascade_total c'
   \<and> length (external_triggers c) \<le> length (external_triggers c')
   \<and> rejection_count c \<le> rejection_count c'
   \<and> row_confidence c' \<le> row_confidence c
   \<and> length (policy_violations c) \<le> length (policy_violations c')
   \<and> (reversibility c = Some PARTIAL \<longrightarrow> reversibility c' = Some PARTIAL)"

lemma raw_risk_score_mono: "at_least_as_risky c' c \<Longrightarrow> raw_risk_score c \<le> raw_risk_score c'"
proof -
  assume r: "at_least_as_risky c' c"
  let ?f = "\<lambda>c. bump (of_nat (length (policy_violations c)) * (10/100))
     (bump (confidence_bucket (row_confidence c))
     (bump (of_nat (rejection_count c) * (5/100))
     (bump (of_nat (length (external_triggers c)) * (5/100))
     (bump (cascade_rows_bucket (cascade_total c))
     (bump (primary_rows_bucket (estimated_primary_rows c)) (BASE_SCORES (operation_type c)))))))"
  have f: "?f c \<le> ?f c'"
    using r by (intro bump_mono primary_rows_bucket_mono cascade_rows_bucket_mono
      confidence_bucket_anti) (simp_all add: at_least_as_risky_def)
  then have g: "?f c \<le> bump (10/100) (?f c')" "bump (10/100) (?f c) \<le> bump (10/100) (?f c')"
    by (auto intro: bump_ge bump_le_one bump_mono)
  show ?thesis
    using r f g unfolding raw_risk_score_def Let_def at_least_as_risky_def by auto
qed

text \<open>For the tier the other evidence counts as well, and a PARTIAL classification may become
  PERMANENT.\<close>

definition at_least_as_grave :: "HandoffContract \<Rightarrow> HandoffContract \<Rightarrow> bool" where
  "at_least_as_grave c' c \<longleftrightarrow>
     at_least_as_risky (c'\<lparr> reversibility := reversibility c \<rparr>) c
   \<and> (reversibility c' = reversibility c \<or> reversibility c' = Some PERMANENT)
   \<and> (required_tier_from_policy c = Some ''FULL_CONTRACT'' \<longrightarrow> required_tier_from_policy c' = Some ''FULL_CONTRACT'')
   \<and> (tier_required c \<longrightarrow> tier_required c') \<and> (prompt_injection_risk c \<longrightarrow> prompt_injection_risk c')"

lemma rejection_count_pos: "0 < rejection_count c \<longleftrightarrow> (\<exists>h \<in> set (historical_precedents c). ho_outcome h = ''REJECTED'')"
  by (auto simp: rejection_count_def filter_empty_conv)

lemma contract_risk_score_mono: "at_least_as_risky c' c \<Longrightarrow> contract_risk_score c \<le> contract_risk_score c'"
  unfolding contract_risk_score_def by (intro py_round_mono raw_risk_score_mono)

lemma tier_full_top: "(t :: RiskTier) \<le> TIER_FULL_CONTRACT"
  by (cases t) (simp_all add: less_eq_RiskTier_def)

lemma tier_mono:
  assumes "at_least_as_grave c' c"
  shows "fst (classify_risk c) \<le> fst (classify_risk c')"
proof (cases "full_contract_reason c' (contract_risk_score c')")
  case True
  then show ?thesis by (simp add: classify_risk_def Let_def apply_tier_full_iff [symmetric] tier_full_top)
next
  case False
  then have rev: "reversibility c' = reversibility c"
    using assms by (auto simp: at_least_as_grave_def full_contract_reason_def)
  then have risky: "at_least_as_risky c' c"
    using assms by (simp add: at_least_as_grave_def at_least_as_risky_def cascade_total_def rejection_count_def)
  note score = contract_risk_score_mono [OF risky]
  have nr: "\<not> full_contract_reason c (contract_risk_score c)"
    using False assms risky score rev rejection_count_pos [of c] rejection_count_pos [of c']
    by (auto simp: full_contract_reason_def at_least_as_grave_def at_least_as_risky_def cascade_total_def)
  with False have nf: "apply_tier_rules c (contract_risk_score c) \<noteq> TIER_FULL_CONTRACT"
    "apply_tier_rules c' (contract_risk_score c') \<noteq> TIER_FULL_CONTRACT"
    by (simp_all add: apply_tier_full_iff)
  have auto: "apply_tier_rules c (contract_risk_score c) = TIER_AUTO"
    if "apply_tier_rules c' (contract_risk_score c') = TIER_AUTO"
    using that nr assms risky score by (auto simp: apply_tier_auto_iff at_least_as_grave_def at_least_as_risky_def)
  show ?thesis
    using nf auto
    by (cases "apply_tier_rules c (contract_risk_score c)"; cases "apply_tier_rules c' (contract_risk_score c')")
      (simp_all add: classify_risk_def Let_def less_eq_RiskTier_def)
qed

section \<open>Properties\<close>


text \<open>
  C26. The final risk score lies between 0.05 and 1, and score and tier are monotone: more rows, more
  cascade rows, more triggers, more surfaced rejections, more violations, less confidence or a PARTIAL
  classification never lower the score, and with a policy requirement, injection risk or a PERMANENT
  classification added they never lead to a lighter review.
\<close>

theorem contract_risk_score_bounded_monotone:
  "5/100 \<le> contract_risk_score c \<and> contract_risk_score c \<le> 1
   \<and> (at_least_as_risky c' c \<longrightarrow> contract_risk_score c \<le> contract_risk_score c')
   \<and> (at_least_as_grave c' c \<longrightarrow> fst (classify_risk c) \<le> fst (classify_risk c'))"
proof -
  have "5/100 = py_round 3 (5/100)" by (simp add: py_round_def round_half_even_def Let_def)
  also have "\<dots> \<le> contract_risk_score c"
    unfolding contract_risk_score_def using raw_risk_score_bounds by (blast intro: py_round_mono)
  finally have "5/100 \<le> contract_risk_score c" .
  then show ?thesis
    unfolding contract_risk_score_def
    using raw_risk_score_bounds [of c] raw_risk_score_mono [of c' c] tier_mono [of c' c]
    by (auto intro: py_round_le_one py_round_mono)
qed

definition risky_sample :: "nat \<Rightarrow> HandoffContract" where
  "risky_sample n = (new_contract ''cg_1'' ''demo'' ''agent'' INTERNAL_SYSTEM 0 ''DELETE FROM t'')
     \<lparr> operation_type := OT_DELETE, row_confidence := 8/10,
       policy_violations := replicate n \<lparr> pv_rule_id = ''r'', pv_rule_name = ''r'',
         pv_severity = ''SOFT'', pv_description = ''d'' \<rparr> \<rparr>"

theorem contract_risk_score_bounded_monotone_witness:
  "at_least_as_risky (risky_sample 2) (risky_sample 0)
   \<and> contract_risk_score (risky_sample 0) \<le> contract_risk_score (risky_sample 2)
   \<and> fst (classify_risk (risky_sample 0)) \<le> fst (classify_risk (risky_sample 2))"
proof -
  have "at_least_as_risky (risky_sample 2) (risky_sample 0)"
    by (simp add: at_least_as_risky_def risky_sample_def new_contract_def cascade_total_def
        rejection_count_def)
  moreover have "at_least_as_grave (risky_sample 2) (risky_sample 0)"
    by (simp add: at_least_as_grave_def at_least_as_risky_def risky_sample_def new_contract_def cascade_total_def
        rejection_count_def tier_required_def)
  ultimately show ?thesis using contract_risk_score_bounded_monotone [of "risky_sample 0" "risky_sample 2"] by blast
qed

end
