(* ===== verification/Analyzer.thy ===== *)
theory Analyzer
  imports Sql_Analysis Risk_Rules Guards MCP_Transport
begin

text \<open>
  \<open>agents/analyzer/tools.py\<close> and \<open>agents/analyzer/agent.py\<close>: the Analyzer Agent. The pure
  parsers work on the SQL text; the answers of the postgres-reader service are dictionaries
  whose entries are read the way the source reads them. An entry of a type the contract has no
  place for ends the analysis with an exception.
\<close>

section \<open>Tools\<close>

definition DDL_PATTERN :: regex where
  "DDL_PATTERN = rseqs [RBegin, rspaces,
     RGrp (ralts (map rlit_ci [''DROP'', ''TRUNCATE'', ''ALTER'', ''CREATE''])), RWordB]"

definition classify_operation_type :: "string \<Rightarrow> OperationType" where
  "classify_operation_type raw =
     (let sql = str_strip raw in
      if re_match DDL_PATTERN sql \<noteq> None then OT_DDL
      else (case str_split sql of
        [] \<Rightarrow> OT_UNKNOWN
      | w # _ \<Rightarrow>
          (let verb = str_upper w in
           if verb = ''DELETE'' then OT_DELETE
           else if verb = ''UPDATE'' then OT_UPDATE
           else if verb = ''INSERT'' then OT_INSERT
           else if verb = ''SELECT'' then OT_SELECT
           else OT_UNKNOWN)))"

definition WHERE_PATTERN :: regex where
  "WHERE_PATTERN = rseqs [RWordB, rlit_ci ''WHERE'', rspaces1, RGrp (RSeq rany (RStar False rany)),
     RLook (ralts [
       RSeq rspaces1 (ralts [rseqs [rlit_ci ''ORDER'', rspaces1, rlit_ci ''BY''], rlit_ci ''LIMIT'',
         rseqs [rlit_ci ''GROUP'', rspaces1, rlit_ci ''BY''], rlit_ci ''HAVING'', rlit_ci ''RETURNING'']),
       RCls (\<lambda>c. c = CHR '';''), REnd])]"

definition extract_where :: "string \<Rightarrow> string" where
  "extract_where sql =
     (case re_search WHERE_PATTERN sql of None \<Rightarrow> '''' | Some (_, m) \<Rightarrow> str_strip (group1 m))"

text \<open>\<open>\bKEYWORD\s+(\w+)\<close>, with \<open>(?:IF\s+EXISTS\s+)?\<close> for \<open>TABLE\<close>.\<close>

definition table_after :: "string \<Rightarrow> regex" where
  "table_after kw = rseqs [RWordB, rlit_ci kw, rspaces1, RGrp rword1]"

definition table_after_table :: regex where
  "table_after_table = rseqs [RWordB, rlit_ci ''TABLE'', rspaces1,
     ropt (rseqs [rlit_ci ''IF'', rspaces1, rlit_ci ''EXISTS'', rspaces1]), RGrp rword1]"

definition search_group :: "regex \<Rightarrow> string \<Rightarrow> string option" where
  "search_group r sql = map_option (\<lambda>(_, m). group1 m) (re_search r sql)"

definition parse_sql_intent :: "string \<Rightarrow> string \<times> string" where
  "parse_sql_intent raw =
     (let sql = str_strip raw in
      case str_split sql of
        [] \<Rightarrow> ('''', '''')
      | w # _ \<Rightarrow>
          (let first = str_upper w;
               hit = (\<lambda>r cond. case search_group r sql of None \<Rightarrow> ('''', '''') | Some t \<Rightarrow> (t, cond)) in
           if first \<in> {''DELETE'', ''SELECT''} then hit (table_after ''FROM'') (extract_where sql)
           else if first = ''UPDATE'' then hit (table_after ''UPDATE'') (extract_where sql)
           else if first = ''INSERT'' then hit (table_after ''INTO'') ''''
           else if first \<in> {''DROP'', ''TRUNCATE'', ''ALTER'', ''CREATE''} then hit table_after_table ''''
           else ('''', '''')))"

definition cascade_entry :: "pydict \<Rightarrow> exn + CascadeEntry" where
  "cascade_entry lvl =
     (case (need_str (dict_get lvl ''table_name'' (PStr ''unknown'')),
            need_int (dict_get lvl ''estimated_rows'' (PInt 0)),
            need_str (dict_get lvl ''cascade_action'' (PStr ''CASCADE'')),
            need_int (dict_get lvl ''depth'' (PInt 1))) of
        (Inr t, Inr n, Inr a, Inr d) \<Rightarrow>
          Inr \<lparr> ce_table = t, ce_estimated_rows = n, ce_actual_rows = None,
                ce_cascade_action = a, ce_depth = d \<rparr>
      | _ \<Rightarrow> Inl (ValueError ''CascadeEntry''))"

definition build_cascade_entries :: "pydict \<Rightarrow> exn + CascadeEntry list" where
  "build_cascade_entries r =
     (case dict_entries r ''levels'' of Inl e \<Rightarrow> Inl e | Inr ls \<Rightarrow> map_exn cascade_entry ls)"

text \<open>The event of a trigger by its name; a later trigger of the same name wins.\<close>

definition event_by_name :: "pydict list \<Rightarrow> pyval \<Rightarrow> pyval" where
  "event_by_name ts name =
     (case filter (\<lambda>t. dict_get t ''trigger_name'' (PStr '''') = name) (rev ts) of
        [] \<Rightarrow> PStr ''UNKNOWN'' | t # _ \<Rightarrow> dict_get t ''event'' (PStr ''UNKNOWN''))"

definition external_trigger :: "pydict list \<Rightarrow> pydict \<Rightarrow> exn + ExternalTrigger" where
  "external_trigger ts t =
     (let name = dict_get t ''trigger_name'' (PStr ''unknown'') in
      case (need_str name, need_str (event_by_name ts name),
            need_str (py_or (dict_get0 t ''non_transactional_extension'') (PStr ''unknown'')),
            need_opt_str (dict_get0 t ''target_endpoint'')) of
        (Inr n, Inr e, Inr x, Inr ep) \<Rightarrow>
          Inr \<lparr> et_trigger_name = n, et_event = e, et_extension = x, et_estimated_calls = None,
                et_target_endpoint = ep, et_sandbox_log_entry = None \<rparr>
      | _ \<Rightarrow> Inl (ValueError ''ExternalTrigger''))"

definition build_external_triggers :: "pydict \<Rightarrow> exn + ExternalTrigger list" where
  "build_external_triggers r =
     (case dict_entries r ''triggers'' of Inl e \<Rightarrow> Inl e
      | Inr ts \<Rightarrow> (case dict_entries r ''non_transactional_triggers'' of Inl e \<Rightarrow> Inl e
                   | Inr nts \<Rightarrow> map_exn (external_trigger ts) nts))"

definition mcp_trigger_info :: "string \<Rightarrow> pyval list \<Rightarrow> pydict \<Rightarrow> exn + TriggerInfo" where
  "mcp_trigger_info table nt_names t =
     (let name = dict_get t ''trigger_name'' (PStr '''') in
      case (need_str name, need_str (dict_get t ''table_name'' (PStr table)),
            need_str (dict_get t ''event'' (PStr ''UNKNOWN'')),
            need_str (dict_get t ''timing'' (PStr ''AFTER'')),
            need_str (dict_get t ''function_name'' (PStr '''')),
            need_opt_str (dict_get0 t ''non_transactional_extension''),
            need_opt_str (dict_get0 t ''target_endpoint'')) of
        (Inr n, Inr tb, Inr e, Inr ti, Inr f, Inr x, Inr ep) \<Rightarrow>
          Inr \<lparr> ti_trigger_name = n, ti_table_name = tb, ti_event = e, ti_timing = ti,
                ti_function_name = f,
                ti_invokes_non_transactional =
                  truthy (dict_get t ''invokes_non_transactional'' (PBool False)) \<or> name \<in> set nt_names,
                ti_non_transactional_extension = x, ti_estimated_external_calls = None,
                ti_target_endpoint = ep \<rparr>
      | _ \<Rightarrow> Inl (ValueError ''TriggerInfo''))"

definition build_trigger_analysis_from_mcp :: "string \<Rightarrow> pydict \<Rightarrow> exn + TriggerAnalysis" where
  "build_trigger_analysis_from_mcp table r =
     (case (dict_entries r ''non_transactional_triggers'', dict_entries r ''triggers'') of
        (Inl e, _) \<Rightarrow> Inl e
      | (_, Inl e) \<Rightarrow> Inl e
      | (Inr nts, Inr ts) \<Rightarrow>
          (case map_exn (mcp_trigger_info table
                   (map (\<lambda>t. dict_get t ''trigger_name'' (PStr '''')) nts)) ts of
             Inl e \<Rightarrow> Inl e
           | Inr infos \<Rightarrow>
               (let nt = filter ti_invokes_non_transactional infos in
                Inr \<lparr> ta_table = table, ta_triggers = infos,
                      ta_has_permanent_side_effects =
                        truthy (dict_get r ''has_permanent_side_effects'' (PBool False)) \<or> length nt > 0,
                      ta_non_transactional_triggers = nt \<rparr>)))"

definition estimate_api_fanout :: "ExternalTrigger list \<Rightarrow> int \<Rightarrow> ExternalTrigger list" where
  "estimate_api_fanout ts n = map (\<lambda>t. t\<lparr> et_estimated_calls := Some n \<rparr>) ts"

definition identify_permanent_components ::
  "ReversibilityClass option \<Rightarrow> OperationType \<Rightarrow> string \<Rightarrow> ExternalTrigger list \<Rightarrow> CascadeEntry list
   \<Rightarrow> string list" where
  "identify_permanent_components rv ot table ts cs =
     (if rv \<noteq> Some PERMANENT then []
      else (if ot = OT_DDL then [''DDL schema change''] else [])
         @ map (\<lambda>t. ''External '' @ et_extension t @ '' trigger: '' @ et_trigger_name t) ts
         @ (if table \<noteq> [] then [''Row deletion from '' @ table] else [])
         @ map (\<lambda>c. ''Cascade deletion from '' @ ce_table c @ '' (~''
                    @ show_commas (ce_estimated_rows c) @ '' rows)'') cs)"

section \<open>The agent\<close>

definition ANALYSIS_FIELDS :: "string list" where
  "ANALYSIS_FIELDS = [''intent_summary'', ''operation_type'', ''primary_table'', ''condition'',
     ''estimated_primary_rows'', ''row_confidence'', ''cascade'', ''external_triggers'',
     ''reversibility'', ''reversibility_reason'', ''permanent_components'']"

record analyzer_ctx =
  az_agent :: agent_ctx
  az_llm :: "HandoffContract \<Rightarrow> exn + llm_block list"
  az_contract_hash :: "HandoffContract \<Rightarrow> string"
  az_summary :: "HandoffContract \<Rightarrow> string"
  az_show_float :: "rat \<Rightarrow> string"
  az_time :: int

definition ANALYSIS_WRITTEN :: string where
  "ANALYSIS_WRITTEN = ''operation_type,primary_table,condition,estimated_primary_rows,''
     @ ''row_confidence,cascade,external_triggers,reversibility,''
     @ ''reversibility_reason,permanent_components,intent_summary''"

text \<open>The four helpers around \<open>call_tool\<close>: an \<open>MCPCallError\<close> becomes a default answer.\<close>

definition count_affected_rows :: "agent_ctx \<Rightarrow> string \<Rightarrow> string \<Rightarrow> pyval eff" where
  "count_affected_rows cx table cond =
     (let dflt = PDict [(''estimated_rows'', PInt 0), (''confidence'', PFloat 0)] in
      if table = [] then ret dflt
      else catch_mcp
             (call_tool cx ''postgres-reader'' ''estimate_row_count''
                [(''table'', PStr table), (''condition'', if cond = [] then PNone else PStr cond)])
             (ret dflt))"

definition analyzer_detect_triggers :: "agent_ctx \<Rightarrow> string \<Rightarrow> pyval eff" where
  "analyzer_detect_triggers cx table =
     catch_mcp (call_tool cx ''postgres-reader'' ''list_triggers'' [(''table'', PStr table)])
       (ret (PDict [(''triggers'', PList []), (''has_permanent_side_effects'', PBool False),
                    (''non_transactional_triggers'', PList [])]))"

definition trace_fk_graph :: "agent_ctx \<Rightarrow> string \<Rightarrow> pyval eff" where
  "trace_fk_graph cx table =
     catch_mcp (call_tool cx ''postgres-reader'' ''get_fk_graph'' [(''table'', PStr table)])
       (ret (PDict [(''levels'', PList []), (''total_estimated_rows'', PInt 0)]))"

definition analyzer_check_soft_delete :: "agent_ctx \<Rightarrow> string \<Rightarrow> pyval eff" where
  "analyzer_check_soft_delete cx table =
     catch_mcp (call_tool cx ''postgres-reader'' ''check_soft_delete'' [(''table'', PStr table)])
       (ret (PDict [(''has_soft_delete'', PBool False)]))"

definition fallback_intent_summary :: "HandoffContract \<Rightarrow> string" where
  "fallback_intent_summary c =
     (let table = (if primary_table c = [] then ''unknown table'' else primary_table c) in
      str_join '' ''
        ([op_value (operation_type c) @ '' ~'' @ show_commas (estimated_primary_rows c)
            @ '' row(s) from '' @ py_repr table]
         @ (if condition c \<noteq> [] then [''WHERE '' @ condition c] else [])
         @ (if cascade c \<noteq> [] then
              [''(cascade: ~'' @ show_commas (sum_list (map ce_estimated_rows (cascade c)))
               @ '' additional rows)''] else [])
         @ (if external_triggers c \<noteq> [] then
              [''(~'' @ show_commas (sum_list (map (\<lambda>t. case et_estimated_calls t of None \<Rightarrow> 0 | Some n \<Rightarrow> n)
                                               (external_triggers c)))
               @ '' external trigger calls)''] else [])))"

text \<open>The first block of the intent tool with a summary; the tool's schema makes it a string.\<close>

fun scan_intent :: "llm_block list \<Rightarrow> exn + string option" where
  "scan_intent [] = Inr None"
| "scan_intent (b # bs) =
     (if bl_type b = ''tool_use'' \<and> bl_name b = ''produce_intent_summary'' then
        (case bl_input b of
           PDict d \<Rightarrow> (case dict_get d ''intent_summary'' (PStr '''') of
                         PStr s \<Rightarrow> if s \<noteq> [] then Inr (Some s) else scan_intent bs
                       | _ \<Rightarrow> scan_intent bs)
         | _ \<Rightarrow> Inl (AttributeError ''get''))
      else scan_intent bs)"

definition get_intent_summary :: "analyzer_ctx \<Rightarrow> HandoffContract \<Rightarrow> string" where
  "get_intent_summary az c =
     (case az_llm az c of
        Inl _ \<Rightarrow> fallback_intent_summary c
      | Inr blocks \<Rightarrow> (case scan_intent blocks of
                        Inr (Some s) \<Rightarrow> s | _ \<Rightarrow> fallback_intent_summary c))"

text \<open>Steps 1 and 2.\<close>

definition parse_step :: "HandoffContract \<Rightarrow> HandoffContract" where
  "parse_step c =
     (let c1 = c\<lparr> operation_type := classify_operation_type (raw_sql c) \<rparr>;
          (t, w) = parse_sql_intent (raw_sql c);
          c2 = (if t \<noteq> [] then c1\<lparr> primary_table := t \<rparr> else c1)
      in if w \<noteq> [] then c2\<lparr> condition := w \<rparr> else c2)"

text \<open>Step 3.\<close>

definition rows_step :: "agent_ctx \<Rightarrow> HandoffContract \<Rightarrow> HandoffContract eff" where
  "rows_step cx c =
     bind_eff (count_affected_rows cx (primary_table c) (condition c)) (\<lambda>v.
     bind_eff (lift_exn (as_dict v)) (\<lambda>r.
     bind_eff (lift_exn (need_int (dict_get r ''estimated_rows'' (PInt 0)))) (\<lambda>n.
     bind_eff (lift_exn (need_num (dict_get r ''confidence'' (PFloat (1/2))))) (\<lambda>x.
     ret (c\<lparr> estimated_primary_rows := n, row_confidence := x \<rparr>)))))"

text \<open>Step 4: the answer is kept for the classification.\<close>

definition triggers_step :: "agent_ctx \<Rightarrow> HandoffContract \<Rightarrow> (HandoffContract \<times> pydict) eff" where
  "triggers_step cx c =
     (if primary_table c = [] then ret (c, [])
      else
        bind_eff (analyzer_detect_triggers cx (primary_table c)) (\<lambda>v.
        bind_eff (lift_exn (as_dict v)) (\<lambda>r.
        bind_eff (lift_exn (build_external_triggers r)) (\<lambda>ts.
        ret (c\<lparr> external_triggers := estimate_api_fanout ts (estimated_primary_rows c) \<rparr>, r)))))"

text \<open>Step 5.\<close>

definition cascade_step :: "agent_ctx \<Rightarrow> HandoffContract \<Rightarrow> HandoffContract eff" where
  "cascade_step cx c =
     (if primary_table c \<noteq> [] \<and> operation_type c \<in> {OT_DELETE, OT_UPDATE} then
        bind_eff (trace_fk_graph cx (primary_table c)) (\<lambda>v.
        bind_eff (lift_exn (as_dict v)) (\<lambda>r.
        bind_eff (lift_exn (build_cascade_entries r)) (\<lambda>cs.
        ret (c\<lparr> cascade := cs \<rparr>))))
      else ret c)"

text \<open>Step 6.\<close>

definition soft_delete_step :: "agent_ctx \<Rightarrow> HandoffContract \<Rightarrow> bool eff" where
  "soft_delete_step cx c =
     (if primary_table c \<noteq> [] \<and> operation_type c \<in> {OT_DELETE, OT_UPDATE} then
        bind_eff (analyzer_check_soft_delete cx (primary_table c)) (\<lambda>v.
        bind_eff (lift_exn (as_dict v)) (\<lambda>r.
        ret (truthy (dict_get r ''has_soft_delete'' (PBool False)))))
      else ret False)"

text \<open>Step 7: a \<open>ValueError\<close> of the classification defaults to PERMANENT.\<close>

definition reversibility_step ::
  "(rat \<Rightarrow> string) \<Rightarrow> TriggerAnalysis \<Rightarrow> bool \<Rightarrow> HandoffContract \<Rightarrow> HandoffContract" where
  "reversibility_step sf ta soft c =
     (let c1 =
        (case classify_reversibility sf (op_value (operation_type c)) (primary_table c) soft ta
                False None (estimated_primary_rows c) of
           Inr r \<Rightarrow> c\<lparr> reversibility := Some (rr_classification r), reversibility_reason := rr_reason r,
                       automated_recovery_sql := None,
                       permanent_components := rr_permanent_components r \<rparr>
         | Inl e \<Rightarrow> c\<lparr> reversibility := Some PERMANENT,
                       reversibility_reason := ''Classification error '' @ em_dash
                         @ '' defaulting to PERMANENT: '' @ exn_text e,
                       permanent_components := [] \<rparr>)
      in c1\<lparr> permanent_components := identify_permanent_components (reversibility c1)
              (operation_type c1) (primary_table c1) (external_triggers c1) (cascade c1) \<rparr>)"

definition analysis_skipped :: "HandoffContract \<Rightarrow> bool" where
  "analysis_skipped c =
     (needs_selective_reanalysis c \<and> list_all (\<lambda>f. f \<notin> set (stale_fields c)) ANALYSIS_FIELDS)"

text \<open>Steps 1 to 7, without the language model.\<close>

definition analyze_facts :: "analyzer_ctx \<Rightarrow> HandoffContract \<Rightarrow> HandoffContract eff" where
  "analyze_facts az c =
     bind_eff (rows_step (az_agent az) (parse_step c)) (\<lambda>c2.
     bind_eff (triggers_step (az_agent az) c2) (\<lambda>(c3, tr).
     bind_eff (cascade_step (az_agent az) c3) (\<lambda>c4.
     bind_eff (soft_delete_step (az_agent az) c4) (\<lambda>soft.
     bind_eff (lift_exn (build_trigger_analysis_from_mcp (primary_table c4) tr)) (\<lambda>ta.
     ret (reversibility_step (az_show_float az) ta soft c4))))))"

definition analyze :: "analyzer_ctx \<Rightarrow> HandoffContract \<Rightarrow> HandoffContract eff" where
  "analyze az c =
     (if analysis_skipped c then ret c
      else bind_eff (analyze_facts az c) (\<lambda>c5 l.
        (let c6 = add_provenance ''ANALYZER_AGENT''
                    ANALYSIS_WRITTEN (az_time az) True (c5\<lparr> intent_summary := get_intent_summary az c5 \<rparr>)
         in (Inr c6, log_agent_output (az_agent az) (az_summary az c6) (az_contract_hash az c6) l))))"

section \<open>Lemmas\<close>

lemma parse_step_sel [simp]:
  "contract_identity (parse_step c) = contract_identity c"
  "workflow_provenance (parse_step c) = workflow_provenance c"
  "operation_type (parse_step c) = classify_operation_type (raw_sql c)"
  "approval_state (parse_step c) = approval_state c"
  "decision_of (parse_step c) = decision_of c"
  "auto_reject_triggered (parse_step c) = auto_reject_triggered c"
  by (simp_all add: parse_step_def contract_identity_def decision_of_def Let_def split: prod.splits)

text \<open>What the steps between the parser and the classification leave alone.\<close>

definition same_operation :: "HandoffContract \<Rightarrow> HandoffContract \<Rightarrow> bool" where
  "same_operation c c' \<longleftrightarrow> contract_identity c' = contract_identity c
     \<and> workflow_provenance c' = workflow_provenance c \<and> operation_type c' = operation_type c
     \<and> primary_table c' = primary_table c \<and> approval_state c' = approval_state c
     \<and> decision_of c' = decision_of c \<and> auto_reject_triggered c' = auto_reject_triggered c"

lemma rows_step_same: "rows_step cx c l = (Inr c', l') \<Longrightarrow> same_operation c c'"
  by (auto simp: rows_step_def bind_eff_Inr_iff eff_simps same_operation_def contract_identity_def decision_of_def)

lemma triggers_step_same: "triggers_step cx c l = (Inr (c', r), l') \<Longrightarrow> same_operation c c'"
  by (auto simp: triggers_step_def bind_eff_Inr_iff eff_simps same_operation_def
      contract_identity_def decision_of_def split: if_splits)

lemma cascade_step_same: "cascade_step cx c l = (Inr c', l') \<Longrightarrow> same_operation c c'"
  by (auto simp: cascade_step_def bind_eff_Inr_iff eff_simps same_operation_def
      contract_identity_def decision_of_def split: if_splits)

lemma reversibility_step_sel [simp]:
  "contract_identity (reversibility_step sf ta soft c) = contract_identity c"
  "workflow_provenance (reversibility_step sf ta soft c) = workflow_provenance c"
  "operation_type (reversibility_step sf ta soft c) = operation_type c"
  "approval_state (reversibility_step sf ta soft c) = approval_state c"
  "decision_of (reversibility_step sf ta soft c) = decision_of c"
  "auto_reject_triggered (reversibility_step sf ta soft c) = auto_reject_triggered c"
  "estimated_primary_rows (reversibility_step sf ta soft c) = estimated_primary_rows c"
  "row_confidence (reversibility_step sf ta soft c) = row_confidence c"
  by (simp_all add: reversibility_step_def contract_identity_def decision_of_def Let_def split: sum.splits)

text \<open>The classification of an operation type of the pipeline, where recovery to a point in
  time is never confirmed.\<close>

lemma str_upper_ops:
  "str_upper ''DDL'' = ''DDL''"
  "str_upper ''DELETE'' = ''DELETE''"
  "str_upper ''UPDATE'' = ''UPDATE''"
  "str_upper ''INSERT'' = ''INSERT''"
  "str_upper ''SELECT'' = ''SELECT''"
  "str_upper ''UNKNOWN'' = ''UNKNOWN''"
  by code_simp+

lemma reversibility_step_class:
  "reversibility (reversibility_step sf ta soft c) =
     Some (if operation_type c \<in> {OT_DDL, OT_UNKNOWN}
              \<or> operation_type c \<in> {OT_DELETE, OT_UPDATE} \<and> \<not> soft then PERMANENT
           else if ta_has_permanent_side_effects ta then PARTIAL
           else REVERSIBLE_AUTOMATED)"
  by (cases "operation_type c")
    (simp_all add: reversibility_step_def classify_reversibility_def str_upper_ops
      classify_db_change_def rr_result_def KNOWN_DML_OPERATIONS_def Let_def DDL_OPERATIONS_def)

lemma same_operation_trans:
  "same_operation a b \<Longrightarrow> same_operation b c \<Longrightarrow> same_operation a c"
  by (simp add: same_operation_def)

text \<open>The shape of a completed analysis.\<close>

lemma analyze_facts_Inr:
  assumes "analyze_facts az c l = (Inr c5, l')"
  obtains c4 ta soft l1 l2 where "same_operation (parse_step c) c4"
    "soft_delete_step (az_agent az) c4 l1 = (Inr soft, l2)"
    "c5 = reversibility_step (az_show_float az) ta soft c4"
proof -
  from assms obtain c2 c3 tr c4 soft ta l1 l2 l3 l4 l5 where
    "rows_step (az_agent az) (parse_step c) l = (Inr c2, l1)"
    "triggers_step (az_agent az) c2 l1 = (Inr (c3, tr), l2)"
    "cascade_step (az_agent az) c3 l2 = (Inr c4, l3)"
    and soft: "soft_delete_step (az_agent az) c4 l3 = (Inr soft, l4)"
    and c5: "c5 = reversibility_step (az_show_float az) ta soft c4"
    by (auto simp: analyze_facts_def bind_eff_Inr_iff eff_simps)
  then have "same_operation (parse_step c) c4"
    by (blast intro: same_operation_trans rows_step_same triggers_step_same cascade_step_same)
  from that [OF this soft c5] show ?thesis .
qed

lemma analyze_Inr:
  assumes "analyze az c l = (Inr c', l')" and "\<not> analysis_skipped c"
  obtains c5 l1 where "analyze_facts az c l = (Inr c5, l1)"
    and "c' = add_provenance ''ANALYZER_AGENT''
                    ANALYSIS_WRITTEN (az_time az) True (c5\<lparr> intent_summary := get_intent_summary az c5 \<rparr>)"
  using assms by (auto simp: analyze_def bind_eff_Inr_iff Let_def)

lemma analyze_keeps:
  assumes a: "analyze az c l = (Inr c', l')"
  shows "contract_identity c' = contract_identity c \<and> provenance_grows c c'
    \<and> decision_of c' = decision_of c \<and> auto_reject_triggered c' = auto_reject_triggered c"
proof (cases "analysis_skipped c")
  case True
  with a show ?thesis by (simp add: analyze_def eff_simps)
next
  case False
  from analyze_Inr [OF a False] obtain c5 l1 where f: "analyze_facts az c l = (Inr c5, l1)"
    and c': "c' = add_provenance ''ANALYZER_AGENT''
                  ANALYSIS_WRITTEN (az_time az) True (c5\<lparr> intent_summary := get_intent_summary az c5 \<rparr>)" .
  from f have "contract_identity c5 = contract_identity c \<and> workflow_provenance c5 = workflow_provenance c
      \<and> decision_of c5 = decision_of c \<and> auto_reject_triggered c5 = auto_reject_triggered c"
    by (auto elim!: analyze_facts_Inr simp: same_operation_def)
  then show ?thesis
    unfolding c' by (simp add: contract_identity_def decision_of_def add_provenance_def provenance_grows_def)
qed

interpretation analyzer_node: agent_step "analyze az" for az
  by unfold_locales (use analyze_keeps in blast)+

text \<open>A confirmed soft delete was reported by the service.\<close>

lemma soft_delete_reported:
  assumes "soft_delete_step cx c l = (Inr True, l')"
  shows "\<exists>d. cx_env cx l \<lparr> mc_url = POSTGRES_READER_URL, mc_tool = ''check_soft_delete'',
               mc_args = [(''table'', PStr (primary_table c))] \<rparr> = Inr (PDict d)
           \<and> truthy (dict_get d ''has_soft_delete'' (PBool False))"
  using assms
  by (auto simp: soft_delete_step_def analyzer_check_soft_delete_def call_tool_def mcp_def
      catch_mcp_def try_eff_def bind_eff_def eff_simps as_dict_def dict_get_def
      split: if_splits prod.splits sum.splits pyval.splits)

text \<open>With the service down every helper falls back to its default.\<close>

definition service_down :: "agent_ctx \<Rightarrow> bool" where
  "service_down cx \<longleftrightarrow> (\<forall>l x. \<exists>m. cx_env cx l x = Inl (MCPCallError m))"

lemma call_tool_down:
  assumes "service_down cx"
  shows "\<exists>l'. catch_mcp (call_tool cx ''postgres-reader'' tool args) (ret v) l = (Inr v, l')"
proof -
  from assms obtain m where "cx_env cx l \<lparr> mc_url = POSTGRES_READER_URL, mc_tool = tool,
      mc_args = args \<rparr> = Inl (MCPCallError m)"
    unfolding service_down_def by blast
  then show ?thesis
    by (simp add: call_tool_def mcp_def catch_mcp_def try_eff_def bind_eff_def eff_simps)
qed

lemma rows_step_down:
  assumes "service_down cx"
  shows "\<exists>l'. rows_step cx c l = (Inr (c\<lparr> estimated_primary_rows := 0, row_confidence := 0 \<rparr>), l')"
proof -
  have "\<exists>l'. count_affected_rows cx (primary_table c) (condition c) l
      = (Inr (PDict [(''estimated_rows'', PInt 0), (''confidence'', PFloat 0)]), l')"
    using call_tool_down [OF assms] by (auto simp: count_affected_rows_def Let_def eff_simps)
  then show ?thesis
    by (auto simp: rows_step_def bind_eff_def eff_simps as_dict_def need_int_def need_num_def
        dict_get_def)
qed

lemma triggers_step_down:
  assumes "service_down cx"
  shows "\<exists>l' c' r. triggers_step cx c l = (Inr (c', r), l')
     \<and> c' = (if primary_table c = [] then c else c\<lparr> external_triggers := [] \<rparr>)
     \<and> (\<exists>ta. build_trigger_analysis_from_mcp t r = Inr ta \<and> \<not> ta_has_permanent_side_effects ta)"
proof (cases "primary_table c = []")
  case True
  then show ?thesis
    by (simp add: triggers_step_def eff_simps build_trigger_analysis_from_mcp_def dict_entries_def
        list_entry_def as_list_def dict_get_def)
next
  case False
  from call_tool_down [OF assms] obtain l' where
    "analyzer_detect_triggers cx (primary_table c) l = (Inr (PDict [(''triggers'', PList []),
       (''has_permanent_side_effects'', PBool False), (''non_transactional_triggers'', PList [])]), l')"
    unfolding analyzer_detect_triggers_def by blast
  with False show ?thesis
    by (simp add: triggers_step_def bind_eff_def eff_simps as_dict_def build_external_triggers_def
        build_trigger_analysis_from_mcp_def dict_entries_def list_entry_def as_list_def
        dict_get_def estimate_api_fanout_def)
qed

lemma cascade_step_down:
  assumes "service_down cx"
  shows "\<exists>l' cs. cascade_step cx c l = (Inr (c\<lparr> cascade := cs \<rparr>), l')"
proof (cases "primary_table c \<noteq> [] \<and> operation_type c \<in> {OT_DELETE, OT_UPDATE}")
  case True
  from call_tool_down [OF assms] obtain l' where
    "trace_fk_graph cx (primary_table c) l
       = (Inr (PDict [(''levels'', PList []), (''total_estimated_rows'', PInt 0)]), l')"
    unfolding trace_fk_graph_def by blast
  with True have "cascade_step cx c l = (Inr (c\<lparr> cascade := [] \<rparr>), l')"
    by (simp add: cascade_step_def bind_eff_def eff_simps as_dict_def build_cascade_entries_def
        dict_entries_def list_entry_def as_list_def dict_get_def)
  then show ?thesis by blast
next
  case False
  then have "cascade_step cx c l = (Inr (c\<lparr> cascade := cascade c \<rparr>), l)"
    by (auto simp: cascade_step_def eff_simps)
  then show ?thesis by blast
qed

lemma soft_delete_step_down:
  assumes "service_down cx"
  shows "\<exists>l'. soft_delete_step cx c l = (Inr False, l')"
proof (cases "primary_table c \<noteq> [] \<and> operation_type c \<in> {OT_DELETE, OT_UPDATE}")
  case True
  from call_tool_down [OF assms] obtain l' where
    "analyzer_check_soft_delete cx (primary_table c) l
       = (Inr (PDict [(''has_soft_delete'', PBool False)]), l')"
    unfolding analyzer_check_soft_delete_def by blast
  with True show ?thesis
    by (simp add: soft_delete_step_def bind_eff_def eff_simps as_dict_def dict_get_def)
qed (auto simp: soft_delete_step_def eff_simps)

lemma analyze_facts_down:
  assumes "service_down (az_agent az)"
  shows "\<exists>l' c5. analyze_facts az c l = (Inr c5, l')
     \<and> estimated_primary_rows c5 = 0 \<and> row_confidence c5 = 0
     \<and> operation_type c5 = classify_operation_type (raw_sql c)
     \<and> reversibility c5 = Some (if operation_type c5 \<in> {OT_DDL, OT_UNKNOWN, OT_DELETE, OT_UPDATE}
                                then PERMANENT else REVERSIBLE_AUTOMATED)"
proof -
  let ?c2 = "(parse_step c)\<lparr> estimated_primary_rows := 0, row_confidence := 0 \<rparr>"
  obtain l1 where r: "rows_step (az_agent az) (parse_step c) l = (Inr ?c2, l1)"
    using rows_step_down [OF assms] by blast
  obtain l2 tr c3 where t: "triggers_step (az_agent az) ?c2 l1 = (Inr (c3, tr), l2)"
    and c3: "c3 = (if primary_table ?c2 = [] then ?c2 else ?c2\<lparr> external_triggers := [] \<rparr>)"
    using triggers_step_down [OF assms, of ?c2 l1] by blast
  obtain l3 cs where k: "cascade_step (az_agent az) c3 l2 = (Inr (c3\<lparr> cascade := cs \<rparr>), l3)"
    using cascade_step_down [OF assms] by blast
  obtain l4 where s: "soft_delete_step (az_agent az) (c3\<lparr> cascade := cs \<rparr>) l3 = (Inr False, l4)"
    using soft_delete_step_down [OF assms] by blast
  obtain ta where ta: "build_trigger_analysis_from_mcp (primary_table (c3\<lparr> cascade := cs \<rparr>)) tr = Inr ta"
    and quiet: "\<not> ta_has_permanent_side_effects ta"
    using triggers_step_down [OF assms, of ?c2 l1 "primary_table (c3\<lparr> cascade := cs \<rparr>)"] t
    by (metis sum.inject(2) prod.inject)
  have "analyze_facts az c l
      = (Inr (reversibility_step (az_show_float az) ta False (c3\<lparr> cascade := cs \<rparr>)), l4)"
    using r t k s ta by (simp add: analyze_facts_def bind_eff_def eff_simps)
  then show ?thesis
    by (simp add: reversibility_step_class quiet c3)
qed

section \<open>Properties\<close>

text \<open>
  The Analyzer's facts do not depend on the language model: for any two models the analysis
  ends the same way, with contracts that agree on everything but the intent summary (operation
  type, tables, row counts, cascade, triggers and reversibility included).
\<close>

theorem analyzer_llm_noninterference:
  "map_sum id (\<lambda>c'. c'\<lparr> intent_summary := '''' \<rparr>) (fst (analyze az c l))
   = map_sum id (\<lambda>c'. c'\<lparr> intent_summary := '''' \<rparr>) (fst (analyze (az\<lparr> az_llm := other \<rparr>) c l))"
proof -
  have "analyze_facts (az\<lparr> az_llm := other \<rparr>) c l = analyze_facts az c l"
    by (simp add: analyze_facts_def)
  then show ?thesis
    by (cases "analyze_facts az c l")
      (auto simp: analyze_def bind_eff_def eff_simps add_provenance_def Let_def split: sum.splits)
qed


definition down_ctx :: "analyzer_ctx" where
  "down_ctx = \<lparr> az_agent = \<lparr> cx_env = (\<lambda>_ _. Inl (MCPCallError ''down'')), cx_hash = (\<lambda>_. ''h''),
       cx_now = ''t'', cx_agent = ''ANALYZER_AGENT'', cx_operation_id = ''cg_1'' \<rparr>,
     az_llm = (\<lambda>_. Inl (RuntimeError ''no key'')), az_contract_hash = (\<lambda>_. ''h''),
     az_summary = (\<lambda>_. ''s''), az_show_float = (\<lambda>_. ''''), az_time = 0 \<rparr>"


text \<open>
  With the postgres-reader service unavailable the analysis still completes, and it is safe:
  the row estimate has confidence 0, every write, DDL or unrecognised statement is PERMANENT, and
  the risk rules then send the operation to a full contract review whatever it is.
\<close>

theorem analyzer_degrades_safely:
  assumes "service_down (az_agent az)" and "\<not> analysis_skipped c"
  shows "\<exists>c' l'. analyze az c l = (Inr c', l')
     \<and> row_confidence c' = 0 \<and> estimated_primary_rows c' = 0
     \<and> (operation_type c' \<notin> {OT_SELECT, OT_INSERT} \<longrightarrow> reversibility c' = Some PERMANENT)
     \<and> fst (classify_risk c') = TIER_FULL_CONTRACT"
proof -
  from analyze_facts_down [OF assms(1), of c l] obtain c5 l1 where
    f: "analyze_facts az c l = (Inr c5, l1)" and z: "estimated_primary_rows c5 = 0" "row_confidence c5 = 0"
    and rv: "reversibility c5 = Some (if operation_type c5 \<in> {OT_DDL, OT_UNKNOWN, OT_DELETE, OT_UPDATE}
                                then PERMANENT else REVERSIBLE_AUTOMATED)"
    by blast
  obtain c' l' where a: "analyze az c l = (Inr c', l')"
    using f assms(2) by (auto simp: analyze_def bind_eff_Inr Let_def)
  from analyze_Inr [OF a assms(2)] obtain c6 l2 where f': "analyze_facts az c l = (Inr c6, l2)"
    and c': "c' = add_provenance ''ANALYZER_AGENT''
                    ANALYSIS_WRITTEN (az_time az) True (c6\<lparr> intent_summary := get_intent_summary az c6 \<rparr>)" .
  from f f' have "c6 = c5" by simp
  with z have "row_confidence c' = 0" "estimated_primary_rows c' = 0"
    "operation_type c' = operation_type c5" "reversibility c' = reversibility c5"
    unfolding c' by (simp_all add: add_provenance_def)
  moreover from this have "fst (classify_risk c') = TIER_FULL_CONTRACT"
    by (simp add: classify_risk_def Let_def apply_tier_full_iff full_contract_reason_def)
  moreover have "operation_type c5 \<notin> {OT_SELECT, OT_INSERT} \<longrightarrow> reversibility c5 = Some PERMANENT"
    using rv by (cases "operation_type c5") simp_all
  ultimately show ?thesis using a by (intro exI conjI) simp_all
qed

theorem analyzer_degrades_safely_witness:
  "\<exists>c' l'. analyze down_ctx (risky_sample 0) [] = (Inr c', l')
     \<and> fst (classify_risk c') = TIER_FULL_CONTRACT"
proof -
  have "service_down (az_agent down_ctx)" by (simp add: service_down_def down_ctx_def)
  moreover have "\<not> analysis_skipped (risky_sample 0)" by code_simp
  ultimately show ?thesis using analyzer_degrades_safely [of down_ctx "risky_sample 0" "[]"] by blast
qed

end
