(* ===== verification/Tasks.thy ===== *)
theory Tasks
  imports MCP_Transport
begin

text \<open>
  Concurrent tasks. A coroutine that awaits calls of MCP services is a \<open>task\<close>: it is done with
  a value, or it makes a call and continues with the answer. \<open>asyncio.gather\<close> runs two tasks
  interleaved; a schedule says which one moves next. What one task does for itself, for any
  answers it gets, is \<open>play\<close>; every interleaving is a play of each of its tasks.
\<close>

section \<open>Tasks\<close>

datatype 'a task = Done 'a | Call mcp_call "exn + pyval \<Rightarrow> 'a task"

type_synonym 'a etask = "(exn + 'a) task"

primrec tbind :: "'a task \<Rightarrow> ('a \<Rightarrow> 'b task) \<Rightarrow> 'b task" where
  "tbind (Done x) f = f x"
| "tbind (Call c k) f = Call c (\<lambda>a. tbind (k a) f)"

definition tseq :: "'a etask \<Rightarrow> ('a \<Rightarrow> 'b etask) \<Rightarrow> 'b etask" where
  "tseq m f = tbind m (\<lambda>r. case r of Inl e \<Rightarrow> Done (Inl e) | Inr x \<Rightarrow> f x)"

definition ttry :: "'a etask \<Rightarrow> (exn \<Rightarrow> 'a etask) \<Rightarrow> 'a etask" where
  "ttry m h = tbind m (\<lambda>r. case r of Inl e \<Rightarrow> h e | Inr x \<Rightarrow> Done (Inr x))"

text \<open>\<open>try: m finally: f\<close> with an \<open>f\<close> that handles its own exceptions.\<close>

definition tfinally :: "'a etask \<Rightarrow> unit task \<Rightarrow> 'a etask" where
  "tfinally m f = tbind m (\<lambda>r. tbind f (\<lambda>_. Done r))"

definition tlift :: "exn + 'a \<Rightarrow> 'a etask" where
  "tlift r = Done r"

text \<open>\<open>BaseAgent.call_tool\<close> with the audit record it schedules, as a task.\<close>

definition call_task :: "agent_ctx \<Rightarrow> string \<Rightarrow> string \<Rightarrow> pydict \<Rightarrow> pyval etask" where
  "call_task cx server tool args =
     (case dispatch server of
        None \<Rightarrow> Done (Inl (ValueError (''Unknown MCP server: '' @ py_repr server)))
      | Some url \<Rightarrow>
          Call \<lparr> mc_url = url, mc_tool = tool, mc_args = args \<rparr>
            (\<lambda>a. case a of Inl e \<Rightarrow> Done (Inl e)
                 | Inr r \<Rightarrow> Call (log_tool_call cx tool (hash_payload (cx_hash cx) (PDict args))
                                    (hash_payload (cx_hash cx) r))
                             (\<lambda>_. Done (Inr r))))"

section \<open>Running\<close>

primrec run_task :: "mcp_env \<Rightarrow> 'a task \<Rightarrow> mcp_call list \<Rightarrow> 'a \<times> mcp_call list" where
  "run_task env (Done x) l = (x, l)"
| "run_task env (Call c k) l = run_task env (k (env l c)) (l @ [c])"

definition step_task :: "mcp_env \<Rightarrow> 'a task \<Rightarrow> mcp_call list \<Rightarrow> 'a task \<times> mcp_call list" where
  "step_task env p l = (case p of Done x \<Rightarrow> (p, l) | Call c k \<Rightarrow> (k (env l c), l @ [c]))"

fun interleave :: "mcp_env \<Rightarrow> bool list \<Rightarrow> 'a task \<Rightarrow> 'b task \<Rightarrow> mcp_call list \<Rightarrow> ('a \<times> 'b) \<times> mcp_call list" where
  "interleave env [] p q l =
     (case run_task env p l of (x, l1) \<Rightarrow> (case run_task env q l1 of (y, l2) \<Rightarrow> ((x, y), l2)))"
| "interleave env (b # bs) p q l =
     (if b then (case step_task env p l of (p', l') \<Rightarrow> interleave env bs p' q l')
      else (case step_task env q l of (q', l') \<Rightarrow> interleave env bs p q' l'))"

text \<open>A task on its own, with the answers it gets: the calls it makes and its value, if the
  answers suffice.\<close>

primrec play :: "'a task \<Rightarrow> (exn + pyval) list \<Rightarrow> mcp_call list \<times> 'a option" where
  "play (Done x) = (\<lambda>as. ([], if as = [] then Some x else None))"
| "play (Call c k) = (\<lambda>as. case as of [] \<Rightarrow> ([c], None)
     | a # as' \<Rightarrow> (case play (k a) as' of (cs, r) \<Rightarrow> (c # cs, r)))"

abbreviation finishes :: "'a task \<Rightarrow> (exn + pyval) list \<Rightarrow> mcp_call list \<Rightarrow> 'a \<Rightarrow> bool" where
  "finishes p as cs x \<equiv> play p as = (cs, Some x)"

section \<open>Lemmas\<close>

lemma finishes_Done [simp]: "finishes (Done x) as cs y \<longleftrightarrow> as = [] \<and> cs = [] \<and> y = x"
  by auto

lemma finishes_Call:
  "finishes (Call c k) as cs x \<longleftrightarrow> (\<exists>a as' cs'. as = a # as' \<and> cs = c # cs' \<and> finishes (k a) as' cs' x)"
  by (cases as) (auto split: prod.splits)

lemma finishes_tbind:
  "finishes (tbind m f) as cs y \<longleftrightarrow>
     (\<exists>as1 as2 cs1 cs2 x. as = as1 @ as2 \<and> cs = cs1 @ cs2 \<and> finishes m as1 cs1 x \<and> finishes (f x) as2 cs2 y)"
proof (induction m arbitrary: as cs)
  case (Done x)
  then show ?case by auto
next
  case (Call c k)
  show ?case (is "?l \<longleftrightarrow> ?r")
  proof
    assume ?l
    then obtain a as' cs' where 1: "as = a # as'" "cs = c # cs'" "finishes (tbind (k a) f) as' cs' y"
      unfolding tbind.simps finishes_Call by blast
    then obtain as1 as2 cs1 cs2 x where "as' = as1 @ as2" "cs' = cs1 @ cs2" "finishes (k a) as1 cs1 x"
      "finishes (f x) as2 cs2 y" unfolding Call [OF rangeI] by blast
    with 1 show ?r unfolding finishes_Call by (metis append_Cons)
  next
    assume ?r
    then obtain a as1 as2 cs1 cs2 x where "as = a # as1 @ as2" "cs = c # cs1 @ cs2" "finishes (k a) as1 cs1 x"
      "finishes (f x) as2 cs2 y" unfolding finishes_Call by fastforce
    then show ?l unfolding tbind.simps finishes_Call Call [OF rangeI] by blast
  qed
qed

lemma run_task_finishes:
  "\<exists>as cs. finishes p as cs (fst (run_task env p l)) \<and> snd (run_task env p l) = l @ cs"
proof (induction p arbitrary: l)
  case (Done x)
  then show ?case by auto
next
  case (Call c k)
  from Call [OF rangeI, of "env l c" "l @ [c]"] show ?case unfolding run_task.simps finishes_Call by fastforce
qed

lemma append_in_shuffles:
  "cs \<in> shuffles xs ys \<Longrightarrow> zs @ cs \<in> shuffles (zs @ xs) ys \<and> zs @ cs \<in> shuffles xs (zs @ ys)"
  by (induction zs) (auto intro: Cons_in_shuffles_leftI Cons_in_shuffles_rightI)

lemma step_task_finishes:
  obtains p' cs0 where "step_task env p l = (p', l @ cs0)"
    and "\<And>as cs x. finishes p' as cs x \<Longrightarrow> \<exists>as'. finishes p as' (cs0 @ cs) x"
proof (cases p)
  case (Done x)
  then show ?thesis by (intro that [of p "[]"]) (auto simp: step_task_def split: if_splits)
next
  case (Call c k)
  then show ?thesis
    by (intro that [of "k (env l c)" "[c]"]) (auto simp: step_task_def finishes_Call simp del: play.simps)
qed

text \<open>Whatever the schedule, each of the two tasks runs to its end, its calls are those of a play
  of its own, and the log is extended by a shuffle of the two.\<close>

lemma interleave_finishes:
  "\<exists>as1 as2 cs1 cs2 cs x y. interleave env sched p q l = ((x, y), l @ cs) \<and> cs \<in> shuffles cs1 cs2
     \<and> finishes p as1 cs1 x \<and> finishes q as2 cs2 y"
proof (induction sched arbitrary: p q l)
  case Nil
  obtain as1 cs1 where p: "finishes p as1 cs1 (fst (run_task env p l))" "snd (run_task env p l) = l @ cs1"
    using run_task_finishes by blast
  obtain as2 cs2 where q: "finishes q as2 cs2 (fst (run_task env q (l @ cs1)))" "snd (run_task env q (l @ cs1)) = l @ cs1 @ cs2"
    using run_task_finishes [of q env "l @ cs1"] by auto
  have "interleave env [] p q l = ((fst (run_task env p l), fst (run_task env q (l @ cs1))), l @ cs1 @ cs2)"
    using p(2) q(2) by (auto split: prod.splits)
  moreover have "cs1 @ cs2 \<in> shuffles cs1 cs2"
    using append_in_shuffles [of cs2 "[]" cs2 cs1] by simp
  ultimately show ?case using p(1) q(1) by blast
next
  case (Cons b sched)
  obtain t cs0 where s: "step_task env p l = (t, l @ cs0)"
    "\<And>as cs x. finishes t as cs x \<Longrightarrow> \<exists>as'. finishes p as' (cs0 @ cs) x"
    using step_task_finishes [of env p l] by auto
  obtain u ds0 where u: "step_task env q l = (u, l @ ds0)"
    "\<And>as cs x. finishes u as cs x \<Longrightarrow> \<exists>as'. finishes q as' (ds0 @ cs) x"
    using step_task_finishes [of env q l] by auto
  from Cons.IH [of t q "l @ cs0"] s(2) append_in_shuffles
  have left: "\<exists>as1 as2 cs1 cs2 cs x y. interleave env sched t q (l @ cs0) = ((x, y), l @ cs) \<and> cs \<in> shuffles cs1 cs2
     \<and> finishes p as1 cs1 x \<and> finishes q as2 cs2 y"
    by (metis append.assoc)
  from Cons.IH [of p u "l @ ds0"] u(2) append_in_shuffles
  have "\<exists>as1 as2 cs1 cs2 cs x y. interleave env sched p u (l @ ds0) = ((x, y), l @ cs) \<and> cs \<in> shuffles cs1 cs2
     \<and> finishes p as1 cs1 x \<and> finishes q as2 cs2 y"
    by (metis append.assoc)
  with left s(1) u(1) show ?case by simp
qed

text \<open>A call made as a task is the call made by a sequential agent.\<close>

lemma run_call_task: "run_task (cx_env cx) (call_task cx server tool args) l = call_tool cx server tool args l"
  by (auto simp: call_task_def call_tool_def bind_eff_def mcp_def eff_simps split: option.splits sum.splits)

declare play.simps [simp del]


text \<open>Properties of every call a task can make.\<close>

primrec all_calls :: "(mcp_call \<Rightarrow> bool) \<Rightarrow> 'a task \<Rightarrow> bool" where
  "all_calls P (Done x) = True"
| "all_calls P (Call c k) = (P c \<and> (\<forall>a. all_calls P (k a)))"

lemma all_calls_tbind: "all_calls P m \<Longrightarrow> (\<And>x. all_calls P (f x)) \<Longrightarrow> all_calls P (tbind m f)"
  by (induction m) auto

lemma all_calls_tseq [intro]: "all_calls P m \<Longrightarrow> (\<And>x. all_calls P (f x)) \<Longrightarrow> all_calls P (tseq m f)"
  unfolding tseq_def by (rule all_calls_tbind) (auto split: sum.splits)

lemma all_calls_ttry [intro]: "all_calls P m \<Longrightarrow> (\<And>e. all_calls P (h e)) \<Longrightarrow> all_calls P (ttry m h)"
  unfolding ttry_def by (rule all_calls_tbind) (auto split: sum.splits)

lemma all_calls_tfinally [intro]: "all_calls P m \<Longrightarrow> all_calls P f \<Longrightarrow> all_calls P (tfinally m f)"
  unfolding tfinally_def by (intro all_calls_tbind) auto

lemma all_calls_tlift [simp]: "all_calls P (tlift r)"
  by (simp add: tlift_def)

lemma all_calls_call_task:
  "(\<And>url. dispatch server = Some url \<Longrightarrow> P \<lparr> mc_url = url, mc_tool = tool, mc_args = args \<rparr>) \<Longrightarrow>
   (\<And>ih oh. P (log_tool_call cx tool ih oh)) \<Longrightarrow> all_calls P (call_task cx server tool args)"
  by (auto simp: call_task_def split: option.splits sum.splits)

lemma all_calls_finishes: "all_calls P p \<Longrightarrow> finishes p as cs x \<Longrightarrow> list_all P cs"
proof (induction p arbitrary: as cs)
  case (Call c k)
  then show ?case by (fastforce simp: finishes_Call)
qed simp

lemma finishes_length: "finishes p as cs x \<Longrightarrow> length as = length cs"
proof (induction p arbitrary: as cs)
  case (Call c k)
  then show ?case by (fastforce simp: finishes_Call)
qed simp

lemma run_task_tbind:
  "run_task env (tbind m f) l = (case run_task env m l of (x, l1) \<Rightarrow> run_task env (f x) l1)"
  by (induction m arbitrary: l) auto

lemma run_task_tseq:
  "run_task env (tseq m f) l = (case run_task env m l of (Inl e, l1) \<Rightarrow> (Inl e, l1) | (Inr x, l1) \<Rightarrow> run_task env (f x) l1)"
  by (simp add: tseq_def run_task_tbind split: prod.splits sum.splits)

lemma finishes_tseq:
  "finishes (tseq m f) as cs y \<longleftrightarrow>
     (\<exists>as1 as2 cs1 cs2 x. as = as1 @ as2 \<and> cs = cs1 @ cs2 \<and> finishes m as1 cs1 x \<and>
        (case x of Inl e \<Rightarrow> as2 = [] \<and> cs2 = [] \<and> y = Inl e | Inr z \<Rightarrow> finishes (f z) as2 cs2 y))"
  unfolding tseq_def finishes_tbind by (auto split: sum.splits)

lemma finishes_ttry:
  "finishes (ttry m h) as cs y \<longleftrightarrow>
     (\<exists>as1 as2 cs1 cs2 x. as = as1 @ as2 \<and> cs = cs1 @ cs2 \<and> finishes m as1 cs1 x \<and>
        (case x of Inl e \<Rightarrow> finishes (h e) as2 cs2 y | Inr z \<Rightarrow> as2 = [] \<and> cs2 = [] \<and> y = Inr z))"
  unfolding ttry_def finishes_tbind by (auto split: sum.splits)


lemma finishes_tseqE [consumes 1, case_names raised went]:
  assumes "finishes (tseq m f) as cs y"
  obtains e where "finishes m as cs (Inl e)" "y = Inl e"
  | as1 as2 cs1 cs2 z where "as = as1 @ as2" "cs = cs1 @ cs2" "finishes m as1 cs1 (Inr z)" "finishes (f z) as2 cs2 y"
proof -
  from assms obtain as1 as2 cs1 cs2 x where "as = as1 @ as2" "cs = cs1 @ cs2" "finishes m as1 cs1 x"
    "case x of Inl e \<Rightarrow> as2 = [] \<and> cs2 = [] \<and> y = Inl e | Inr z \<Rightarrow> finishes (f z) as2 cs2 y"
    unfolding finishes_tseq by blast
  with that show ?thesis by (cases x) auto
qed

lemma finishes_ttryE [consumes 1, case_names caught went]:
  assumes "finishes (ttry m h) as cs y"
  obtains as1 as2 cs1 cs2 e where "as = as1 @ as2" "cs = cs1 @ cs2" "finishes m as1 cs1 (Inl e)" "finishes (h e) as2 cs2 y"
  | z where "finishes m as cs (Inr z)" "y = Inr z"
proof -
  from assms obtain as1 as2 cs1 cs2 x where "as = as1 @ as2" "cs = cs1 @ cs2" "finishes m as1 cs1 x"
    "case x of Inl e \<Rightarrow> finishes (h e) as2 cs2 y | Inr z \<Rightarrow> as2 = [] \<and> cs2 = [] \<and> y = Inr z"
    unfolding finishes_ttry by blast
  with that show ?thesis by (cases x) auto
qed

lemma finishes_call_taskE [consumes 2, case_names failed answered]:
  assumes "finishes (call_task cx server tool args) as cs r" and "dispatch server = Some url"
  obtains e where "as = [Inl e]" "cs = [\<lparr> mc_url = url, mc_tool = tool, mc_args = args \<rparr>]" "r = Inl e"
  | v b ih oh where "as = [Inr v, b]" "cs = [\<lparr> mc_url = url, mc_tool = tool, mc_args = args \<rparr>, log_tool_call cx tool ih oh]" "r = Inr v"
proof -
  let ?k = "\<lambda>a. case a of Inl e \<Rightarrow> Done (Inl e)
    | Inr r \<Rightarrow> Call (log_tool_call cx tool (hash_payload (cx_hash cx) (PDict args)) (hash_payload (cx_hash cx) r)) (\<lambda>_. Done (Inr r))"
  have "call_task cx server tool args = Call \<lparr> mc_url = url, mc_tool = tool, mc_args = args \<rparr> ?k"
    using assms(2) by (simp add: call_task_def del: dispatch.simps)
  with assms(1) obtain a as' cs' where "as = a # as'" "cs = \<lparr> mc_url = url, mc_tool = tool, mc_args = args \<rparr> # cs'"
    "finishes (?k a) as' cs' r" by (auto simp: finishes_Call)
  with that show ?thesis by (cases a) (auto simp: finishes_Call)
qed

lemma run_task_ttry:
  "run_task env (ttry m h) l = (case run_task env m l of (Inl e, l1) \<Rightarrow> run_task env (h e) l1 | (Inr x, l1) \<Rightarrow> (Inr x, l1))"
  by (simp add: ttry_def run_task_tbind split: prod.splits sum.splits)

lemma run_task_tlift: "run_task env (tlift r) l = (r, l)"
  by (simp add: tlift_def)

end
