(* ===== verification/Memory_Store.thy ===== *)
theory Memory_Store
  imports MCP_Transport
begin

text \<open>
  \<open>mcp_servers/memory_store/server.py\<close> and \<open>embeddings.py\<close>: the memory of past operations and the
  three stages of historical retrieval. The tables of the database are lists of rows. The
  embedding providers and pgvector's cosine distance are parameters. The tools of the second and
  third stage work on JSON dictionaries that the client sends.
\<close>

section \<open>Embeddings\<close>

type_synonym embedding = "rat list"

text \<open>\<open>get_embedding\<close> with its cache, keyed by the digest \<open>H\<close> of the text. \<open>mock\<close> and \<open>voyage\<close>
  are the two providers.\<close>

definition get_embedding ::
  "(string \<Rightarrow> string) \<Rightarrow> (string \<Rightarrow> exn + embedding) \<Rightarrow> (string \<Rightarrow> exn + embedding) \<Rightarrow> string \<Rightarrow> string
     \<Rightarrow> (string \<times> embedding) list \<Rightarrow> (exn + embedding) \<times> (string \<times> embedding) list" where
  "get_embedding H mock voyage provider t cache =
     (case map_of cache (H t) of
        Some v \<Rightarrow> (Inr v, cache)
      | None \<Rightarrow>
          (let p = str_lower provider;
               r = (if p = ''mock'' then mock t
                    else if p = ''voyage'' then voyage t
                    else Inl (EmbeddingUnavailableError (''Unknown EMBEDDING_PROVIDER: '' @ py_repr p @
                           ''. Use '' @ py_repr ''voyage'' @ '' or '' @ py_repr ''mock'' @ ''.'')))
           in case r of Inl e \<Rightarrow> (Inl e, cache) | Inr v \<Rightarrow> (Inr v, dict_set (H t) v cache)))"

section \<open>The tables\<close>

datatype accuracy_delta = DFin rat | DInf

record memory_row =
  om_operation_id :: string
  om_tenant_id :: string
  om_intent_summary :: string
  om_embedding :: "embedding option"
  om_affected_tables :: "string list"
  om_operation_type :: string
  om_estimated_rows :: int
  om_actual_rows :: "int option"
  om_outcome :: string
  om_decision_reason :: string
  om_blast_radius_delta :: "accuracy_delta option"
  om_reanalysis_count :: int
  om_submitted_at :: int
  om_decided_at :: int

record confidence_row =
  cf_table :: string
  cf_operation_type :: string
  cf_tenant_id :: string
  cf_confidence :: rat
  cf_sample_count :: int
  cf_last_updated :: int

record reject_row =
  rp_operation_id :: string
  rp_tenant_id :: string
  rp_operation_type :: string
  rp_affected_tables :: "string list"
  rp_rejection_reason :: string
  rp_rejected_at :: int

record memory_db =
  md_operations :: "memory_row list"
  md_confidence :: "confidence_row list"
  md_rejects :: "reject_row list"

section \<open>Writing\<close>

text \<open>\<open>store_operation\<close>: the row holds the arguments; both times are \<open>NOW()\<close>. A conflict on the
  operation id updates five columns of the row that is there.\<close>

definition store_row :: "int \<Rightarrow> memory_row \<Rightarrow> memory_row list \<Rightarrow> memory_row list" where
  "store_row now row rows =
     (if om_operation_id row \<in> om_operation_id ` set rows
      then map (\<lambda>r. if om_operation_id r = om_operation_id row
                    then r\<lparr> om_outcome := om_outcome row, om_decision_reason := om_decision_reason row,
                            om_actual_rows := om_actual_rows row,
                            om_blast_radius_delta := om_blast_radius_delta row, om_decided_at := now \<rparr>
                    else r) rows
      else rows @ [row\<lparr> om_embedding := (if om_embedding row = Some [] then None else om_embedding row),
                        om_submitted_at := now, om_decided_at := now \<rparr>])"

definition store_operation :: "int \<Rightarrow> memory_row \<Rightarrow> memory_db \<Rightarrow> pydict \<times> memory_db" where
  "store_operation now row db =
     ([(''stored'', PBool True), (''operation_id'', PStr (om_operation_id row))],
      db\<lparr> md_operations := store_row now row (md_operations db) \<rparr>)"

text \<open>The parameters of \<open>store_operation\<close>.\<close>

definition store_operation_sig :: tool_sig where
  "store_operation_sig = \<lparr> ts_required = [''operation_id'', ''tenant_id'', ''intent_summary'',
     ''affected_tables'', ''operation_type'', ''estimated_rows'', ''outcome'', ''decision_reason''],
     ts_optional = [''actual_rows'', ''blast_radius_delta'', ''reanalysis_count'', ''embedding''] \<rparr>"

definition is_op :: "string \<Rightarrow> string \<Rightarrow> memory_row \<Rightarrow> bool" where
  "is_op op tenant r \<longleftrightarrow> om_operation_id r = op \<and> om_tenant_id r = tenant"

definition update_decision :: "string \<Rightarrow> string \<Rightarrow> string \<Rightarrow> string \<Rightarrow> int \<Rightarrow> memory_db \<Rightarrow> pydict \<times> memory_db" where
  "update_decision op tenant dec reason ts db =
     ([(''updated'', PBool (list_ex (is_op op tenant) (md_operations db)))],
      db\<lparr> md_operations := map (\<lambda>r. if is_op op tenant r
            then r\<lparr> om_outcome := dec, om_decision_reason := reason, om_decided_at := ts \<rparr> else r)
          (md_operations db) \<rparr>)"

definition accuracy :: "int \<Rightarrow> int \<Rightarrow> accuracy_delta option" where
  "accuracy estimated actual =
     (if estimated > 0 then Some (DFin (of_int (actual - estimated) / of_int estimated))
      else if actual > 0 then Some DInf else None)"

definition update_outcome :: "string \<Rightarrow> string \<Rightarrow> int \<Rightarrow> bool \<Rightarrow> memory_db \<Rightarrow> accuracy_delta option \<times> memory_db" where
  "update_outcome op tenant actual success db =
     (let estimated = (case find (is_op op tenant) (md_operations db) of
                         None \<Rightarrow> 0 | Some r \<Rightarrow> om_estimated_rows r);
          delta = accuracy estimated actual
      in (delta, db\<lparr> md_operations := map (\<lambda>r. if is_op op tenant r
            then r\<lparr> om_actual_rows := Some actual, om_blast_radius_delta := delta \<rparr> else r)
          (md_operations db) \<rparr>))"

section \<open>Confidence and rejected patterns\<close>

definition is_conf :: "string \<Rightarrow> string \<Rightarrow> string \<Rightarrow> confidence_row \<Rightarrow> bool" where
  "is_conf tbl ot tenant r \<longleftrightarrow> cf_table r = tbl \<and> cf_operation_type r = ot \<and> cf_tenant_id r = tenant"

definition get_confidence_scores :: "string \<Rightarrow> string \<Rightarrow> string \<Rightarrow> memory_db \<Rightarrow> rat \<times> int \<times> int option" where
  "get_confidence_scores tbl ot tenant db =
     (case find (is_conf tbl ot tenant) (md_confidence db) of
        Some r \<Rightarrow> (cf_confidence r, cf_sample_count r, Some (cf_last_updated r))
      | None \<Rightarrow> (8/10, 0, None))"

definition update_confidence_score :: "string \<Rightarrow> string \<Rightarrow> rat \<Rightarrow> string \<Rightarrow> int \<Rightarrow> memory_db \<Rightarrow> rat \<times> memory_db" where
  "update_confidence_score tbl ot delta tenant now db =
     (let rows = md_confidence db;
          rows' = (if list_ex (is_conf tbl ot tenant) rows
                   then map (\<lambda>r. if is_conf tbl ot tenant r
                        then r\<lparr> cf_confidence := max (1/10) (min 1 (cf_confidence r + delta)),
                                cf_sample_count := cf_sample_count r + 1, cf_last_updated := now \<rparr>
                        else r) rows
                   else rows @ [\<lparr> cf_table = tbl, cf_operation_type = ot, cf_tenant_id = tenant,
                                  cf_confidence = max (1/10) (8/10 + delta), cf_sample_count = 1,
                                  cf_last_updated = now \<rparr>])
      in (case find (is_conf tbl ot tenant) rows' of Some r \<Rightarrow> cf_confidence r | None \<Rightarrow> 8/10,
          db\<lparr> md_confidence := rows' \<rparr>))"

text \<open>Times are seconds; a day is 86400 of them.\<close>

definition reject_matches :: "string list \<Rightarrow> string \<Rightarrow> string \<Rightarrow> int \<Rightarrow> int \<Rightarrow> memory_db \<Rightarrow> reject_row list" where
  "reject_matches tables ot tenant lookback now db =
     sort_key (\<lambda>r. - rp_rejected_at r)
       (filter (\<lambda>r. rp_tenant_id r = tenant \<and> rp_operation_type r = ot
                    \<and> set (rp_affected_tables r) \<inter> set tables \<noteq> {}
                    \<and> rp_rejected_at r > now - 86400 * lookback) (md_rejects db))"

definition check_auto_reject_pattern ::
  "string list \<Rightarrow> string \<Rightarrow> string \<Rightarrow> int \<Rightarrow> int \<Rightarrow> memory_db \<Rightarrow> bool \<times> (string \<times> string) option" where
  "check_auto_reject_pattern tables ot tenant lookback now db =
     (case reject_matches tables ot tenant lookback now db of
        r # _ \<Rightarrow> (True, Some (rp_operation_id r, rp_rejection_reason r))
      | [] \<Rightarrow> (False, None))"

section \<open>Stage 1: search\<close>

record candidate =
  cd_row :: memory_row
  cd_similarity :: rat

text \<open>SQL's \<open>LIKE\<close> with its two wildcards and its escape character.\<close>

fun sql_like :: "string \<Rightarrow> string \<Rightarrow> bool" where
  "sql_like [] s = (s = [])"
| "sql_like (p # ps) s =
     (if p = CHR ''%'' then (case s of [] \<Rightarrow> sql_like ps [] | c # cs \<Rightarrow> sql_like ps s \<or> sql_like (p # ps) cs)
      else if p = CHR 0x5C then
        (case (ps, s) of (q # qs, c # cs) \<Rightarrow> q = c \<and> sql_like qs cs | _ \<Rightarrow> False)
      else (case s of [] \<Rightarrow> False | c # cs \<Rightarrow> (p = CHR ''_'' \<or> p = c) \<and> sql_like ps cs))"

definition search_words :: "string \<Rightarrow> string list" where
  "search_words intent = filter (\<lambda>w. length w > 3) (map str_strip (str_split intent))"

definition search_pattern :: "string list \<Rightarrow> string" where
  "search_pattern ws = ''%'' @ str_join ''%'' (take 5 ws) @ ''%''"

definition tenant_rows :: "string \<Rightarrow> memory_db \<Rightarrow> memory_row list" where
  "tenant_rows tenant db = filter (\<lambda>r. om_tenant_id r = tenant) (md_operations db)"

definition vector_search :: "(embedding \<Rightarrow> embedding \<Rightarrow> rat) \<Rightarrow> embedding \<Rightarrow> string \<Rightarrow> nat \<Rightarrow> memory_db \<Rightarrow> candidate list" where
  "vector_search cosd v tenant k db =
     take k (sort_key (\<lambda>c. - cd_similarity c)
       (concat (map (\<lambda>r. case om_embedding r of None \<Rightarrow> []
                         | Some u \<Rightarrow> [\<lparr> cd_row = r, cd_similarity = 1 - cosd u v \<rparr>])
                    (tenant_rows tenant db))))"

definition text_search :: "string \<Rightarrow> string \<Rightarrow> nat \<Rightarrow> memory_db \<Rightarrow> candidate list" where
  "text_search intent tenant k db =
     (let ws = search_words intent;
          found = (if ws \<noteq> []
                   then map (\<lambda>r. \<lparr> cd_row = r, cd_similarity = 5/10 \<rparr>)
                          (filter (\<lambda>r. sql_like (str_lower (search_pattern ws)) (str_lower (om_intent_summary r)))
                             (tenant_rows tenant db))
                   else map (\<lambda>r. \<lparr> cd_row = r, cd_similarity = 3/10 \<rparr>) (tenant_rows tenant db))
      in take k (sort_key (\<lambda>c. - om_decided_at (cd_row c)) found))"

text \<open>\<open>semantic_search\<close>; \<open>emb\<close> is what \<open>get_embedding\<close> gives for the intent. A negative
  \<open>LIMIT\<close> is an error of the database.\<close>

definition semantic_search ::
  "(embedding \<Rightarrow> embedding \<Rightarrow> rat) \<Rightarrow> exn + embedding \<Rightarrow> string \<Rightarrow> string \<Rightarrow> int \<Rightarrow> memory_db \<Rightarrow> exn + candidate list" where
  "semantic_search cosd emb intent tenant top_k db =
     (let limited = (\<lambda>cs. if top_k < 0 then Inl (RuntimeError ''LIMIT must not be negative'') else Inr cs)
      in case emb of
           Inr v \<Rightarrow> limited (vector_search cosd v tenant (nat top_k) db)
         | Inl (EmbeddingUnavailableError _) \<Rightarrow> limited (text_search intent tenant (nat top_k) db)
         | Inl e \<Rightarrow> Inl e)"

text \<open>The JSON form of a candidate; an infinite float has none.\<close>

definition candidate_dict :: "candidate \<Rightarrow> exn + pydict" where
  "candidate_dict c =
     (let r = cd_row c;
          common = (\<lambda>d. [(''operation_id'', PStr (om_operation_id r)), (''intent_summary'', PStr (om_intent_summary r)),
             (''affected_tables'', PList (map PStr (om_affected_tables r))),
             (''operation_type'', PStr (om_operation_type r)), (''estimated_rows'', PInt (om_estimated_rows r)),
             (''actual_rows'', (case om_actual_rows r of None \<Rightarrow> PNone | Some n \<Rightarrow> PInt n)),
             (''outcome'', PStr (om_outcome r)), (''decision_reason'', PStr (om_decision_reason r)),
             (''blast_radius_delta'', d), (''similarity_score'', PFloat (cd_similarity c))])
      in case om_blast_radius_delta r of
           None \<Rightarrow> Inr (common PNone)
         | Some (DFin x) \<Rightarrow> Inr (common (PFloat x))
         | Some DInf \<Rightarrow> Inl (ValueError ''Out of range float values are not JSON compliant''))"

section \<open>Stage 2: table overlap\<close>

definition JACCARD_THRESHOLD :: rat where
  "JACCARD_THRESHOLD = 3/10"

definition jaccard :: "'a set \<Rightarrow> 'a set \<Rightarrow> rat" where
  "jaccard a b =
     (if a = {} \<and> b = {} then 1
      else if a = {} \<or> b = {} then 0
      else of_nat (card (a \<inter> b)) / of_nat (card (a \<union> b)))"

text \<open>Iterating over a value.\<close>

definition py_iter :: "pyval \<Rightarrow> exn + pyval list" where
  "py_iter v =
     (case v of PList xs \<Rightarrow> Inr xs | PStr s \<Rightarrow> Inr (map (\<lambda>c. PStr [c]) s)
      | PDict d \<Rightarrow> Inr (map (\<lambda>kv. PStr (fst kv)) d) | _ \<Rightarrow> Inl (TypeError ''object is not iterable''))"

fun is_hashable :: "pyval \<Rightarrow> bool" where
  "is_hashable (PList _) = False"
| "is_hashable (PDict _) = False"
| "is_hashable _ = True"

definition py_set :: "pyval \<Rightarrow> exn + pyval list" where
  "py_set v = (case py_iter v of Inl e \<Rightarrow> Inl e
     | Inr xs \<Rightarrow> if list_all is_hashable xs then Inr xs else Inl (TypeError ''unhashable type''))"

definition overlap :: "pyval list \<Rightarrow> pydict \<Rightarrow> exn + rat" where
  "overlap current c =
     (case py_set (dict_get c ''affected_tables'' (PList [])) of Inl e \<Rightarrow> Inl e
      | Inr ts \<Rightarrow> Inr (jaccard (set current) (set ts)))"

text \<open>Python's \<open>sort\<close> with \<open>reverse=True\<close> keeps the order of equal elements.\<close>

definition sort_desc :: "('a \<Rightarrow> rat) \<Rightarrow> 'a list \<Rightarrow> 'a list" where
  "sort_desc key xs = sort_key (\<lambda>x. - key x) xs"

definition filter_by_table_overlap ::
  "pydict list \<Rightarrow> pyval list \<Rightarrow> rat option \<Rightarrow> exn + pydict list" where
  "filter_by_table_overlap cands current threshold =
     (let thr = (case threshold of None \<Rightarrow> JACCARD_THRESHOLD | Some t \<Rightarrow> t)
      in case map_exn (\<lambda>c. map_sum id (\<lambda>j. (j, c)) (overlap current c)) cands of
           Inl e \<Rightarrow> Inl e
         | Inr js \<Rightarrow>
             Inr (map snd (sort_desc fst
               (map (\<lambda>(j, c). (py_round 4 j, dict_set ''jaccard_score'' (PFloat (py_round 4 j)) c))
                  (filter (\<lambda>(j, c). j \<ge> thr) js)))))"

section \<open>Stage 3: outcome\<close>

definition py_num :: "pyval \<Rightarrow> exn + rat" where
  "py_num v = (case v of PInt i \<Rightarrow> Inr (of_int i) | PFloat x \<Rightarrow> Inr x | PBool b \<Rightarrow> Inr (if b then 1 else 0)
     | _ \<Rightarrow> Inl (TypeError ''unsupported operand type''))"

definition similarity_part :: "pydict \<Rightarrow> exn + rat" where
  "similarity_part c = map_sum id (\<lambda>s. 1/10 * s) (py_num (dict_get c ''similarity_score'' (PFloat 0)))"

definition outcome_score :: "pydict \<Rightarrow> exn + rat" where
  "outcome_score c =
     (let outcome = dict_get c ''outcome'' (PStr ''APPROVED'');
          delta = py_or (dict_get0 c ''blast_radius_delta'') (PFloat 0)
      in if outcome = PStr ''REJECTED'' then Inr 1
         else if outcome = PStr ''ROLLED_BACK'' then Inr (9/10)
         else if outcome = PStr ''APPROVED'' \<or> outcome = PStr ''AUTO_REJECTED'' then
           (case py_num delta of Inl e \<Rightarrow> Inl e
            | Inr d \<Rightarrow> if \<bar>d\<bar> > 2/10 then Inr (7/10) else similarity_part c)
         else if outcome = PStr ''MODIFIED'' then Inr (5/10)
         else similarity_part c)"

definition rerank_by_outcome :: "pydict list \<Rightarrow> exn + pydict list" where
  "rerank_by_outcome cands =
     (case map_exn (\<lambda>c. map_sum id (\<lambda>s. (s, c)) (outcome_score c)) cands of
        Inl e \<Rightarrow> Inl e
      | Inr scs \<Rightarrow> Inr (take 3 (map (\<lambda>(s, c). dict_set ''rerank_score'' (PFloat (py_round 4 s)) c)
                               (sort_desc fst scs))))"

section \<open>The tools as the service runs them\<close>

definition dict_list :: "pyval \<Rightarrow> exn + pydict list" where
  "dict_list v = (case as_list v of Inl e \<Rightarrow> Inl e | Inr xs \<Rightarrow> map_exn as_dict xs)"

definition opt_num :: "pyval \<Rightarrow> exn + rat option" where
  "opt_num v = (case v of PNone \<Rightarrow> Inr None | _ \<Rightarrow> map_sum id Some (py_num v))"

definition filter_tool :: "pydict \<Rightarrow> exn + pyval" where
  "filter_tool args =
     (case (dict_list (dict_get0 args ''candidates''), py_set (dict_get0 args ''current_tables''),
            opt_num (dict_get0 args ''threshold'')) of
        (Inr cs, Inr ts, Inr thr) \<Rightarrow>
          map_sum id (\<lambda>out. PDict [(''filtered'', PList (map PDict out)), (''count'', PInt (int (length out)))])
            (filter_by_table_overlap cs ts thr)
      | (Inl e, _, _) \<Rightarrow> Inl e
      | (_, Inl e, _) \<Rightarrow> Inl e
      | (_, _, Inl e) \<Rightarrow> Inl e)"

definition rerank_tool :: "pydict \<Rightarrow> exn + pyval" where
  "rerank_tool args =
     (case dict_list (dict_get0 args ''candidates'') of
        Inl e \<Rightarrow> Inl e
      | Inr cs \<Rightarrow> map_sum id (\<lambda>out. PDict [(''top3'', PList (map PDict out))]) (rerank_by_outcome cs))"


section \<open>Lemmas\<close>

interpretation rk: ranking "sort_desc key" key for key
proof
  show "mset (sort_desc key xs) = mset xs" for xs by (simp add: sort_desc_def)
  have "sorted (map (\<lambda>x. - key x) (sort_desc key xs))" for xs
    by (simp add: sort_desc_def)
  then show "sorted_wrt (\<lambda>x y. key y \<le> key x) (sort_desc key xs)" for xs
    by (simp add: sorted_map)
qed

lemma map_exn_pair:
  assumes "map_exn (\<lambda>c. map_sum id (\<lambda>s. (s, c)) (f c)) cs = Inr scs"
  shows "map snd scs = cs \<and> list_all (\<lambda>(s, c). f c = Inr s) scs"
proof -
  from map_exn_all2 [OF assms] show ?thesis
  proof (induction rule: list_all2_induct)
    case (Cons x xs y ys)
    then show ?case by (cases "f x") auto
  qed simp
qed

definition bounded_similarity :: "pydict \<Rightarrow> bool" where
  "bounded_similarity c = (case py_num (dict_get c ''similarity_score'' (PFloat 0)) of Inl _ \<Rightarrow> True | Inr x \<Rightarrow> x \<le> 1)"

lemma outcome_score_less_one:
  assumes "outcome_score c = Inr s" and "dict_get c ''outcome'' (PStr ''APPROVED'') \<noteq> PStr ''REJECTED''"
    and "bounded_similarity c"
  shows "s < 1"
proof -
  have sim: "x < 1" if "similarity_part c = Inr x" for x
    using that assms(3) by (auto simp: similarity_part_def bounded_similarity_def split: sum.splits)
  show ?thesis
    using assms(1,2) sim by (auto simp: outcome_score_def Let_def split: if_splits sum.splits)
qed

lemma outcome_score_rejected:
  "dict_get c ''outcome'' (PStr ''APPROVED'') = PStr ''REJECTED'' \<Longrightarrow> outcome_score c = Inr 1"
  by (simp add: outcome_score_def)

lemma jaccard_bounds:
  assumes "finite a" and "finite b"
  shows "0 \<le> jaccard a b \<and> jaccard a b \<le> 1"
proof -
  have "card (a \<inter> b) \<le> card (a \<union> b)" using assms by (intro card_mono) auto
  then show ?thesis by (auto simp: jaccard_def divide_le_eq_1)
qed

lemma jaccard_one_iff:
  assumes "finite a" and "finite b"
  shows "jaccard a b = 1 \<longleftrightarrow> a = b"
proof
  assume j: "jaccard a b = 1"
  show "a = b"
  proof (cases "a = {} \<or> b = {}")
    case True
    with j show ?thesis by (auto simp: jaccard_def split: if_splits)
  next
    case False
    with j have "card (a \<inter> b) = card (a \<union> b)" by (auto simp: jaccard_def split: if_splits)
    with assms have "a \<inter> b = a \<union> b" by (intro card_subset_eq) auto
    then show ?thesis by blast
  qed
qed (use assms in \<open>auto simp: jaccard_def\<close>)

lemma jaccard_pos_iff:
  assumes "finite a" and "finite b"
  shows "0 < jaccard a b \<longleftrightarrow> a \<inter> b \<noteq> {} \<or> (a = {} \<and> b = {})"
  using assms by (auto simp: jaccard_def card_gt_0_iff zero_less_divide_iff)


lemma dict_list_map: "dict_list (PList (map PDict cs)) = Inr cs"
  unfolding dict_list_def by (simp add: as_list_def) (induction cs, auto simp: as_dict_def)

section \<open>Properties\<close>

definition is_rejected :: "pydict \<Rightarrow> bool" where
  "is_rejected c \<longleftrightarrow> dict_get c ''outcome'' (PStr ''APPROVED'') = PStr ''REJECTED''"

lemma is_rejected_score [simp]: "is_rejected (dict_set ''rerank_score'' v c) = is_rejected c"
  by (simp add: is_rejected_def)

lemma rerank_rejected:
  assumes "rerank_by_outcome cands = Inr top3" and "c \<in> set cands" and "is_rejected c"
    and "list_all bounded_similarity cands"
  shows "length top3 = min 3 (length cands)
    \<and> is_rejected (hd top3)
    \<and> (dict_set ''rerank_score'' (PFloat 1) c \<in> set top3 \<or> list_all is_rejected top3)"
proof -
  let ?sh = "\<lambda>(s, d). dict_set ''rerank_score'' (PFloat (py_round 4 s)) d"
  from assms(1) obtain scs where m: "map_exn (\<lambda>c. map_sum id (\<lambda>s. (s, c)) (outcome_score c)) cands = Inr scs"
    and top: "top3 = take 3 (map ?sh (sort_desc fst scs))"
    by (auto simp: rerank_by_outcome_def split: sum.splits)
  from map_exn_pair [OF m] have cands: "cands = map snd scs"
    and sc: "\<And>s d. (s, d) \<in> set scs \<Longrightarrow> outcome_score d = Inr s" by (auto simp: list_all_iff)
  have rej: "is_rejected d" if "(s, d) \<in> set scs" "1 \<le> s" for s d
    using outcome_score_less_one [OF sc [OF that(1)]] assms(4) that
    by (force simp: is_rejected_def list_all_iff cands)
  from assms(2,3) cands sc have c: "(1, c) \<in> set scs"
    using outcome_score_rejected [of c] by (force simp: is_rejected_def)
  have top': "top3 = map ?sh (take 3 (sort_desc fst scs))" by (simp add: top take_map)
  have len: "length top3 = min 3 (length cands)" by (simp add: top cands rk.length_order)
  obtain s0 d0 rest where ne: "sort_desc fst scs = (s0, d0) # rest"
    using c rk.set_order [of fst scs] by (cases "sort_desc fst scs") auto
  then have "(s0, d0) \<in> set scs" "1 \<le> s0"
    using rk.set_order [of fst scs] rk.first_is_greatest [OF c, of fst] by auto
  then have hd: "is_rejected (hd top3)" using rej ne by (simp add: top')
  have "dict_set ''rerank_score'' (PFloat 1) c \<in> set top3 \<or> list_all is_rejected top3"
  proof (cases "(1, c) \<in> set (take 3 (sort_desc fst scs))")
    case True
    have "py_round 4 1 = 1" by (rule py_round_id [of _ _ "10 ^ 4"]) simp
    with True show ?thesis unfolding top' by force
  next
    case False
    then have "1 \<le> s \<and> (s, d) \<in> set scs" if "(s, d) \<in> set (take 3 (sort_desc fst scs))" for s d
      using rk.shown_or_outranked [OF c, of 3 fst] that rk.set_order [of fst scs] set_take_subset
      by fastforce
    then have "is_rejected d" if "(s, d) \<in> set (take 3 (sort_desc fst scs))" for s d
      using that rej by blast
    then show ?thesis by (auto simp: top' list_all_iff)
  qed
  with len hd show ?thesis by blast
qed

text \<open>
  Reranking never hides a rejection behind another precedent. It returns three candidates, or
  all when there are fewer; if some candidate was rejected, the first one shown was, and a
  rejected candidate that is not shown has been displaced by three rejected ones. The similarity
  scores are at most 1, as cosine similarities are.
\<close>

theorem rerank_surfaces_rejections:
  assumes "rerank_by_outcome cands = Inr top3" and "c \<in> set cands" and "is_rejected c"
    and "list_all bounded_similarity cands"
  shows "length top3 = min 3 (length cands)
    \<and> is_rejected (hd top3)
    \<and> (dict_set ''rerank_score'' (PFloat 1) c \<in> set top3 \<or> list_all is_rejected top3)"
  by (rule rerank_rejected [OF assms])

definition sample_candidate :: "string \<Rightarrow> pydict" where
  "sample_candidate outcome = [(''operation_id'', PStr ''cg_9''), (''affected_tables'', PList [PStr ''orders'']),
     (''outcome'', PStr outcome), (''similarity_score'', PFloat (9/10))]"

theorem rerank_surfaces_rejections_witness:
  "is_rejected (hd (projr (rerank_by_outcome [sample_candidate ''APPROVED'', sample_candidate ''REJECTED''])))"
proof -
  let ?cs = "[sample_candidate ''APPROVED'', sample_candidate ''REJECTED'']"
  have 1: "rerank_by_outcome ?cs = Inr (projr (rerank_by_outcome ?cs))" by code_simp
  have 2: "sample_candidate ''REJECTED'' \<in> set ?cs" by simp
  have 3: "is_rejected (sample_candidate ''REJECTED'')" by code_simp
  have 4: "list_all bounded_similarity ?cs" by code_simp
  from rerank_surfaces_rejections [OF 1 2 3 4] show ?thesis by blast
qed

definition jscore :: "pydict \<Rightarrow> rat" where
  "jscore d = (case dict_get0 d ''jaccard_score'' of PFloat x \<Rightarrow> x | _ \<Rightarrow> 0)"

definition reaches :: "pyval list \<Rightarrow> rat \<Rightarrow> pydict \<Rightarrow> bool" where
  "reaches current thr c = (case overlap current c of Inl _ \<Rightarrow> False | Inr j \<Rightarrow> j \<ge> thr)"

lemma filter_parts:
  assumes "filter_by_table_overlap cands current threshold = Inr out"
  obtains js where "map snd js = cands" "list_all (\<lambda>(j, c). overlap current c = Inr j) js"
    "out = map snd (sort_desc fst (map (\<lambda>(j, c). (py_round 4 j, dict_set ''jaccard_score'' (PFloat (py_round 4 j)) c))
              (filter (\<lambda>(j, c). j \<ge> (case threshold of None \<Rightarrow> JACCARD_THRESHOLD | Some t \<Rightarrow> t)) js)))"
  using assms map_exn_pair [of "overlap current" cands]
  by (auto simp: filter_by_table_overlap_def Let_def split: sum.splits)

lemma filter_reaches:
  assumes "list_all (\<lambda>(j, c). overlap current c = Inr j) js"
  shows "map snd (filter (\<lambda>(j, c). j \<ge> thr) js) = filter (reaches current thr) (map snd js)"
  using assms by (induction js) (auto simp: reaches_def)

lemma filter_out_mset:
  assumes "filter_by_table_overlap cands current threshold = Inr out"
  shows "mset (map (dict_without ''jaccard_score'') out)
    = mset (map (dict_without ''jaccard_score'')
        (filter (reaches current (case threshold of None \<Rightarrow> JACCARD_THRESHOLD | Some t \<Rightarrow> t)) cands))"
proof -
  let ?thr = "case threshold of None \<Rightarrow> JACCARD_THRESHOLD | Some t \<Rightarrow> t"
  from filter_parts [OF assms] obtain js where js: "map snd js = cands" "list_all (\<lambda>(j, c). overlap current c = Inr j) js"
    "out = map snd (sort_desc fst (map (\<lambda>(j, c). (py_round 4 j, dict_set ''jaccard_score'' (PFloat (py_round 4 j)) c))
              (filter (\<lambda>(j, c). j \<ge> ?thr) js)))" .
  have "mset (map (dict_without ''jaccard_score'') out)
    = mset (map (\<lambda>x. dict_without ''jaccard_score'' (snd x)) (filter (\<lambda>(j, c). j \<ge> ?thr) js))"
    unfolding js(3) by (simp add: rk.perm multiset.map_comp comp_def split_def)
  also have "\<dots> = mset (map (dict_without ''jaccard_score'') (filter (reaches current ?thr) cands))"
    unfolding filter_reaches [OF js(2), of ?thr, symmetric] js(1) [symmetric] by (simp add: comp_def)
  finally show ?thesis .
qed

lemma filter_out_sorted:
  assumes "filter_by_table_overlap cands current threshold = Inr out"
  shows "sorted_wrt (\<lambda>x y. jscore y \<le> jscore x) out"
proof -
  from filter_parts [OF assms] obtain js where
    out: "out = map snd (sort_desc fst (map (\<lambda>(j, c). (py_round 4 j, dict_set ''jaccard_score'' (PFloat (py_round 4 j)) c))
              (filter (\<lambda>(j, c). j \<ge> (case threshold of None \<Rightarrow> JACCARD_THRESHOLD | Some t \<Rightarrow> t)) js)))" (is "out = map snd (sort_desc fst ?l)")
    by blast
  have "jscore (snd x) = fst x" if "x \<in> set (sort_desc fst ?l)" for x
    using that unfolding rk.set_order by (auto simp: jscore_def)
  then show ?thesis
    unfolding out sorted_wrt_map using rk.descending [of fst ?l]
    by (metis (no_types, lifting) sorted_wrt_mono_rel)
qed

text \<open>
  The structural filter is exact. Jaccard similarity is symmetric, lies between 0 and 1, is 1
  exactly on equal table sets and positive exactly on overlapping ones (or two empty ones), and
  the second stage keeps exactly the candidates that reach the threshold, with nothing else of
  them changed, in descending order of the rounded score.
\<close>

theorem table_overlap_filter_exact:
  assumes "filter_by_table_overlap cands current threshold = Inr out"
  shows "mset (map (dict_without ''jaccard_score'') out)
      = mset (map (dict_without ''jaccard_score'')
          (filter (reaches current (case threshold of None \<Rightarrow> JACCARD_THRESHOLD | Some t \<Rightarrow> t)) cands))
    \<and> sorted_wrt (\<lambda>x y. jscore y \<le> jscore x) out
    \<and> (let a = set current; b = set bs in
         jaccard a b = jaccard b a \<and> 0 \<le> jaccard a b \<and> jaccard a b \<le> 1
         \<and> (jaccard a b = 1 \<longleftrightarrow> a = b) \<and> (0 < jaccard a b \<longleftrightarrow> a \<inter> b \<noteq> {} \<or> (a = {} \<and> b = {})))"
proof -
  have "jaccard (set current) (set bs) = jaccard (set bs) (set current)"
    by (simp add: jaccard_def Int_commute Un_commute conj_commute disj_commute)
  then show ?thesis
    using filter_out_mset [OF assms] filter_out_sorted [OF assms]
      jaccard_bounds [of "set current" "set bs"] jaccard_one_iff [of "set current" "set bs"]
      jaccard_pos_iff [of "set current" "set bs"]
    by (simp add: Let_def)
qed

theorem table_overlap_filter_exact_witness:
  "mset (map (dict_without ''jaccard_score'')
     (projr (filter_by_table_overlap [sample_candidate ''REJECTED'', [(''affected_tables'', PList [])]] [PStr ''orders''] None)))
   = {# sample_candidate ''REJECTED'' #}"
proof -
  let ?cs = "[sample_candidate ''REJECTED'', [(''affected_tables'', PList [])]]"
  have 1: "filter_by_table_overlap ?cs [PStr ''orders''] None = Inr (projr (filter_by_table_overlap ?cs [PStr ''orders''] None))"
    by code_simp
  have "filter (reaches [PStr ''orders''] JACCARD_THRESHOLD) ?cs = [sample_candidate ''REJECTED'']"
    "dict_without ''jaccard_score'' (sample_candidate ''REJECTED'') = sample_candidate ''REJECTED''" by code_simp+
  with table_overlap_filter_exact [OF 1, of "[]"] show ?thesis by simp
qed


lemma tenant_rows_idem [simp]: "tenant_rows t (db\<lparr> md_operations := tenant_rows t db \<rparr>) = tenant_rows t db"
  by (simp add: tenant_rows_def)

lemma vector_search_scoped:
  "vector_search cosd v t n (db\<lparr> md_operations := tenant_rows t db \<rparr>) = vector_search cosd v t n db"
  by (simp add: vector_search_def)

lemma text_search_scoped:
  "text_search intent t n (db\<lparr> md_operations := tenant_rows t db \<rparr>) = text_search intent t n db"
  by (simp add: text_search_def Let_def)

lemma semantic_search_rows:
  assumes "semantic_search cosd emb intent t k db = Inr cs" and "c \<in> set cs"
  shows "cd_row c \<in> set (tenant_rows t db)"
  using assms
  by (auto simp: semantic_search_def vector_search_def text_search_def Let_def
      split: sum.splits exn.splits if_splits option.splits dest!: in_set_takeD)

text \<open>
  Search stays inside the tenant: what \<open>semantic_search\<close> answers, on the vector path and on
  the text path, is determined by the rows of the tenant that asks, and every candidate is one of
  these rows; at most \<open>top_k\<close> are returned.
\<close>

theorem semantic_search_tenant_scoped:
  assumes "semantic_search cosd emb intent t k db = Inr cs"
  shows "semantic_search cosd emb intent t k (db\<lparr> md_operations := tenant_rows t db \<rparr>) = Inr cs
    \<and> (\<forall>c \<in> set cs. om_tenant_id (cd_row c) = t \<and> cd_row c \<in> set (md_operations db))
    \<and> int (length cs) \<le> k"
proof -
  have "semantic_search cosd emb intent t k (db\<lparr> md_operations := tenant_rows t db \<rparr>)
      = semantic_search cosd emb intent t k db"
    unfolding semantic_search_def by (simp only: vector_search_scoped text_search_scoped)
  moreover have "int (length cs) \<le> k"
    using assms by (auto simp: semantic_search_def vector_search_def text_search_def Let_def
        split: sum.splits exn.splits if_splits)
  ultimately show ?thesis
    using assms semantic_search_rows [OF assms] by (auto simp: tenant_rows_def)
qed

definition sample_memory_row :: "string \<Rightarrow> string \<Rightarrow> memory_row" where
  "sample_memory_row tenant outcome = \<lparr> om_operation_id = ''cg_1'', om_tenant_id = tenant, om_intent_summary = ''delete old orders'',
     om_embedding = None, om_affected_tables = [''orders''], om_operation_type = ''DELETE'', om_estimated_rows = 10,
     om_actual_rows = None, om_outcome = outcome, om_decision_reason = ''because'', om_blast_radius_delta = None,
     om_reanalysis_count = 0, om_submitted_at = 0, om_decided_at = 0 \<rparr>"

definition sample_memory :: memory_db where
  "sample_memory = \<lparr> md_operations = [sample_memory_row ''acme'' ''REJECTED''], md_confidence = [], md_rejects = [] \<rparr>"

theorem semantic_search_tenant_scoped_witness:
  "list_all (\<lambda>c. om_tenant_id (cd_row c) = ''acme'')
     (projr (semantic_search (\<lambda>_ _. 0) (Inl (EmbeddingUnavailableError '''')) ''Delete the orders'' ''acme'' 20 sample_memory))"
proof -
  let ?s = "semantic_search (\<lambda>_ _. 0) (Inl (EmbeddingUnavailableError '''')) ''Delete the orders'' ''acme'' 20 sample_memory"
  have "length (projr ?s) = 1" by code_simp
  have "?s = Inr (projr ?s)" by code_simp
  from semantic_search_tenant_scoped [OF this] show ?thesis unfolding list_all_iff by blast
qed

text \<open>
  Storing does not stay inside the tenant: the conflict clause of \<open>store_operation\<close> looks at
  the operation id only, so storing an operation under one tenant rewrites the outcome and the
  reason that another tenant's memory holds under the same id, and adds nothing to its own.
\<close>

theorem store_operation_crosses_tenants:
  assumes "is_op op t0 r" and "r \<in> set (md_operations db)"
    and "om_operation_id row = op" and "om_tenant_id row \<noteq> t0"
  shows "let db' = snd (store_operation now row db) in
    (\<exists>r' \<in> set (tenant_rows t0 db'). om_operation_id r' = op \<and> om_outcome r' = om_outcome row
        \<and> om_decision_reason r' = om_decision_reason row)
    \<and> length (tenant_rows (om_tenant_id row) db') = length (tenant_rows (om_tenant_id row) db)"
proof -
  let ?f = "\<lambda>r. if om_operation_id r = op
     then r\<lparr> om_outcome := om_outcome row, om_decision_reason := om_decision_reason row,
             om_actual_rows := om_actual_rows row, om_blast_radius_delta := om_blast_radius_delta row,
             om_decided_at := now \<rparr> else r"
  have "om_operation_id row \<in> om_operation_id ` set (md_operations db)"
    using assms(1-3) unfolding is_op_def by (metis imageI)
  then have db': "md_operations (snd (store_operation now row db)) = map ?f (md_operations db)"
    using assms(3) by (simp add: store_operation_def store_row_def)
  have "length (filter (\<lambda>r. om_tenant_id r = t) (map ?f rows)) = length (filter (\<lambda>r. om_tenant_id r = t) rows)" for t rows
    by (induction rows) auto
  moreover have "?f r \<in> set (tenant_rows t0 (snd (store_operation now row db)))"
    unfolding tenant_rows_def db' using assms(1,2) by (auto simp: is_op_def)
  ultimately show ?thesis
    unfolding Let_def tenant_rows_def db'
    using assms(1,3) by (intro conjI bexI [of _ "?f r"]) (simp_all add: is_op_def tenant_rows_def db')
qed

theorem store_operation_crosses_tenants_witness:
  "\<exists>r' \<in> set (tenant_rows ''acme'' (snd (store_operation 5 (sample_memory_row ''evil'' ''APPROVED'') sample_memory))).
     om_outcome r' = ''APPROVED''"
proof -
  let ?r = "sample_memory_row ''acme'' ''REJECTED''"
  have 1: "is_op ''cg_1'' ''acme'' ?r" by code_simp
  have 2: "?r \<in> set (md_operations sample_memory)" by (simp add: sample_memory_def)
  have 3: "om_operation_id (sample_memory_row ''evil'' ''APPROVED'') = ''cg_1''"
    "om_tenant_id (sample_memory_row ''evil'' ''APPROVED'') \<noteq> ''acme''"
    "om_outcome (sample_memory_row ''evil'' ''APPROVED'') = ''APPROVED''" by code_simp+
  from store_operation_crosses_tenants [OF 1 2 3(1,2), of 5] show ?thesis
    unfolding Let_def 3(3) by blast
qed

section \<open>Confidence scores\<close>

definition confidence_ok :: "memory_db \<Rightarrow> bool" where
  "confidence_ok db = list_all (\<lambda>r. 1/10 \<le> cf_confidence r \<and> cf_confidence r \<le> 1) (md_confidence db)"

lemma update_confidence_score_ok:
  assumes "confidence_ok db" and "delta \<le> 2/10"
  shows "confidence_ok (snd (update_confidence_score tbl ot delta tenant now db))"
  using assms by (auto simp: confidence_ok_def update_confidence_score_def Let_def list_all_iff max_def min_def)

text \<open>A positive adjustment above 0.2 of a pair that has no score yet is stored unclamped.\<close>

lemma first_confidence_unclamped:
  "fst (update_confidence_score tbl ot (1/2) tenant now \<lparr> md_operations = [], md_confidence = [], md_rejects = [] \<rparr>) = 13/10"
  by (simp add: update_confidence_score_def is_conf_def)

lemma check_auto_reject_pattern_iff:
  "fst (check_auto_reject_pattern tables ot tenant lookback now db) \<longleftrightarrow>
     (\<exists>r \<in> set (md_rejects db). rp_tenant_id r = tenant \<and> rp_operation_type r = ot
        \<and> (\<exists>t. t \<in> set (rp_affected_tables r) \<and> t \<in> set tables) \<and> rp_rejected_at r > now - 86400 * lookback)"
proof -
  have "fst (check_auto_reject_pattern tables ot tenant lookback now db)
      \<longleftrightarrow> set (reject_matches tables ot tenant lookback now db) \<noteq> {}"
    by (simp add: check_auto_reject_pattern_def split: list.splits)
  then show ?thesis unfolding reject_matches_def by auto
qed

lemma get_embedding_cached:
  assumes "get_embedding H mock voyage provider t cache = (Inr v, cache')"
  shows "get_embedding H mock2 voyage2 provider2 t cache' = (Inr v, cache')"
  using assms by (auto simp: get_embedding_def Let_def split: option.splits sum.splits if_splits)

end
