(* ===== verification/Sandbox_Server.thy ===== *)
theory Sandbox_Server
  imports MCP_Transport
begin

text \<open>
  \<open>mcp_servers/transaction_sandbox/server.py\<close>: the transaction sandbox. The staging database has
  a committed state of an abstract type \<open>'d\<close>; a session is an open transaction with a state of its
  own. What a statement, a row count and the trigger log give on a database state are parameters.
  A statement that fails leaves the transaction aborted: PostgreSQL then refuses every statement
  until the transaction is rolled back.
\<close>

section \<open>State\<close>

record 'd tx =
  tx_data :: 'd
  tx_aborted :: bool

record 'd sandbox =
  sb_committed :: 'd
  sb_sessions :: "(string \<times> 'd tx) list"

text \<open>What running a statement gives: the affected rows, the new state, and whether the text
  ended the transaction by a COMMIT of its own.\<close>

record 'd exec_result =
  er_rows :: int
  er_data :: 'd
  er_commits :: bool

record 'd staging =
  sg_url :: string
  sg_exec :: "string \<Rightarrow> 'd \<Rightarrow> exn + 'd exec_result"
  sg_count :: "string \<Rightarrow> string \<Rightarrow> 'd \<Rightarrow> exn + int"
  sg_trigger_log :: "string \<Rightarrow> 'd \<Rightarrow> exn + pyval list"

definition aborted_error :: exn where
  "aborted_error = RuntimeError ''current transaction is aborted, commands ignored until end of transaction block''"

definition no_session :: "string \<Rightarrow> exn" where
  "no_session sid = ValueError (''No active sandbox session: '' @ sid)"

definition set_session :: "string \<Rightarrow> 'd tx \<Rightarrow> 'd sandbox \<Rightarrow> 'd sandbox" where
  "set_session sid t s = s\<lparr> sb_sessions := dict_set sid t (sb_sessions s) \<rparr>"

section \<open>The tools\<close>

definition begin_sandbox :: "'d staging \<Rightarrow> string \<Rightarrow> 'd sandbox \<Rightarrow> (exn + pydict) \<times> 'd sandbox" where
  "begin_sandbox sg sid s =
     (if sg_url sg = [] then
        (Inl (RuntimeError (''STAGING_DATABASE_URL is not set. '' @
           ''The transaction sandbox requires a writable staging instance.'')), s)
      else (Inr [(''session_id'', PStr sid), (''transaction_open'', PBool True)],
            set_session sid \<lparr> tx_data = sb_committed s, tx_aborted = False \<rparr> s))"

definition execute_in_sandbox :: "'d staging \<Rightarrow> string \<Rightarrow> string \<Rightarrow> 'd sandbox \<Rightarrow> (exn + pydict) \<times> 'd sandbox" where
  "execute_in_sandbox sg sid sql s =
     (case map_of (sb_sessions s) sid of
        None \<Rightarrow> (Inl (no_session sid), s)
      | Some t \<Rightarrow>
          (if tx_aborted t then (Inl aborted_error, s)
           else (case sg_exec sg sql (tx_data t) of
                   Inl e \<Rightarrow> (Inl e, set_session sid (t\<lparr> tx_aborted := True \<rparr>) s)
                 | Inr r \<Rightarrow>
                     (Inr [(''rows_affected'', PInt (er_rows r)), (''status'', PStr ''executed'')],
                      (set_session sid (t\<lparr> tx_data := er_data r \<rparr>) s)
                        \<lparr> sb_committed := (if er_commits r then er_data r else sb_committed s) \<rparr>))))"

text \<open>\<open>schema.table\<close> is split at the first dot; the default schema is that of the staging tables.\<close>

definition qualify :: "string \<Rightarrow> string \<times> string" where
  "qualify tbl =
     (if CHR ''.'' \<in> set tbl
      then (takeWhile (\<lambda>c. c \<noteq> CHR ''.'') tbl, tl (dropWhile (\<lambda>c. c \<noteq> CHR ''.'') tbl))
      else (''contragate_staging'', tbl))"

text \<open>One pass of the loop: a failed count is reported as \<open>-1\<close>, and it aborts the transaction.\<close>

definition count_table :: "'d staging \<Rightarrow> string \<Rightarrow> 'd tx \<Rightarrow> int \<times> 'd tx" where
  "count_table sg tbl t =
     (if tx_aborted t then (- 1, t)
      else (case qualify tbl of (schema, name) \<Rightarrow>
              (case sg_count sg schema name (tx_data t) of
                 Inl _ \<Rightarrow> (- 1, t\<lparr> tx_aborted := True \<rparr>)
               | Inr n \<Rightarrow> (n, t))))"

fun count_tables :: "'d staging \<Rightarrow> string list \<Rightarrow> (string \<times> int) list \<Rightarrow> 'd tx \<Rightarrow> (string \<times> int) list \<times> 'd tx" where
  "count_tables sg [] acc t = (acc, t)"
| "count_tables sg (tbl # tbls) acc t =
     (case count_table sg tbl t of (n, t') \<Rightarrow> count_tables sg tbls (dict_set tbl n acc) t')"

definition capture_diff :: "'d staging \<Rightarrow> string \<Rightarrow> string list \<Rightarrow> 'd sandbox \<Rightarrow> (exn + pydict) \<times> 'd sandbox" where
  "capture_diff sg sid tables s =
     (case map_of (sb_sessions s) sid of
        None \<Rightarrow> (Inl (no_session sid), s)
      | Some t \<Rightarrow>
          (case count_tables sg tables [] t of
             (counts, t') \<Rightarrow>
               (Inr [(''table_counts'', PDict (map (\<lambda>(k, n). (k, PInt n)) counts))], set_session sid t' s)))"

definition get_trigger_log :: "'d staging \<Rightarrow> string \<Rightarrow> 'd sandbox \<Rightarrow> (exn + pydict) \<times> 'd sandbox" where
  "get_trigger_log sg sid s =
     (case map_of (sb_sessions s) sid of
        None \<Rightarrow> (Inl (no_session sid), s)
      | Some t \<Rightarrow>
          (if tx_aborted t then (Inr [(''trigger_log'', PList [])], s)
           else (case sg_trigger_log sg sid (tx_data t) of
                   Inl _ \<Rightarrow> (Inr [(''trigger_log'', PList [])], set_session sid (t\<lparr> tx_aborted := True \<rparr>) s)
                 | Inr es \<Rightarrow> (Inr [(''trigger_log'', PList es)], s))))"

definition rollback_sandbox :: "string \<Rightarrow> 'd sandbox \<Rightarrow> (exn + pydict) \<times> 'd sandbox" where
  "rollback_sandbox sid s =
     (case map_of (sb_sessions s) sid of
        None \<Rightarrow> (Inr [(''rolled_back'', PBool True), (''note'', PStr ''Session already closed or not found'')], s)
      | Some _ \<Rightarrow> (Inr [(''rolled_back'', PBool True)],
                    s\<lparr> sb_sessions := dict_without sid (sb_sessions s) \<rparr>))"

section \<open>The service\<close>

definition str_arg :: "pydict \<Rightarrow> string \<Rightarrow> exn + string" where
  "str_arg args k = (case map_of args k of Some (PStr s) \<Rightarrow> Inr s | _ \<Rightarrow> Inl (TypeError ''bad argument''))"

definition str_list_arg :: "pydict \<Rightarrow> string \<Rightarrow> exn + string list" where
  "str_list_arg args k =
     (case map_of args k of
        Some (PList xs) \<Rightarrow> map_exn (\<lambda>v. case v of PStr s \<Rightarrow> Inr s | _ \<Rightarrow> Inl (TypeError ''bad argument'')) xs
      | _ \<Rightarrow> Inl (TypeError ''bad argument''))"

text \<open>One tool call with string arguments. \<open>sid\<close> is the identifier \<open>uuid4\<close> gives if a session is opened.\<close>

definition sandbox_call ::
  "'d staging \<Rightarrow> string \<Rightarrow> string \<Rightarrow> pydict \<Rightarrow> 'd sandbox \<Rightarrow> (exn + pydict) \<times> 'd sandbox" where
  "sandbox_call sg sid tool args s =
     (if tool = ''begin_sandbox'' then begin_sandbox sg sid s
      else
        (case str_arg args ''session_id'' of
           Inl e \<Rightarrow> (Inl e, s)
         | Inr k \<Rightarrow>
             if tool = ''execute_in_sandbox'' then
               (case str_arg args ''sql'' of Inl e \<Rightarrow> (Inl e, s) | Inr q \<Rightarrow> execute_in_sandbox sg k q s)
             else if tool = ''capture_diff'' then
               (case str_list_arg args ''tables'' of Inl e \<Rightarrow> (Inl e, s) | Inr ts \<Rightarrow> capture_diff sg k ts s)
             else if tool = ''get_trigger_log'' then get_trigger_log sg k s
             else if tool = ''rollback_sandbox'' then rollback_sandbox k s
             else (Inl (HTTPException 404 ''Tool not found''), s)))"

section \<open>Lemmas\<close>

text \<open>Texts that do not end the transaction they run in.\<close>

definition never_commits :: "'d staging \<Rightarrow> string \<Rightarrow> bool" where
  "never_commits sg sql \<longleftrightarrow> (\<forall>d r. sg_exec sg sql d = Inr r \<longrightarrow> \<not> er_commits r)"

lemma set_session_sel [simp]:
  "sb_committed (set_session sid t s) = sb_committed s"
  "sb_sessions (set_session sid t s) = dict_set sid t (sb_sessions s)"
  by (simp_all add: set_session_def)

lemma committed_kept [simp]:
  "sb_committed (snd (begin_sandbox sg sid s)) = sb_committed s"
  "sb_committed (snd (capture_diff sg sid tables s)) = sb_committed s"
  "sb_committed (snd (get_trigger_log sg sid s)) = sb_committed s"
  "sb_committed (snd (rollback_sandbox sid s)) = sb_committed s"
  by (simp_all add: begin_sandbox_def capture_diff_def get_trigger_log_def rollback_sandbox_def
      split: option.splits sum.splits prod.splits)

lemma execute_keeps_committed:
  "never_commits sg sql \<Longrightarrow> sb_committed (snd (execute_in_sandbox sg sid sql s)) = sb_committed s"
  by (auto simp: execute_in_sandbox_def never_commits_def split: option.splits sum.splits)

text \<open>Outside its own session, a call changes no session.\<close>

lemma other_sessions_kept:
  "k \<noteq> sid \<Longrightarrow> map_of (sb_sessions (snd (execute_in_sandbox sg sid sql s))) k = map_of (sb_sessions s) k"
  "k \<noteq> sid \<Longrightarrow> map_of (sb_sessions (snd (capture_diff sg sid tables s))) k = map_of (sb_sessions s) k"
  "k \<noteq> sid \<Longrightarrow> map_of (sb_sessions (snd (get_trigger_log sg sid s))) k = map_of (sb_sessions s) k"
  "k \<noteq> sid \<Longrightarrow> map_of (sb_sessions (snd (begin_sandbox sg sid s))) k = map_of (sb_sessions s) k"
  by (simp_all add: execute_in_sandbox_def capture_diff_def get_trigger_log_def begin_sandbox_def
      split: option.splits sum.splits prod.splits)

lemma map_of_dict_without: "map_of (dict_without k d) k' = (if k' = k then None else map_of d k')"
  by (induction d) (auto simp: dict_without_def)

lemma rollback_sessions:
  "map_of (sb_sessions (snd (rollback_sandbox sid s))) k = (if k = sid then None else map_of (sb_sessions s) k)"
  by (simp add: rollback_sandbox_def map_of_dict_without split: option.splits)

end
