(* ===== verification/Context_Sim.thy ===== *)
theory Context_Sim
  imports Tasks Memory_Store Sandbox_Server
begin

text \<open>
  \<open>agents/context_sim/\<close>: the Context and Simulation agent. \<open>retrieval_client.py\<close> asks the memory
  store for precedents, \<open>sandbox_client.py\<close> runs the SQL in the transaction sandbox, and
  \<open>agent.py\<close> runs both at once and writes the contract. The two run as tasks, interleaved by an
  arbitrary schedule. Row counts are JSON integers and the trigger log is a JSON list.
\<close>

section \<open>Retrieval\<close>

record RetrievalResult =
  rt_precedents :: "HistoricalOperation list"
  rt_stage1_candidates :: nat
  rt_stage2_candidates :: nat
  rt_available :: bool
  rt_failure_reason :: "string option"

text \<open>\<open>sorted(set(...))\<close>\<close>

definition extract_table_set :: "HandoffContract \<Rightarrow> string list" where
  "extract_table_set c =
     sort (remdups ((if primary_table c \<noteq> [] then [primary_table c] else []) @ map ce_table (cascade c)))"

definition str_list :: "pyval \<Rightarrow> exn + string list" where
  "str_list v = (case py_iter v of Inl e \<Rightarrow> Inl e | Inr xs \<Rightarrow> map_exn need_str xs)"

definition to_historical_operation :: "pyval \<Rightarrow> exn + HistoricalOperation" where
  "to_historical_operation v =
     (case as_dict v of Inl e \<Rightarrow> Inl e
      | Inr raw \<Rightarrow>
          (case (need_str (dict_get raw ''operation_id'' (PStr ''unknown'')),
                 need_str (dict_get raw ''intent_summary'' (PStr [])),
                 str_list (dict_get raw ''affected_tables'' (dict_get raw ''tables'' (PList []))),
                 need_str (dict_get raw ''outcome'' (PStr ''UNKNOWN'')),
                 need_str (dict_get raw ''decision_reason'' (PStr []))) of
             (Inr i, Inr s, Inr ts, Inr out, Inr reason) \<Rightarrow>
               (case (py_float (dict_get raw ''similarity_score'' (PFloat 0)),
                      py_float (dict_get raw ''jaccard_score'' (PFloat 0)),
                      py_float (dict_get raw ''rerank_score'' (PFloat 0))) of
                  (Inr sim, Inr jac, Inr rer) \<Rightarrow>
                    Inr \<lparr> ho_operation_id = i, ho_intent_summary = s, ho_tables = ts, ho_outcome = out,
                          ho_decision_reason = reason, ho_similarity_score = sim, ho_jaccard_score = jac,
                          ho_rerank_score = rer \<rparr>
                | _ \<Rightarrow> Inl (ValueError ''could not convert to float''))
           | _ \<Rightarrow> Inl (ValueError ''validation error for HistoricalOperation'')))"

definition list_in :: "pyval \<Rightarrow> string \<Rightarrow> pyval list etask" where
  "list_in v k = tlift (case as_dict v of Inl e \<Rightarrow> Inl e | Inr d \<Rightarrow> as_list (dict_get d k (PList [])))"

definition found :: "HistoricalOperation list \<Rightarrow> nat \<Rightarrow> nat \<Rightarrow> RetrievalResult" where
  "found ps n1 n2 = \<lparr> rt_precedents = ps, rt_stage1_candidates = n1, rt_stage2_candidates = n2,
     rt_available = True, rt_failure_reason = None \<rparr>"

definition retrieve_stages :: "agent_ctx \<Rightarrow> HandoffContract \<Rightarrow> RetrievalResult etask" where
  "retrieve_stages cx c =
     tseq (call_task cx ''memory-store'' ''semantic_search''
             [(''intent'', PStr (if intent_summary c \<noteq> [] then intent_summary c else take 200 (raw_sql c))),
              (''tenant_id'', PStr (tenant_id c)), (''top_k'', PInt 20)])
       (\<lambda>r1. tseq (list_in r1 ''candidates'')
         (\<lambda>cands. if cands = [] then Done (Inr (found [] 0 0))
            else tseq (call_task cx ''memory-store'' ''filter_by_table_overlap''
                         [(''candidates'', PList cands), (''current_tables'', PList (map PStr (extract_table_set c)))])
              (\<lambda>r2. tseq (list_in r2 ''filtered'')
                (\<lambda>filtered. if filtered = [] then Done (Inr (found [] (length cands) 0))
                   else tseq (call_task cx ''memory-store'' ''rerank_by_outcome'' [(''candidates'', PList filtered)])
                     (\<lambda>r3. tseq (list_in r3 ''top3'')
                       (\<lambda>ranked. tseq (tlift (map_exn to_historical_operation ranked))
                         (\<lambda>ps. Done (Inr (found ps (length cands) (length filtered))))))))))"

definition retrieve :: "agent_ctx \<Rightarrow> HandoffContract \<Rightarrow> RetrievalResult etask" where
  "retrieve cx c =
     ttry (retrieve_stages cx c)
       (\<lambda>e. Done (Inr \<lparr> rt_precedents = [], rt_stage1_candidates = 0, rt_stage2_candidates = 0,
                        rt_available = False, rt_failure_reason = Some (exn_text e) \<rparr>))"

definition apply_retrieval :: "RetrievalResult \<Rightarrow> HandoffContract \<Rightarrow> HandoffContract" where
  "apply_retrieval r c = c\<lparr> retrieval_available := rt_available r, historical_precedents := rt_precedents r \<rparr>"

section \<open>Simulation\<close>

record SimulationResult =
  sm_executed :: bool
  sm_available :: bool
  sm_timeout_occurred :: bool
  sm_actual_primary_rows :: "int option"
  sm_actual_cascade :: "CascadeEntry list"
  sm_trigger_log :: "pyval list"
  sm_failure_reason :: "string option"
  sm_skipped_reason :: "string option"

definition sim_default :: SimulationResult where
  "sim_default = \<lparr> sm_executed = False, sm_available = True, sm_timeout_occurred = False,
     sm_actual_primary_rows = None, sm_actual_cascade = [], sm_trigger_log = [],
     sm_failure_reason = None, sm_skipped_reason = None \<rparr>"

text \<open>\<open>t in counts\<close> and then \<open>counts[t]\<close>; indexing something else than a dictionary by a string
  raises, as arithmetic on the value \<open>PNone\<close> does.\<close>

definition count_of :: "pyval \<Rightarrow> string \<Rightarrow> exn + pyval option" where
  "count_of counts t =
     (case counts of
        PDict d \<Rightarrow> Inr (map_of d t)
      | _ \<Rightarrow> map_sum id (\<lambda>present. if present then Some PNone else None) (py_in t counts))"

definition both_counts :: "pyval \<Rightarrow> pyval \<Rightarrow> string \<Rightarrow> exn + (int \<times> int) option" where
  "both_counts pre post t =
     (case count_of pre t of Inl e \<Rightarrow> Inl e | Inr None \<Rightarrow> Inr None
      | Inr (Some x) \<Rightarrow>
          (case count_of post t of Inl e \<Rightarrow> Inl e | Inr None \<Rightarrow> Inr None
           | Inr (Some y) \<Rightarrow> (case (x, y) of (PInt a, PInt b) \<Rightarrow> Inr (Some (a, b))
                            | _ \<Rightarrow> Inl (TypeError ''unsupported operand type''))))"

definition row_delta :: "pyval \<Rightarrow> pyval \<Rightarrow> string \<Rightarrow> exn + int option" where
  "row_delta pre post t =
     map_sum id (\<lambda>o'. case o' of None \<Rightarrow> None
       | Some (a, b) \<Rightarrow> if a \<ge> 0 \<and> b \<ge> 0 then Some \<bar>a - b\<bar> else None) (both_counts pre post t)"

definition actual_entry :: "pyval \<Rightarrow> pyval \<Rightarrow> CascadeEntry \<Rightarrow> exn + CascadeEntry" where
  "actual_entry pre post e =
     (case row_delta pre post (ce_table e) of Inl x \<Rightarrow> Inl x | Inr None \<Rightarrow> Inr e
      | Inr (Some d) \<Rightarrow> Inr (e\<lparr> ce_actual_rows := Some d \<rparr>))"

definition build_result :: "HandoffContract \<Rightarrow> pyval \<Rightarrow> pyval \<Rightarrow> pyval list \<Rightarrow> exn + SimulationResult" where
  "build_result c pre post tlog =
     (case (if primary_table c = [] then Inr None else row_delta pre post (primary_table c)) of
        Inl e \<Rightarrow> Inl e
      | Inr primary \<Rightarrow>
          (case map_exn (actual_entry pre post) (cascade c) of
             Inl e \<Rightarrow> Inl e
           | Inr entries \<Rightarrow> Inr (sim_default\<lparr> sm_executed := True, sm_actual_primary_rows := primary,
                                 sm_actual_cascade := entries, sm_trigger_log := tlog \<rparr>)))"

text \<open>\<open>list(dict.fromkeys(...))\<close>\<close>

fun dict_fromkeys :: "'a list \<Rightarrow> 'a list" where
  "dict_fromkeys [] = []"
| "dict_fromkeys (x # xs) = x # filter (\<lambda>y. y \<noteq> x) (dict_fromkeys xs)"

definition tables_to_count :: "HandoffContract \<Rightarrow> string list" where
  "tables_to_count c = dict_fromkeys (primary_table c # filter (\<lambda>t. t \<noteq> []) (map ce_table (cascade c)))"

definition sandbox_task :: "agent_ctx \<Rightarrow> string \<Rightarrow> pydict \<Rightarrow> pydict etask" where
  "sandbox_task cx tool args = tseq (call_task cx ''transaction-sandbox'' tool args) (\<lambda>r. tlift (as_dict r))"

text \<open>The errors of the statement itself are told apart by their text.\<close>

definition execution_error :: "exn \<Rightarrow> exn" where
  "execution_error e =
     (let err = str_lower (exn_text e)
      in if str_contains ''statement_timeout'' err \<or> str_contains ''canceling statement'' err
         then SimulationTimeoutError (''Sandbox statement_timeout during execution: '' @ exn_text e)
         else SimulationFailedError (''SQL execution in sandbox failed: '' @ exn_text e))"

text \<open>What is done with an open session.\<close>

definition in_session :: "agent_ctx \<Rightarrow> HandoffContract \<Rightarrow> pyval \<Rightarrow> SimulationResult etask" where
  "in_session cx c sid =
     (let tabs = PList (map PStr (tables_to_count c)) in
      tseq (sandbox_task cx ''capture_diff'' [(''session_id'', sid), (''tables'', tabs), (''phase'', PStr ''pre'')])
        (\<lambda>pre. tseq (ttry (call_task cx ''transaction-sandbox'' ''execute_in_sandbox''
                              [(''session_id'', sid), (''sql'', PStr (raw_sql c))])
                          (\<lambda>e. Done (Inl (execution_error e))))
          (\<lambda>_. tseq (sandbox_task cx ''capture_diff'' [(''session_id'', sid), (''tables'', tabs), (''phase'', PStr ''post'')])
            (\<lambda>post. tseq (sandbox_task cx ''get_trigger_log'' [(''session_id'', sid)])
              (\<lambda>tl. tseq (tlift (as_list (dict_get tl ''trigger_log'' (PList []))))
                 (\<lambda>tlog. tlift (build_result c (dict_get pre ''table_counts'' (PDict []))
                                  (dict_get post ''table_counts'' (PDict [])) tlog)))))))"

definition rollback_task :: "agent_ctx \<Rightarrow> pyval \<Rightarrow> unit task" where
  "rollback_task cx sid =
     tbind (call_task cx ''transaction-sandbox'' ''rollback_sandbox'' [(''session_id'', sid)]) (\<lambda>_. Done ())"

definition run_once :: "agent_ctx \<Rightarrow> HandoffContract \<Rightarrow> SimulationResult etask" where
  "run_once cx c =
     tseq (sandbox_task cx ''begin_sandbox'' [(''tenant_id'', PStr (tenant_id c))])
       (\<lambda>d. let sid = dict_get0 d ''session_id'' in
            if \<not> truthy sid then Done (Inl (SimulationFailedError ''Sandbox did not return a session_id''))
            else tfinally (in_session cx c sid) (rollback_task cx sid))"

fun sim_failure :: "exn \<Rightarrow> SimulationResult" where
  "sim_failure (SimulationTimeoutError s) =
     sim_default\<lparr> sm_available := False, sm_timeout_occurred := True, sm_failure_reason := Some s \<rparr>"
| "sim_failure e = sim_default\<lparr> sm_available := False, sm_failure_reason := Some (exn_text e) \<rparr>"

definition simulate :: "agent_ctx \<Rightarrow> HandoffContract \<Rightarrow> SimulationResult etask" where
  "simulate cx c =
     (if operation_type c = OT_SELECT then Done (Inr (sim_default\<lparr> sm_skipped_reason := Some ''select_operation'' \<rparr>))
      else if primary_table c = [] then Done (Inr (sim_default\<lparr> sm_skipped_reason := Some ''no_primary_table'' \<rparr>))
      else ttry (run_once cx c) (\<lambda>e. Done (Inr (sim_failure e))))"

definition apply_simulation :: "SimulationResult \<Rightarrow> HandoffContract \<Rightarrow> HandoffContract" where
  "apply_simulation r c =
     (let c1 = c\<lparr> simulation_available := sm_available r, simulation_executed := sm_executed r,
                  simulation_timeout := sm_timeout_occurred r \<rparr>
      in if sm_executed r
         then c1\<lparr> actual_primary_rows := sm_actual_primary_rows r, actual_cascade := sm_actual_cascade r,
                  sandbox_trigger_log := sm_trigger_log r \<rparr>
         else c1)"

section \<open>The agent\<close>

definition gave_up :: SimulationResult where
  "gave_up = sim_default\<lparr> sm_available := False, sm_timeout_occurred := True,
     sm_failure_reason := Some ''Simulation unavailable after 2 attempts'' \<rparr>"

text \<open>The loop over the attempts that are left.\<close>

fun simulation_attempts :: "agent_ctx \<Rightarrow> HandoffContract \<Rightarrow> nat list \<Rightarrow> SimulationResult etask" where
  "simulation_attempts cx c [] = Done (Inr gave_up)"
| "simulation_attempts cx c (attempt # rest) =
     tseq (simulate cx c)
       (\<lambda>r. if sm_available r \<or> sm_skipped_reason r \<noteq> None then Done (Inr r)
            else if sm_timeout_occurred r \<and> attempt < 2 then simulation_attempts cx c rest
            else Done (Inr gave_up))"

definition run_simulation_with_retry :: "agent_ctx \<Rightarrow> HandoffContract \<Rightarrow> SimulationResult etask" where
  "run_simulation_with_retry cx c = simulation_attempts cx c [1, 2]"

record context_sim_ctx =
  cs_agent :: agent_ctx
  cs_now :: int
  cs_dump :: "HandoffContract \<Rightarrow> pyval"

definition CONTEXT_SIM_WRITTEN :: string where
  "CONTEXT_SIM_WRITTEN = ''retrieval_available,historical_precedents,'' @
     ''simulation_available,simulation_executed,'' @
     ''actual_primary_rows,actual_cascade,sandbox_trigger_log,'' @
     ''simulation_timeout,sequence_gap_warning''"

definition apply_outcomes :: "exn + RetrievalResult \<Rightarrow> exn + SimulationResult \<Rightarrow> HandoffContract \<Rightarrow> HandoffContract" where
  "apply_outcomes rr sr c =
     (let c1 = (case rr of Inl _ \<Rightarrow> c\<lparr> retrieval_available := False, historical_precedents := [] \<rparr>
                | Inr r \<Rightarrow> apply_retrieval r c);
          c2 = (case sr of Inl _ \<Rightarrow> c1\<lparr> simulation_available := False, simulation_executed := False \<rparr>
                | Inr r \<Rightarrow> apply_simulation r c1)
      in if operation_type c2 = OT_INSERT \<and> simulation_executed c2
         then c2\<lparr> sequence_gap_warning := True \<rparr> else c2)"

definition context_summary :: "HandoffContract \<Rightarrow> string" where
  "context_summary c =
     ''retrieval='' @ (if retrieval_available c then ''OK'' else ''FAIL'') @
     '' precedents='' @ show_nat (length (historical_precedents c)) @
     '' simulation='' @ (if simulation_executed c then ''OK'' else ''SKIP/FAIL'') @
     '' actual_rows='' @ (case actual_primary_rows c of None \<Rightarrow> ''None'' | Some n \<Rightarrow> show_int n)"

definition run_context_sim :: "context_sim_ctx \<Rightarrow> bool list \<Rightarrow> HandoffContract \<Rightarrow> HandoffContract eff" where
  "run_context_sim cs sched c l =
     (let cx = cs_agent cs in
      case interleave (cx_env cx) sched (retrieve cx c) (run_simulation_with_retry cx c) l of
        ((rr, sr), l1) \<Rightarrow>
          (let c1 = add_provenance ''CONTEXT_SIM_AGENT'' CONTEXT_SIM_WRITTEN (cs_now cs) False (apply_outcomes rr sr c)
           in (Inr c1, log_agent_output cx (context_summary c1) (hash_payload (cx_hash cx) (cs_dump cs c1)) l1)))"

section \<open>Retry with backoff\<close>

text \<open>\<open>orchestrator/retry.py\<close>: the outcome of each attempt is a function of its number; the result
  with the delays slept in between.\<close>

fun retry_loop :: "(nat \<Rightarrow> exn + 'a) \<Rightarrow> rat \<Rightarrow> rat \<Rightarrow> nat \<Rightarrow> nat \<Rightarrow> exn \<Rightarrow> (exn + 'a) \<times> rat list" where
  "retry_loop fn base factor attempt 0 last_exc = (Inl last_exc, [])"
| "retry_loop fn base factor attempt (Suc left) last_exc =
     (case fn attempt of
        Inr x \<Rightarrow> (Inr x, [])
      | Inl e \<Rightarrow>
          (case retry_loop fn base factor (Suc attempt) left e of
             (r, ds) \<Rightarrow> (r, if left > 0 then base * factor ^ attempt # ds else ds)))"

definition retry_with_backoff :: "(nat \<Rightarrow> exn + 'a) \<Rightarrow> nat \<Rightarrow> rat \<Rightarrow> rat \<Rightarrow> (exn + 'a) \<times> rat list" where
  "retry_with_backoff fn max_attempts base factor =
     retry_loop fn base factor 0 max_attempts (RuntimeError ''All retry attempts exhausted'')"


section \<open>Neither task raises\<close>

lemma retrieve_never_raises: "finishes (retrieve cx c) as cs r \<Longrightarrow> \<exists>x. r = Inr x"
  unfolding retrieve_def by (erule finishes_ttryE) auto

lemma simulate_never_raises: "finishes (simulate cx c) as cs r \<Longrightarrow> \<exists>x. r = Inr x"
  unfolding simulate_def by (auto split: if_splits elim: finishes_ttryE)

lemma attempts_step:
  assumes "finishes (simulation_attempts cx c (n # ns)) as cs r"
  obtains as1 as2 cs1 cs2 z where "as = as1 @ as2" "cs = cs1 @ cs2" "finishes (simulate cx c) as1 cs1 (Inr z)"
    "(as2 = [] \<and> cs2 = [] \<and> (r = Inr z \<or> r = Inr gave_up)) \<or> finishes (simulation_attempts cx c ns) as2 cs2 r"
  using assms unfolding simulation_attempts.simps
proof (cases rule: finishes_tseqE)
  case (raised e)
  then show ?thesis using simulate_never_raises by blast
next
  case (went as1 as2 cs1 cs2 z)
  from went(4) show ?thesis by (intro that [OF went(1-3)]) (auto split: if_splits)
qed

lemma attempts_never_raise: "finishes (simulation_attempts cx c ns) as cs r \<Longrightarrow> \<exists>x. r = Inr x"
proof (induction ns arbitrary: as cs)
  case (Cons n ns)
  from Cons(2) show ?case by (rule attempts_step) (use Cons(1) in blast)
qed simp

lemma retrieve_unavailable:
  "finishes (retrieve cx c) as cs (Inr r) \<Longrightarrow> rt_available r \<or> rt_precedents r = []"
proof -
  have "rt_available r" if "finishes (retrieve_stages cx c) as cs (Inr r)" for as cs r
    using that unfolding retrieve_stages_def
    by (auto simp: found_def tlift_def list_in_def split: if_splits elim!: finishes_tseqE)
  then show "finishes (retrieve cx c) as cs (Inr r) \<Longrightarrow> rt_available r \<or> rt_precedents r = []"
    unfolding retrieve_def by (auto elim!: finishes_ttryE)
qed

section \<open>Sessions\<close>

text \<open>The sessions that are open after a sequence of calls with their answers.\<close>

definition is_begin :: "mcp_call \<Rightarrow> bool" where
  "is_begin c \<longleftrightarrow> mc_url c = TRANSACTION_SANDBOX_URL \<and> mc_tool c = ''begin_sandbox''"

definition is_rollback :: "mcp_call \<Rightarrow> bool" where
  "is_rollback c \<longleftrightarrow> mc_url c = TRANSACTION_SANDBOX_URL \<and> mc_tool c = ''rollback_sandbox''"

definition opened :: "exn + pyval \<Rightarrow> pyval list" where
  "opened a = (case a of Inr (PDict d) \<Rightarrow> (let sid = dict_get0 d ''session_id'' in if truthy sid then [sid] else []) | _ \<Rightarrow> [])"

fun open_sessions :: "(mcp_call \<times> (exn + pyval)) list \<Rightarrow> pyval list \<Rightarrow> pyval list" where
  "open_sessions [] ss = ss"
| "open_sessions ((c, a) # rest) ss =
     open_sessions rest
       (if is_begin c then opened a @ ss
        else if is_rollback c then remove1 (dict_get0 (mc_args c) ''session_id'') ss
        else ss)"

lemma open_sessions_append: "open_sessions (xs @ ys) s = open_sessions ys (open_sessions xs s)"
  by (induction xs s rule: open_sessions.induct) auto

lemma open_sessions_unchanged:
  "length as = length cs \<Longrightarrow> list_all (\<lambda>c. \<not> is_begin c \<and> \<not> is_rollback c) cs \<Longrightarrow> open_sessions (zip cs as) s = s"
  by (induction cs as rule: list_induct2') auto

lemma log_is_no_session [simp]: "\<not> is_begin (log_tool_call cx t ih oh)" "\<not> is_rollback (log_tool_call cx t ih oh)"
  by (simp_all add: is_begin_def is_rollback_def log_tool_call_def AUDIT_LOGGER_URL_def TRANSACTION_SANDBOX_URL_def)

lemma is_begin_call [simp]:
  "is_begin \<lparr> mc_url = u, mc_tool = t, mc_args = a \<rparr> \<longleftrightarrow> u = TRANSACTION_SANDBOX_URL \<and> t = ''begin_sandbox''"
  "is_rollback \<lparr> mc_url = u, mc_tool = t, mc_args = a \<rparr> \<longleftrightarrow> u = TRANSACTION_SANDBOX_URL \<and> t = ''rollback_sandbox''"
  by (simp_all add: is_begin_def is_rollback_def)

lemma dispatch_sandbox: "dispatch ''transaction-sandbox'' = Some TRANSACTION_SANDBOX_URL"
  by simp

lemma in_session_calls: "all_calls (\<lambda>c. \<not> is_begin c \<and> \<not> is_rollback c) (in_session cx c sid)"
  unfolding in_session_def Let_def sandbox_task_def
  by (intro all_calls_tseq all_calls_ttry all_calls_call_task all_calls_tlift) simp_all

lemma rollback_closes:
  assumes "finishes (rollback_task cx sid) as cs r"
  shows "open_sessions (zip cs as) (sid # s) = s"
proof -
  from assms obtain as1 cs1 x where m: "finishes (call_task cx ''transaction-sandbox'' ''rollback_sandbox'' [(''session_id'', sid)]) as1 cs1 x"
    "as = as1" "cs = cs1"
    unfolding rollback_task_def finishes_tbind by auto
  from m(1) dispatch_sandbox show ?thesis unfolding m(2,3)
    by (cases rule: finishes_call_taskE) (simp_all add: dict_get_def)
qed

lemma begin_opens:
  assumes "finishes (sandbox_task cx ''begin_sandbox'' args) as cs r"
  shows "open_sessions (zip cs as) s =
    (case r of Inl _ \<Rightarrow> [] | Inr d \<Rightarrow> (if truthy (dict_get0 d ''session_id'') then [dict_get0 d ''session_id''] else [])) @ s"
  using assms unfolding sandbox_task_def
proof (cases rule: finishes_tseqE)
  case (raised e)
  from raised(1) dispatch_sandbox show ?thesis
    by (cases rule: finishes_call_taskE) (simp_all add: raised(2) opened_def)
next
  case (went as1 as2 cs1 cs2 z)
  from went(4) have [simp]: "as2 = []" "cs2 = []" "r = as_dict z" by (simp_all add: tlift_def)
  from went(3) dispatch_sandbox show ?thesis
  proof (cases rule: finishes_call_taskE)
    case (answered v b ih oh)
    then have "open_sessions (zip cs as) s = opened (Inr z) @ s" by (simp add: went(1,2))
    then show ?thesis by (cases z) (simp_all add: opened_def as_dict_def Let_def)
  qed simp
qed

lemma run_once_balanced:
  assumes "finishes (run_once cx c) as cs r"
  shows "open_sessions (zip cs as) s = s"
  using assms unfolding run_once_def
proof (cases rule: finishes_tseqE)
  case (raised e)
  from begin_opens [OF raised(1)] show ?thesis by simp
next
  case (went as1 as2 cs1 cs2 d)
  let ?sid = "dict_get0 d ''session_id''"
  have zip: "open_sessions (zip cs as) s = open_sessions (zip cs2 as2) (open_sessions (zip cs1 as1) s)"
    unfolding went(1,2) using finishes_length [OF went(3)] by (simp add: open_sessions_append)
  show ?thesis
  proof (cases "truthy ?sid")
    case False
    with went(4) begin_opens [OF went(3), of s] show ?thesis unfolding zip by (simp add: Let_def)
  next
    case True
    with went(4) obtain as3 as4 cs3 cs4 y u where m: "as2 = as3 @ as4" "cs2 = cs3 @ cs4"
      "finishes (in_session cx c ?sid) as3 cs3 y" "finishes (rollback_task cx ?sid) as4 cs4 u"
      by (auto simp: Let_def tfinally_def finishes_tbind)
    have "open_sessions (zip cs3 as3) t = t" for t
      using finishes_length [OF m(3)] all_calls_finishes [OF in_session_calls m(3)] by (rule open_sessions_unchanged)
    with m(1,2) rollback_closes [OF m(4)] begin_opens [OF went(3), of s] True finishes_length [OF m(3)] show ?thesis
      unfolding zip by (simp add: open_sessions_append)
  qed
qed

lemma simulate_balanced: "finishes (simulate cx c) as cs r \<Longrightarrow> open_sessions (zip cs as) s = s"
  unfolding simulate_def
  by (auto simp: run_once_balanced split: if_splits elim!: finishes_ttryE)

lemma attempts_balanced:
  "finishes (simulation_attempts cx c ns) as cs r \<Longrightarrow> open_sessions (zip cs as) s = s"
proof (induction ns arbitrary: as cs)
  case (Cons n ns)
  from Cons(2) obtain as1 as2 cs1 cs2 z where m: "as = as1 @ as2" "cs = cs1 @ cs2" "finishes (simulate cx c) as1 cs1 (Inr z)"
    "(as2 = [] \<and> cs2 = [] \<and> (r = Inr z \<or> r = Inr gave_up)) \<or> finishes (simulation_attempts cx c ns) as2 cs2 r"
    by (rule attempts_step)
  have "open_sessions (zip cs2 as2) s = s" using m(4) Cons(1) by auto
  with simulate_balanced [OF m(3)] finishes_length [OF m(3)] show ?case
    unfolding m(1,2) by (simp add: open_sessions_append)
qed simp


lemma begin_count:
  assumes "finishes (run_once cx c) as cs r"
  shows "length (filter is_begin cs) \<le> 1"
proof -
  have b: "length (filter is_begin cs1) \<le> 1" if "finishes (sandbox_task cx ''begin_sandbox'' args) as1 cs1 x" for as1 cs1 x args
    using that unfolding sandbox_task_def
  proof (cases rule: finishes_tseqE)
    case (raised e)
    from raised(1) dispatch_sandbox show ?thesis by (cases rule: finishes_call_taskE) auto
  next
    case (went as1 as2 cs1 cs2 z)
    from went(3) dispatch_sandbox show ?thesis
      using went(4) unfolding went(1,2) by (cases rule: finishes_call_taskE) (auto simp: tlift_def)
  qed
  have "all_calls (\<lambda>c. \<not> is_begin c) (rollback_task cx sid)" for sid
    unfolding rollback_task_def by (rule all_calls_tbind, rule all_calls_call_task) auto
  moreover have "all_calls (\<lambda>c. \<not> is_begin c) (in_session cx c sid)" for sid
    unfolding in_session_def Let_def sandbox_task_def
    by (intro all_calls_tseq all_calls_ttry all_calls_call_task all_calls_tlift) simp_all
  ultimately have rest: "all_calls (\<lambda>c. \<not> is_begin c) (tfinally (in_session cx c sid) (rollback_task cx sid))" for sid
    by blast
  from assms show ?thesis unfolding run_once_def
  proof (cases rule: finishes_tseqE)
    case (raised e)
    then show ?thesis using b by blast
  next
    case (went as1 as2 cs1 cs2 d)
    have "list_all (\<lambda>c. \<not> is_begin c) cs2"
      using went(4) all_calls_finishes [OF rest] by (auto simp: Let_def split: if_splits)
    then have "filter is_begin cs2 = []" by (simp add: filter_empty_conv list_all_iff)
    with b [OF went(3)] went(2) show ?thesis by simp
  qed
qed

lemma attempts_begin_count:
  "finishes (simulation_attempts cx c ns) as cs r \<Longrightarrow> length (filter is_begin cs) \<le> length ns"
proof (induction ns arbitrary: as cs)
  case (Cons n ns)
  from Cons(2) obtain as1 as2 cs1 cs2 z where m: "cs = cs1 @ cs2" "finishes (simulate cx c) as1 cs1 (Inr z)"
    "(as2 = [] \<and> cs2 = [] \<and> (r = Inr z \<or> r = Inr gave_up)) \<or> finishes (simulation_attempts cx c ns) as2 cs2 r"
    by (rule attempts_step)
  have "length (filter is_begin cs1) \<le> 1"
    using m(2) begin_count unfolding simulate_def by (auto split: if_splits elim!: finishes_ttryE)
  moreover have "length (filter is_begin cs2) \<le> length ns" using m(3) Cons(1) by auto
  ultimately show ?case unfolding m(1) by simp
qed simp

section \<open>Against the sandbox server\<close>

text \<open>The transaction sandbox as the service behind the calls: its state is what the calls so far
  have made of the initial one, and \<open>ids\<close> gives the session identifiers. Every other address is
  answered by \<open>other\<close>.\<close>

fun replay_rev :: "'d staging \<Rightarrow> (nat \<Rightarrow> string) \<Rightarrow> 'd sandbox \<Rightarrow> mcp_call list \<Rightarrow> 'd sandbox" where
  "replay_rev sg ids s0 [] = s0"
| "replay_rev sg ids s0 (c # cs) =
     (if mc_url c = TRANSACTION_SANDBOX_URL
      then snd (sandbox_call sg (ids (length cs)) (mc_tool c) (mc_args c) (replay_rev sg ids s0 cs))
      else replay_rev sg ids s0 cs)"

definition replay :: "'d staging \<Rightarrow> (nat \<Rightarrow> string) \<Rightarrow> 'd sandbox \<Rightarrow> mcp_call list \<Rightarrow> 'd sandbox" where
  "replay sg ids s0 l = replay_rev sg ids s0 (rev l)"

definition sandbox_env :: "'d staging \<Rightarrow> (nat \<Rightarrow> string) \<Rightarrow> 'd sandbox \<Rightarrow> mcp_env \<Rightarrow> mcp_env" where
  "sandbox_env sg ids s0 other l c =
     (if mc_url c = TRANSACTION_SANDBOX_URL
      then map_sum id PDict (fst (sandbox_call sg (ids (length l)) (mc_tool c) (mc_args c) (replay sg ids s0 l)))
      else other l c)"

lemma replay_snoc:
  "replay sg ids s0 (l @ [c]) =
     (if mc_url c = TRANSACTION_SANDBOX_URL
      then snd (sandbox_call sg (ids (length l)) (mc_tool c) (mc_args c) (replay sg ids s0 l))
      else replay sg ids s0 l)"
  by (simp add: replay_def)

text \<open>Calls that run no other text in the sandbox than \<open>sql\<close>.\<close>

definition runs_only :: "string \<Rightarrow> mcp_call \<Rightarrow> bool" where
  "runs_only sql c \<longleftrightarrow> (mc_url c = TRANSACTION_SANDBOX_URL \<and> mc_tool c = ''execute_in_sandbox''
     \<longrightarrow> map_of (mc_args c) ''sql'' = Some (PStr sql))"

lemma runs_only_call [simp]:
  "runs_only sql \<lparr> mc_url = u, mc_tool = t, mc_args = a \<rparr> \<longleftrightarrow>
     (u = TRANSACTION_SANDBOX_URL \<and> t = ''execute_in_sandbox'' \<longrightarrow> map_of a ''sql'' = Some (PStr sql))"
  "runs_only sql (log_tool_call cx t' ih oh)"
  by (simp_all add: runs_only_def log_tool_call_def AUDIT_LOGGER_URL_def TRANSACTION_SANDBOX_URL_def)

lemma sandbox_call_committed:
  assumes "never_commits sg sql" and "tool = ''execute_in_sandbox'' \<Longrightarrow> map_of args ''sql'' = Some (PStr sql)"
  shows "sb_committed (snd (sandbox_call sg sid tool args s)) = sb_committed s"
  using assms
  by (cases "str_arg args ''session_id''"; cases "str_list_arg args ''tables''")
    (auto simp: sandbox_call_def execute_keeps_committed str_arg_def [of args "''sql''"])

lemma replay_committed:
  assumes "never_commits sg sql"
  shows "list_all (runs_only sql) cs \<Longrightarrow> sb_committed (replay sg ids s0 (l @ cs)) = sb_committed (replay sg ids s0 l)"
proof (induction cs rule: rev_induct)
  case (snoc c cs)
  then show ?case
    using sandbox_call_committed [OF assms, of "mc_tool c" "mc_args c"]
    by (auto simp: replay_snoc runs_only_def simp flip: append_assoc)
qed simp

lemma retrieve_runs_only: "all_calls (runs_only sql) (retrieve cx c)"
proof -
  have url: "url \<noteq> TRANSACTION_SANDBOX_URL" if "dispatch ''memory-store'' = Some url" for url
    using that by (auto simp: MEMORY_STORE_URL_def TRANSACTION_SANDBOX_URL_def)
  have call: "all_calls (runs_only sql) (call_task cx ''memory-store'' t a)" for t a
    by (rule all_calls_call_task) (simp_all add: url del: dispatch.simps)
  show ?thesis
    unfolding retrieve_def retrieve_stages_def list_in_def
    by (intro all_calls_ttry all_calls_tseq call all_calls_tlift | simp | (rule if_splits(1) [THEN iffD2], intro conjI impI))+
qed


lemma simulate_runs_only: "all_calls (runs_only (raw_sql c)) (simulate cx c)"
proof -
  have "all_calls (runs_only (raw_sql c)) (tfinally (in_session cx c sid) (rollback_task cx sid))" for sid
    unfolding in_session_def Let_def sandbox_task_def rollback_task_def
    by (intro all_calls_tfinally all_calls_tseq all_calls_tbind all_calls_ttry all_calls_call_task all_calls_tlift) simp_all
  moreover have "all_calls (runs_only (raw_sql c)) (sandbox_task cx ''begin_sandbox'' args)" for args
    unfolding sandbox_task_def by (intro all_calls_tseq all_calls_call_task all_calls_tlift) simp_all
  ultimately have "all_calls (runs_only (raw_sql c)) (run_once cx c)"
    unfolding run_once_def Let_def by (intro all_calls_tseq) simp_all
  then show ?thesis unfolding simulate_def by (simp add: all_calls_ttry)
qed

lemma attempts_runs_only: "all_calls (runs_only (raw_sql c)) (simulation_attempts cx c ns)"
  by (induction ns) (auto intro!: all_calls_tseq simulate_runs_only)

section \<open>The node\<close>

lemma run_context_sim_interleaves:
  obtains rr sr as1 as2 cs1 cs2 cs where
    "interleave (cx_env (cs_agent cs0)) sched (retrieve (cs_agent cs0) c) (run_simulation_with_retry (cs_agent cs0) c) l = ((Inr rr, Inr sr), l @ cs)"
    "cs \<in> shuffles cs1 cs2" "finishes (retrieve (cs_agent cs0) c) as1 cs1 (Inr rr)"
    "finishes (run_simulation_with_retry (cs_agent cs0) c) as2 cs2 (Inr sr)"
proof -
  from interleave_finishes [of "cx_env (cs_agent cs0)" sched "retrieve (cs_agent cs0) c" "run_simulation_with_retry (cs_agent cs0) c" l]
  obtain as1 as2 cs1 cs2 cs x y where m:
    "interleave (cx_env (cs_agent cs0)) sched (retrieve (cs_agent cs0) c) (run_simulation_with_retry (cs_agent cs0) c) l = ((x, y), l @ cs)"
    "cs \<in> shuffles cs1 cs2" "finishes (retrieve (cs_agent cs0) c) as1 cs1 x"
    "finishes (run_simulation_with_retry (cs_agent cs0) c) as2 cs2 y" by blast
  moreover obtain rr where "x = Inr rr" using retrieve_never_raises [OF m(3)] by blast
  moreover obtain sr where "y = Inr sr"
    using attempts_never_raise [OF m(4) [unfolded run_simulation_with_retry_def]] by blast
  ultimately show ?thesis using that by blast
qed

lemma run_context_sim_log:
  obtains cs cl where "snd (run_context_sim cs0 sched c l) = l @ cs @ [cl]" "mc_url cl = AUDIT_LOGGER_URL"
    "list_all (runs_only (raw_sql c)) cs"
proof -
  obtain rr sr as1 as2 cs1 cs2 cs where m:
    "interleave (cx_env (cs_agent cs0)) sched (retrieve (cs_agent cs0) c) (run_simulation_with_retry (cs_agent cs0) c) l = ((Inr rr, Inr sr), l @ cs)"
    "cs \<in> shuffles cs1 cs2" "finishes (retrieve (cs_agent cs0) c) as1 cs1 (Inr rr)"
    "finishes (run_simulation_with_retry (cs_agent cs0) c) as2 cs2 (Inr sr)"
    by (rule run_context_sim_interleaves)
  have "list_all (runs_only (raw_sql c)) cs1" "list_all (runs_only (raw_sql c)) cs2"
    using all_calls_finishes [OF retrieve_runs_only m(3)] all_calls_finishes [OF attempts_runs_only m(4) [unfolded run_simulation_with_retry_def]]
    by blast+
  then have "list_all (runs_only (raw_sql c)) cs" using set_shuffles [OF m(2)] by (auto simp: list_all_iff)
  then show ?thesis
    by (intro that) (auto simp: run_context_sim_def m(1) Let_def log_agent_output_def)
qed

lemma apply_outcomes_local:
  "contract_identity (apply_outcomes rr sr c) = contract_identity c"
  "workflow_provenance (apply_outcomes rr sr c) = workflow_provenance c"
  "decision_of (apply_outcomes rr sr c) = decision_of c"
  "operation_type (apply_outcomes rr sr c) = operation_type c"
  "approval_state (apply_outcomes rr sr c) = approval_state c"
  "human_decision (apply_outcomes rr sr c) = human_decision c"
  "reversibility (apply_outcomes rr sr c) = reversibility c"
  "cascade (apply_outcomes rr sr c) = cascade c"
  "external_triggers (apply_outcomes rr sr c) = external_triggers c"
  "estimated_primary_rows (apply_outcomes rr sr c) = estimated_primary_rows c"
  "policy_violations (apply_outcomes rr sr c) = policy_violations c"
  "auto_reject_triggered (apply_outcomes rr sr c) = auto_reject_triggered c"
  "risk_tier (apply_outcomes rr sr c) = risk_tier c"
  "execution_success (apply_outcomes rr sr c) = execution_success c"
  by (simp_all add: apply_outcomes_def Let_def apply_retrieval_def apply_simulation_def
      contract_identity_def decision_of_def split: sum.splits)

lemma run_context_sim_Inr:
  assumes "run_context_sim cs0 sched c l = (Inr c', l')"
  obtains rr sr where "c' = add_provenance ''CONTEXT_SIM_AGENT'' CONTEXT_SIM_WRITTEN (cs_now cs0) False (apply_outcomes rr sr c)"
  using assms by (auto simp: run_context_sim_def Let_def split: prod.splits)

interpretation context_node: agent_step "run_context_sim cs0 sched" for cs0 sched
proof
  fix c l c' l'
  assume "run_context_sim cs0 sched c l = (Inr c', l')"
  then obtain rr sr where "c' = add_provenance ''CONTEXT_SIM_AGENT'' CONTEXT_SIM_WRITTEN (cs_now cs0) False (apply_outcomes rr sr c)"
    by (rule run_context_sim_Inr)
  then show "contract_identity c' = contract_identity c \<and> provenance_grows c c'"
    and "decision_of c' = decision_of c \<and> auto_reject_triggered c' = auto_reject_triggered c"
    by (simp_all add: apply_outcomes_local provenance_grows_def) (simp add: add_provenance_def apply_outcomes_local)
qed

section \<open>Properties\<close>


definition sim_agent :: agent_ctx where
  "sim_agent = \<lparr> cx_env = (\<lambda>_ _. Inl (MCPCallError ''canceling statement'')), cx_hash = (\<lambda>_. ''h''), cx_now = ''now'',
     cx_agent = ''CONTEXT_SIM_AGENT'', cx_operation_id = ''cg_1'' \<rparr>"

definition sim_contract :: HandoffContract where
  "sim_contract = (new_contract ''cg_1'' ''t'' ''a'' INTERNAL_SYSTEM 0 ''DELETE FROM orders'')
     \<lparr> operation_type := OT_DELETE, primary_table := ''orders'' \<rparr>"

definition sim_answers :: "(exn + pyval) list" where
  "sim_answers = [Inr (PDict [(''session_id'', PStr ''s1'')]), Inr PNone,
     Inr (PDict [(''table_counts'', PDict [(''orders'', PInt 5)])]), Inr PNone,
     Inl (MCPCallError ''permission denied''), Inl (MCPCallError ''down'')]"




text \<open>A staging database with one table, whose state is its number of rows.\<close>

definition toy_staging :: "int staging" where
  "toy_staging = \<lparr> sg_url = ''postgresql://staging'', sg_exec = (\<lambda>_ n. Inr \<lparr> er_rows = n, er_data = 0, er_commits = False \<rparr>),
     sg_count = (\<lambda>_ _ n. Inr n), sg_trigger_log = (\<lambda>_ _. Inr []) \<rparr>"

definition toy_ctx :: context_sim_ctx where
  "toy_ctx = \<lparr> cs_agent = sim_agent\<lparr> cx_env := sandbox_env toy_staging (\<lambda>n. ''s'' @ show_nat n) \<lparr> sb_committed = 7, sb_sessions = [] \<rparr>
       (\<lambda>_ _. Inl (MCPCallError ''down'')) \<rparr>, cs_now = 3, cs_dump = (\<lambda>_. PNone) \<rparr>"


section \<open>What the simulation measures\<close>

definition table_count :: "'d staging \<Rightarrow> string \<Rightarrow> 'd \<Rightarrow> exn + int" where
  "table_count sg t d = (case qualify t of (schema, name) \<Rightarrow> sg_count sg schema name d)"

definition counts_ok :: "'d staging \<Rightarrow> 'd \<Rightarrow> string list \<Rightarrow> (string \<Rightarrow> int) \<Rightarrow> bool" where
  "counts_ok sg d ts n = list_all (\<lambda>t. table_count sg t d = Inr (n t) \<and> n t \<ge> 0) ts"

lemma count_tables_ok:
  assumes "counts_ok sg (tx_data t) ts n" and "\<not> tx_aborted t"
  shows "snd (count_tables sg ts acc t) = t \<and>
    map_of (fst (count_tables sg ts acc t)) k = (if k \<in> set ts then Some (n k) else map_of acc k)"
  using assms
proof (induction ts arbitrary: acc)
  case (Cons a ts)
  then have "count_table sg a t = (n a, t)"
    by (auto simp: counts_ok_def count_table_def table_count_def split: prod.splits)
  with Cons show ?case by (auto simp: counts_ok_def)
qed simp

lemma map_exn_PStr: "map_exn (\<lambda>v. case v of PStr s \<Rightarrow> Inr s | _ \<Rightarrow> Inl x) (map PStr ts) = Inr ts"
  by (induction ts) auto

lemma capture_ok:
  assumes "map_of (sb_sessions s) sid = Some t" and "counts_ok sg (tx_data t) ts n" and "\<not> tx_aborted t"
  obtains counts s' where
    "sandbox_call sg x ''capture_diff'' [(''session_id'', PStr sid), (''tables'', PList (map PStr ts)), (''phase'', ph)] s
       = (Inr [(''table_counts'', PDict counts)], s')"
    "map_of (sb_sessions s') sid = Some t" "\<And>k. k \<in> set ts \<Longrightarrow> map_of counts k = Some (PInt (n k))"
proof -
  let ?r = "count_tables sg ts [] t"
  have "sandbox_call sg x ''capture_diff'' [(''session_id'', PStr sid), (''tables'', PList (map PStr ts)), (''phase'', ph)] s
      = (Inr [(''table_counts'', PDict (map (\<lambda>(k, n). (k, PInt n)) (fst ?r)))], set_session sid (snd ?r) s)"
    using assms(1)
    by (simp add: sandbox_call_def str_arg_def str_list_arg_def map_exn_PStr capture_diff_def split: prod.splits)
  moreover have "map_of (map (\<lambda>(k, n). (k, PInt n)) (fst ?r)) k = Some (PInt (n k))" if "k \<in> set ts" for k
    using count_tables_ok [OF assms(2,3), of "[]" k] that by (simp add: map_of_map)
  ultimately show ?thesis using count_tables_ok [OF assms(2,3), of "[]"] that by simp
qed

lemma sandbox_run:
  assumes "cx_env cx = sandbox_env sg ids s0 other"
    and "sandbox_call sg (ids (length l)) tool args (replay sg ids s0 l) = (Inr d, s')"
  obtains l' where "run_task (cx_env cx) (call_task cx ''transaction-sandbox'' tool args) l = (Inr (PDict d), l')"
    "replay sg ids s0 l' = s'"
proof (rule that)
  let ?c = "\<lparr> mc_url = TRANSACTION_SANDBOX_URL, mc_tool = tool, mc_args = args \<rparr>"
  let ?g = "log_tool_call cx tool (hash_payload (cx_hash cx) (PDict args)) (hash_payload (cx_hash cx) (PDict d))"
  have "cx_env cx l ?c = Inr (PDict d)" by (simp add: assms sandbox_env_def)
  then show "run_task (cx_env cx) (call_task cx ''transaction-sandbox'' tool args) l = (Inr (PDict d), (l @ [?c]) @ [?g])"
    by (simp add: call_task_def)
  have "mc_url ?g \<noteq> TRANSACTION_SANDBOX_URL"
    by (simp add: log_tool_call_def AUDIT_LOGGER_URL_def TRANSACTION_SANDBOX_URL_def)
  then show "replay sg ids s0 ((l @ [?c]) @ [?g]) = s'"
    by (simp add: replay_snoc assms(2) del: append_assoc)
qed

lemma sandbox_task_run:
  assumes "cx_env cx = sandbox_env sg ids s0 other"
    and "sandbox_call sg (ids (length l)) tool args (replay sg ids s0 l) = (Inr d, s')"
  obtains l' where "run_task (cx_env cx) (sandbox_task cx tool args) l = (Inr d, l')" "replay sg ids s0 l' = s'"
proof -
  from sandbox_run [OF assms] obtain l' where
    "run_task (cx_env cx) (call_task cx ''transaction-sandbox'' tool args) l = (Inr (PDict d), l')" "replay sg ids s0 l' = s'" .
  then show ?thesis by (intro that [of l']) (simp_all add: sandbox_task_def run_task_tseq tlift_def as_dict_def)
qed


lemma row_delta_ok:
  "map_of a t = Some (PInt m) \<Longrightarrow> map_of b t = Some (PInt n) \<Longrightarrow> 0 \<le> m \<Longrightarrow> 0 \<le> n \<Longrightarrow>
   row_delta (PDict a) (PDict b) t = Inr (Some \<bar>m - n\<bar>)"
  by (simp add: row_delta_def both_counts_def count_of_def)

lemma set_dict_fromkeys: "set (dict_fromkeys xs) = set xs"
  by (induction xs) auto

lemma map_exn_total: "(\<And>x. x \<in> set xs \<Longrightarrow> f x = Inr (g x)) \<Longrightarrow> map_exn f xs = Inr (map g xs)"
  by (induction xs) auto

text \<open>The counts of every table, before on \<open>d\<close> and after on \<open>er_data r\<close>.\<close>

definition measured :: "'d staging \<Rightarrow> HandoffContract \<Rightarrow> 'd \<Rightarrow> 'd exec_result \<Rightarrow> (string \<Rightarrow> int) \<Rightarrow> (string \<Rightarrow> int) \<Rightarrow> bool" where
  "measured sg c d r n m \<longleftrightarrow> sg_exec sg (raw_sql c) d = Inr r
     \<and> counts_ok sg d (tables_to_count c) n \<and> counts_ok sg (er_data r) (tables_to_count c) m"

definition measured_result :: "HandoffContract \<Rightarrow> (string \<Rightarrow> int) \<Rightarrow> (string \<Rightarrow> int) \<Rightarrow> pyval list \<Rightarrow> SimulationResult" where
  "measured_result c n m es =
     sim_default\<lparr> sm_executed := True,
       sm_actual_primary_rows := Some \<bar>n (primary_table c) - m (primary_table c)\<bar>,
       sm_actual_cascade := map (\<lambda>e. e\<lparr> ce_actual_rows := Some \<bar>n (ce_table e) - m (ce_table e)\<bar> \<rparr>) (cascade c),
       sm_trigger_log := es \<rparr>"

lemma build_result_measured:
  assumes "\<And>t. t \<in> set (tables_to_count c) \<Longrightarrow> map_of pre t = Some (PInt (n t)) \<and> map_of post t = Some (PInt (m t)) \<and> 0 \<le> n t \<and> 0 \<le> m t"
    and "primary_table c \<noteq> []" and "list_all (\<lambda>e. ce_table e \<noteq> []) (cascade c)"
  shows "build_result c (PDict pre) (PDict post) es = Inr (measured_result c n m es)"
proof -
  have "actual_entry (PDict pre) (PDict post) e = Inr (e\<lparr> ce_actual_rows := Some \<bar>n (ce_table e) - m (ce_table e)\<bar> \<rparr>)"
    if "e \<in> set (cascade c)" for e
    using that assms row_delta_ok [of pre "ce_table e" "n (ce_table e)" post "m (ce_table e)"]
    by (simp add: actual_entry_def tables_to_count_def set_dict_fromkeys list_all_iff)
  moreover have "row_delta (PDict pre) (PDict post) (primary_table c) = Inr (Some \<bar>n (primary_table c) - m (primary_table c)\<bar>)"
    using assms(1) [of "primary_table c"] by (simp add: tables_to_count_def set_dict_fromkeys row_delta_ok)
  ultimately show ?thesis
    using assms(2) by (simp add: build_result_def map_exn_total measured_result_def)
qed

abbreviation diff_args :: "string \<Rightarrow> HandoffContract \<Rightarrow> string \<Rightarrow> pydict" where
  "diff_args sid c ph \<equiv> [(''session_id'', PStr sid), (''tables'', PList (map PStr (tables_to_count c))), (''phase'', PStr ph)]"

abbreviation exec_args :: "string \<Rightarrow> HandoffContract \<Rightarrow> pydict" where
  "exec_args sid c \<equiv> [(''session_id'', PStr sid), (''sql'', PStr (raw_sql c))]"

lemma capture_run:
  assumes env: "cx_env cx = sandbox_env sg ids s0 other"
    and "map_of (sb_sessions (replay sg ids s0 l)) sid = Some t" and "counts_ok sg (tx_data t) (tables_to_count c) n" and "\<not> tx_aborted t"
  obtains counts l' where "run_task (cx_env cx) (sandbox_task cx ''capture_diff'' (diff_args sid c ph)) l = (Inr [(''table_counts'', PDict counts)], l')"
    "map_of (sb_sessions (replay sg ids s0 l')) sid = Some t" "\<And>k. k \<in> set (tables_to_count c) \<Longrightarrow> map_of counts k = Some (PInt (n k))"
proof -
  from capture_ok [OF assms(2-4), where x = "ids (length l)" and ph = "PStr ph"] obtain counts s' where
    c: "sandbox_call sg (ids (length l)) ''capture_diff'' (diff_args sid c ph) (replay sg ids s0 l) = (Inr [(''table_counts'', PDict counts)], s')"
    "map_of (sb_sessions s') sid = Some t" "\<And>k. k \<in> set (tables_to_count c) \<Longrightarrow> map_of counts k = Some (PInt (n k))"
    by metis
  from sandbox_task_run [OF env c(1)] c(2,3) that show ?thesis by metis
qed

lemma execute_run:
  assumes env: "cx_env cx = sandbox_env sg ids s0 other"
    and "map_of (sb_sessions (replay sg ids s0 l)) sid = Some \<lparr> tx_data = d, tx_aborted = False \<rparr>" and "sg_exec sg (raw_sql c) d = Inr r"
  obtains v l' where "run_task (cx_env cx) (call_task cx ''transaction-sandbox'' ''execute_in_sandbox'' (exec_args sid c)) l = (Inr v, l')"
    "map_of (sb_sessions (replay sg ids s0 l')) sid = Some \<lparr> tx_data = er_data r, tx_aborted = False \<rparr>"
proof -
  have "\<exists>a s'. sandbox_call sg (ids (length l)) ''execute_in_sandbox'' (exec_args sid c) (replay sg ids s0 l) = (Inr a, s')
      \<and> map_of (sb_sessions s') sid = Some \<lparr> tx_data = er_data r, tx_aborted = False \<rparr>"
    by (simp add: sandbox_call_def str_arg_def execute_in_sandbox_def assms(2,3))
  with sandbox_run [OF env] that show ?thesis by metis
qed

lemma in_session_measures:
  assumes env: "cx_env cx = sandbox_env sg ids s0 other"
    and "map_of (sb_sessions (replay sg ids s0 l)) sid = Some \<lparr> tx_data = d, tx_aborted = False \<rparr>"
    and "measured sg c d r n m" and "sg_trigger_log sg sid (er_data r) = Inr es"
    and "primary_table c \<noteq> []" and "list_all (\<lambda>e. ce_table e \<noteq> []) (cascade c)"
  shows "fst (run_task (cx_env cx) (in_session cx c (PStr sid)) l) = Inr (measured_result c n m es)"
proof -
  have ok: "sg_exec sg (raw_sql c) d = Inr r" "counts_ok sg d (tables_to_count c) n" "counts_ok sg (er_data r) (tables_to_count c) m"
    using assms(3) by (simp_all add: measured_def)
  obtain pre l1 where r1: "run_task (cx_env cx) (sandbox_task cx ''capture_diff'' (diff_args sid c ''pre'')) l = (Inr [(''table_counts'', PDict pre)], l1)"
    "map_of (sb_sessions (replay sg ids s0 l1)) sid = Some \<lparr> tx_data = d, tx_aborted = False \<rparr>"
    "\<And>k. k \<in> set (tables_to_count c) \<Longrightarrow> map_of pre k = Some (PInt (n k))"
    using capture_run [OF env assms(2), where n = n and c = c and ph = "''pre''"] ok(2) by auto
  obtain v l2 where r2: "run_task (cx_env cx) (call_task cx ''transaction-sandbox'' ''execute_in_sandbox'' (exec_args sid c)) l1 = (Inr v, l2)"
    "map_of (sb_sessions (replay sg ids s0 l2)) sid = Some \<lparr> tx_data = er_data r, tx_aborted = False \<rparr>"
    using execute_run [OF env r1(2) ok(1)] by blast
  obtain post l3 where r3: "run_task (cx_env cx) (sandbox_task cx ''capture_diff'' (diff_args sid c ''post'')) l2 = (Inr [(''table_counts'', PDict post)], l3)"
    "map_of (sb_sessions (replay sg ids s0 l3)) sid = Some \<lparr> tx_data = er_data r, tx_aborted = False \<rparr>"
    "\<And>k. k \<in> set (tables_to_count c) \<Longrightarrow> map_of post k = Some (PInt (m k))"
    using capture_run [OF env r2(2), where n = m and c = c and ph = "''post''"] ok(3) by auto
  have "sandbox_call sg (ids (length l3)) ''get_trigger_log'' [(''session_id'', PStr sid)] (replay sg ids s0 l3)
      = (Inr [(''trigger_log'', PList es)], replay sg ids s0 l3)"
    by (simp add: sandbox_call_def str_arg_def get_trigger_log_def r3(2) assms(4))
  from sandbox_task_run [OF env this] obtain l4 where
    r4: "run_task (cx_env cx) (sandbox_task cx ''get_trigger_log'' [(''session_id'', PStr sid)]) l3 = (Inr [(''trigger_log'', PList es)], l4)" .
  have "build_result c (PDict pre) (PDict post) es = Inr (measured_result c n m es)"
    using r1(3) r3(3) ok(2,3) assms(5,6) by (intro build_result_measured) (auto simp: counts_ok_def list_all_iff)
  then show ?thesis
    by (simp add: in_session_def Let_def run_task_tseq r1(1) ttry_def run_task_tbind r2(1) r3(1) r4 tlift_def as_list_def dict_get_def)
qed


text \<open>
  C29. The simulation measures what the SQL does. Against the repository's sandbox server, for a
  write on a staging database where every affected table can be counted, the client reports as
  actual rows of the primary table, and of every cascade table, exactly the absolute difference of
  the row counts before and after the statement, and the external calls that the sandbox logged.
\<close>

theorem simulation_measures_effect:
  assumes "cx_env cx = sandbox_env sg ids s0 other" and "sg_url sg \<noteq> []" and "ids (length l) \<noteq> []"
    and "operation_type c \<noteq> OT_SELECT" and "primary_table c \<noteq> []" and "list_all (\<lambda>e. ce_table e \<noteq> []) (cascade c)"
    and "measured sg c (sb_committed (replay sg ids s0 l)) r n m"
    and "sg_trigger_log sg (ids (length l)) (er_data r) = Inr es"
  shows "fst (run_task (cx_env cx) (simulate cx c) l) = Inr (measured_result c n m es)"
proof -
  let ?s = "replay sg ids s0 l" and ?sid = "ids (length l)"
  let ?t = "\<lparr> tx_data = sb_committed ?s, tx_aborted = False \<rparr>"
  have "sandbox_call sg ?sid ''begin_sandbox'' [(''tenant_id'', PStr (tenant_id c))] ?s
      = (Inr [(''session_id'', PStr ?sid), (''transaction_open'', PBool True)], set_session ?sid ?t ?s)"
    using assms(2) by (simp add: sandbox_call_def begin_sandbox_def)
  from sandbox_task_run [OF assms(1) this] obtain l1 where
    b: "run_task (cx_env cx) (sandbox_task cx ''begin_sandbox'' [(''tenant_id'', PStr (tenant_id c))]) l
          = (Inr [(''session_id'', PStr ?sid), (''transaction_open'', PBool True)], l1)"
    "replay sg ids s0 l1 = set_session ?sid ?t ?s" .
  have "fst (run_task (cx_env cx) (in_session cx c (PStr ?sid)) l1) = Inr (measured_result c n m es)"
    using b(2) assms(7,8,5,6) by (intro in_session_measures [OF assms(1), where d = "sb_committed ?s" and r = r]) simp_all
  then have "fst (run_task (cx_env cx) (run_once cx c) l) = Inr (measured_result c n m es)"
    using b(1) assms(3) by (auto simp: run_once_def run_task_tseq tfinally_def run_task_tbind dict_get_def Let_def split: prod.splits)
  then show ?thesis
    using assms(4,5) by (auto simp: simulate_def ttry_def run_task_tbind split: prod.splits)
qed

theorem simulation_measures_effect_witness:
  "fst (run_task (cx_env (cs_agent toy_ctx)) (simulate (cs_agent toy_ctx) sim_contract) [])
     = Inr (measured_result sim_contract (\<lambda>_. 7) (\<lambda>_. 0) [])
   \<and> sm_actual_primary_rows (measured_result sim_contract (\<lambda>_. 7) (\<lambda>_. 0) []) = Some 7"
proof -
  let ?r = "\<lparr> er_rows = 7, er_data = 0, er_commits = False \<rparr> :: int exec_result"
  let ?s0 = "\<lparr> sb_committed = 7, sb_sessions = [] \<rparr> :: int sandbox"
  have 1: "cx_env (cs_agent toy_ctx) = sandbox_env toy_staging (\<lambda>n. ''s'' @ show_nat n) ?s0 (\<lambda>_ _. Inl (MCPCallError ''down''))"
    by (simp add: toy_ctx_def)
  have 2: "sg_url toy_staging \<noteq> []" "sg_trigger_log toy_staging sid 0 = Inr []" for sid
    by (simp_all add: toy_staging_def)
  have 3: "operation_type sim_contract \<noteq> OT_SELECT" "primary_table sim_contract \<noteq> []" "list_all (\<lambda>e. ce_table e \<noteq> []) (cascade sim_contract)"
    by (simp_all add: sim_contract_def new_contract_def)
  have 4: "measured toy_staging sim_contract (sb_committed (replay toy_staging (\<lambda>n. ''s'' @ show_nat n) ?s0 [])) ?r (\<lambda>_. 7) (\<lambda>_. 0)"
    by (simp add: measured_def toy_staging_def counts_ok_def table_count_def replay_def list_all_iff)
  have "fst (run_task (cx_env (cs_agent toy_ctx)) (simulate (cs_agent toy_ctx) sim_contract) [])
     = Inr (measured_result sim_contract (\<lambda>_. 7) (\<lambda>_. 0) [])"
    by (rule simulation_measures_effect [OF 1 2(1) _ 3 4]) (simp_all add: 2)
  then show ?thesis by (simp add: measured_result_def)
qed

text \<open>
  The node never fails and stays in its lane: under every schedule and whatever the services
  answer or raise, the agent returns a contract. It differs from the one it was given in the
  context and simulation fields only: identity, analysis, policy verdict, tier and decision are
  unchanged; a failed retrieval leaves no precedents.
\<close>

theorem context_sim_total_and_local:
  "\<exists>c'. fst (run_context_sim cs0 sched c l) = Inr c'
    \<and> contract_identity c' = contract_identity c \<and> operation_type c' = operation_type c
    \<and> estimated_primary_rows c' = estimated_primary_rows c \<and> cascade c' = cascade c
    \<and> external_triggers c' = external_triggers c \<and> reversibility c' = reversibility c
    \<and> policy_violations c' = policy_violations c \<and> auto_reject_triggered c' = auto_reject_triggered c
    \<and> risk_tier c' = risk_tier c \<and> approval_state c' = approval_state c \<and> human_decision c' = human_decision c
    \<and> (\<not> retrieval_available c' \<longrightarrow> historical_precedents c' = [])"
proof -
  obtain rr sr as1 as2 cs1 cs2 cs where m:
    "interleave (cx_env (cs_agent cs0)) sched (retrieve (cs_agent cs0) c) (run_simulation_with_retry (cs_agent cs0) c) l = ((Inr rr, Inr sr), l @ cs)"
    "cs \<in> shuffles cs1 cs2" "finishes (retrieve (cs_agent cs0) c) as1 cs1 (Inr rr)"
    "finishes (run_simulation_with_retry (cs_agent cs0) c) as2 cs2 (Inr sr)" by (rule run_context_sim_interleaves)
  define c1 where "c1 = apply_outcomes (Inr rr) (Inr sr) c"
  have "rt_available rr \<or> rt_precedents rr = []"
    using m(3) retrieve_unavailable by blast
  then have "\<not> retrieval_available c1 \<longrightarrow> historical_precedents c1 = []"
    by (auto simp: c1_def apply_outcomes_def Let_def apply_retrieval_def apply_simulation_def)
  moreover have "fst (run_context_sim cs0 sched c l) = Inr (add_provenance ''CONTEXT_SIM_AGENT'' CONTEXT_SIM_WRITTEN (cs_now cs0) False c1)"
    by (simp add: run_context_sim_def m(1) Let_def c1_def)
  ultimately show ?thesis
    by (intro exI [of _ "add_provenance ''CONTEXT_SIM_AGENT'' CONTEXT_SIM_WRITTEN (cs_now cs0) False c1"])
       (simp add: c1_def apply_outcomes_local, simp add: add_provenance_def apply_outcomes_local)
qed

theorem context_sim_total_and_local_witness:
  "\<exists>c'. fst (run_context_sim toy_ctx [False] sim_contract []) = Inr c' \<and> risk_tier c' = None"
proof -
  have "risk_tier sim_contract = None" by code_simp
  with context_sim_total_and_local [of toy_ctx "[False]" sim_contract "[]"] show ?thesis by auto
qed

text \<open>
  One table that cannot be counted spoils the simulation. The server reports a failed count
  as -1 and goes on, but the failure has aborted the transaction, so the statement itself is then
  refused in this session, for every SQL text.
\<close>

theorem uncountable_table_aborts_simulation:
  assumes "map_of (sb_sessions s) sid = Some t" and "tbl \<in> set tables" and "table_count sg tbl (tx_data t) = Inl e"
  shows "\<not> isl (fst (capture_diff sg sid tables s))
    \<and> isl (fst (execute_in_sandbox sg sid sql (snd (capture_diff sg sid tables s))))"
proof -
  have keep: "tx_data (snd (count_tables sg ts acc t)) = tx_data t \<and> (tx_aborted t \<longrightarrow> tx_aborted (snd (count_tables sg ts acc t)))"
    for ts acc and t :: "'a tx"
    by (induction ts arbitrary: acc t) (auto simp: count_table_def split: prod.splits sum.splits if_splits)
  have "tx_aborted (snd (count_tables sg ts acc t))"
    if "tbl \<in> set ts" "table_count sg tbl (tx_data t) = Inl e" for ts acc and t :: "'a tx"
    using that
  proof (induction ts arbitrary: acc t)
    case (Cons a ts)
    obtain n t' where c: "count_table sg a t = (n, t')" by (cases "count_table sg a t")
    then have t': "tx_data t' = tx_data t" by (auto simp: count_table_def split: if_splits prod.splits sum.splits)
    show ?case
    proof (cases "tbl = a")
      case True
      with c Cons.prems(2) have "tx_aborted t'"
        by (auto simp: count_table_def table_count_def split: if_splits prod.splits sum.splits)
      with keep show ?thesis by (simp add: c)
    next
      case False
      with Cons t' show ?thesis by (simp add: c)
    qed
  qed simp
  from this [OF assms(2,3), of "[]"] assms(1) show ?thesis
    by (auto simp: capture_diff_def execute_in_sandbox_def split: prod.splits)
qed

theorem uncountable_table_aborts_simulation_witness:
  "let sg = toy_staging\<lparr> sg_count := (\<lambda>_ _ _. Inl (RuntimeError ''relation does not exist'')) \<rparr>;
       s = \<lparr> sb_committed = 7, sb_sessions = [(''s1'', \<lparr> tx_data = 7, tx_aborted = False \<rparr>)] \<rparr>
   in isl (fst (execute_in_sandbox sg ''s1'' ''DELETE FROM orders'' (snd (capture_diff sg ''s1'' [''orders''] s))))"
  unfolding Let_def
  by (intro conjunct2 [OF uncountable_table_aborts_simulation [where tbl = "''orders''"]])
     (simp_all add: table_count_def split: prod.splits)

end
