(* ===== verification/Contract_Builder.thy ===== *)
theory Contract_Builder
  imports Risk_Rules
begin

text \<open>
  \<open>agents/contract/contract_schema.py\<close> and \<open>agents/contract/contract_builder.py\<close>: the
  human-facing \<open>ApprovalContract\<close>, its four sections and the mechanical rollback plan. The four
  prose strings come from the language model; everything else is computed from the
  \<open>HandoffContract\<close>. ISO timestamps are integers (microseconds).
\<close>

section \<open>The approval contract\<close>

record CascadeImpact =
  ci_table :: string
  ci_estimated_rows :: int
  ci_actual_rows :: "int option"
  ci_cascade_action :: string
  ci_depth :: int

record ExternalActionEntry =
  ea_trigger_name :: string
  ea_event :: string
  ea_extension :: string
  ea_estimated_calls :: "int option"
  ea_target_endpoint :: "string option"
  ea_sandbox_logged :: bool
  ea_note :: string

record WhatWillHappen =
  w_operation_summary :: string
  w_operation_type :: string
  w_primary_table :: string
  w_source_condition :: string
  w_estimated_primary_rows :: int
  w_actual_primary_rows :: "int option"
  w_simulation_row_delta_note :: "string option"
  w_cascade_impact :: "CascadeImpact list"
  w_total_estimated_rows :: int
  w_total_actual_rows :: "int option"
  w_external_actions :: "ExternalActionEntry list"

record WhatCannotBeUndone =
  u_reversibility :: string
  u_reversibility_reason :: string
  u_database_changes_explanation :: string
  u_external_effects_explanation :: string
  u_permanent_components :: "string list"
  u_rollback_plan :: "string option"
  u_requires_permanent_acknowledgement :: bool

record HistoricalPrecedentEntry =
  hp_operation_id :: string
  hp_intent_summary :: string
  hp_tables :: "string list"
  hp_outcome :: string
  hp_decision_reason :: string
  hp_similarity_score :: rat
  hp_jaccard_score :: rat
  hp_rerank_score :: rat
  hp_is_top_result :: bool

record HasThisHappenedBefore =
  b_retrieval_available :: bool
  b_precedents :: "HistoricalPrecedentEntry list"
  b_historical_summary :: string
  b_contains_rejected_outcome :: bool

record SystemFlags =
  f_policy_violations :: "PolicyViolation list"
  f_historical_rejection_warning :: bool
  f_simulation_unavailable :: bool
  f_retrieval_unavailable :: bool
  f_prompt_injection_risk :: bool
  f_external_actions_cannot_be_simulated :: bool
  f_confidence_reduced :: bool
  f_confidence_reason :: "string option"
  f_sequence_gap_warning :: bool

record ContractSections =
  what_will_happen :: WhatWillHappen
  what_cannot_be_undone :: WhatCannotBeUndone
  has_this_happened_before :: HasThisHappenedBefore
  system_flags :: SystemFlags

record ApprovalContract =
  ac_approval_id :: string
  ac_operation_id :: string
  ac_tenant_id :: string
  ac_risk_tier :: string
  ac_risk_score :: rat
  ac_risk_tier_deterministic :: bool
  ac_requires_permanent_acknowledgement :: bool
  ac_sections :: ContractSections
  ac_decision_options :: "string list"
  ac_reason_required :: bool
  ac_reason_minimum_length :: int
  ac_timeout_at :: int
  ac_assembled_at :: int
  ac_contract_version :: string

section \<open>Section builders\<close>

definition simulated_note :: string where
  "simulated_note = ''Cannot be simulated '' @ em_dash @ '' would fire in production''"

definition requires_permanent_acknowledgement :: "HandoffContract \<Rightarrow> bool" where
  "requires_permanent_acknowledgement c = (reversibility c = Some PERMANENT)"

definition or_default :: "string \<Rightarrow> string \<Rightarrow> string" where
  "or_default s d = (if s = [] then d else s)"

definition build_section1 :: "HandoffContract \<Rightarrow> string \<Rightarrow> WhatWillHappen" where
  "build_section1 c summary =
     (let total_actual =
            (case actual_primary_rows c of None \<Rightarrow> None
             | Some n \<Rightarrow> Some (n + sum_list (map the (filter (\<lambda>r. r \<noteq> None)
                                   (map ce_actual_rows (actual_cascade c))))));
          sim_note =
            (if simulation_executed c \<and> actual_primary_rows c \<noteq> None then
               Some (''Staging simulation affected '' @ show_commas (the (actual_primary_rows c))
                 @ '' rows (estimated: '' @ show_commas (estimated_primary_rows c) @ '')'')
             else if \<not> simulation_available c then
               Some (''Staging simulation was unavailable '' @ em_dash @ '' estimates only'')
             else None)
      in \<lparr> w_operation_summary = summary, w_operation_type = op_value (operation_type c),
           w_primary_table = or_default (primary_table c) ''(unknown)'',
           w_source_condition = or_default (condition c) ''(none)'',
           w_estimated_primary_rows = estimated_primary_rows c,
           w_actual_primary_rows = actual_primary_rows c,
           w_simulation_row_delta_note = sim_note,
           w_cascade_impact = map (\<lambda>e. \<lparr> ci_table = ce_table e,
             ci_estimated_rows = ce_estimated_rows e, ci_actual_rows = ce_actual_rows e,
             ci_cascade_action = ce_cascade_action e, ci_depth = ce_depth e \<rparr>) (cascade c),
           w_total_estimated_rows =
             estimated_primary_rows c + sum_list (map ce_estimated_rows (cascade c)),
           w_total_actual_rows = total_actual,
           w_external_actions = map (\<lambda>t. \<lparr> ea_trigger_name = et_trigger_name t,
             ea_event = et_event t, ea_extension = et_extension t,
             ea_estimated_calls = et_estimated_calls t, ea_target_endpoint = et_target_endpoint t,
             ea_sandbox_logged = (et_sandbox_log_entry t \<notin> {None, Some []}),
             ea_note = simulated_note \<rparr>) (external_triggers c) \<rparr>)"

definition build_section2 ::
  "HandoffContract \<Rightarrow> string option \<Rightarrow> string \<Rightarrow> string \<Rightarrow> WhatCannotBeUndone" where
  "build_section2 c plan db_changes ext_effects =
     \<lparr> u_reversibility = (case reversibility c of None \<Rightarrow> ''UNKNOWN'' | Some r \<Rightarrow> rev_value r),
       u_reversibility_reason = reversibility_reason c,
       u_database_changes_explanation = db_changes,
       u_external_effects_explanation = ext_effects,
       u_permanent_components = permanent_components c,
       u_rollback_plan = plan,
       u_requires_permanent_acknowledgement = requires_permanent_acknowledgement c \<rparr>"

definition precedent_entry :: "nat \<Rightarrow> HistoricalOperation \<Rightarrow> HistoricalPrecedentEntry" where
  "precedent_entry i h =
     \<lparr> hp_operation_id = ho_operation_id h, hp_intent_summary = ho_intent_summary h,
       hp_tables = ho_tables h, hp_outcome = ho_outcome h,
       hp_decision_reason = ho_decision_reason h, hp_similarity_score = ho_similarity_score h,
       hp_jaccard_score = ho_jaccard_score h, hp_rerank_score = ho_rerank_score h,
       hp_is_top_result = (i = 0) \<rparr>"

definition build_section3 :: "HandoffContract \<Rightarrow> string \<Rightarrow> HasThisHappenedBefore" where
  "build_section3 c summary =
     (let ps = map (\<lambda>(i, h). precedent_entry i h)
                 (enumerate 0 (take 3 (historical_precedents c)))
      in \<lparr> b_retrieval_available = retrieval_available c, b_precedents = ps,
           b_historical_summary = summary,
           b_contains_rejected_outcome = list_ex (\<lambda>p. hp_outcome p = ''REJECTED'') ps \<rparr>)"

definition build_section4 :: "HandoffContract \<Rightarrow> SystemFlags" where
  "build_section4 c =
     (let x = row_confidence c;
          reduced = x < 7/10;
          reason =
            (if x = 0 then Some ''Row statistics not available for this table''
             else if x < LOW_CONFIDENCE_THRESHOLD then
               Some (''Very low confidence ('' @ show_percent x @ '') '' @ em_dash
                     @ '' statistics may be severely stale or missing'')
             else if x < 5/10 then
               Some (''Low confidence ('' @ show_percent x @ '') '' @ em_dash
                     @ '' statistics may be stale'')
             else if reduced then
               Some (''Moderate confidence ('' @ show_percent x @ '') '' @ em_dash
                     @ '' statistics may be slightly stale'')
             else None)
      in \<lparr> f_policy_violations = policy_violations c,
           f_historical_rejection_warning =
             list_ex (\<lambda>h. ho_outcome h = ''REJECTED'') (historical_precedents c),
           f_simulation_unavailable = (\<not> simulation_available c),
           f_retrieval_unavailable = (\<not> retrieval_available c),
           f_prompt_injection_risk = prompt_injection_risk c,
           f_external_actions_cannot_be_simulated = (external_triggers c \<noteq> []),
           f_confidence_reduced = reduced, f_confidence_reason = reason,
           f_sequence_gap_warning = sequence_gap_warning c \<rparr>)"

section \<open>Assembly\<close>

definition derive_rollback_plan :: "HandoffContract \<Rightarrow> string option" where
  "derive_rollback_plan c =
     (let table = or_default (primary_table c) ''the affected table'' in
      case reversibility c of
        None \<Rightarrow> None
      | Some PERMANENT \<Rightarrow> None
      | Some REVERSIBLE_AUTOMATED \<Rightarrow>
          (if operation_type c = OT_INSERT \<and> table \<noteq> [] then
             Some (''DELETE FROM '' @ table @ '' WHERE [match the INSERT'' @ [CHR 0x27]
               @ ''s identifying condition]. Verify carefully before executing '' @ em_dash
               @ '' ensure the DELETE targets exactly the rows that were inserted.'')
           else if operation_type c \<in> {OT_DELETE, OT_UPDATE} then
             (let note = (if condition c = [] then ''no condition recorded''
                          else ''original filter: '' @ condition c)
              in Some (''Restore rows to '' @ table @ '': requires restore from a pre-execution ''
                   @ ''snapshot or backup ('' @ note @ ''). Contact DBA to perform point-in-time ''
                   @ ''restore to before this operation'' @ [CHR 0x27] @ ''s timestamp.''))
           else Some ''Automated recovery: restore from pre-execution snapshot if available.'')
      | Some REVERSIBLE_PITR \<Rightarrow>
          Some (''Point-in-time recovery required. Contact your DBA to restore the database to a ''
            @ ''state before this operation'' @ [CHR 0x27] @ ''s timestamp. Recovery time depends ''
            @ ''on database size and PITR infrastructure.'')
      | Some PARTIAL \<Rightarrow>
          Some (''Partial recovery possible. Database changes may be recoverable via PITR; ''
            @ ''external side effects (API calls, webhooks that already fired) cannot be ''
            @ ''automatically reversed.''))"

record prose =
  p_operation_summary :: string
  p_database_changes_explanation :: string
  p_external_effects_explanation :: string
  p_historical_summary :: string

definition REVIEW_TIMEOUT_MICROS :: int where
  "REVIEW_TIMEOUT_MICROS = 1800 * 1000000"

definition build_approval_contract ::
  "string \<Rightarrow> int \<Rightarrow> int \<Rightarrow> HandoffContract \<Rightarrow> RiskTier \<Rightarrow> rat \<Rightarrow> string option \<Rightarrow> prose
   \<Rightarrow> ApprovalContract" where
  "build_approval_contract uid now1 now2 c tier score plan p =
     \<lparr> ac_approval_id = ''approval_'' @ operation_id c @ ''_'' @ take 8 uid,
       ac_operation_id = operation_id c, ac_tenant_id = tenant_id c,
       ac_risk_tier = tier_value tier, ac_risk_score = score,
       ac_risk_tier_deterministic = True,
       ac_requires_permanent_acknowledgement = requires_permanent_acknowledgement c,
       ac_sections = \<lparr> what_will_happen = build_section1 c (p_operation_summary p),
         what_cannot_be_undone = build_section2 c plan (p_database_changes_explanation p)
                                   (p_external_effects_explanation p),
         has_this_happened_before = build_section3 c (p_historical_summary p),
         system_flags = build_section4 c \<rparr>,
       ac_decision_options = [''APPROVE'', ''REJECT'', ''MODIFY'', ''REQUEST_PREREQ''],
       ac_reason_required = True, ac_reason_minimum_length = 10,
       ac_timeout_at = now1 + REVIEW_TIMEOUT_MICROS, ac_assembled_at = now2,
       ac_contract_version = ''1.0'' \<rparr>"

section \<open>Lemmas\<close>

text \<open>An approval contract without the language model's prose.\<close>

definition blank_prose :: "ApprovalContract \<Rightarrow> ApprovalContract" where
  "blank_prose a =
     (let s = ac_sections a in
      a\<lparr> ac_sections :=
          s\<lparr> what_will_happen := (what_will_happen s)\<lparr> w_operation_summary := '''' \<rparr>,
             what_cannot_be_undone := (what_cannot_be_undone s)
               \<lparr> u_database_changes_explanation := '''', u_external_effects_explanation := '''' \<rparr>,
             has_this_happened_before :=
               (has_this_happened_before s)\<lparr> b_historical_summary := '''' \<rparr> \<rparr> \<rparr>)"

lemma blank_prose_build:
  "blank_prose (build_approval_contract uid n1 n2 c t s plan p)
     = blank_prose (build_approval_contract uid n1 n2 c t s plan p')"
  by (simp add: blank_prose_def build_approval_contract_def build_section1_def build_section2_def
      build_section3_def Let_def)

lemma derive_rollback_None_iff:
  "derive_rollback_plan c = None \<longleftrightarrow> reversibility c \<in> {None, Some PERMANENT}"
  by (auto simp: derive_rollback_plan_def Let_def split: option.splits ReversibilityClass.splits)

lemma section1_totals:
  "w_total_estimated_rows (build_section1 c s)
     = w_estimated_primary_rows (build_section1 c s)
       + sum_list (map ci_estimated_rows (w_cascade_impact (build_section1 c s)))"
  by (simp add: build_section1_def Let_def comp_def)

lemma map_enumerate_outcome:
  "map (\<lambda>p. hp_outcome p) (map (\<lambda>(i, h). precedent_entry i h) (enumerate n hs)) = map ho_outcome hs"
  by (induction hs arbitrary: n) (simp_all add: precedent_entry_def)

lemma section3_outcomes:
  "map hp_outcome (b_precedents (build_section3 c s)) = map ho_outcome (take 3 (historical_precedents c))"
  unfolding build_section3_def Let_def
  by (simp add: map_enumerate_outcome [simplified])

lemma list_ex_map_iff: "list_ex (\<lambda>p. f p = y) ps \<longleftrightarrow> y \<in> set (map f ps)"
  by (induction ps) auto

lemma section3_rejected_iff:
  "b_contains_rejected_outcome (build_section3 c s) \<longleftrightarrow>
     ''REJECTED'' \<in> set (map ho_outcome (take 3 (historical_precedents c)))"
proof -
  have "b_contains_rejected_outcome (build_section3 c s) \<longleftrightarrow>
      ''REJECTED'' \<in> set (map hp_outcome (b_precedents (build_section3 c s)))"
    unfolding build_section3_def Let_def by (simp only: HasThisHappenedBefore.simps list_ex_map_iff)
  then show ?thesis by (simp only: section3_outcomes)
qed

end
