(* ===== verification/Contract_Agent.thy ===== *)
theory Contract_Agent
  imports Contract_Builder MCP_Transport
begin

text \<open>
  \<open>agents/contract/agent.py\<close>: the Contract Agent. The language model is an argument that, for
  an attempt number and a contract, raises or returns the blocks of a response. Its prose is
  validated, else a deterministic fallback is used; the risk tier, the score and the rollback
  plan are computed before it is asked. The JSON serialisation, the digest of the contract and
  the text of the audit summary are arguments as well.
\<close>

section \<open>The language model's answer\<close>

type_synonym llm = "nat \<Rightarrow> HandoffContract \<Rightarrow> exn + llm_block list"

definition CONTRACT_SUMMARY_TOOL_NAME :: string where
  "CONTRACT_SUMMARY_TOOL_NAME = ''produce_contract_summary''"

definition MAX_LLM_RETRIES :: nat where
  "MAX_LLM_RETRIES = 2"

definition required_fields :: "string list" where
  "required_fields = [''operation_summary'', ''database_changes_explanation'',
                      ''external_effects_explanation'', ''historical_summary'']"

definition SQL_PATTERNS :: "string list" where
  "SQL_PATTERNS = [''DELETE FROM'', ''UPDATE SET'', ''DROP TABLE'', ''ALTER TABLE'', ''TRUNCATE'',
                   ''INSERT INTO'', ''CREATE TABLE'', ''ROLLBACK;'', ''COMMIT;'']"

definition DECISION_PATTERNS :: "string list" where
  "DECISION_PATTERNS = [''THIS OPERATION SHOULD BE APPROVED'', ''THIS OPERATION SHOULD BE REJECTED'',
     ''APPROVE THIS OPERATION'', ''REJECT THIS OPERATION'', ''YOU SHOULD APPROVE'',
     ''YOU SHOULD REJECT'']"

text \<open>The value of a field if it passes the first check of the validation.\<close>

definition usable_field :: "pydict \<Rightarrow> string \<Rightarrow> string option" where
  "usable_field d f =
     (case map_of d f of Some (PStr s) \<Rightarrow> if length (str_strip s) < 5 then None else Some s
      | _ \<Rightarrow> None)"

definition clip_prose :: "string \<Rightarrow> string" where
  "clip_prose s = take 600 (str_strip s)"

definition validate_and_sanitize_prose :: "pydict \<Rightarrow> prose option" where
  "validate_and_sanitize_prose d =
     (case map (usable_field d) required_fields of
        [Some a, Some b, Some e, Some h] \<Rightarrow>
          (let all_prose = str_join '' '' (map str_upper [a, b, e, h]) in
           if list_ex (\<lambda>p. str_contains p all_prose) SQL_PATTERNS then None
           else if list_ex (\<lambda>p. str_contains p all_prose) DECISION_PATTERNS then None
           else Some \<lparr> p_operation_summary = clip_prose a,
                       p_database_changes_explanation = clip_prose b,
                       p_external_effects_explanation = clip_prose e,
                       p_historical_summary = clip_prose h \<rparr>)
      | _ \<Rightarrow> None)"

text \<open>The loop over the blocks of a response: the first block that validates is returned. A
  tool input that is not an object makes \<open>get\<close> raise, which ends the attempt.\<close>

fun scan_blocks :: "llm_block list \<Rightarrow> exn + prose option" where
  "scan_blocks [] = Inr None"
| "scan_blocks (b # bs) =
     (if bl_type b = ''tool_use'' \<and> bl_name b = CONTRACT_SUMMARY_TOOL_NAME then
        (case bl_input b of
           PDict d \<Rightarrow> (case validate_and_sanitize_prose d of
                         Some p \<Rightarrow> Inr (Some p) | None \<Rightarrow> scan_blocks bs)
         | _ \<Rightarrow> Inl (AttributeError ''get''))
      else scan_blocks bs)"

section \<open>The fallback\<close>

definition fallback_prose :: "HandoffContract \<Rightarrow> prose" where
  "fallback_prose c =
     (let op = op_value (operation_type c);
          table = or_default (primary_table c) ''unknown table'';
          parts = [op @ '' approximately '' @ show_commas (estimated_primary_rows c)
                   @ '' rows from '' @ py_repr table]
            @ (case actual_primary_rows c of None \<Rightarrow> []
               | Some n \<Rightarrow> [''(staging simulation affected '' @ show_commas n @ '' rows)''])
            @ (if cascade c = [] then []
               else [''with cascade to ~'' @ show_commas (sum_list (map ce_estimated_rows (cascade c)))
                     @ '' rows in '' @ show_nat (length (cascade c)) @ '' dependent table(s)'']);
          rev = (case reversibility c of None \<Rightarrow> ''UNKNOWN'' | Some r \<Rightarrow> rev_value r);
          db = (if rev = ''PERMANENT'' then
                  ''This operation is classified PERMANENT '' @ em_dash
                  @ '' the database changes cannot be automatically reversed. ''
                  @ reversibility_reason c
                else if rev \<in> {''REVERSIBLE_AUTOMATED'', ''REVERSIBLE_PITR''} then
                  ''This operation is classified '' @ rev @ '' '' @ em_dash
                  @ '' recovery may be possible. '' @ reversibility_reason c
                else ''Reversibility: '' @ rev @ ''. '' @ reversibility_reason c);
          ext = (if external_triggers c \<noteq> [] then
                   show_nat (length (external_triggers c))
                   @ '' external trigger(s) would fire and cannot be automatically ''
                   @ ''reversed. These effects are outside the database transaction.''
                 else ''No external effects detected.'');
          rejected = filter (\<lambda>h. ho_outcome h = ''REJECTED'') (historical_precedents c);
          hist = (if \<not> retrieval_available c then
                    ''Historical retrieval was unavailable '' @ em_dash
                    @ '' no precedents could be surfaced.''
                  else (case historical_precedents c of
                    [] \<Rightarrow> ''No similar historical operations found in the memory store.''
                  | h0 # _ \<Rightarrow>
                    (case rejected of
                       r # _ \<Rightarrow> show_nat (length rejected)
                         @ '' similar operation(s) were previously REJECTED. Top result: ''
                         @ ho_operation_id r @ ''.''
                     | [] \<Rightarrow> ''Most similar previous operation: '' @ ho_operation_id h0
                         @ '' (outcome: '' @ ho_outcome h0 @ '', similarity: ''
                         @ show_fixed 2 (ho_similarity_score h0) @ '').'')))
      in \<lparr> p_operation_summary = str_join ''. '' parts @ ''.'',
           p_database_changes_explanation = db, p_external_effects_explanation = ext,
           p_historical_summary = hist \<rparr>)"

text \<open>The attempts \<open>1 ..\<close> \<open>MAX_LLM_RETRIES\<close>; a failed or useless attempt only logs.\<close>

fun prose_attempts :: "llm \<Rightarrow> nat list \<Rightarrow> HandoffContract \<Rightarrow> prose" where
  "prose_attempts llm [] c = fallback_prose c"
| "prose_attempts llm (k # ks) c =
     (case llm k c of
        Inl _ \<Rightarrow> prose_attempts llm ks c
      | Inr blocks \<Rightarrow>
          (case scan_blocks blocks of
             Inr (Some p) \<Rightarrow> p
           | _ \<Rightarrow> prose_attempts llm ks c))"

definition get_contract_prose :: "llm \<Rightarrow> HandoffContract \<Rightarrow> prose" where
  "get_contract_prose llm c = prose_attempts llm [1..<Suc MAX_LLM_RETRIES] c"

section \<open>The agent\<close>

record contract_ctx =
  cc_agent :: agent_ctx
  cc_llm :: llm
  cc_dump :: "ApprovalContract \<Rightarrow> string"
  cc_contract_hash :: "HandoffContract \<Rightarrow> string"
  cc_summary :: "HandoffContract \<Rightarrow> string"
  cc_uid :: string
  cc_time :: int

text \<open>Steps 1 and 2: the deterministic fields.\<close>

definition classify_and_plan :: "HandoffContract \<Rightarrow> HandoffContract" where
  "classify_and_plan c =
     (let (tier, score) = classify_risk c;
          c1 = c\<lparr> risk_tier := Some tier, risk_score := score \<rparr>
      in c1\<lparr> rollback_plan := derive_rollback_plan c1 \<rparr>)"

text \<open>Steps 3 and 4.\<close>

definition assemble :: "contract_ctx \<Rightarrow> HandoffContract \<Rightarrow> prose \<times> ApprovalContract" where
  "assemble cc c =
     (let c2 = classify_and_plan c;
          p = get_contract_prose (cc_llm cc) c2
      in (p, build_approval_contract (cc_uid cc) (cc_time cc) (cc_time cc) c2
               (fst (classify_risk c)) (snd (classify_risk c)) (rollback_plan c2) p))"

definition run_contract_agent :: "contract_ctx \<Rightarrow> HandoffContract \<Rightarrow> HandoffContract eff" where
  "run_contract_agent cc c l =
     (let (p, ac) = assemble cc c;
          c3 = (classify_and_plan c)
                 \<lparr> intent_summary_prose := p_operation_summary p,
                   approval_contract_json := cc_dump cc ac,
                   contract_assembled := True \<rparr>;
          c4 = add_provenance ''CONTRACT_AGENT''
                 (''risk_tier,risk_score,rollback_plan,''
                  @ ''intent_summary_prose,approval_contract_json,contract_assembled'')
                 (cc_time cc) True c3
      in (Inr c4, log_agent_output (cc_agent cc) (cc_summary cc c4) (cc_contract_hash cc c4) l))"

section \<open>Lemmas\<close>

lemma derive_rollback_plan_risk [simp]:
  "derive_rollback_plan (c\<lparr> risk_tier := t, risk_score := x \<rparr>) = derive_rollback_plan c"
proof -
  have "reversibility (c\<lparr> risk_tier := t, risk_score := x \<rparr>) = reversibility c"
    "operation_type (c\<lparr> risk_tier := t, risk_score := x \<rparr>) = operation_type c"
    "primary_table (c\<lparr> risk_tier := t, risk_score := x \<rparr>) = primary_table c"
    "condition (c\<lparr> risk_tier := t, risk_score := x \<rparr>) = condition c"
    by simp_all
  then show ?thesis unfolding derive_rollback_plan_def by (simp only:)
qed

lemma classify_and_plan_sel [simp]:
  "risk_tier (classify_and_plan c) = Some (fst (classify_risk c))"
  "risk_score (classify_and_plan c) = snd (classify_risk c)"
  "rollback_plan (classify_and_plan c) = derive_rollback_plan c"
  "reversibility (classify_and_plan c) = reversibility c"
  "operation_id (classify_and_plan c) = operation_id c"
  "tenant_id (classify_and_plan c) = tenant_id c"
  "historical_precedents (classify_and_plan c) = historical_precedents c"
  by (simp_all add: classify_and_plan_def Let_def split: prod.splits)

lemma clip_prose_length: "length (clip_prose s) \<le> 600"
  by (simp add: clip_prose_def)

lemma str_upper_infix: "s = u @ t @ v \<Longrightarrow> str_upper s = str_upper u @ str_upper t @ str_upper v"
  by simp

lemma clip_prose_infix: "\<exists>u v. s = u @ clip_prose s @ v"
proof -
  obtain u v where "s = u @ str_strip s @ v" using str_strip_infix by blast
  then have "s = u @ clip_prose s @ (drop 600 (str_strip s) @ v)"
    unfolding clip_prose_def by (metis append.assoc append_take_drop_id)
  then show ?thesis by blast
qed

lemma clip_prose_contains:
  assumes "str_contains p (str_upper (clip_prose s))"
  shows "str_contains p (str_upper s)"
proof -
  obtain u v where "s = u @ clip_prose s @ v" using clip_prose_infix by blast
  then have "str_upper s = str_upper u @ str_upper (clip_prose s) @ str_upper v"
    by (rule str_upper_infix)
  with assms show ?thesis by (metis str_contains_mono)
qed

lemma str_join_contains: "x \<in> set xs \<Longrightarrow> \<exists>u v. str_join sep xs = u @ x @ v"
proof (induction sep xs rule: str_join.induct)
  case (2 sep y)
  then have "str_join sep [y] = [] @ x @ []" by simp
  then show ?case by blast
next
  case (3 sep y z zs)
  show ?case
  proof (cases "x = y")
    case True
    then have "str_join sep (y # z # zs) = [] @ x @ (sep @ str_join sep (z # zs))" by simp
    then show ?thesis by blast
  next
    case False
    with 3 obtain u v where "str_join sep (z # zs) = u @ x @ v" by auto
    then have "str_join sep (y # z # zs) = (y @ sep @ u) @ x @ v" by simp
    then show ?thesis by blast
  qed
qed simp

text \<open>The strings of a prose, and that one of them holds none of the forbidden patterns.\<close>

definition prose_fields :: "prose \<Rightarrow> string list" where
  "prose_fields p = [p_operation_summary p, p_database_changes_explanation p,
                     p_external_effects_explanation p, p_historical_summary p]"

definition safe_prose :: "string \<Rightarrow> bool" where
  "safe_prose s \<longleftrightarrow> length s \<le> 600 \<and> 5 \<le> length s
     \<and> \<not> list_ex (\<lambda>p. str_contains p (str_upper s)) (SQL_PATTERNS @ DECISION_PATTERNS)"

lemma usable_field_length: "usable_field d f = Some s \<Longrightarrow> 5 \<le> length (str_strip s)"
  by (auto simp: usable_field_def split: option.splits pyval.splits if_splits)

lemma safe_clip:
  assumes "\<not> list_ex (\<lambda>p. str_contains p (str_join '' '' (map str_upper xs))) pats"
    and "s \<in> set xs"
  shows "\<not> list_ex (\<lambda>p. str_contains p (str_upper (clip_prose s))) pats"
proof
  assume "list_ex (\<lambda>p. str_contains p (str_upper (clip_prose s))) pats"
  then obtain p where p: "p \<in> set pats" "str_contains p (str_upper s)"
    by (auto simp: list_ex_iff dest: clip_prose_contains)
  from assms(2) have "str_upper s \<in> set (map str_upper xs)" by simp
  then obtain u v where "str_join '' '' (map str_upper xs) = u @ str_upper s @ v"
    using str_join_contains by blast
  with p have "str_contains p (str_join '' '' (map str_upper xs))"
    by (simp add: str_contains_mono)
  with assms(1) p show False by (auto simp: list_ex_iff)
qed

lemma validated_prose_safe:
  assumes "validate_and_sanitize_prose d = Some p"
  shows "list_all safe_prose (prose_fields p)"
proof -
  obtain a b e h where u: "usable_field d ''operation_summary'' = Some a"
      "usable_field d ''database_changes_explanation'' = Some b"
      "usable_field d ''external_effects_explanation'' = Some e"
      "usable_field d ''historical_summary'' = Some h"
    and sql: "\<not> list_ex (\<lambda>p. str_contains p (str_join '' '' (map str_upper [a, b, e, h]))) SQL_PATTERNS"
    and dec: "\<not> list_ex (\<lambda>p. str_contains p (str_join '' '' (map str_upper [a, b, e, h]))) DECISION_PATTERNS"
    and p: "prose_fields p = map clip_prose [a, b, e, h]"
    using assms
    by (auto simp: validate_and_sanitize_prose_def required_fields_def prose_fields_def Let_def
        split: list.splits option.splits if_splits)
  have "5 \<le> length (clip_prose s)" if "s \<in> set [a, b, e, h]" for s
    using that u [THEN usable_field_length] by (auto simp: clip_prose_def)
  with safe_clip [OF sql] safe_clip [OF dec] clip_prose_length show ?thesis
    unfolding p by (simp add: safe_prose_def list_all_iff)
qed

lemma scan_blocks_safe: "scan_blocks bs = Inr (Some p) \<Longrightarrow> list_all safe_prose (prose_fields p)"
  by (induction bs) (auto split: if_splits pyval.splits option.splits dest: validated_prose_safe)

lemma prose_attempts_safe:
  "prose_attempts llm ks c = fallback_prose c
   \<or> list_all safe_prose (prose_fields (prose_attempts llm ks c))"
  by (induction ks) (auto split: sum.splits option.splits dest: scan_blocks_safe)

lemma run_contract_agent_Inr:
  "run_contract_agent cc c l = (r, l') \<Longrightarrow>
     \<exists>c'. r = Inr c' \<and> operation_id c' = operation_id c \<and> tenant_id c' = tenant_id c
       \<and> risk_tier c' = Some (fst (classify_risk c)) \<and> contract_assembled c'"
  by (auto simp: run_contract_agent_def Let_def add_provenance_def split: prod.splits)

interpretation contract_node: agent_step "run_contract_agent cc" for cc
proof
  fix c l c' l'
  assume "run_contract_agent cc c l = (Inr c', l')"
  then show "contract_identity c' = contract_identity c \<and> provenance_grows c c'"
    and "decision_of c' = decision_of c \<and> auto_reject_triggered c' = auto_reject_triggered c"
    by (auto simp: run_contract_agent_def Let_def classify_and_plan_def contract_identity_def decision_of_def
        provenance_grows_def add_provenance_def split: prod.splits)
qed

section \<open>Properties\<close>

text \<open>
  C28. The language model cannot influence the decision-relevant part of a contract. For any two
  models, whatever they answer or whether they fail, the Contract Agent produces the same
  \<open>HandoffContract\<close> up to the two fields that carry prose, and the same approval contract up
  to its four prose strings: risk tier, score, reversibility, row counts, rollback plan,
  precedents, flags and acknowledgement requirement do not depend on the model.
\<close>

theorem contract_agent_llm_noninterference:
  "blank_prose (snd (assemble cc c)) = blank_prose (snd (assemble (cc\<lparr> cc_llm := other \<rparr>) c))
   \<and> map_sum id (\<lambda>c'. c'\<lparr> intent_summary_prose := '''', approval_contract_json := '''' \<rparr>)
        (fst (run_contract_agent cc c l))
     = map_sum id (\<lambda>c'. c'\<lparr> intent_summary_prose := '''', approval_contract_json := '''' \<rparr>)
        (fst (run_contract_agent (cc\<lparr> cc_llm := other \<rparr>) c l))"
proof
  show "blank_prose (snd (assemble cc c)) = blank_prose (snd (assemble (cc\<lparr> cc_llm := other \<rparr>) c))"
    by (simp add: assemble_def Let_def) (rule blank_prose_build)
qed (simp add: run_contract_agent_def add_provenance_def Let_def split: prod.splits)

text \<open>
  Prose that reaches a human reviewer is either the deterministic fallback or passed
  validation: each of its four strings has 5 to 600 characters and contains, in any letter
  case, neither a SQL pattern nor a phrase that recommends a decision. Stripping and truncating
  cannot reintroduce one.
\<close>

theorem contract_prose_safe:
  "fst (assemble cc c) = fallback_prose (classify_and_plan c)
   \<or> list_all safe_prose (prose_fields (fst (assemble cc c)))"
  by (simp add: assemble_def Let_def get_contract_prose_def prose_attempts_safe)

text \<open>
  What the reviewer sees about recovery is consistent with the classification: the contract
  requires a permanent acknowledgement exactly when the operation is PERMANENT; then it is
  FULL_CONTRACT tier and has no rollback plan, while every other classified operation has one;
  the tier shown is the one computed by the rules, the total row estimate is the sum of its
  parts, and the rejection flag of section 3 speaks of exactly the three precedents it shows.
\<close>

theorem assembled_contract_consistent:
  "let ac = snd (assemble cc c); s = ac_sections ac in
     (ac_requires_permanent_acknowledgement ac \<longleftrightarrow> reversibility c = Some PERMANENT)
   \<and> (reversibility c = Some PERMANENT \<longrightarrow> ac_risk_tier ac = ''FULL_CONTRACT'')
   \<and> (u_rollback_plan (what_cannot_be_undone s) = None
        \<longleftrightarrow> reversibility c \<in> {None, Some PERMANENT})
   \<and> ac_risk_tier ac = tier_value (fst (classify_risk c))
   \<and> w_total_estimated_rows (what_will_happen s)
        = w_estimated_primary_rows (what_will_happen s)
          + sum_list (map ci_estimated_rows (w_cascade_impact (what_will_happen s)))
   \<and> (b_contains_rejected_outcome (has_this_happened_before s)
        \<longleftrightarrow> ''REJECTED'' \<in> set (map hp_outcome (b_precedents (has_this_happened_before s))))"
proof -
  have full: "reversibility c = Some PERMANENT \<Longrightarrow> fst (classify_risk c) = TIER_FULL_CONTRACT"
    by (simp add: classify_risk_def Let_def apply_tier_full_iff full_contract_reason_def)
  show ?thesis
    unfolding assemble_def build_approval_contract_def build_section2_def
      requires_permanent_acknowledgement_def Let_def
    by (simp add: section1_totals section3_rejected_iff section3_outcomes full
        derive_rollback_None_iff)
qed

definition sample_ctx :: contract_ctx where
  "sample_ctx = \<lparr> cc_agent = \<lparr> cx_env = (\<lambda>_ _. Inl (MCPCallError ''down'')), cx_hash = (\<lambda>_. ''h''),
       cx_now = ''t'', cx_agent = ''CONTRACT_AGENT'', cx_operation_id = ''cg_1'' \<rparr>,
     cc_llm = (\<lambda>_ _. Inl (RuntimeError ''no key'')), cc_dump = (\<lambda>a. ac_risk_tier a),
     cc_contract_hash = (\<lambda>_. ''h''), cc_summary = (\<lambda>_. ''s''),
     cc_uid = ''0123456789'', cc_time = 0 \<rparr>"

theorem assembled_contract_consistent_witness:
  "ac_risk_tier (snd (assemble sample_ctx ((risky_sample 0)\<lparr> reversibility := Some PERMANENT \<rparr>)))
     = ''FULL_CONTRACT''"
  using assembled_contract_consistent [of sample_ctx "(risky_sample 0)\<lparr> reversibility := Some PERMANENT \<rparr>"]
  by (simp add: Let_def)

end
