(* ===== verification/Workflow_Store.thy ===== *)
theory Workflow_Store
  imports Guards "HOL-Library.Multiset"
begin

text \<open>
  \<open>orchestrator/workflow_store.py\<close>: the store that the proxy and the workflow share. Contracts
  are mutable objects, and after the review starts the workflow's contract and the stored one
  are the same object, so contracts live in a heap and a record holds a reference. The table of
  PostgreSQL holds snapshots. Every operation takes the store's lock; the model takes it with
  the write-through and the notification that follow as one step (\<^verbatim>\<open>Store_Concurrency\<close> takes them apart).
  Timestamps are integers.
\<close>

section \<open>State\<close>

datatype WorkflowStatus =
    WS_RUNNING | WS_PENDING_HUMAN_APPROVAL | WS_APPROVED | WS_REJECTED | WS_AUTO_REJECTED
  | WS_AUTO_EXECUTED | WS_COMPLETED | WS_FAILED | WS_TIMED_OUT

fun status_value :: "WorkflowStatus \<Rightarrow> string" where
  "status_value WS_RUNNING = ''RUNNING''"
| "status_value WS_PENDING_HUMAN_APPROVAL = ''PENDING_HUMAN_APPROVAL''"
| "status_value WS_APPROVED = ''APPROVED''"
| "status_value WS_REJECTED = ''REJECTED''"
| "status_value WS_AUTO_REJECTED = ''AUTO_REJECTED''"
| "status_value WS_AUTO_EXECUTED = ''AUTO_EXECUTED''"
| "status_value WS_COMPLETED = ''COMPLETED''"
| "status_value WS_FAILED = ''FAILED''"
| "status_value WS_TIMED_OUT = ''TIMED_OUT''"

record WorkflowRecord =
  wr_operation_id :: string
  wr_approval_id :: string
  wr_status :: WorkflowStatus
  wr_contract :: nat
  wr_manifest :: "pydict option"
  wr_execution_result :: "pydict option"
  wr_created_at :: int
  wr_updated_at :: int
  wr_execution_completed :: bool

text \<open>A row of \<open>workflow_records\<close>: the contract is its JSON value.\<close>

record workflow_row =
  row_status :: WorkflowStatus
  row_contract :: HandoffContract
  row_manifest :: "pydict option"
  row_execution_result :: "pydict option"
  row_created_at :: int
  row_updated_at :: int
  row_execution_completed :: bool

text \<open>\<open>w_pool\<close>: the connection pool exists and its statements succeed; \<open>w_log\<close>: the calls to the
  MCP services so far.\<close>

record world =
  w_heap :: "nat \<Rightarrow> HandoffContract"
  w_next :: nat
  w_store :: "(string \<times> WorkflowRecord) list"
  w_subscribers :: "string \<Rightarrow> nat list"
  w_queues :: "nat \<Rightarrow> pydict list"
  w_next_queue :: nat
  w_pool :: bool
  w_rows :: "(string \<times> workflow_row) list"
  w_log :: "mcp_call list"

abbreviation lookup :: "world \<Rightarrow> string \<Rightarrow> WorkflowRecord option" where
  "lookup w k \<equiv> map_of (w_store w) k"

abbreviation stored_contract :: "world \<Rightarrow> WorkflowRecord \<Rightarrow> HandoffContract" where
  "stored_contract w rec \<equiv> w_heap w (wr_contract rec)"

definition write_contract :: "nat \<Rightarrow> HandoffContract \<Rightarrow> world \<Rightarrow> world" where
  "write_contract r c w = w\<lparr> w_heap := (w_heap w)(r := c) \<rparr>"

definition put_record :: "string \<Rightarrow> WorkflowRecord \<Rightarrow> world \<Rightarrow> world" where
  "put_record k rec w = w\<lparr> w_store := dict_set k rec (w_store w) \<rparr>"

text \<open>A new object on the heap.\<close>

definition alloc :: "HandoffContract \<Rightarrow> world \<Rightarrow> nat \<times> world" where
  "alloc c w = (w_next w, w\<lparr> w_heap := (w_heap w)(w_next w := c), w_next := Suc (w_next w) \<rparr>)"

section \<open>Operations\<close>

definition new_record :: "string \<Rightarrow> nat \<Rightarrow> int \<Rightarrow> WorkflowRecord" where
  "new_record oid r now =
     \<lparr> wr_operation_id = oid, wr_approval_id = oid, wr_status = WS_RUNNING, wr_contract = r,
       wr_manifest = None, wr_execution_result = None, wr_created_at = now, wr_updated_at = now,
       wr_execution_completed = False \<rparr>"

definition opt_dict :: "pydict option \<Rightarrow> pyval" where
  "opt_dict d = (case d of None \<Rightarrow> PNone | Some x \<Rightarrow> PDict x)"

definition opt_str :: "string option \<Rightarrow> pyval" where
  "opt_str s = (case s of None \<Rightarrow> PNone | Some x \<Rightarrow> PStr x)"

definition to_status_response :: "world \<Rightarrow> WorkflowRecord \<Rightarrow> pydict" where
  "to_status_response w rec =
     (let c = stored_contract w rec in
      [(''status'', PStr (status_value (wr_status rec))),
       (''approval_id'', PStr (wr_approval_id rec)), (''updated_at'', PInt (wr_updated_at rec))]
      @ (if wr_status rec \<in> {WS_APPROVED, WS_AUTO_EXECUTED, WS_COMPLETED}
         then [(''execution_result'', opt_dict (wr_execution_result rec))] else [])
      @ (if wr_status rec \<in> {WS_REJECTED, WS_AUTO_REJECTED}
         then [(''reason'', py_or (opt_str (decision_reason c)) (opt_str (auto_reject_reason c)))]
         else []))"

text \<open>\<open>json.dumps(d) if d else None\<close>\<close>

definition dump_dict :: "pydict option \<Rightarrow> pydict option" where
  "dump_dict d = (if d = Some [] then None else d)"

definition row_of :: "world \<Rightarrow> WorkflowRecord \<Rightarrow> workflow_row" where
  "row_of w rec =
     \<lparr> row_status = wr_status rec, row_contract = stored_contract w rec,
       row_manifest = dump_dict (wr_manifest rec),
       row_execution_result = dump_dict (wr_execution_result rec),
       row_created_at = wr_created_at rec, row_updated_at = wr_updated_at rec,
       row_execution_completed = wr_execution_completed rec \<rparr>"

text \<open>The upsert does not touch \<open>created_at\<close> of an existing row.\<close>

definition upsert :: "string \<Rightarrow> workflow_row \<Rightarrow> (string \<times> workflow_row) list \<Rightarrow> (string \<times> workflow_row) list" where
  "upsert k row rows =
     (case map_of rows k of
        None \<Rightarrow> dict_set k row rows
      | Some old \<Rightarrow> dict_set k (row\<lparr> row_created_at := row_created_at old \<rparr>) rows)"

definition persist :: "WorkflowRecord \<Rightarrow> world \<Rightarrow> world" where
  "persist rec w =
     (if w_pool w then w\<lparr> w_rows := upsert (wr_operation_id rec) (row_of w rec) (w_rows w) \<rparr> else w)"

definition notify_subscribers :: "string \<Rightarrow> world \<Rightarrow> world" where
  "notify_subscribers k w =
     (case lookup w k of
        None \<Rightarrow> w
      | Some rec \<Rightarrow>
          (let event = to_status_response w rec in
           w\<lparr> w_queues := fold (\<lambda>q Q. Q(q := Q q @ [event])) (w_subscribers w k) (w_queues w) \<rparr>))"

definition create :: "nat \<Rightarrow> pydict \<Rightarrow> int \<Rightarrow> world \<Rightarrow> WorkflowRecord \<times> world" where
  "create r manifest now w =
     (let oid = operation_id (w_heap w r);
          rec = (new_record oid r now)\<lparr> wr_manifest := Some manifest \<rparr>
      in (rec, persist rec (put_record oid rec w)))"

definition update_status :: "string \<Rightarrow> WorkflowStatus \<Rightarrow> int \<Rightarrow> world \<Rightarrow> world" where
  "update_status k st now w =
     (case lookup w k of
        None \<Rightarrow> notify_subscribers k w
      | Some rec \<Rightarrow>
          (let rec' = rec\<lparr> wr_status := st, wr_updated_at := now \<rparr>
           in notify_subscribers k (persist rec' (put_record k rec' w))))"

definition TERMINAL_STATES :: "ApprovalState list" where
  "TERMINAL_STATES = [APPROVED, REJECTED, TIMED_OUT]"

definition update_contract :: "string \<Rightarrow> nat \<Rightarrow> int \<Rightarrow> world \<Rightarrow> world" where
  "update_contract k r now w =
     (case lookup w k of
        None \<Rightarrow> w
      | Some rec \<Rightarrow>
          (let old = stored_contract w rec;
               w1 = (if approval_state old \<in> set TERMINAL_STATES
                     then write_contract r (copy_decision old (w_heap w r)) w else w);
               rec' = rec\<lparr> wr_contract := r, wr_updated_at := now \<rparr>
           in persist rec' (put_record k rec' w1)))"

definition set_execution_result :: "string \<Rightarrow> pydict \<Rightarrow> int \<Rightarrow> world \<Rightarrow> world" where
  "set_execution_result k result now w =
     (case lookup w k of
        None \<Rightarrow> notify_subscribers k w
      | Some rec \<Rightarrow>
          (let rec' = rec\<lparr> wr_execution_result := Some result, wr_execution_completed := True,
                            wr_updated_at := now \<rparr>
           in notify_subscribers k (persist rec' (put_record k rec' w))))"

definition subscribe :: "string \<Rightarrow> world \<Rightarrow> nat \<times> world" where
  "subscribe k w =
     (w_next_queue w,
      w\<lparr> w_subscribers := (w_subscribers w)(k := w_subscribers w k @ [w_next_queue w]),
         w_queues := (w_queues w)(w_next_queue w := []), w_next_queue := Suc (w_next_queue w) \<rparr>)"

definition unsubscribe :: "string \<Rightarrow> nat \<Rightarrow> world \<Rightarrow> world" where
  "unsubscribe k q w = w\<lparr> w_subscribers := (w_subscribers w)(k := remove1 q (w_subscribers w k)) \<rparr>"

definition list_pending :: "world \<Rightarrow> WorkflowRecord list" where
  "list_pending w =
     sort_key wr_created_at
       (filter (\<lambda>r. wr_status r = WS_PENDING_HUMAN_APPROVAL) (map snd (w_store w)))"

text \<open>\<open>xs[:n]\<close>, and a stable descending sort.\<close>

definition slice_to :: "int \<Rightarrow> 'a list \<Rightarrow> 'a list" where
  "slice_to n xs = (if n \<ge> 0 then take (nat n) xs else take (length xs - nat (- n)) xs)"

definition list_all_records :: "int \<Rightarrow> world \<Rightarrow> WorkflowRecord list" where
  "list_all_records limit w =
     slice_to limit (rev (sort_key wr_created_at (rev (map snd (w_store w)))))"

definition decision_map :: "string \<Rightarrow> ApprovalState" where
  "decision_map d =
     (if d = ''APPROVE'' then APPROVED else if d = ''REJECT'' then REJECTED
      else if d = ''MODIFY'' then MODIFIED else if d = ''REQUEST_PREREQUISITE'' then REJECTED
      else REJECTED)"

definition decide :: "string \<Rightarrow> string \<Rightarrow> string \<Rightarrow> string option \<Rightarrow> int \<Rightarrow> HandoffContract \<Rightarrow> HandoffContract" where
  "decide decision reason approver mods now c =
     c\<lparr> approval_state := decision_map decision, human_decision := Some decision,
        decision_reason := Some reason, approver_id := Some approver,
        decision_timestamp := Some now,
        modification_constraints :=
          (if mods \<notin> {None, Some []} then mods else modification_constraints c) \<rparr>"

definition record_decision ::
  "string \<Rightarrow> string \<Rightarrow> string \<Rightarrow> string \<Rightarrow> string option \<Rightarrow> int \<Rightarrow> world \<Rightarrow> bool \<times> world" where
  "record_decision k decision reason approver mods now w =
     (case lookup w k of
        None \<Rightarrow> (False, w)
      | Some rec \<Rightarrow>
          (if approval_state (stored_contract w rec) \<noteq> PENDING then (False, w)
           else
             (let w1 = write_contract (wr_contract rec)
                         (decide decision reason approver mods now (stored_contract w rec)) w;
                  rec' = rec\<lparr> wr_updated_at := now \<rparr>
              in (True, notify_subscribers k (persist rec' (put_record k rec' w1))))))"

section \<open>Start-up\<close>

text \<open>One row: the contract is validated when it is read back, and a row that fails is skipped.\<close>

definition load_row :: "string \<times> workflow_row \<Rightarrow> world \<Rightarrow> world" where
  "load_row kr w =
     (case validate_decision_reason_length (row_contract (snd kr)) of
        Inl _ \<Rightarrow> w
      | Inr c \<Rightarrow>
          (let (r, w1) = alloc c w; row = snd kr in
           put_record (fst kr)
             \<lparr> wr_operation_id = fst kr, wr_approval_id = fst kr, wr_status = row_status row,
               wr_contract = r, wr_manifest = row_manifest row,
               wr_execution_result = row_execution_result row,
               wr_created_at = row_created_at row, wr_updated_at = row_updated_at row,
               wr_execution_completed = row_execution_completed row \<rparr> w1))"

definition load_from_db :: "world \<Rightarrow> world" where
  "load_from_db w = fold load_row (sort_key (\<lambda>kr. row_created_at (snd kr)) (w_rows w)) w"

text \<open>\<open>connect\<close> tells whether the pool could be created.\<close>

definition initialize_store :: "bool \<Rightarrow> bool \<Rightarrow> bool \<Rightarrow> world \<Rightarrow> exn + world" where
  "initialize_store has_url dev_mode connect w =
     (if \<not> has_url then
        (if \<not> dev_mode then Inl (RuntimeError ''DATABASE_URL is not set.'') else Inr w)
      else if connect then Inr (load_from_db (w\<lparr> w_pool := True \<rparr>))
      else if \<not> dev_mode then Inl (RuntimeError ''WorkflowStore: DB init failed in production mode'')
      else Inr (w\<lparr> w_pool := False \<rparr>))"

text \<open>A restarted process: nothing but the table survives.\<close>

definition restart :: "world \<Rightarrow> world" where
  "restart w = load_from_db (w\<lparr> w_heap := (\<lambda>_. new_contract '''' '''' '''' INTERNAL_SYSTEM 0 ''''), w_next := 0, w_store := [],
      w_subscribers := (\<lambda>_. []), w_queues := (\<lambda>_. []), w_next_queue := 0 \<rparr>)"

section \<open>Lemmas\<close>

text \<open>What persistence and notification leave alone.\<close>

lemma persist_sel [simp]:
  "w_heap (persist rec w) = w_heap w" "w_store (persist rec w) = w_store w"
  "w_next (persist rec w) = w_next w" "w_log (persist rec w) = w_log w"
  "w_pool (persist rec w) = w_pool w" "w_subscribers (persist rec w) = w_subscribers w"
  by (simp_all add: persist_def)

lemma notify_sel [simp]:
  "w_heap (notify_subscribers k w) = w_heap w" "w_store (notify_subscribers k w) = w_store w"
  "w_next (notify_subscribers k w) = w_next w" "w_log (notify_subscribers k w) = w_log w"
  "w_pool (notify_subscribers k w) = w_pool w" "w_rows (notify_subscribers k w) = w_rows w"
  by (simp_all add: notify_subscribers_def Let_def split: option.splits)

lemma put_record_sel [simp]:
  "w_heap (put_record k rec w) = w_heap w" "w_next (put_record k rec w) = w_next w"
  "w_log (put_record k rec w) = w_log w" "w_pool (put_record k rec w) = w_pool w"
  "w_rows (put_record k rec w) = w_rows w"
  "lookup (put_record k rec w) k' = (if k' = k then Some rec else lookup w k')"
  by (simp_all add: put_record_def)

lemma write_contract_sel [simp]:
  "w_heap (write_contract r c w) = (w_heap w)(r := c)" "w_next (write_contract r c w) = w_next w"
  "w_store (write_contract r c w) = w_store w" "w_log (write_contract r c w) = w_log w"
  "w_pool (write_contract r c w) = w_pool w" "w_rows (write_contract r c w) = w_rows w"
  by (simp_all add: write_contract_def)

lemma update_status_sel [simp]:
  "w_heap (update_status k st now w) = w_heap w" "w_next (update_status k st now w) = w_next w"
  "w_log (update_status k st now w) = w_log w"
  "lookup (update_status k st now w) k' =
     map_option (\<lambda>rec. if k' = k then rec\<lparr> wr_status := st, wr_updated_at := now \<rparr> else rec) (lookup w k')"
  by (auto simp: update_status_def Let_def map_option_case split: option.splits)

lemma set_execution_result_sel [simp]:
  "w_heap (set_execution_result k res now w) = w_heap w"
  "w_next (set_execution_result k res now w) = w_next w"
  "w_log (set_execution_result k res now w) = w_log w"
  "lookup (set_execution_result k res now w) k' =
     map_option (\<lambda>rec. if k' = k then rec\<lparr> wr_execution_result := Some res,
        wr_execution_completed := True, wr_updated_at := now \<rparr> else rec) (lookup w k')"
  by (auto simp: set_execution_result_def Let_def map_option_case split: option.splits)

lemma lookup_update_contract [simp]:
  "lookup (update_contract k r now w) k' =
     map_option (\<lambda>rec. if k' = k then rec\<lparr> wr_contract := r, wr_updated_at := now \<rparr> else rec) (lookup w k')"
  by (auto simp: update_contract_def Let_def map_option_case split: option.splits)

lemma heap_update_contract:
  "w_heap (update_contract k r now w) =
     (case lookup w k of None \<Rightarrow> w_heap w
      | Some rec \<Rightarrow> if approval_state (stored_contract w rec) \<in> set TERMINAL_STATES
                    then (w_heap w)(r := copy_decision (stored_contract w rec) (w_heap w r))
                    else w_heap w)"
  by (auto simp: update_contract_def Let_def split: option.splits)

lemma update_contract_log [simp]: "w_log (update_contract k r now w) = w_log w"
  by (auto simp: update_contract_def Let_def split: option.splits)

lemma record_decision_True_iff:
  "fst (record_decision k d reason a m now w) \<longleftrightarrow>
     (\<exists>rec. lookup w k = Some rec \<and> approval_state (stored_contract w rec) = PENDING)"
  by (auto simp: record_decision_def Let_def split: option.splits)

lemma lookup_record_decision:
  "lookup (snd (record_decision k d reason a m now w)) k' =
     (if k' = k \<and> fst (record_decision k d reason a m now w)
      then map_option (\<lambda>rec. rec\<lparr> wr_updated_at := now \<rparr>) (lookup w k') else lookup w k')"
  by (auto simp: record_decision_def Let_def map_option_case split: option.splits)

lemma heap_record_decision:
  "w_heap (snd (record_decision k d reason a m now w)) =
     (case lookup w k of None \<Rightarrow> w_heap w
      | Some rec \<Rightarrow> if approval_state (stored_contract w rec) = PENDING
                    then (w_heap w)(wr_contract rec := decide d reason a m now (stored_contract w rec))
                    else w_heap w)"
  by (auto simp: record_decision_def Let_def split: option.splits)

lemma decision_map_not_pending [simp]: "decision_map d \<noteq> PENDING"
  by (simp add: decision_map_def)

section \<open>Decisions are final\<close>

text \<open>The reference a record holds.\<close>

definition ref_of :: "world \<Rightarrow> string \<Rightarrow> nat option" where
  "ref_of w k = map_option wr_contract (lookup w k)"

lemma ref_of_ops [simp]:
  "ref_of (update_status k st now w) k' = ref_of w k'"
  "ref_of (set_execution_result k res now w) k' = ref_of w k'"
  "ref_of (snd (record_decision k d reason a m now w)) k' = ref_of w k'"
  "ref_of (write_contract r c w) k' = ref_of w k'"
  "ref_of (snd (subscribe k w)) k' = ref_of w k'"
  "ref_of (unsubscribe k q w) k' = ref_of w k'"
  by (auto simp: ref_of_def lookup_record_decision subscribe_def unsubscribe_def map_option_case
      split: option.splits)

lemma ref_of_update_contract [simp]:
  "ref_of (update_contract k r now w) k' = (if k' = k \<and> ref_of w k \<noteq> None then Some r else ref_of w k')"
  by (cases "lookup w k'") (auto simp: ref_of_def)

lemma ref_of_create [simp]:
  "ref_of (snd (create r manifest now w)) k = (if k = operation_id (w_heap w r) then Some r else ref_of w k)"
  by (simp add: ref_of_def create_def new_record_def Let_def)

definition terminal_decision ::
  "world \<Rightarrow> string \<Rightarrow> (ApprovalState \<times> string option \<times> string option \<times> int option \<times> string option
     \<times> string option) option" where
  "terminal_decision w k =
     (case ref_of w k of None \<Rightarrow> None
      | Some r \<Rightarrow> if approval_state (w_heap w r) \<in> set TERMINAL_STATES
                    then Some (decision_of (w_heap w r)) else None)"

lemma terminal_decision_Some:
  "terminal_decision w k = Some d \<longleftrightarrow>
     (\<exists>r. ref_of w k = Some r \<and> approval_state (w_heap w r) \<in> set TERMINAL_STATES
          \<and> d = decision_of (w_heap w r))"
  by (auto simp: terminal_decision_def split: option.splits)

text \<open>No two records share a contract object.\<close>

definition store_ok :: "world \<Rightarrow> bool" where
  "store_ok w \<longleftrightarrow> (\<forall>k k' r. ref_of w k = Some r \<longrightarrow> ref_of w k' = Some r \<longrightarrow> k = k')"

definition owned :: "world \<Rightarrow> string \<Rightarrow> nat \<Rightarrow> bool" where
  "owned w k r \<longleftrightarrow> (\<forall>k'. ref_of w k' = Some r \<longrightarrow> k' = k)"

text \<open>The steps of the store: its operations, with a contract object that belongs to no other
  workflow, a fresh operation id for a new record, and the writes of the agents to contract
  objects, which leave the decision fields and the identity of the operation alone.\<close>

inductive store_step :: "world \<Rightarrow> world \<Rightarrow> bool" where
  step_status: "store_step w (update_status k st now w)"
| step_result: "store_step w (set_execution_result k res now w)"
| step_contract: "owned w k r \<Longrightarrow> store_step w (update_contract k r now w)"
| step_decide: "store_step w (snd (record_decision k d reason a m now w))"
| step_create: "lookup w (operation_id (w_heap w r)) = None \<Longrightarrow>
    owned w (operation_id (w_heap w r)) r \<Longrightarrow> store_step w (snd (create r manifest now w))"
| step_write: "decision_of c = decision_of (w_heap w r) \<Longrightarrow>
    contract_identity c = contract_identity (w_heap w r) \<Longrightarrow> store_step w (write_contract r c w)"
| step_subscribe: "store_step w (snd (subscribe k w))"
| step_unsubscribe: "store_step w (unsubscribe k q w)"

lemma store_step_ok: "store_step w w' \<Longrightarrow> store_ok w \<Longrightarrow> store_ok w'"
proof (induction rule: store_step.induct)
  case (step_contract w k r now)
  then show ?case by (auto simp: store_ok_def owned_def split: if_splits)
next
  case (step_create w r manifest now)
  then show ?case by (auto simp: store_ok_def owned_def split: if_splits)
qed (simp_all add: store_ok_def)

text \<open>A step changes a decided contract object only to the same decision.\<close>

lemma heap_update_contract_ref:
  "w_heap (update_contract k r now w) =
     (case ref_of w k of None \<Rightarrow> w_heap w
      | Some old \<Rightarrow> if approval_state (w_heap w old) \<in> set TERMINAL_STATES
                    then (w_heap w)(r := copy_decision (w_heap w old) (w_heap w r)) else w_heap w)"
  by (simp add: heap_update_contract ref_of_def split: option.splits)

lemma heap_record_decision_ref:
  "w_heap (snd (record_decision k d reason a m now w)) =
     (case ref_of w k of None \<Rightarrow> w_heap w
      | Some r \<Rightarrow> if approval_state (w_heap w r) = PENDING
                    then (w_heap w)(r := decide d reason a m now (w_heap w r)) else w_heap w)"
  by (simp add: heap_record_decision ref_of_def split: option.splits)

lemma store_step_keeps:
  "store_step w w' \<Longrightarrow> store_ok w \<Longrightarrow> terminal_decision w k = Some d \<Longrightarrow> terminal_decision w' k = Some d"
proof (induction rule: store_step.induct)
  case (step_contract w k' r now)
  then obtain r0 where r0: "ref_of w k = Some r0" "d = decision_of (w_heap w r0)"
      "approval_state (w_heap w r0) \<in> set TERMINAL_STATES"
    by (auto simp: terminal_decision_Some)
  show ?case
  proof (cases "k' = k")
    case True
    with r0 show ?thesis
      by (simp add: terminal_decision_def heap_update_contract_ref copy_decision_of)
  next
    case False
    with step_contract r0 have "r0 \<noteq> r" by (auto simp: owned_def)
    with False r0 show ?thesis
      by (simp add: terminal_decision_def heap_update_contract_ref split: option.splits)
  qed
next
  case (step_decide w k' dec reason a m now)
  then obtain r0 where r0: "ref_of w k = Some r0" "d = decision_of (w_heap w r0)"
      "approval_state (w_heap w r0) \<in> set TERMINAL_STATES"
    by (auto simp: terminal_decision_Some)
  have "w_heap (snd (record_decision k' dec reason a m now w)) r0 = w_heap w r0"
    using r0(3) by (auto simp: heap_record_decision_ref TERMINAL_STATES_def split: option.splits)
  with r0 show ?case by (simp add: terminal_decision_def)
next
  case (step_create w r manifest now)
  then have "ref_of w (operation_id (w_heap w r)) = None" by (simp add: ref_of_def)
  with step_create.prems show ?case
    by (auto simp: terminal_decision_Some) (auto simp: create_def Let_def)
next
  case (step_write c w r)
  then show ?case
    using decision_of_state [of c "w_heap w r"] by (auto simp: terminal_decision_Some)
next
  case (step_status w k' st now)
  then show ?case by (simp add: terminal_decision_Some)
next
  case (step_result w k' res now)
  then show ?case by (simp add: terminal_decision_Some)
next
  case (step_subscribe w k')
  then show ?case by (simp add: terminal_decision_Some) (simp add: subscribe_def)
next
  case (step_unsubscribe w k' q)
  then show ?case by (simp add: terminal_decision_Some) (simp add: unsubscribe_def)
qed

interpretation ws: write_once store_step store_ok terminal_decision
  by unfold_locales (fact store_step_ok, fact store_step_keeps)

section \<open>Identities and approvals\<close>

lemma identity_copy [simp]: "contract_identity (copy_decision s c) = contract_identity c"
  by (simp add: contract_identity_def copy_decision_def)

lemma identity_decide [simp]: "contract_identity (decide d reason a m now c) = contract_identity c"
  by (simp add: contract_identity_def decide_def)

lemma store_step_identity:
  "store_step w w' \<Longrightarrow> contract_identity (w_heap w' r) = contract_identity (w_heap w r)"
  by (induction rule: store_step.induct)
    (auto simp: heap_update_contract_ref heap_record_decision_ref create_def subscribe_def
      unsubscribe_def Let_def split: option.splits)

text \<open>An approved contract was approved by a decision that says so.\<close>

definition honest :: "HandoffContract \<Rightarrow> bool" where
  "honest c \<longleftrightarrow> (approval_state c = APPROVED \<longrightarrow> human_decision c = Some ''APPROVE'')"

definition honest_heap :: "world \<Rightarrow> bool" where
  "honest_heap w \<longleftrightarrow> (\<forall>r. honest (w_heap w r))"

lemma honest_copy [simp]: "honest (copy_decision s c) \<longleftrightarrow> honest s"
  by (simp add: honest_def)

lemma honest_decide [simp]: "honest (decide d reason a m now c)"
  by (simp add: honest_def decide_def decision_map_def)

lemma honest_decision_of: "decision_of c = decision_of c' \<Longrightarrow> honest c' \<Longrightarrow> honest c"
  by (simp add: honest_def decision_of_def)

lemma store_step_honest: "store_step w w' \<Longrightarrow> honest_heap w \<Longrightarrow> honest_heap w'"
proof (induction rule: store_step.induct)
  case (step_contract w k r now)
  then show ?case by (auto simp: honest_heap_def heap_update_contract_ref split: option.splits)
next
  case (step_decide w k d reason a m now)
  then show ?case by (auto simp: honest_heap_def heap_record_decision_ref split: option.splits)
next
  case (step_write c w r)
  then show ?case using honest_decision_of by (auto simp: honest_heap_def)
qed (auto simp: honest_heap_def create_def subscribe_def unsubscribe_def Let_def)

lemma store_run_identity:
  "store_step\<^sup>*\<^sup>* w w' \<Longrightarrow> contract_identity (w_heap w' r) = contract_identity (w_heap w r)"
  by (induction rule: rtranclp_induct) (simp_all add: store_step_identity)

lemma store_run_honest: "store_step\<^sup>*\<^sup>* w w' \<Longrightarrow> honest_heap w \<Longrightarrow> honest_heap w'"
  by (induction rule: rtranclp_induct) (simp_all add: store_step_honest)

section \<open>Persistence\<close>

lemma map_of_upsert: "\<exists>row'. map_of (upsert k row rows) k = Some row' \<and> row_contract row' = row_contract row
    \<and> row_status row' = row_status row \<and> row_manifest row' = row_manifest row
    \<and> row_execution_result row' = row_execution_result row
    \<and> row_execution_completed row' = row_execution_completed row"
  by (auto simp: upsert_def split: option.splits)

lemma distinct_upsert: "distinct (map fst rows) \<Longrightarrow> distinct (map fst (upsert k row rows))"
  by (auto simp: upsert_def split: option.splits)

text \<open>Loading a list of rows with distinct keys restores each valid one.\<close>

lemma load_row_other: "fst kr \<noteq> k \<Longrightarrow> lookup (load_row kr w) k = lookup w k"
  by (auto simp: load_row_def alloc_def Let_def put_record_def split: sum.splits)

lemma load_row_next: "w_next w \<le> w_next (load_row kr w)"
  by (auto simp: load_row_def alloc_def Let_def put_record_def split: sum.splits)

lemma load_row_heap: "r < w_next w \<Longrightarrow> w_heap (load_row kr w) r = w_heap w r"
  by (auto simp: load_row_def alloc_def Let_def put_record_def split: sum.splits)

definition restores :: "world \<Rightarrow> string \<Rightarrow> workflow_row \<Rightarrow> bool" where
  "restores w k row \<longleftrightarrow> (\<exists>rec. lookup w k = Some rec \<and> wr_contract rec < w_next w
     \<and> stored_contract w rec = row_contract row \<and> wr_status rec = row_status row
     \<and> wr_manifest rec = row_manifest row \<and> wr_execution_result rec = row_execution_result row
     \<and> wr_execution_completed rec = row_execution_completed row \<and> wr_operation_id rec = k)"

lemma load_row_restores:
  "validate_decision_reason_length (row_contract row) = Inr c \<Longrightarrow> restores (load_row (k, row) w) k row"
  by (auto simp: restores_def load_row_def alloc_def Let_def put_record_def
      validate_decision_reason_length_def split: if_splits)

lemma load_row_keeps:
  assumes "k \<noteq> fst kr" and "restores w k row"
  shows "restores (load_row kr w) k row"
proof -
  from assms(2) obtain rec where rec: "lookup w k = Some rec" "wr_contract rec < w_next w"
    "stored_contract w rec = row_contract row" "wr_status rec = row_status row"
    "wr_manifest rec = row_manifest row" "wr_execution_result rec = row_execution_result row"
    "wr_execution_completed rec = row_execution_completed row" "wr_operation_id rec = k"
    by (auto simp: restores_def)
  moreover have "lookup (load_row kr w) k = Some rec" using assms(1) rec(1) by (simp add: load_row_other)
  moreover have "wr_contract rec < w_next (load_row kr w)"
    using rec(2) load_row_next [of w kr] by simp
  ultimately show ?thesis by (simp add: restores_def load_row_heap)
qed

lemma fold_load_restores:
  "distinct (map fst rows) \<Longrightarrow> (k, row) \<in> set rows \<Longrightarrow>
   validate_decision_reason_length (row_contract row) = Inr c \<Longrightarrow> restores (fold load_row rows w) k row"
proof (induction rows arbitrary: w)
  case (Cons kr rows)
  show ?case
  proof (cases "kr = (k, row)")
    case True
    have "restores (fold load_row rs v) k row" if "restores v k row" "k \<notin> fst ` set rs" for rs v
      using that by (induction rs arbitrary: v) (simp_all add: load_row_keeps)
    with True Cons.prems show ?thesis by (auto intro: load_row_restores)
  next
    case False
    with Cons show ?thesis by auto
  qed
qed simp

lemma restart_restores:
  assumes "distinct (map fst (w_rows w))" and "map_of (w_rows w) k = Some row"
    and "validate_decision_reason_length (row_contract row) = Inr c"
  shows "restores (restart w) k row"
proof -
  let ?rows = "sort_key (\<lambda>kr. row_created_at (snd kr)) (w_rows w)"
  have "mset (map fst ?rows) = mset (map fst (w_rows w))" by (simp only: mset_map mset_sort)
  then have "distinct (map fst ?rows)" using assms(1) by (metis mset_eq_imp_distinct_iff)
  moreover have "(k, row) \<in> set ?rows" using assms(2) by (simp add: map_of_SomeD)
  ultimately show ?thesis
    unfolding restart_def load_from_db_def using assms(3) by (simp add: fold_load_restores)
qed

section \<open>Properties\<close>


definition empty_world :: world where
  "empty_world = \<lparr> w_heap = (\<lambda>_. new_contract ''cg_1'' ''demo'' ''agent'' INTERNAL_SYSTEM 0 ''DELETE FROM t''),
     w_next = 1, w_store = [], w_subscribers = (\<lambda>_. []), w_queues = (\<lambda>_. []), w_next_queue = 0,
     w_pool = True, w_rows = [], w_log = [] \<rparr>"

definition pending_world :: world where
  "pending_world = snd (create 0 [] 0 empty_world)"


text \<open>
  A decision is accepted exactly when the operation is known and still pending, a second one
  is refused, and an accepted decision survives a restart: with a working database the reloaded
  record has the decided contract, provided the reason is long enough for the contract's own
  validator. A decision that is not recognised counts as a rejection.
\<close>

theorem record_decision_once_and_durable:
  assumes "w_pool w" and "distinct (map fst (w_rows w))" and "lookup w k = Some rec"
    and "wr_operation_id rec = k"
    and "approval_state (stored_contract w rec) = PENDING" and "10 \<le> length reason"
  shows "let (ok, w') = record_decision k dec reason a m now w in
     ok \<and> \<not> fst (record_decision k dec2 reason2 a2 m2 now2 w')
   \<and> (\<exists>rec'. lookup (restart w') k = Some rec'
        \<and> approval_state (stored_contract (restart w') rec') = decision_map dec
        \<and> human_decision (stored_contract (restart w') rec') = Some dec
        \<and> decision_reason (stored_contract (restart w') rec') = Some reason)"
proof -
  let ?c = "decide dec reason a m now (stored_contract w rec)"
  let ?rec = "rec\<lparr> wr_updated_at := now \<rparr>"
  let ?w1 = "put_record k ?rec (write_contract (wr_contract rec) ?c w)"
  have rd: "record_decision k dec reason a m now w = (True, notify_subscribers k (persist ?rec ?w1))"
    using assms by (simp add: record_decision_def Let_def)
  let ?w' = "notify_subscribers k (persist ?rec ?w1)"
  have rows: "w_rows ?w' = upsert k (row_of ?w1 ?rec) (w_rows w)"
    using assms by (simp add: persist_def)
  obtain row where row: "map_of (w_rows ?w') k = Some row" "row_contract row = ?c"
    using map_of_upsert [of k "row_of ?w1 ?rec" "w_rows w"] rows by (auto simp: row_of_def)
  have "validate_decision_reason_length ?c = Inr ?c"
    using assms(6) by (simp add: validate_decision_reason_length_def decide_def)
  with row have "restores (restart ?w') k row"
    using distinct_upsert [OF assms(2)] by (intro restart_restores [of ?w']) (simp_all only: rows)
  then have "\<exists>rec'. lookup (restart ?w') k = Some rec' \<and> stored_contract (restart ?w') rec' = ?c"
    using row(2) by (auto simp: restores_def)
  moreover have "\<not> fst (record_decision k dec2 reason2 a2 m2 now2 ?w')"
    by (simp add: record_decision_True_iff decide_def)
  ultimately show ?thesis using rd by (auto simp: decide_def)
qed

theorem record_decision_once_and_durable_witness:
  "fst (record_decision ''cg_1'' ''REJECT'' ''too many rows'' ''bob'' None 3 pending_world)"
proof -
  obtain rec where "lookup pending_world ''cg_1'' = Some rec" "wr_operation_id rec = ''cg_1''"
    "approval_state (stored_contract pending_world rec) = PENDING"
    by (simp add: pending_world_def empty_world_def create_def new_record_def new_contract_def Let_def)
  moreover have "w_pool pending_world" "distinct (map fst (w_rows pending_world))" by code_simp+
  ultimately show ?thesis
    using record_decision_once_and_durable [of pending_world "''cg_1''" rec "''too many rows''"
        "''REJECT''" "''bob''" None 3]
    by (simp add: case_prod_beta)
qed

text \<open>
  The approval queue shows exactly the records that await a human, oldest first, and the
  audit list exactly the newest records, newest first.
\<close>

theorem approval_queue_exact:
  "mset (list_pending w) = filter_mset (\<lambda>r. wr_status r = WS_PENDING_HUMAN_APPROVAL) (mset (map snd (w_store w)))
   \<and> sorted (map wr_created_at (list_pending w))
   \<and> (\<exists>older. mset (list_all_records (int n) w) + mset older = mset (map snd (w_store w))
        \<and> sorted (rev (map wr_created_at (list_all_records (int n) w @ older)))
        \<and> length (list_all_records (int n) w) = min n (length (w_store w)))"
proof -
  let ?s = "rev (sort_key wr_created_at (rev (map snd (w_store w))))"
  have t: "list_all_records (int n) w = take n ?s" by (simp add: list_all_records_def slice_to_def)
  have "mset (take n ?s) + mset (drop n ?s) = mset (map snd (w_store w))"
    by (metis append_take_drop_id mset_append mset_rev mset_sort)
  moreover have "sorted (rev (map wr_created_at (take n ?s @ drop n ?s)))"
    unfolding append_take_drop_id by (simp add: rev_map)
  ultimately have "\<exists>older. mset (list_all_records (int n) w) + mset older = mset (map snd (w_store w))
        \<and> sorted (rev (map wr_created_at (list_all_records (int n) w @ older)))
        \<and> length (list_all_records (int n) w) = min n (length (w_store w))"
    unfolding t by (intro exI [of _ "drop n ?s"] conjI) simp_all
  then show ?thesis by (simp add: list_pending_def mset_filter)
qed

end
