(* ===== verification/Human_Review.thy ===== *)
theory Human_Review
  imports Workflow_Store MCP_Transport
begin

text \<open>
  \<open>orchestrator/states/human_review.py\<close>: the HUMAN_REVIEW node. It works on the workflow's
  contract object \<open>r\<close> and on the shared store. While it sleeps between two polls other tasks
  run: a tick of the loop is the clock read by the loop test with what the other tasks do to the
  world during the sleep that follows. When the ticks run out the node is still waiting.
\<close>

section \<open>Effects on the world\<close>

type_synonym 'a weff = "world \<Rightarrow> (exn + 'a) \<times> world"

definition wlift :: "'a eff \<Rightarrow> 'a weff" where
  "wlift m w = (case m (w_log w) of (x, l) \<Rightarrow> (x, w\<lparr> w_log := l \<rparr>))"

text \<open>A node that computes on the contract alone.\<close>

definition on_contract :: "(HandoffContract \<Rightarrow> HandoffContract eff) \<Rightarrow> nat \<Rightarrow> unit weff" where
  "on_contract f r w =
     (case wlift (f (w_heap w r)) w of
        (Inl e, w1) \<Rightarrow> (Inl e, w1)
      | (Inr c, w1) \<Rightarrow> (Inr (), write_contract r c w1))"

definition modify_contract :: "nat \<Rightarrow> (HandoffContract \<Rightarrow> HandoffContract) \<Rightarrow> world \<Rightarrow> world" where
  "modify_contract r f w = write_contract r (f (w_heap w r)) w"

section \<open>The node\<close>

record review_cfg =
  rv_env :: mcp_env
  rv_timeout :: int
  rv_ui_base :: string
  rv_proxy_base :: string

definition notification_args :: "review_cfg \<Rightarrow> HandoffContract \<Rightarrow> pydict" where
  "notification_args cfg c =
     [(''approval_id'', PStr (operation_id c)),
      (''operation_summary'', PStr (if intent_summary c \<noteq> [] then intent_summary c else take 200 (raw_sql c))),
      (''risk_tier'', PStr (case risk_tier c of None \<Rightarrow> ''UNKNOWN'' | Some t \<Rightarrow> tier_value t)),
      (''primary_table'', PStr (if primary_table c \<noteq> [] then primary_table c else ''unknown'')),
      (''estimated_rows'', PInt (estimated_primary_rows c + sum_list (map ce_estimated_rows (cascade c)))),
      (''reversibility'', PStr (case reversibility c of None \<Rightarrow> ''UNKNOWN'' | Some x \<Rightarrow> rev_value x)),
      (''historical_rejection_count'',
         PInt (int (length (filter (\<lambda>h. ho_outcome h = ''REJECTED'') (historical_precedents c))))),
      (''ui_url'', PStr (rv_ui_base cfg @ ''/review/'' @ operation_id c)),
      (''poll_url'', PStr (rv_proxy_base cfg @ ''/v1/approvals/'' @ operation_id c @ ''/status''))]"

definition send_request :: "review_cfg \<Rightarrow> HandoffContract \<Rightarrow> unit eff" where
  "send_request cfg c =
     catch_mcp (bind_eff (mcp (rv_env cfg) NOTIFIER_URL ''send_approval_request'' (notification_args cfg c))
                  (\<lambda>_. ret ())) (ret ())"

definition DECISION_FIELDS :: string where
  "DECISION_FIELDS = ''approval_state,human_decision,decision_reason,decision_timestamp''"

definition pre_status_map :: "ApprovalState \<Rightarrow> WorkflowStatus" where
  "pre_status_map st =
     (case st of APPROVED \<Rightarrow> WS_APPROVED | REJECTED \<Rightarrow> WS_REJECTED | TIMED_OUT \<Rightarrow> WS_TIMED_OUT
      | MODIFIED \<Rightarrow> WS_RUNNING | _ \<Rightarrow> WS_REJECTED)"

text \<open>Entering the node after the notification: \<open>True\<close> when a decision that was recorded before
  is honoured and the node is done, \<open>False\<close> when it has to wait.\<close>

definition review_entry :: "nat \<Rightarrow> int \<Rightarrow> world \<Rightarrow> bool \<times> world" where
  "review_entry r now w0 =
     (let w = modify_contract r (add_provenance ''HUMAN_REVIEW'' ''approval_notification_sent'' now False) w0;
          c = w_heap w r; op = operation_id c
      in if approval_state c = MODIFIED then
           (False, update_status op WS_PENDING_HUMAN_APPROVAL now
              (update_contract op r now (modify_contract r (approval_state_update (\<lambda>_. PENDING)) w)))
         else
           (case lookup w op of
              Some rec \<Rightarrow>
                (if approval_state (stored_contract w rec) \<noteq> PENDING then
                   (let old = stored_contract w rec;
                        w1 = modify_contract r (copy_decision old) w;
                        w2 = update_contract op r now w1;
                        w3 = update_status op (pre_status_map (approval_state old)) now w2
                    in (True, modify_contract r (add_provenance ''HUMAN_REVIEW'' DECISION_FIELDS now False) w3))
                 else (False, update_status op WS_PENDING_HUMAN_APPROVAL now (update_contract op r now w)))
            | None \<Rightarrow> (False, update_status op WS_PENDING_HUMAN_APPROVAL now (update_contract op r now w))))"

type_synonym tick = "int \<times> (world \<Rightarrow> world)"

definition time_out :: "int \<Rightarrow> HandoffContract \<Rightarrow> HandoffContract" where
  "time_out now c =
     c\<lparr> approval_state := TIMED_OUT,
        decision_reason := Some (''Human review timed out '' @ em_dash @ '' auto-rejected by ContraGate.''),
        decision_timestamp := Some now \<rparr>"

fun poll_loop :: "nat \<Rightarrow> string \<Rightarrow> int \<Rightarrow> tick list \<Rightarrow> world \<Rightarrow> world option" where
  "poll_loop r op deadline [] w = None"
| "poll_loop r op deadline ((t, others) # ticks) w =
     (if t < deadline then
        (let w1 = others w in
         case lookup w1 op of
           None \<Rightarrow> Some w1
         | Some rec \<Rightarrow>
             (if approval_state (stored_contract w1 rec) \<noteq> PENDING
              then Some (modify_contract r (copy_decision (stored_contract w1 rec)) w1)
              else poll_loop r op deadline ticks w1))
      else Some (modify_contract r (time_out t) w))"

definition run_human_review ::
  "review_cfg \<Rightarrow> int \<Rightarrow> tick list \<Rightarrow> int \<Rightarrow> nat \<Rightarrow> world \<Rightarrow> ((exn + unit) \<times> world) option" where
  "run_human_review cfg start ticks done r w =
     (case wlift (send_request cfg (w_heap w r)) w of
        (Inl e, w1) \<Rightarrow> Some (Inl e, w1)
      | (Inr _, w1) \<Rightarrow>
          (case review_entry r start w1 of
             (True, w2) \<Rightarrow> Some (Inr (), w2)
           | (False, w2) \<Rightarrow>
               map_option
                 (\<lambda>w3. (Inr (), modify_contract r (add_provenance ''HUMAN_REVIEW'' DECISION_FIELDS done False) w3))
                 (poll_loop r (operation_id (w_heap w2 r)) (start + rv_timeout cfg) ticks w2)))"

section \<open>Lemmas\<close>

lemma wlift_sel:
  "wlift m w = (x, w') \<Longrightarrow> w_heap w' = w_heap w \<and> w_store w' = w_store w \<and> w_next w' = w_next w"
  by (auto simp: wlift_def split: prod.splits)

lemma wlift_ref: "wlift m w = (x, w') \<Longrightarrow> ref_of w' k = ref_of w k"
  by (auto simp: ref_of_def dest: wlift_sel)

lemma modify_contract_sel [simp]:
  "w_heap (modify_contract r f w) = (w_heap w)(r := f (w_heap w r))"
  "w_store (modify_contract r f w) = w_store w"
  "ref_of (modify_contract r f w) k = ref_of w k"
  by (simp_all add: modify_contract_def)

lemma ref_of_lookup: "ref_of w k = None \<longleftrightarrow> lookup w k = None"
  by (simp add: ref_of_def)

text \<open>What other tasks may do while the node sleeps: any sequence of store steps that leaves the
  contract reference of this operation's record alone.\<close>

definition others_ok :: "string \<Rightarrow> (world \<Rightarrow> world) \<Rightarrow> bool" where
  "others_ok op f \<longleftrightarrow> (\<forall>w. store_step\<^sup>*\<^sup>* w (f w) \<and> ref_of (f w) op = ref_of w op)"

text \<open>The waiting loop ends by the deadline.\<close>

lemma poll_loop_ends:
  "list_ex (\<lambda>(t, _). deadline \<le> t) ticks \<Longrightarrow> \<exists>w'. poll_loop r op deadline ticks w = Some w'"
proof (induction ticks arbitrary: w)
  case (Cons tick ticks)
  then show ?case by (cases tick) (auto simp: Let_def split: option.splits)
qed simp

lemma poll_loop_outcome:
  "list_all (\<lambda>(_, f). others_ok op f) ticks \<Longrightarrow> ref_of w op = Some r \<Longrightarrow>
   poll_loop r op deadline ticks w = Some w' \<Longrightarrow>
   ref_of w' op = Some r \<and> approval_state (w_heap w' r) \<noteq> PENDING"
proof (induction ticks arbitrary: w)
  case (Cons tick ticks)
  obtain t f where tick: "tick = (t, f)" by (cases tick)
  show ?case
  proof (cases "t < deadline")
    case False
    with Cons.prems tick show ?thesis by (auto simp: time_out_def)
  next
    case True
    from Cons.prems tick have ref: "ref_of (f w) op = Some r" by (simp add: others_ok_def)
    then obtain rec where rec: "lookup (f w) op = Some rec" "wr_contract rec = r"
      by (auto simp: ref_of_def)
    show ?thesis
    proof (cases "approval_state (w_heap (f w) r) = PENDING")
      case True
      with Cons ref rec tick \<open>t < deadline\<close> show ?thesis by (auto simp: Let_def)
    next
      case False
      with Cons.prems rec tick ref \<open>t < deadline\<close> show ?thesis by (auto simp: Let_def)
    qed
  qed
qed simp

text \<open>What the loop keeps of any contract, and that approvals stay honest.\<close>

lemma identity_time_out [simp]: "contract_identity (time_out t c) = contract_identity c"
  by (simp add: contract_identity_def time_out_def)

lemma identity_provenance [simp]: "contract_identity (add_provenance a f t b c) = contract_identity c"
  by (simp add: contract_identity_def add_provenance_def)

lemma honest_time_out [simp]: "honest (time_out t c)"
  by (simp add: honest_def time_out_def)

lemma honest_provenance [simp]: "honest (add_provenance a f t b c) \<longleftrightarrow> honest c"
  by (simp add: honest_def)

lemma honest_heapD: "honest_heap w \<Longrightarrow> honest (w_heap w r)"
  by (simp add: honest_heap_def)

lemma honest_heap_modify: "honest_heap w \<Longrightarrow> honest (f (w_heap w r)) \<Longrightarrow> honest_heap (modify_contract r f w)"
  by (simp add: honest_heap_def)

text \<open>A change of the world that keeps the identity of every contract and honest approvals.\<close>

definition safe_change :: "world \<Rightarrow> world \<Rightarrow> bool" where
  "safe_change w w' \<longleftrightarrow>
     (\<forall>r. contract_identity (w_heap w' r) = contract_identity (w_heap w r))
     \<and> (honest_heap w \<longrightarrow> honest_heap w')"

lemma safe_refl [simp]: "safe_change w w"
  by (simp add: safe_change_def)

lemma safe_trans: "safe_change w w' \<Longrightarrow> safe_change w' w'' \<Longrightarrow> safe_change w w''"
  by (simp add: safe_change_def)

lemma safe_modify:
  "contract_identity (f (w_heap w r)) = contract_identity (w_heap w r) \<Longrightarrow>
   (honest_heap w \<Longrightarrow> honest (f (w_heap w r))) \<Longrightarrow> safe_change w (modify_contract r f w)"
  by (auto simp: safe_change_def honest_heap_def)

lemma safe_provenance: "safe_change w (modify_contract r (add_provenance a f t b) w)"
  by (rule safe_modify) (auto dest: honest_heapD)

lemma safe_copy: "safe_change w (modify_contract r (copy_decision (w_heap w r')) w)"
  by (rule safe_modify) (auto dest: honest_heapD)

lemma safe_reset: "safe_change w (modify_contract r (approval_state_update (\<lambda>_. PENDING)) w)"
  by (rule safe_modify) (auto simp: contract_identity_def honest_def)

lemma safe_update_contract: "safe_change w (update_contract k r now w)"
  by (auto simp: safe_change_def honest_heap_def heap_update_contract split: option.splits)

lemma safe_heap_eq: "w_heap w' = w_heap w \<Longrightarrow> safe_change w w'"
  by (simp add: safe_change_def honest_heap_def)

lemma safe_store_run: "store_step\<^sup>*\<^sup>* w w' \<Longrightarrow> safe_change w w'"
  by (simp add: safe_change_def store_run_identity store_run_honest)

lemma poll_loop_safe:
  "list_all (\<lambda>(_, f). others_ok op f) ticks \<Longrightarrow> poll_loop r op deadline ticks w = Some w' \<Longrightarrow>
     safe_change w w'"
proof (induction ticks arbitrary: w)
  case (Cons tick ticks)
  obtain t f where tick: "tick = (t, f)" by (cases tick)
  from Cons.prems tick have run: "safe_change w (f w)"
    by (simp add: others_ok_def safe_store_run)
  show ?case
  proof (cases "t < deadline")
    case False
    with Cons.prems tick show ?thesis by (auto intro: safe_modify)
  next
    case True
    with Cons tick have "safe_change (f w) w'"
      by (auto simp: Let_def intro: safe_copy split: option.splits if_splits)
    with run show ?thesis by (rule safe_trans)
  qed
qed simp

lemma safe_sync: "safe_change w (update_status k st now (update_contract k r now w))"
  by (rule safe_trans [OF safe_update_contract safe_heap_eq]) simp

lemma review_entry_safe:
  assumes "review_entry r now w = (b, w')"
  shows "safe_change w w'"
proof -
  let ?w = "modify_contract r (add_provenance ''HUMAN_REVIEW'' ''approval_notification_sent'' now False) w"
  let ?op = "operation_id (w_heap ?w r)"
  let ?sync = "\<lambda>st v. update_status ?op st now (update_contract ?op r now v)"
  have "(\<exists>st. w' = ?sync st (modify_contract r (approval_state_update (\<lambda>_. PENDING)) ?w))
      \<or> (\<exists>st. w' = ?sync st ?w)
      \<or> (\<exists>st r'. w' = modify_contract r (add_provenance ''HUMAN_REVIEW'' DECISION_FIELDS now False)
            (?sync st (modify_contract r (copy_decision (w_heap ?w r')) ?w)))"
    using assms unfolding review_entry_def Let_def
    by (simp only: prod.inject split: if_split_asm option.split_asm) blast+
  then show ?thesis
  proof (elim disjE exE)
    fix st assume "w' = ?sync st (modify_contract r (approval_state_update (\<lambda>_. PENDING)) ?w)"
    then show ?thesis
      by (simp only:) (rule safe_trans [OF safe_provenance safe_trans [OF safe_reset safe_sync]])
  next
    fix st assume "w' = ?sync st ?w"
    then show ?thesis by (simp only:) (rule safe_trans [OF safe_provenance safe_sync])
  next
    fix st r'
    assume "w' = modify_contract r (add_provenance ''HUMAN_REVIEW'' DECISION_FIELDS now False)
            (?sync st (modify_contract r (copy_decision (w_heap ?w r')) ?w))"
    then show ?thesis
      by (simp only:) (rule safe_trans [OF safe_provenance safe_trans [OF safe_copy
            safe_trans [OF safe_sync safe_provenance]]])
  qed
qed

text \<open>With a record for the operation the stored contract is the workflow's own object from
  here on.\<close>

lemma review_entry_ref:
  assumes "review_entry r now w = (b, w')" and "ref_of w (operation_id (w_heap w r)) \<noteq> None"
  shows "ref_of w' (operation_id (w_heap w r)) = Some r
    \<and> (b \<longrightarrow> approval_state (w_heap w' r) \<noteq> PENDING)"
proof -
  let ?w = "modify_contract r (add_provenance ''HUMAN_REVIEW'' ''approval_notification_sent'' now False) w"
  obtain rec where rec: "lookup ?w (operation_id (w_heap w r)) = Some rec"
    using assms(2) by (auto simp: ref_of_def)
  show ?thesis
    using assms rec unfolding review_entry_def Let_def
    by (auto simp: heap_update_contract split: if_splits)
qed

section \<open>Properties\<close>

lemma human_review_ends_at:
  assumes "list_ex (\<lambda>(t, _). start + rv_timeout cfg \<le> t) ticks"
  shows "\<exists>res w'. run_human_review cfg start ticks finish r w = Some (res, w')"
proof -
  obtain x w1 where "wlift (send_request cfg (w_heap w r)) w = (x, w1)" by fastforce
  moreover obtain b w2 where "review_entry r start w1 = (b, w2)" by fastforce
  moreover have "\<exists>w3. poll_loop r (operation_id (w_heap w2 r)) (start + rv_timeout cfg) ticks w2 = Some w3"
    by (rule poll_loop_ends [OF assms])
  ultimately show ?thesis
    by (cases x; cases b) (auto simp: run_human_review_def)
qed

text \<open>
  C20. The review ends: as soon as one reading of the clock is at or past the deadline, the node
  has returned, whatever the other tasks did, whether the notifier answered or not.
\<close>

theorem human_review_ends:
  assumes "list_ex (\<lambda>(t, _). start + rv_timeout cfg \<le> t) ticks"
  shows "\<exists>res w'. run_human_review cfg start ticks finish r w = Some (res, w')"
  by (rule human_review_ends_at [OF assms])

definition quiet_cfg :: review_cfg where
  "quiet_cfg = \<lparr> rv_env = (\<lambda>_ _. Inl (MCPCallError ''down'')), rv_timeout = 1800,
     rv_ui_base = ''ui'', rv_proxy_base = ''proxy'' \<rparr>"

theorem human_review_ends_witness:
  "\<exists>res w'. run_human_review quiet_cfg 0 [(5, id), (1800, id)] 1800 0 pending_world = Some (res, w')"
  by (rule human_review_ends) (simp add: quiet_cfg_def)


definition finished :: "((exn + unit) \<times> world) option \<Rightarrow> (world \<Rightarrow> bool) \<Rightarrow> bool" where
  "finished x P = (case x of None \<Rightarrow> False | Some (res, w) \<Rightarrow> \<not> isl res \<and> P w)"

lemma finishedE: "finished x P \<Longrightarrow> \<exists>w'. x = Some (Inr (), w') \<and> P w'"
  by (cases x; cases "fst (the x)") (auto simp: finished_def)

definition late_decision :: "world \<Rightarrow> world" where
  "late_decision w = snd (record_decision ''cg_1'' ''APPROVE'' ''looks fine to me'' ''alice'' None 7 w)"



section \<open>The node as a step of the pipeline\<close>

text \<open>What other tasks do to the workflow's own contract object is at most a decision.\<close>

definition only_decides :: "nat \<Rightarrow> (world \<Rightarrow> world) \<Rightarrow> bool" where
  "only_decides r f \<longleftrightarrow> (\<forall>w. auto_reject_triggered (w_heap (f w) r) = auto_reject_triggered (w_heap w r))"

lemma review_entry_verdict:
  "auto_reject_triggered (w_heap (snd (review_entry r now w)) r) = auto_reject_triggered (w_heap w r)"
  by (auto simp: review_entry_def Let_def heap_update_contract split: option.splits)

lemma poll_loop_verdict:
  "list_all (\<lambda>(_, f). only_decides r f) ticks \<Longrightarrow> poll_loop r op deadline ticks w = Some w' \<Longrightarrow>
     auto_reject_triggered (w_heap w' r) = auto_reject_triggered (w_heap w r)"
proof (induction ticks arbitrary: w)
  case (Cons tick ticks)
  obtain t f where tick: "tick = (t, f)" by (cases tick)
  have f: "auto_reject_triggered (w_heap (f w) r) = auto_reject_triggered (w_heap w r)"
    using Cons.prems(1) tick by (simp add: only_decides_def)
  show ?case
  proof (cases "t < deadline")
    case False
    with Cons.prems tick show ?thesis by (auto simp: time_out_def)
  next
    case True
    with Cons tick f show ?thesis by (auto simp: Let_def split: option.splits if_splits)
  qed
qed simp

lemma run_human_review_cases:
  assumes "run_human_review cfg start ticks finish r w = Some (res, w')"
  obtains (raised) e where "res = Inl e" "w_heap w' = w_heap w"
  | (entered) w1 where "res = Inr ()" "w_heap w1 = w_heap w" "review_entry r start w1 = (True, w')"
  | (waited) w1 w2 w3 where "res = Inr ()" "w_heap w1 = w_heap w" "review_entry r start w1 = (False, w2)"
      "poll_loop r (operation_id (w_heap w2 r)) (start + rv_timeout cfg) ticks w2 = Some w3"
      "w' = modify_contract r (add_provenance ''HUMAN_REVIEW'' DECISION_FIELDS finish False) w3"
proof -
  obtain x w1 where s: "wlift (send_request cfg (w_heap w r)) w = (x, w1)" by fastforce
  have h: "w_heap w1 = w_heap w" using wlift_sel [OF s] by simp
  obtain b w2 where e: "review_entry r start w1 = (b, w2)" by fastforce
  show ?thesis
    using assms s h e that by (cases x; cases b) (auto simp: run_human_review_def)
qed

lemma run_human_review_keeps:
  assumes "run_human_review cfg start ticks finish r w = Some (res, w')"
    and "list_all (\<lambda>(_, f). others_ok (operation_id (w_heap w r)) f \<and> only_decides r f) ticks"
  shows "safe_change w w' \<and> auto_reject_triggered (w_heap w' r) = auto_reject_triggered (w_heap w r)"
  using assms(1)
proof (cases rule: run_human_review_cases)
  case (raised e)
  then show ?thesis by (simp add: safe_heap_eq)
next
  case (entered w1)
  then show ?thesis
    using review_entry_safe [OF entered(3)] review_entry_verdict [of r start w1]
    by (simp add: safe_change_def honest_heap_def)
next
  case (waited w1 w2 w3)
  have 2: "safe_change w w2" "auto_reject_triggered (w_heap w2 r) = auto_reject_triggered (w_heap w r)"
    using waited(2) review_entry_safe [OF waited(3)] review_entry_verdict [of r start w1] waited(3)
    by (simp_all add: safe_change_def honest_heap_def)
  then have op: "operation_id (w_heap w2 r) = operation_id (w_heap w r)"
    unfolding safe_change_def contract_identity_def by (metis prod.inject)
  have ok: "list_all (\<lambda>(_, f). others_ok (operation_id (w_heap w2 r)) f) ticks" "list_all (\<lambda>(_, f). only_decides r f) ticks"
    using assms(2) op by (auto simp: list_all_iff)
  have "safe_change w w'"
    unfolding waited(5) by (rule safe_trans [OF 2(1) safe_trans [OF poll_loop_safe [OF ok(1) waited(4)] safe_provenance]])
  moreover have "auto_reject_triggered (w_heap w' r) = auto_reject_triggered (w_heap w r)"
    unfolding waited(5) using poll_loop_verdict [OF ok(2) waited(4)] 2(2) by simp
  ultimately show ?thesis by blast
qed

end
