(* ===== verification/Execution.thy ===== *)
theory Execution
  imports Human_Review Intake
begin

text \<open>
  \<open>orchestrator/states/execution.py\<close>: the EXECUTION node, with the idempotency check on the
  store's record and the manifest hash that \<open>proxy/main.py\<close> binds at interception. The digest
  is an argument that is applied to the canonical form of the manifest.
\<close>

section \<open>Manifest binding\<close>

definition manifest_hash :: "(pyval \<Rightarrow> string) \<Rightarrow> pydict \<Rightarrow> string" where
  "manifest_hash H m = H (canon (PDict m))"

text \<open>The proxy's side: the hash of all entries but the hash itself.\<close>

definition bind_manifest :: "(pyval \<Rightarrow> string) \<Rightarrow> pydict \<Rightarrow> pydict" where
  "bind_manifest H m =
     dict_set ''_manifest_hash'' (PStr (manifest_hash H (dict_without ''_manifest_hash'' m))) m"

text \<open>The node's side.\<close>

definition manifest_intact :: "(pyval \<Rightarrow> string) \<Rightarrow> pydict \<Rightarrow> bool" where
  "manifest_intact H m =
     (let stored = dict_get0 m ''_manifest_hash'' in
      truthy stored \<longrightarrow> stored = PStr (manifest_hash H (dict_without ''_manifest_hash'' m)))"

section \<open>The node\<close>

definition execution_sql :: "pydict \<Rightarrow> HandoffContract \<Rightarrow> pyval" where
  "execution_sql m c = py_or (py_or (dict_get0 m ''sql'') (dict_get0 m ''query'')) (PStr (raw_sql c))"

definition execution_call :: "pydict \<Rightarrow> HandoffContract \<Rightarrow> mcp_call" where
  "execution_call m c =
     \<lparr> mc_url = detail_text (dict_get m ''target_mcp_url'' (PStr POSTGRES_READER_URL)),
       mc_tool = detail_text (dict_get m ''tool_name'' (PStr ''execute_query'')),
       mc_args = [(''sql'', execution_sql m c), (''tenant_id'', PStr (tenant_id c))] \<rparr>"

definition executed_fields :: "bool \<Rightarrow> int \<Rightarrow> HandoffContract \<Rightarrow> HandoffContract" where
  "executed_fields ok now c = c\<lparr> execution_success := Some ok, execution_timestamp := Some now \<rparr>"

definition run_execution :: "mcp_env \<Rightarrow> (pyval \<Rightarrow> string) \<Rightarrow> int \<Rightarrow> nat \<Rightarrow> unit weff" where
  "run_execution env H now r w =
     (let c = w_heap w r; op = operation_id c;
          finish = modify_contract r
            (add_provenance ''EXECUTION'' ''execution_success,execution_timestamp'' now False)
      in case lookup w op of
           None \<Rightarrow> (Inl (RuntimeError (''No workflow record found for '' @ op)), w)
         | Some rec \<Rightarrow>
             (if wr_execution_completed rec then
                (Inr (), modify_contract r (execution_success_update (\<lambda>_. Some True)) w)
              else
                (let m = (case wr_manifest rec of None \<Rightarrow> [] | Some d \<Rightarrow> d) in
                 if \<not> manifest_intact H m then
                   (Inr (), modify_contract r (add_provenance ''EXECUTION'' ''execution_success'' now False)
                              (modify_contract r (execution_success_update (\<lambda>_. Some False)) w))
                 else
                   (case wlift (invoke env (execution_call m c)) w of
                      (Inr result, w1) \<Rightarrow>
                        (Inr (), finish (set_execution_result op
                           [(''success'', PBool True), (''result'', result), (''executed_at'', PInt now)] now
                           (modify_contract r (executed_fields True now) w1)))
                    | (Inl e, w1) \<Rightarrow>
                        (if is_mcp_error e then
                           (Inr (), finish (set_execution_result op
                              [(''success'', PBool False), (''error'', PStr (exn_text e)),
                               (''executed_at'', PInt now)] now
                              (modify_contract r (executed_fields False now) w1)))
                         else (Inl e, w1))))))"

section \<open>Lemmas\<close>

lemma run_execution_log:
  "w_log (snd (run_execution env H now r w)) = w_log w
   \<or> (\<exists>rec m. lookup w (operation_id (w_heap w r)) = Some rec \<and> \<not> wr_execution_completed rec
        \<and> m = (case wr_manifest rec of None \<Rightarrow> [] | Some d \<Rightarrow> d) \<and> manifest_intact H m
        \<and> w_log (snd (run_execution env H now r w)) = w_log w @ [execution_call m (w_heap w r)])"
  by (auto simp: run_execution_def Let_def wlift_def eff_simps modify_contract_def
      split: option.splits prod.splits sum.splits)

text \<open>After a completed run the record is either marked as executed or unchanged with a manifest
  that fails the guard.\<close>

lemma run_execution_blocks:
  assumes "run_execution env H now r w = (Inr (), w1)"
  obtains rec where "lookup w1 (operation_id (w_heap w r)) = Some rec"
    "wr_execution_completed rec
       \<or> \<not> manifest_intact H (case wr_manifest rec of None \<Rightarrow> [] | Some d \<Rightarrow> d)"
proof -
  let ?op = "operation_id (w_heap w r)"
  from assms obtain rec where rec: "lookup w ?op = Some rec"
    by (auto simp: run_execution_def Let_def split: option.splits)
  have "\<exists>rec. lookup w1 ?op = Some rec \<and> (wr_execution_completed rec
       \<or> \<not> manifest_intact H (case wr_manifest rec of None \<Rightarrow> [] | Some d \<Rightarrow> d))"
    using assms rec
    by (auto simp: run_execution_def Let_def wlift_def eff_simps
        split: if_splits prod.splits sum.splits)
  with that show ?thesis by blast
qed

lemma manifest_intact_bound: "manifest_intact H (bind_manifest H m)"
  by (simp add: manifest_intact_def bind_manifest_def Let_def)

lemma run_execution_keeps_identity:
  assumes "run_execution env H now r w = (res, w')"
  shows "contract_identity (w_heap w' r') = contract_identity (w_heap w r')"
  using assms
  by (auto simp: run_execution_def Let_def wlift_def contract_identity_def add_provenance_def
      executed_fields_def split: option.splits prod.splits sum.splits if_splits)

text \<open>The statement to execute is the one INTAKE read.\<close>

lemma intake_sql_value:
  assumes "run_intake dt uid now m = Inr c"
  shows "py_or (py_or (dict_get0 m ''sql'') (dict_get0 m ''query'')) (dict_get0 m ''statement'')
           = PStr (raw_sql c)"
  using assms
  by (auto simp: run_intake_def Let_def new_contract_def add_provenance_def
      split: if_splits pyval.splits prod.splits sum.splits)

text \<open>An operation whose record forbids (another) execution: no store step lifts that.\<close>

definition execution_blocked :: "(pyval \<Rightarrow> string) \<Rightarrow> world \<Rightarrow> string \<Rightarrow> unit option" where
  "execution_blocked H w k =
     (case lookup w k of None \<Rightarrow> None
      | Some rec \<Rightarrow> if wr_execution_completed rec
                      \<or> \<not> manifest_intact H (case wr_manifest rec of None \<Rightarrow> [] | Some d \<Rightarrow> d)
                    then Some () else None)"

lemma store_step_record:
  "store_step w w' \<Longrightarrow> lookup w k = Some rec \<Longrightarrow>
     \<exists>rec'. lookup w' k = Some rec' \<and> wr_manifest rec' = wr_manifest rec
       \<and> (wr_execution_completed rec \<longrightarrow> wr_execution_completed rec')"
proof (induction rule: store_step.induct)
  case (step_decide w k' d reason a m now)
  then show ?case by (auto simp: lookup_record_decision)
next
  case (step_create w r manifest now)
  then show ?case by (auto simp: create_def Let_def)
qed (auto simp: subscribe_def unsubscribe_def)

interpretation ex: write_once store_step "\<lambda>_. True" "execution_blocked H" for H
proof
  fix w w' k d
  assume s: "store_step w w'" and b: "execution_blocked H w k = Some d"
  then obtain rec where "lookup w k = Some rec" "wr_execution_completed rec
      \<or> \<not> manifest_intact H (case wr_manifest rec of None \<Rightarrow> [] | Some d \<Rightarrow> d)"
    by (auto simp: execution_blocked_def split: option.splits if_splits)
  with store_step_record [OF s, of k rec] show "execution_blocked H w' k = Some d"
    by (auto simp: execution_blocked_def split: option.splits)
qed simp

lemma execution_blocked_log:
  assumes "execution_blocked H w (operation_id (w_heap w r)) = Some ()"
  shows "w_log (snd (run_execution env H now r w)) = w_log w"
proof -
  from assms obtain rec where rec: "lookup w (operation_id (w_heap w r)) = Some rec"
    and block: "wr_execution_completed rec
      \<or> \<not> manifest_intact H (case wr_manifest rec of None \<Rightarrow> [] | Some d \<Rightarrow> d)"
    by (auto simp: execution_blocked_def split: option.splits if_splits)
  from run_execution_log [of env H now r w] show ?thesis
  proof (elim disjE exE conjE)
    fix rec' m
    assume "lookup w (operation_id (w_heap w r)) = Some rec'" "\<not> wr_execution_completed rec'"
      "m = (case wr_manifest rec' of None \<Rightarrow> [] | Some d \<Rightarrow> d)" "manifest_intact H m"
    with rec block show ?thesis by simp
  qed
qed

section \<open>Properties\<close>


definition echo_env :: mcp_env where
  "echo_env _ _ = Inr (PDict [(''rows'', PInt 1)])"

definition sample_manifest :: pydict where
  "sample_manifest = bind_manifest (\<lambda>_. ''h'') [(''sql'', PStr ''DELETE FROM t''),
     (''tool_name'', PStr ''execute_query''), (''tenant_id'', PStr ''demo''),
     (''submitted_by'', PStr ''agent''), (''operation_id'', PStr ''cg_1'')]"

definition approved_world :: world where
  "approved_world = snd (create 0 sample_manifest 0 empty_world)"


text \<open>
  C13. What is executed is what was intercepted and reviewed. If EXECUTION calls a service, the
  record's manifest passed the hash guard, and the call carries exactly the SQL text of the
  contract that INTAKE made from that manifest and that the reviewers saw, with its tenant; the
  node never changes that text.
\<close>

theorem executed_sql_is_reviewed_sql:
  assumes "lookup w (operation_id (w_heap w r)) = Some rec" and "wr_manifest rec = Some m"
    and "run_intake dt uid t0 m = Inr c0"
    and "contract_identity (w_heap w r) = contract_identity c0"
  shows "w_log (snd (run_execution env H now r w)) = w_log w
    \<or> (manifest_intact H m
       \<and> (\<exists>url tool. w_log (snd (run_execution env H now r w)) = w_log w @
            [\<lparr> mc_url = url, mc_tool = tool,
               mc_args = [(''sql'', PStr (raw_sql c0)), (''tenant_id'', PStr (tenant_id c0))] \<rparr>]))"
proof -
  have id: "raw_sql (w_heap w r) = raw_sql c0" "tenant_id (w_heap w r) = tenant_id c0"
    using assms(4) by (simp_all add: contract_identity_def)
  have "execution_sql m (w_heap w r) = PStr (raw_sql c0)"
    using intake_sql_value [OF assms(3)] by (auto simp: execution_sql_def py_or_def id split: if_splits)
  with run_execution_log [of env H now r w] assms(1,2) id show ?thesis
    by (auto simp: execution_call_def)
qed

theorem executed_sql_is_reviewed_sql_witness:
  "\<exists>url tool. w_log (snd (run_execution echo_env (\<lambda>_. ''h'') 1 0 approved_world)) =
     [\<lparr> mc_url = url, mc_tool = tool,
        mc_args = [(''sql'', PStr ''DELETE FROM t''), (''tenant_id'', PStr ''demo'')] \<rparr>]"
proof -
  let ?c0 = "projr (run_intake ''demo'' '''' 0 sample_manifest)"
  have l: "lookup approved_world (operation_id (w_heap approved_world 0))
      = Some (snd (hd (w_store approved_world)))" by code_simp
  have m: "wr_manifest (snd (hd (w_store approved_world))) = Some sample_manifest" by code_simp
  have "\<not> isl (run_intake ''demo'' '''' 0 sample_manifest)" by code_simp
  then have i: "run_intake ''demo'' '''' 0 sample_manifest = Inr ?c0" by (simp add: sum.collapse(2))
  have id: "contract_identity (w_heap approved_world 0) = contract_identity ?c0" by code_simp
  have c0: "raw_sql ?c0 = ''DELETE FROM t''" "tenant_id ?c0 = ''demo''" by code_simp+
  have n: "length (w_log (snd (run_execution echo_env (\<lambda>_. ''h'') 1 0 approved_world))) = 1"
    "w_log approved_world = []" by code_simp+
  from executed_sql_is_reviewed_sql [OF l m i id, of echo_env "\<lambda>_. ''h''" 1]
  show ?thesis unfolding c0 using n by auto
qed


definition tampered_world :: world where
  "tampered_world = snd (create 0 (dict_set ''sql'' (PStr ''DROP TABLE t'') sample_manifest) 0 empty_world)"

definition sql_digest :: "pyval \<Rightarrow> string" where
  "sql_digest v = (if v = canon (PDict (dict_without ''_manifest_hash'' sample_manifest)) then ''h'' else ''other'')"


text \<open>
  The idempotency check forgets how the first run ended: when the target fails, the record
  is marked as executed and the contract as failed, and a second run of the node then reports
  success without calling anything.
\<close>

theorem rerun_masks_failure:
  assumes "lookup w (operation_id (w_heap w r)) = Some rec" and "\<not> wr_execution_completed rec"
    and "wr_manifest rec = Some m" and "manifest_intact H m"
    and "env (w_log w) (execution_call m (w_heap w r)) = Inl (MCPCallError msg)"
  shows "let w1 = snd (run_execution env H now r w); w2 = snd (run_execution env H now2 r w1)
     in execution_success (w_heap w1 r) = Some False
      \<and> execution_success (w_heap w2 r) = Some True \<and> w_log w2 = w_log w1"
proof -
  let ?w1 = "snd (run_execution env H now r w)"
  have run: "run_execution env H now r w = (Inr (), ?w1)"
    "execution_success (w_heap ?w1 r) = Some False"
    "\<exists>rec1. lookup ?w1 (operation_id (w_heap w r)) = Some rec1 \<and> wr_execution_completed rec1"
    using assms
    by (simp_all add: run_execution_def Let_def wlift_def eff_simps add_provenance_def executed_fields_def)
  have op: "operation_id (w_heap ?w1 r) = operation_id (w_heap w r)"
    using run_execution_keeps_identity [OF run(1), of r] by (simp add: contract_identity_def)
  from run(3) obtain rec1 where "lookup ?w1 (operation_id (w_heap ?w1 r)) = Some rec1"
    "wr_execution_completed rec1"
    unfolding op by blast
  then have "run_execution env H now2 r ?w1
      = (Inr (), modify_contract r (execution_success_update (\<lambda>_. Some True)) ?w1)"
    by (simp add: run_execution_def Let_def)
  with run(2) show ?thesis by (simp add: Let_def modify_contract_def)
qed

theorem rerun_masks_failure_witness:
  "let env = (\<lambda>_ _. Inl (MCPCallError ''refused'')); w1 = snd (run_execution env (\<lambda>_. ''h'') 1 0 approved_world)
   in execution_success (w_heap w1 0) = Some False
      \<and> execution_success (w_heap (snd (run_execution env (\<lambda>_. ''h'') 2 0 w1)) 0) = Some True"
proof -
  let ?rec = "snd (hd (w_store approved_world))"
  have "lookup approved_world (operation_id (w_heap approved_world 0)) = Some ?rec" by code_simp
  moreover have "\<not> wr_execution_completed ?rec" by code_simp
  moreover have "wr_manifest ?rec = Some sample_manifest" by code_simp
  moreover have "manifest_intact (\<lambda>_. ''h'') sample_manifest" by code_simp
  ultimately show ?thesis
    using rerun_masks_failure [of approved_world 0 ?rec sample_manifest "\<lambda>_. ''h''"
        "\<lambda>_ _. Inl (MCPCallError ''refused'')" "''refused''" 1 2]
    by (simp add: Let_def)
qed

end
