(* ===== verification/Audit_Log.thy ===== *)
theory Audit_Log
  imports MCP_Transport
begin

text \<open>
  \<open>mcp_servers/audit_logger/server.py\<close> and \<open>checksum.py\<close>: the append-only audit log. The table
  is the list of its rows in the order of insertion. The digest of SHA-256 over the canonical
  JSON text is a function \<open>H\<close> of the canonical value, and \<open>jb\<close> is what reading a JSONB column
  gives for a value that was written to it.
\<close>

section \<open>The table\<close>

record audit_row =
  ar_id :: string
  ar_operation_id :: string
  ar_tenant_id :: string
  ar_event_type :: string
  ar_agent_name :: "string option"
  ar_event_data :: pyval
  ar_checksum :: string
  ar_logged_at :: int

type_synonym audit_log = "audit_row list"

definition compute_checksum :: "(pyval \<Rightarrow> string) \<Rightarrow> pydict \<Rightarrow> string" where
  "compute_checksum H data = H (canon (PDict data))"

text \<open>The dictionary the checksum covers.\<close>

definition checksum_body :: "string \<Rightarrow> string \<Rightarrow> string \<Rightarrow> string option \<Rightarrow> pyval \<Rightarrow> pydict" where
  "checksum_body rid op ev agent data =
     [(''id'', PStr rid), (''operation_id'', PStr op), (''event_type'', PStr ev),
      (''agent_name'', (case agent of None \<Rightarrow> PNone | Some a \<Rightarrow> PStr a)), (''event_data'', data)]"

definition find_row :: "audit_log \<Rightarrow> string \<Rightarrow> audit_row option" where
  "find_row lg rid = find (\<lambda>r. ar_id r = rid) lg"

text \<open>\<open>_append\<close>. \<open>INSERT\<close> names every column but \<open>tenant_id\<close> and \<open>logged_at\<close>, which get their
  defaults; a duplicate primary key is refused by the database.\<close>

definition audit_append ::
  "(pyval \<Rightarrow> string) \<Rightarrow> (pyval \<Rightarrow> pyval) \<Rightarrow> int \<Rightarrow> string \<Rightarrow> string \<Rightarrow> string \<Rightarrow> pydict \<Rightarrow> string option
     \<Rightarrow> audit_log \<Rightarrow> (exn + pydict) \<times> audit_log" where
  "audit_append H jb now rid op ev data agent lg =
     (if find_row lg rid \<noteq> None then (Inl (RuntimeError ''duplicate key value''), lg)
      else
        (let cs = compute_checksum H (checksum_body rid op ev agent (PDict data))
         in (Inr [(''logged'', PBool True), (''record_id'', PStr rid), (''checksum'', PStr cs)],
             lg @ [\<lparr> ar_id = rid, ar_operation_id = op, ar_tenant_id = ''demo_tenant'',
                     ar_event_type = ev, ar_agent_name = agent, ar_event_data = jb (PDict data),
                     ar_checksum = cs, ar_logged_at = now \<rparr>])))"

section \<open>The tools\<close>

definition log_tool_call_event :: "string \<Rightarrow> string \<Rightarrow> string \<Rightarrow> string \<Rightarrow> pydict" where
  "log_tool_call_event tool ih oh ts =
     [(''tool_name'', PStr tool), (''input_hash'', PStr ih), (''output_hash'', PStr oh),
      (''timestamp'', PStr ts)]"

definition audit_log_tool_call where
  "audit_log_tool_call H jb now rid op agent tool ih oh ts lg =
     audit_append H jb now rid op ''TOOL_CALL'' (log_tool_call_event tool ih oh ts) (Some agent) lg"

definition audit_log_agent_output where
  "audit_log_agent_output H jb now rid op agent summary chash ts lg =
     audit_append H jb now rid op ''AGENT_OUTPUT''
       [(''output_summary'', PStr summary), (''handoff_contract_hash'', PStr chash), (''timestamp'', PStr ts)]
       (Some agent) lg"

definition log_human_decision where
  "log_human_decision H jb now rid op dec reason approver ts lg =
     audit_append H jb now rid op ''HUMAN_DECISION''
       [(''decision'', PStr dec), (''reason'', PStr reason), (''approver_id'', PStr approver),
        (''timestamp'', PStr ts)] None lg"

definition log_execution where
  "log_execution H jb now rid op success rows delta ts lg =
     audit_append H jb now rid op ''EXECUTION''
       [(''execution_success'', PBool success),
        (''actual_rows'', (case rows of None \<Rightarrow> PNone | Some n \<Rightarrow> PInt n)),
        (''blast_radius_delta'', (case delta of None \<Rightarrow> PNone | Some d \<Rightarrow> PFloat d)),
        (''timestamp'', PStr ts)] None lg"

definition log_auto_reject where
  "log_auto_reject H jb now rid op rule pattern ts lg =
     audit_append H jb now rid op ''AUTO_REJECT''
       [(''rule_name'', PStr rule), (''matched_pattern'', PStr pattern), (''timestamp'', PStr ts)] None lg"

text \<open>The newest records first; records of one instant in the order of insertion.\<close>

definition list_operations :: "string \<Rightarrow> int \<Rightarrow> int \<Rightarrow> audit_log \<Rightarrow> exn + audit_row list" where
  "list_operations tenant lmt off lg =
     (if lmt < 0 then Inl (RuntimeError ''LIMIT must not be negative'')
      else if off < 0 then Inl (RuntimeError ''OFFSET must not be negative'')
      else Inr (take (nat lmt) (drop (nat off)
             (sort_key (\<lambda>r. - ar_logged_at r) (filter (\<lambda>r. ar_tenant_id r = tenant) lg)))))"

definition covered :: "audit_row \<Rightarrow> pydict" where
  "covered r = checksum_body (ar_id r) (ar_operation_id r) (ar_event_type r) (ar_agent_name r) (ar_event_data r)"

definition row_checksum :: "(pyval \<Rightarrow> string) \<Rightarrow> audit_row \<Rightarrow> string" where
  "row_checksum H r = compute_checksum H (covered r)"

definition verify_checksum :: "(pyval \<Rightarrow> string) \<Rightarrow> string \<Rightarrow> audit_log \<Rightarrow> pydict" where
  "verify_checksum H rid lg =
     (case find_row lg rid of
        None \<Rightarrow> [(''valid'', PBool False), (''error'', PStr ''Record not found'')]
      | Some r \<Rightarrow> [(''valid'', PBool (row_checksum H r = ar_checksum r)),
                    (''stored_checksum'', PStr (ar_checksum r)),
                    (''computed_checksum'', PStr (row_checksum H r))])"

text \<open>The parameters of the tools the pipeline calls.\<close>

definition log_execution_sig :: tool_sig where
  "log_execution_sig = \<lparr> ts_required = [''operation_id'', ''execution_success'', ''actual_rows'',
     ''blast_radius_delta'', ''timestamp''], ts_optional = [] \<rparr>"

definition log_auto_reject_sig :: tool_sig where
  "log_auto_reject_sig = \<lparr> ts_required = [''operation_id'', ''rule_name'', ''matched_pattern'',
     ''timestamp''], ts_optional = [] \<rparr>"

text \<open>Everything that can happen to the table through the server.\<close>

inductive audit_step :: "(pyval \<Rightarrow> string) \<Rightarrow> (pyval \<Rightarrow> pyval) \<Rightarrow> audit_log \<Rightarrow> audit_log \<Rightarrow> bool"
  for H jb where
  as_tool: "audit_step H jb lg (snd (audit_log_tool_call H jb now rid op agent tool ih oh ts lg))"
| as_output: "audit_step H jb lg (snd (audit_log_agent_output H jb now rid op agent summary chash ts lg))"
| as_decision: "audit_step H jb lg (snd (log_human_decision H jb now rid op dec reason approver ts lg))"
| as_execution: "audit_step H jb lg (snd (log_execution H jb now rid op success rows delta ts lg))"
| as_reject: "audit_step H jb lg (snd (log_auto_reject H jb now rid op rule pattern ts lg))"

lemmas audit_tools = audit_log_tool_call_def audit_log_agent_output_def log_human_decision_def
  log_execution_def log_auto_reject_def

section \<open>Lemmas\<close>

lemma find_row_append:
  "find_row (lg @ [r]) rid =
     (case find_row lg rid of None \<Rightarrow> if ar_id r = rid then Some r else None | Some x \<Rightarrow> Some x)"
  by (induction lg) (simp_all add: find_row_def)

lemma audit_append_cases:
  "snd (audit_append H jb now rid op ev data agent lg) = lg
   \<or> (\<exists>r. snd (audit_append H jb now rid op ev data agent lg) = lg @ [r]
        \<and> find_row lg (ar_id r) = None \<and> ar_tenant_id r = ''demo_tenant'')"
  by (simp add: audit_append_def Let_def)

lemma audit_step_cases:
  assumes "audit_step H jb lg lg'"
  obtains "lg' = lg" | r where "lg' = lg @ [r]" "find_row lg (ar_id r) = None" "ar_tenant_id r = ''demo_tenant''"
  using assms audit_append_cases by cases (fastforce simp: audit_tools)+

text \<open>No tool rewrites or removes a record.\<close>

interpretation al: write_once "audit_step H jb" "\<lambda>_. True" find_row for H jb
proof
  show "find_row lg' rid = Some r" if "audit_step H jb lg lg'" "find_row lg rid = Some r" for lg lg' rid r
    using that(1) by (cases rule: audit_step_cases) (simp_all add: find_row_append that(2))
qed simp

lemma canon_body:
  assumes "canon v = canon data"
  shows "compute_checksum H (checksum_body rid op ev agent v) = compute_checksum H (checksum_body rid op ev agent data)"
  using assms by (simp add: compute_checksum_def checksum_body_def)

text \<open>The canonical body determines everything it covers.\<close>

lemma canon_body_inject:
  assumes "canon (PDict (checksum_body i1 o1 e1 a1 d1)) = canon (PDict (checksum_body i2 o2 e2 a2 d2))"
  shows "i1 = i2 \<and> o1 = o2 \<and> e1 = e2 \<and> a1 = a2 \<and> canon d1 = canon d2"
proof -
  have *: "canon (PDict (checksum_body i op e a d)) =
      PDict [(''agent_name'', canon (case a of None \<Rightarrow> PNone | Some x \<Rightarrow> PStr x)), (''event_data'', canon d),
        (''event_type'', PStr e), (''id'', PStr i), (''operation_id'', PStr op)]" for i op e a d
    by (simp add: checksum_body_def)
  show ?thesis using assms unfolding * by (auto split: option.splits)
qed


lemma audit_run_prefix: "(audit_step H jb)\<^sup>*\<^sup>* lg lg' \<Longrightarrow> \<exists>new. lg' = lg @ new"
proof (induction rule: rtranclp_induct)
  case (step y z)
  from step(2) have "\<exists>new. z = y @ new" by (cases rule: audit_step_cases) auto
  with step.IH show ?case by auto
qed simp

lemma audit_run_tenant:
  "(audit_step H jb)\<^sup>*\<^sup>* [] lg \<Longrightarrow> filter (\<lambda>r. ar_tenant_id r = t) lg = (if t = ''demo_tenant'' then lg else [])"
proof (induction rule: rtranclp_induct)
  case (step y z)
  from step(2) show ?case using step.IH by (cases rule: audit_step_cases) auto
qed simp

text \<open>The listing shows the newest records.\<close>

interpretation newest: ranking "sort_key (\<lambda>r. - ar_logged_at r)" ar_logged_at
proof
  have "sorted (map (\<lambda>r. - ar_logged_at r) (sort_key (\<lambda>r. - ar_logged_at r) xs))" for xs by simp
  then show "sorted_wrt (\<lambda>x y. ar_logged_at y \<le> ar_logged_at x) (sort_key (\<lambda>r. - ar_logged_at r) xs)" for xs
    by (simp add: sorted_map)
qed simp

lemma list_operations_newest:
  assumes "list_operations t lmt 0 lg = Inr rs" and "r \<in> set lg" and "ar_tenant_id r = t"
  shows "r \<in> set rs \<or> (\<forall>x \<in> set rs. ar_logged_at r \<le> ar_logged_at x)"
  using assms newest.shown_or_outranked [of r "filter (\<lambda>r. ar_tenant_id r = t) lg" "nat lmt"]
  by (auto simp: list_operations_def split: if_splits)

section \<open>Properties\<close>



text \<open>
  A record changed behind the server's back is noticed. If any of the covered fields of a
  valid record (operation, kind of event, agent, the content of the event data) is changed and its
  checksum is left as it was, \<open>verify_checksum\<close> answers that the record is not valid, unless
  the digest collides on the two contents.
\<close>

theorem audit_tampering_detected:
  assumes "find_row lg rid = Some r" and "row_checksum H r = ar_checksum r"
    and "find_row lg' rid = Some r'" and "ar_checksum r' = ar_checksum r"
    and "(ar_operation_id r', ar_event_type r', ar_agent_name r', canon (ar_event_data r'))
        \<noteq> (ar_operation_id r, ar_event_type r, ar_agent_name r, canon (ar_event_data r))"
    and no_collision: "H (canon (PDict (covered r'))) = H (canon (PDict (covered r))) \<Longrightarrow>
      canon (PDict (covered r')) = canon (PDict (covered r))"
  shows "dict_get0 (verify_checksum H rid lg) ''valid'' = PBool True
    \<and> dict_get0 (verify_checksum H rid lg') ''valid'' = PBool False"
proof -
  have "row_checksum H r' \<noteq> ar_checksum r'"
  proof
    assume "row_checksum H r' = ar_checksum r'"
    with assms(2,4) have "H (canon (PDict (covered r'))) = H (canon (PDict (covered r)))"
      by (simp add: row_checksum_def compute_checksum_def)
    from no_collision [OF this] show False
      using assms(5) unfolding covered_def by (blast dest: canon_body_inject)
  qed
  with assms(1-3) show ?thesis by (simp add: verify_checksum_def dict_get_def)
qed

definition count_digest :: "pyval \<Rightarrow> string" where
  "count_digest v = (if mentions ''cg_1'' v then ''one'' else ''other'')"

definition one_row :: "string \<Rightarrow> audit_row" where
  "one_row op = \<lparr> ar_id = ''r1'', ar_operation_id = op, ar_tenant_id = ''demo_tenant'',
     ar_event_type = ''EXECUTION'', ar_agent_name = None, ar_event_data = PDict [], ar_checksum = ''one'',
     ar_logged_at = 1 \<rparr>"

theorem audit_tampering_detected_witness:
  "dict_get0 (verify_checksum count_digest ''r1'' [one_row ''cg_1'']) ''valid'' = PBool True
   \<and> dict_get0 (verify_checksum count_digest ''r1'' [one_row ''cg_2'']) ''valid'' = PBool False"
proof -
  have 1: "find_row [one_row ''cg_1''] ''r1'' = Some (one_row ''cg_1'')" by code_simp
  have 2: "row_checksum count_digest (one_row ''cg_1'') = ar_checksum (one_row ''cg_1'')" by code_simp
  have 3: "find_row [one_row ''cg_2''] ''r1'' = Some (one_row ''cg_2'')" by code_simp
  have 4: "ar_checksum (one_row ''cg_2'') = ar_checksum (one_row ''cg_1'')" by code_simp
  have 5: "ar_operation_id (one_row ''cg_2'') \<noteq> ar_operation_id (one_row ''cg_1'')" by code_simp
  have 6: "count_digest (canon (PDict (covered (one_row ''cg_2'')))) \<noteq> count_digest (canon (PDict (covered (one_row ''cg_1''))))"
    by code_simp
  show ?thesis using 5 6 by (intro audit_tampering_detected [OF 1 2 3 4]) simp_all
qed

text \<open>
  The server never writes the tenant of a record: \<open>INSERT\<close> leaves the column to its default.
  So in every log that the tools produce, \<open>list_operations\<close> shows nothing to any other tenant,
  and shows the records of all tenants to the default one.
\<close>

theorem audit_listing_ignores_tenants:
  assumes "(audit_step H jb)\<^sup>*\<^sup>* [] lg" and "0 \<le> lmt" and "0 \<le> off" and "t \<noteq> ''demo_tenant''"
  shows "list_operations t lmt off lg = Inr []
    \<and> list_operations ''demo_tenant'' (int (length lg)) 0 lg = Inr (sort_key (\<lambda>r. - ar_logged_at r) lg)"
  using assms audit_run_tenant [OF assms(1)] by (simp add: list_operations_def)

theorem audit_listing_ignores_tenants_witness:
  "list_operations ''acme'' 50 0 (snd (log_auto_reject (\<lambda>_. ''h'') id 2 ''r2'' ''cg_acme'' ''rule'' ''p'' ''t'' [])) = Inr []"
proof -
  have "(audit_step (\<lambda>_. ''h'') id)\<^sup>*\<^sup>* [] (snd (log_auto_reject (\<lambda>_. ''h'') id 2 ''r2'' ''cg_acme'' ''rule'' ''p'' ''t'' []))"
    by (rule r_into_rtranclp) (rule as_reject)
  from audit_listing_ignores_tenants [OF this, of 50 0 "''acme''"] show ?thesis by simp
qed

end
