(* ===== verification/Audit_Node.thy ===== *)
theory Audit_Node
  imports Audit_Log Memory_Store
begin

text \<open>
  \<open>orchestrator/states/audit.py\<close>: the AUDIT node, the last one of every workflow. The two
  serialisations it uses, \<open>isoformat\<close> and \<open>model_dump_json\<close>, are parameters.
\<close>

section \<open>The node\<close>

record audit_cfg =
  au_env :: mcp_env
  au_now :: int
  au_iso :: "int \<Rightarrow> string"
  au_json :: "HandoffContract \<Rightarrow> string"

definition succeeded :: "HandoffContract \<Rightarrow> bool" where
  "succeeded c \<longleftrightarrow> execution_success c = Some True"

definition determine_outcome :: "HandoffContract \<Rightarrow> string" where
  "determine_outcome c =
     (if approval_state c = AUTO_REJECTED \<or> auto_reject_triggered c then ''AUTO_REJECTED''
      else if approval_state c = TIMED_OUT then ''TIMED_OUT''
      else if approval_state c = REJECTED then ''REJECTED''
      else if approval_state c = MODIFIED then ''MODIFIED''
      else if approval_state c = APPROVED then
        (if succeeded c then ''APPROVED_EXECUTED'' else ''APPROVED_EXECUTION_FAILED'')
      else ''UNKNOWN'')"

definition opt_val :: "('a \<Rightarrow> pyval) \<Rightarrow> 'a option \<Rightarrow> pyval" where
  "opt_val f x = (case x of None \<Rightarrow> PNone | Some v \<Rightarrow> f v)"

definition dump_violation :: "PolicyViolation \<Rightarrow> pyval" where
  "dump_violation v = PDict [(''rule_id'', PStr (pv_rule_id v)), (''rule_name'', PStr (pv_rule_name v)),
     (''severity'', PStr (pv_severity v)), (''description'', PStr (pv_description v))]"

definition build_audit_payload :: "audit_cfg \<Rightarrow> HandoffContract \<Rightarrow> string \<Rightarrow> pydict" where
  "build_audit_payload cfg c outcome =
     [(''operation_id'', PStr (operation_id c)),
      (''tenant_id'', PStr (tenant_id c)),
      (''outcome'', PStr outcome),
      (''operation_type'', PStr (op_value (operation_type c))),
      (''primary_table'', PStr (primary_table c)),
      (''risk_tier'', opt_val (\<lambda>t. PStr (tier_value t)) (risk_tier c)),
      (''reversibility'', opt_val (\<lambda>r. PStr (rev_value r)) (reversibility c)),
      (''estimated_rows'', PInt (estimated_primary_rows c)),
      (''actual_rows'', opt_val PInt (actual_primary_rows c)),
      (''blast_radius_delta'', opt_val PFloat (blast_radius_accuracy_delta c)),
      (''decision'', opt_val PStr (human_decision c)),
      (''decision_reason'', opt_val PStr (decision_reason c)),
      (''decision_timestamp'', opt_val (\<lambda>t. PStr (au_iso cfg t @ ''Z'')) (decision_timestamp c)),
      (''execution_success'', opt_val PBool (execution_success c)),
      (''execution_timestamp'', opt_val (\<lambda>t. PStr (au_iso cfg t @ ''Z'')) (execution_timestamp c)),
      (''auto_reject_reason'', opt_val PStr (auto_reject_reason c)),
      (''policy_violations'', PList (map dump_violation (policy_violations c))),
      (''historical_precedents_count'', PInt (int (length (historical_precedents c)))),
      (''provenance_entries'', PInt (int (length (workflow_provenance c)))),
      (''contract_json'', PStr (au_json cfg c))]"

text \<open>\<open>list(set(...))\<close>: the order of a set is not defined; here it is that of the first occurrences.\<close>

definition audit_tables :: "HandoffContract \<Rightarrow> string list" where
  "audit_tables c =
     remdups ((if primary_table c \<noteq> [] then [primary_table c] else []) @ map ce_table (cascade c))"

definition memory_payload :: "HandoffContract \<Rightarrow> string \<Rightarrow> pydict" where
  "memory_payload c outcome =
     [(''operation_id'', PStr (operation_id c)),
      (''tenant_id'', PStr (tenant_id c)),
      (''intent_summary'', PStr (if intent_summary c \<noteq> [] then intent_summary c else take 200 (raw_sql c))),
      (''raw_sql'', PStr (raw_sql c)),
      (''operation_type'', PStr (op_value (operation_type c))),
      (''primary_table'', PStr (primary_table c)),
      (''tables'', PList (map PStr (audit_tables c))),
      (''estimated_rows'', PInt (estimated_primary_rows c)),
      (''actual_rows'', opt_val PInt (actual_primary_rows c)),
      (''outcome'', PStr outcome),
      (''decision_reason'', PStr (case decision_reason c of None \<Rightarrow> [] | Some r \<Rightarrow> r)),
      (''risk_tier'', PStr (case risk_tier c of None \<Rightarrow> ''UNKNOWN'' | Some t \<Rightarrow> tier_value t)),
      (''reversibility'', PStr (case reversibility c of None \<Rightarrow> ''UNKNOWN'' | Some r \<Rightarrow> rev_value r)),
      (''blast_radius_delta'', opt_val PFloat (blast_radius_accuracy_delta c)),
      (''historical_rejection_surfaced'',
         PBool (list_ex (\<lambda>h. ho_outcome h = ''REJECTED'') (historical_precedents c)))]"

definition trigger_feedback_loop_stub :: "HandoffContract \<Rightarrow> HandoffContract" where
  "trigger_feedback_loop_stub c =
     (case actual_primary_rows c of
        None \<Rightarrow> c
      | Some actual \<Rightarrow>
          (if estimated_primary_rows c \<le> 0 then c
           else
             (let estimated = estimated_primary_rows c;
                  delta = of_int (actual - estimated) / (of_int estimated :: rat);
                  c1 = c\<lparr> blast_radius_accuracy_delta := Some (py_round 4 delta) \<rparr>
              in if \<bar>delta\<bar> \<le> 1/10 then c1
                 else
                   (let adjustment = (if delta > 0 then - (5/100) else - (2/100))
                    in c1\<lparr> row_confidence := max 0 (min 1 (py_round 3 (row_confidence c + adjustment))) \<rparr>))))"

definition audit_call :: "audit_cfg \<Rightarrow> HandoffContract \<Rightarrow> mcp_call" where
  "audit_call cfg c = \<lparr> mc_url = AUDIT_LOGGER_URL,
     mc_tool = (if succeeded c then ''log_execution'' else ''log_auto_reject''),
     mc_args = build_audit_payload cfg c (determine_outcome c) \<rparr>"

definition memory_call :: "HandoffContract \<Rightarrow> mcp_call" where
  "memory_call c = \<lparr> mc_url = MEMORY_STORE_URL, mc_tool = ''store_operation'',
     mc_args = memory_payload c (determine_outcome c) \<rparr>"

text \<open>A call whose \<open>MCPCallError\<close> is logged and dropped.\<close>

definition best_effort :: "mcp_env \<Rightarrow> mcp_call \<Rightarrow> unit eff" where
  "best_effort env call = catch_mcp (bind_eff (invoke env call) (\<lambda>_. ret ())) (ret ())"

definition run_audit :: "audit_cfg \<Rightarrow> HandoffContract \<Rightarrow> HandoffContract eff" where
  "run_audit cfg c =
     bind_eff (best_effort (au_env cfg) (audit_call cfg c))
       (\<lambda>_. bind_eff (best_effort (au_env cfg) (memory_call c))
          (\<lambda>_. ret (add_provenance ''AUDIT'' ''audit_record,memory_write_back'' (au_now cfg) False
                      (trigger_feedback_loop_stub c))))"

section \<open>Lemmas\<close>

lemma best_effort_cases:
  "best_effort env call l =
     (case env l call of Inl e \<Rightarrow> if is_mcp_error e then (Inr (), l @ [call]) else (Inl e, l @ [call])
      | Inr _ \<Rightarrow> (Inr (), l @ [call]))"
  by (simp add: best_effort_def catch_mcp_def try_eff_def bind_eff_def eff_simps split: sum.splits)

lemma feedback_sel [simp]:
  "approval_state (trigger_feedback_loop_stub c) = approval_state c"
  "contract_identity (trigger_feedback_loop_stub c) = contract_identity c"
  "decision_of (trigger_feedback_loop_stub c) = decision_of c"
  "auto_reject_triggered (trigger_feedback_loop_stub c) = auto_reject_triggered c"
  "workflow_provenance (trigger_feedback_loop_stub c) = workflow_provenance c"
  "execution_success (trigger_feedback_loop_stub c) = execution_success c"
  by (simp_all add: trigger_feedback_loop_stub_def contract_identity_def decision_of_def Let_def split: option.splits)

lemma run_audit_Inr:
  assumes "run_audit cfg c l = (Inr c', l')"
  shows "c' = add_provenance ''AUDIT'' ''audit_record,memory_write_back'' (au_now cfg) False (trigger_feedback_loop_stub c)
    \<and> l' = l @ [audit_call cfg c, memory_call c]"
  using assms
  by (auto simp: run_audit_def bind_eff_def best_effort_cases eff_simps split: sum.splits if_splits)

interpretation audit_node: agent_step "run_audit cfg" for cfg
proof
  fix c l c' l'
  assume "run_audit cfg c l = (Inr c', l')"
  from run_audit_Inr [OF this] show "contract_identity c' = contract_identity c \<and> provenance_grows c c'"
    and "decision_of c' = decision_of c \<and> auto_reject_triggered c' = auto_reject_triggered c"
    by (simp_all add: provenance_grows_def) (simp add: add_provenance_def)
qed


section \<open>Properties\<close>

text \<open>
  The audit of a finished workflow: when AUDIT returns, it has made exactly two calls, first
  the audit record and then the memory write-back, both with the same outcome. The outcome is
  APPROVED_EXECUTED exactly for an approved contract that no policy rejected and whose execution
  succeeded, AUTO_REJECTED exactly after a policy rejection, and otherwise the human's decision.
  The contract's decision, execution result and identity are left as they were.
\<close>

theorem audit_outcome_recorded:
  assumes "run_audit cfg c l = (Inr c', l')"
  shows "l' = l @ [audit_call cfg c, memory_call c]
    \<and> dict_get0 (mc_args (audit_call cfg c)) ''outcome'' = PStr (determine_outcome c)
    \<and> dict_get0 (mc_args (memory_call c)) ''outcome'' = PStr (determine_outcome c)
    \<and> (determine_outcome c = ''APPROVED_EXECUTED'' \<longleftrightarrow>
         approval_state c = APPROVED \<and> \<not> auto_reject_triggered c \<and> execution_success c = Some True)
    \<and> (determine_outcome c = ''AUTO_REJECTED'' \<longleftrightarrow> approval_state c = AUTO_REJECTED \<or> auto_reject_triggered c)
    \<and> approval_state c' = approval_state c \<and> execution_success c' = execution_success c
    \<and> contract_identity c' = contract_identity c"
proof -
  have "determine_outcome c = ''APPROVED_EXECUTED'' \<longleftrightarrow>
      approval_state c = APPROVED \<and> \<not> auto_reject_triggered c \<and> execution_success c = Some True"
    "determine_outcome c = ''AUTO_REJECTED'' \<longleftrightarrow> approval_state c = AUTO_REJECTED \<or> auto_reject_triggered c"
    by (auto simp: determine_outcome_def succeeded_def)
  with run_audit_Inr [OF assms] audit_node.keeps_identity [OF assms] show ?thesis
    by (simp add: audit_call_def memory_call_def build_audit_payload_def memory_payload_def dict_get_def)
qed

definition quiet_audit :: audit_cfg where
  "quiet_audit = \<lparr> au_env = (\<lambda>_ _. Inl (MCPCallError ''down'')), au_now = 9, au_iso = (\<lambda>_. ''t''), au_json = (\<lambda>_. ''{}'') \<rparr>"

theorem audit_outcome_recorded_witness:
  "determine_outcome (new_contract ''cg_1'' ''t'' ''a'' INTERNAL_SYSTEM 0 ''SELECT 1'') = ''UNKNOWN''
   \<and> length (snd (run_audit quiet_audit (new_contract ''cg_1'' ''t'' ''a'' INTERNAL_SYSTEM 0 ''SELECT 1'') [])) = 2"
proof -
  let ?c = "new_contract ''cg_1'' ''t'' ''a'' INTERNAL_SYSTEM 0 ''SELECT 1''"
  let ?r = "run_audit quiet_audit ?c []"
  have "\<not> isl (fst ?r)" by code_simp
  then have "?r = (Inr (projr (fst ?r)), snd ?r)" by (simp add: prod_eq_iff)
  from audit_outcome_recorded [OF this] have "length (snd ?r) = 2" by simp
  moreover have "determine_outcome ?c = ''UNKNOWN''" by code_simp
  ultimately show ?thesis by blast
qed

text \<open>The feedback loop measures the error of the row estimate and lowers the confidence by at
  most 0.05; the confidence stays between 0 and 1.\<close>

lemma feedback_confidence:
  assumes "0 \<le> row_confidence c" and "row_confidence c \<le> 1"
  shows "0 \<le> row_confidence (trigger_feedback_loop_stub c) \<and> row_confidence (trigger_feedback_loop_stub c) \<le> 1"
  using assms by (simp add: trigger_feedback_loop_stub_def Let_def split: option.splits)

text \<open>
  No audit record of a workflow is ever written by the repository's own servers: the keywords
  that AUDIT sends do not bind to the parameters of the three tools it calls, for any contract.
  Besides, the delta that the feedback loop computes is not in the payloads, which are built
  before it runs.
\<close>

theorem audit_payloads_do_not_bind:
  "\<not> binds log_execution_sig (build_audit_payload cfg c out)
   \<and> \<not> binds log_auto_reject_sig (build_audit_payload cfg c out)
   \<and> \<not> binds store_operation_sig (memory_payload c out)
   \<and> dict_get0 (mc_args (audit_call cfg c)) ''blast_radius_delta'' = opt_val PFloat (blast_radius_accuracy_delta c)"
  by (simp add: binds_def log_execution_sig_def log_auto_reject_sig_def store_operation_sig_def
      build_audit_payload_def memory_payload_def audit_call_def dict_get_def)

text \<open>An error of the transport that is not an \<open>MCPCallError\<close> leaves the node.\<close>

lemma run_audit_may_raise:
  assumes "au_env cfg l (audit_call cfg c) = Inl (TransportError s)"
  shows "run_audit cfg c l = (Inl (TransportError s), l @ [audit_call cfg c])"
  using assms by (simp add: run_audit_def bind_eff_def best_effort_cases)

end
