(* ===== verification/Graph.thy ===== *)
theory Graph
  imports Risk_Gate Analyzer Context_Sim Contract_Agent Execution Audit_Node
begin

text \<open>
  \<open>orchestrator/graph.py\<close>: the workflow graph. A state of a run is the node to visit next with
  the reference of the workflow's contract object, the world and the number of nodes visited; or
  the end; or the exception that ended it. Everything a visit depends on besides the state (clock,
  services, language models, scheduling of the parallel tasks, what the other tasks of the process
  do before and during the visit) is its \<open>turn\<close>. LangGraph's recursion limit bounds the visits.
\<close>

section \<open>Nodes and edges\<close>

datatype node = N_intake | N_risk_gate | N_analysis | N_context_sim | N_contract
  | N_human_review | N_execution | N_audit

text \<open>The edges of \<open>build_graph\<close>; \<open>None\<close> is \<open>END\<close>.\<close>

definition route_risk_gate :: "HandoffContract \<Rightarrow> node" where
  "route_risk_gate c =
     (let key = route_from_risk_gate c in
      if key = ''auto_reject'' then N_audit else if key = ''auto_execute'' then N_audit else N_analysis)"

definition route_human_review :: "HandoffContract \<Rightarrow> node" where
  "route_human_review c =
     (let key = route_from_human_review c in
      if key = ''approved'' then N_execution
      else if key = ''rejected'' then N_audit
      else if key = ''timed_out'' then N_audit
      else N_analysis)"

fun next_node :: "node \<Rightarrow> HandoffContract \<Rightarrow> node option" where
  "next_node N_intake c = Some N_risk_gate"
| "next_node N_risk_gate c = Some (route_risk_gate c)"
| "next_node N_analysis c = Some N_context_sim"
| "next_node N_context_sim c = Some N_contract"
| "next_node N_contract c = Some N_human_review"
| "next_node N_human_review c = Some (route_human_review c)"
| "next_node N_execution c = Some N_audit"
| "next_node N_audit c = None"

section \<open>Visits\<close>

record turn =
  tn_others :: "world \<Rightarrow> world"
  tn_now :: int
  tn_hour :: int
  tn_uid :: string
  tn_env :: mcp_env
  tn_decode :: "pyval \<Rightarrow> exn + gate_verdict"
  tn_analyzer :: analyzer_ctx
  tn_context :: context_sim_ctx
  tn_sched :: "bool list"
  tn_contract :: contract_ctx
  tn_review :: review_cfg
  tn_ticks :: "tick list"
  tn_finish :: int
  tn_audit :: audit_cfg

record wf_cfg =
  wc_manifest :: pydict
  wc_default_tenant :: string
  wc_hash :: "pyval \<Rightarrow> string"
  wc_limit :: nat

text \<open>INTAKE makes a new contract object from the manifest; the other nodes work on the object
  they are given. \<open>None\<close> is a review that is still waiting.\<close>

definition node_intake :: "wf_cfg \<Rightarrow> turn \<Rightarrow> world \<Rightarrow> (exn + nat) \<times> world" where
  "node_intake cfg t w =
     (case run_intake (wc_default_tenant cfg) (tn_uid t) (tn_now t) (wc_manifest cfg) of
        Inl e \<Rightarrow> (Inl e, w)
      | Inr c \<Rightarrow> (case alloc c w of (r, w') \<Rightarrow> (Inr r, w')))"

definition keep_ref :: "nat \<Rightarrow> (exn + unit) \<times> world \<Rightarrow> (exn + nat) \<times> world" where
  "keep_ref r x = map_prod (map_sum id (\<lambda>_. r)) id x"

definition run_node :: "wf_cfg \<Rightarrow> turn \<Rightarrow> node \<Rightarrow> nat \<Rightarrow> world \<Rightarrow> ((exn + nat) \<times> world) option" where
  "run_node cfg t n r w =
     (case n of
        N_intake \<Rightarrow> Some (node_intake cfg t w)
      | N_risk_gate \<Rightarrow> Some (keep_ref r (on_contract (run_risk_gate (tn_env t) (tn_decode t) (tn_now t) (tn_hour t)) r w))
      | N_analysis \<Rightarrow> Some (keep_ref r (on_contract (analyze (tn_analyzer t)) r w))
      | N_context_sim \<Rightarrow> Some (keep_ref r (on_contract (run_context_sim (tn_context t) (tn_sched t)) r w))
      | N_contract \<Rightarrow> Some (keep_ref r (on_contract (run_contract_agent (tn_contract t)) r w))
      | N_human_review \<Rightarrow> map_option (keep_ref r) (run_human_review (tn_review t) (tn_now t) (tn_ticks t) (tn_finish t) r w)
      | N_execution \<Rightarrow> Some (keep_ref r (run_execution (tn_env t) (wc_hash cfg) (tn_now t) r w))
      | N_audit \<Rightarrow> Some (keep_ref r (on_contract (run_audit (tn_audit t)) r w)))"

section \<open>Runs\<close>

datatype wf_state = At node nat world nat | Finished nat world | Failed exn world

definition graph_step :: "wf_cfg \<Rightarrow> turn \<Rightarrow> node \<Rightarrow> nat \<Rightarrow> world \<Rightarrow> nat \<Rightarrow> wf_state option" where
  "graph_step cfg t n r w k =
     (if wc_limit cfg \<le> k then Some (Failed GraphRecursionError w)
      else
        (case run_node cfg t n r (tn_others t w) of
           None \<Rightarrow> None
         | Some (Inl e, w1) \<Rightarrow> Some (Failed e w1)
         | Some (Inr r1, w1) \<Rightarrow>
             (case next_node n (w_heap w1 r1) of
                None \<Rightarrow> Some (Finished r1 w1)
              | Some n1 \<Rightarrow> Some (At n1 r1 w1 (Suc k)))))"

text \<open>\<open>run_workflow\<close>: \<open>None\<close> when the turns run out or a review is still waiting.\<close>

fun run_graph :: "wf_cfg \<Rightarrow> turn list \<Rightarrow> wf_state \<Rightarrow> wf_state option" where
  "run_graph cfg ts (Finished r w) = Some (Finished r w)"
| "run_graph cfg ts (Failed e w) = Some (Failed e w)"
| "run_graph cfg [] (At n r w k) = None"
| "run_graph cfg (t # ts) (At n r w k) =
     (case graph_step cfg t n r w k of None \<Rightarrow> None | Some s \<Rightarrow> run_graph cfg ts s)"

definition run_workflow :: "wf_cfg \<Rightarrow> turn list \<Rightarrow> world \<Rightarrow> wf_state option" where
  "run_workflow cfg ts w = run_graph cfg ts (At N_intake 0 w 0)"

text \<open>What the other tasks of the process may do: sequences of store operations that leave the
  record of this operation bound to its contract object and, of the workflow's own object,
  change at most the decision.\<close>

definition fair_turn :: "nat \<Rightarrow> world \<Rightarrow> turn \<Rightarrow> bool" where
  "fair_turn r w t \<longleftrightarrow>
     store_step\<^sup>*\<^sup>* w (tn_others t w) \<and> only_decides r (tn_others t)
     \<and> list_all (\<lambda>(_, f). others_ok (operation_id (w_heap w r)) f \<and> only_decides r f) (tn_ticks t)"

inductive wf_reach :: "wf_cfg \<Rightarrow> world \<Rightarrow> wf_state \<Rightarrow> bool" for cfg w0 where
  wf_start: "wf_reach cfg w0 (At N_intake 0 w0 0)"
| wf_next: "wf_reach cfg w0 (At n r w k) \<Longrightarrow> fair_turn r w t \<Longrightarrow> graph_step cfg t n r w k = Some s \<Longrightarrow>
    wf_reach cfg w0 s"

section \<open>Lemmas\<close>

lemma next_node_None: "next_node n c = None \<longleftrightarrow> n = N_audit"
  by (cases n) auto

lemma route_analysis: "route_risk_gate c = N_analysis \<Longrightarrow> \<not> auto_reject_triggered c"
  using route_auto_reject_iff [of c] by (auto simp: route_risk_gate_def Let_def split: if_splits)

lemma route_execution: "route_human_review c = N_execution \<longleftrightarrow> approval_state c = APPROVED"
  using route_from_human_review_keys [of c] by (auto simp: route_human_review_def Let_def route_approved_iff)

lemma on_contract_cases:
  assumes "on_contract f r w = (res, w1)"
  obtains (raised) e where "res = Inl e" "w_heap w1 = w_heap w"
  | (returned) c l where "res = Inr ()" "f (w_heap w r) (w_log w) = (Inr c, l)" "w_heap w1 = (w_heap w)(r := c)" "w_log w1 = l"
  using assms by (auto simp: on_contract_def wlift_def split: prod.splits sum.splits)

text \<open>The nodes after which the verdict of RISK_GATE is known to be no rejection.\<close>

definition in_pipeline :: "node \<Rightarrow> bool" where
  "in_pipeline n \<longleftrightarrow> n \<in> {N_analysis, N_context_sim, N_contract, N_human_review, N_execution}"

definition from_manifest :: "wf_cfg \<Rightarrow> HandoffContract \<Rightarrow> bool" where
  "from_manifest cfg c \<longleftrightarrow> (\<exists>uid now c0. run_intake (wc_default_tenant cfg) uid now (wc_manifest cfg) = Inr c0
     \<and> contract_identity c = contract_identity c0)"

lemma from_manifest_identity: "contract_identity c' = contract_identity c \<Longrightarrow> from_manifest cfg c \<Longrightarrow> from_manifest cfg c'"
  by (auto simp: from_manifest_def)

fun wf_inv :: "wf_cfg \<Rightarrow> wf_state \<Rightarrow> bool" where
  "wf_inv cfg (At n r w k) \<longleftrightarrow> honest_heap w
     \<and> (n \<noteq> N_intake \<longrightarrow> from_manifest cfg (w_heap w r))
     \<and> (in_pipeline n \<longrightarrow> \<not> auto_reject_triggered (w_heap w r))
     \<and> (n = N_execution \<longrightarrow> approval_state (w_heap w r) = APPROVED)"
| "wf_inv cfg (Finished r w) \<longleftrightarrow> honest_heap w \<and> from_manifest cfg (w_heap w r)"
| "wf_inv cfg (Failed e w) \<longleftrightarrow> True"

lemma node_intake_result:
  assumes "node_intake cfg t w = (Inr r, w1)" and "honest_heap w"
  shows "honest_heap w1 \<and> from_manifest cfg (w_heap w1 r)"
  using assms run_intake_Inr(2)
  by (fastforce simp: node_intake_def alloc_def honest_heap_def honest_def from_manifest_def split: sum.splits)

lemma agent_visit:
  assumes "agent_step f" and "on_contract f r w = (res, w1)"
  shows "safe_change w w1 \<and> auto_reject_triggered (w_heap w1 r) = auto_reject_triggered (w_heap w r)"
  using assms(2)
proof (cases rule: on_contract_cases)
  case (raised e)
  then show ?thesis by (simp add: safe_heap_eq)
next
  case (returned c l)
  from agent_step.keeps_verdict [OF assms(1) returned(2)] contract_step.keeps_identity [OF agent_step.axioms(1) [OF assms(1)] returned(2)]
  show ?thesis
    using honest_decision_of by (auto simp: safe_change_def returned(3) honest_heap_def)
qed

lemma gate_visit:
  assumes "on_contract (run_risk_gate env decode now hour) r w = (res, w1)"
  shows "safe_change w w1"
  using assms
proof (cases rule: on_contract_cases)
  case (raised e)
  then show ?thesis by (simp add: safe_heap_eq)
next
  case (returned c l)
  from run_risk_gate_decision [OF returned(2)] gate_node.keeps_identity [OF returned(2)] show ?thesis
    using honest_decision_of by (auto simp: safe_change_def returned(3) honest_heap_def) (auto simp: honest_def)
qed

lemma run_execution_keeps:
  assumes "run_execution env H now r w = (res, w1)"
  shows "safe_change w w1 \<and> auto_reject_triggered (w_heap w1 r) = auto_reject_triggered (w_heap w r)"
proof -
  have "honest_heap w1 \<longleftrightarrow> honest_heap w" "auto_reject_triggered (w_heap w1 r) = auto_reject_triggered (w_heap w r)"
    using assms
    by (auto simp: run_execution_def Let_def wlift_def honest_heap_def honest_def add_provenance_def
        executed_fields_def split: option.splits prod.splits sum.splits if_splits)
  with run_execution_keeps_identity [OF assms] show ?thesis by (simp add: safe_change_def)
qed


lemma keep_ref_Inr: "keep_ref r x = (Inr r1, w1) \<Longrightarrow> r1 = r \<and> x = (Inr (), w1)"
  by (cases x; cases "fst x") (auto simp: keep_ref_def)

lemma run_node_visit:
  assumes "run_node cfg t n r w = Some (Inr r1, w1)" and "n \<noteq> N_intake"
    and "list_all (\<lambda>(_, f). others_ok (operation_id (w_heap w r)) f \<and> only_decides r f) (tn_ticks t)"
  shows "r1 = r \<and> safe_change w w1
    \<and> (n \<noteq> N_risk_gate \<longrightarrow> auto_reject_triggered (w_heap w1 r) = auto_reject_triggered (w_heap w r))"
proof (cases n)
  case N_intake
  with assms(2) show ?thesis by simp
next
  case N_risk_gate
  with assms(1) show ?thesis by (auto simp: run_node_def dest!: keep_ref_Inr gate_visit)
next
  case N_analysis
  with assms(1) show ?thesis
    using agent_visit [OF analyzer_node.agent_step_axioms] by (auto simp: run_node_def dest!: keep_ref_Inr)
next
  case N_context_sim
  with assms(1) show ?thesis
    using agent_visit [OF context_node.agent_step_axioms] by (auto simp: run_node_def dest!: keep_ref_Inr)
next
  case N_contract
  with assms(1) show ?thesis
    using agent_visit [OF contract_node.agent_step_axioms] by (auto simp: run_node_def dest!: keep_ref_Inr)
next
  case N_human_review
  with assms(1) show ?thesis
    using run_human_review_keeps [OF _ assms(3)] by (auto simp: run_node_def dest!: keep_ref_Inr)
next
  case N_execution
  with assms(1) show ?thesis by (auto simp: run_node_def dest!: keep_ref_Inr run_execution_keeps)
next
  case N_audit
  with assms(1) show ?thesis
    using agent_visit [OF audit_node.agent_step_axioms] by (auto simp: run_node_def dest!: keep_ref_Inr)
qed

lemma fair_turn_world:
  assumes "fair_turn r w t"
  shows "safe_change w (tn_others t w)"
    "list_all (\<lambda>(_, f). others_ok (operation_id (w_heap (tn_others t w) r)) f \<and> only_decides r f) (tn_ticks t)"
    "auto_reject_triggered (w_heap (tn_others t w) r) = auto_reject_triggered (w_heap w r)"
proof -
  show s: "safe_change w (tn_others t w)" using assms by (simp add: fair_turn_def safe_store_run)
  then have "operation_id (w_heap (tn_others t w) r) = operation_id (w_heap w r)"
    unfolding safe_change_def contract_identity_def by (metis prod.inject)
  with assms show "list_all (\<lambda>(_, f). others_ok (operation_id (w_heap (tn_others t w) r)) f \<and> only_decides r f) (tn_ticks t)"
    by (simp add: fair_turn_def)
  show "auto_reject_triggered (w_heap (tn_others t w) r) = auto_reject_triggered (w_heap w r)"
    using assms by (simp add: fair_turn_def only_decides_def)
qed

lemma graph_step_cases:
  assumes "graph_step cfg t n r w k = Some s"
  obtains (failed) e w1 where "s = Failed e w1"
  | (audited) r1 w1 where "n = N_audit" "run_node cfg t n r (tn_others t w) = Some (Inr r1, w1)" "s = Finished r1 w1"
  | (moved) r1 w1 n1 where "run_node cfg t n r (tn_others t w) = Some (Inr r1, w1)"
      "next_node n (w_heap w1 r1) = Some n1" "s = At n1 r1 w1 (Suc k)" "k < wc_limit cfg"
proof (cases "wc_limit cfg \<le> k")
  case True
  with assms failed show ?thesis by (auto simp: graph_step_def)
next
  case False
  with assms show ?thesis
    using failed audited moved
    by (auto simp: graph_step_def next_node_None split: option.splits sum.splits prod.splits)
qed

lemma entering_pipeline:
  assumes "next_node n c = Some n1" and "in_pipeline n1"
  shows "in_pipeline n \<or> n = N_risk_gate \<and> \<not> auto_reject_triggered c"
  using assms route_analysis [of c]
  by (cases n) (auto simp: in_pipeline_def route_risk_gate_def Let_def split: if_splits)

lemma wf_inv_step:
  assumes "wf_inv cfg (At n r w k)" and "fair_turn r w t" and "graph_step cfg t n r w k = Some s"
  shows "wf_inv cfg s"
  using assms(3)
proof (cases rule: graph_step_cases)
  case (failed e w1)
  then show ?thesis by simp
next
  case (audited r1 w1)
  note v = run_node_visit [OF audited(2) _ fair_turn_world(2) [OF assms(2)]]
  from v audited(1) assms(1) fair_turn_world(1) [OF assms(2)] show ?thesis
    unfolding audited(3) by (auto simp: safe_change_def intro: from_manifest_identity)
next
  case (moved r1 w1 n1)
  let ?w = "tn_others t w"
  have h0: "honest_heap ?w" using assms(1) fair_turn_world(1) [OF assms(2)] by (simp add: safe_change_def)
  have ex: "n1 = N_execution \<Longrightarrow> approval_state (w_heap w1 r1) = APPROVED"
    using moved(2) route_execution by (cases n) (auto simp: route_risk_gate_def Let_def split: if_splits)
  show ?thesis
  proof (cases "n = N_intake")
    case True
    with moved(1,2) node_intake_result [OF _ h0] ex show ?thesis
      unfolding moved(3) by (auto simp: run_node_def in_pipeline_def)
  next
    case False
    note v = run_node_visit [OF moved(1) False fair_turn_world(2) [OF assms(2)]]
    from v assms(1) False fair_turn_world(1) [OF assms(2)] have 1: "from_manifest cfg (w_heap w1 r1)"
      by (auto simp: safe_change_def intro: from_manifest_identity)
    have "\<not> auto_reject_triggered (w_heap w1 r1)" if "in_pipeline n1"
      using entering_pipeline [OF moved(2) that] v assms(1) fair_turn_world(3) [OF assms(2)]
      by (auto simp: in_pipeline_def)
    with 1 ex v h0 show ?thesis unfolding moved(3) by (auto simp: safe_change_def)
  qed
qed

lemma wf_reach_inv: "wf_reach cfg w0 s \<Longrightarrow> honest_heap w0 \<Longrightarrow> wf_inv cfg s"
proof (induction rule: wf_reach.induct)
  case wf_start
  then show ?case by (simp add: in_pipeline_def)
next
  case (wf_next n r w k t s)
  then show ?case using wf_inv_step by blast
qed


section \<open>Properties\<close>

text \<open>
  C2. Only what a human approved is executed. Whenever a run of the workflow stands before
  EXECUTION, its contract is approved, by a recorded APPROVE decision, no policy had rejected it,
  and its operation id, tenant, submitter and SQL text are those that INTAKE read from the
  intercepted manifest. This holds for all answers of the services and language models, all
  schedules and everything the other tasks of the process interleave, over any number of rounds
  of review.
\<close>

theorem only_approved_operations_execute:
  assumes "wf_reach cfg w0 (At N_execution r w k)" and "honest_heap w0"
  shows "approval_state (w_heap w r) = APPROVED \<and> human_decision (w_heap w r) = Some ''APPROVE''
    \<and> \<not> auto_reject_triggered (w_heap w r) \<and> from_manifest cfg (w_heap w r)"
  using wf_reach_inv [OF assms] by (auto simp: in_pipeline_def honest_heap_def honest_def)


lemma run_graph_ends:
  assumes "wc_limit cfg < length ts + k"
    and "list_all (\<lambda>t. list_ex (\<lambda>(x, _). tn_now t + rv_timeout (tn_review t) \<le> x) (tn_ticks t)) ts"
    and "0 < length ts"
  shows "\<exists>s. run_graph cfg ts (At n r w k) = Some s"
  using assms
proof (induction ts arbitrary: n r w k)
  case (Cons t ts)
  have "\<exists>s. graph_step cfg t n r w k = Some s"
  proof (cases "wc_limit cfg \<le> k")
    case False
    have "\<exists>x. run_node cfg t n r (tn_others t w) = Some x"
      using Cons.prems(2) human_review_ends_at [of "tn_now t" "tn_review t" "tn_ticks t"]
      by (cases n) (fastforce simp: run_node_def)+
    with False show ?thesis by (fastforce simp: graph_step_def split: option.splits sum.splits prod.splits)
  qed (simp add: graph_step_def)
  then obtain s where s: "graph_step cfg t n r w k = Some s" by blast
  from s show ?case
  proof (cases rule: graph_step_cases)
    case (moved r1 w1 n1)
    have "0 < length ts" using Cons.prems(1) moved(4) by (cases ts) auto
    with Cons.IH [of "Suc k" n1 r1 w1] Cons.prems moved s show ?thesis by simp
  qed (use s in auto)
qed simp



section \<open>A sample run\<close>

text \<open>A deletion whose services are all down: it goes the long way, a reviewer approves it while
  HUMAN_REVIEW waits, and the target refuses it.\<close>

definition sample_turn :: turn where
  "sample_turn = \<lparr> tn_others = id, tn_now = 0, tn_hour = 12, tn_uid = ''0123456789'',
     tn_env = (\<lambda>_ _. Inl (MCPCallError ''down'')), tn_decode = (\<lambda>_. Inr safe_defaults),
     tn_analyzer = down_ctx, tn_context = \<lparr> cs_agent = az_agent down_ctx, cs_now = 0, cs_dump = (\<lambda>_. PNone) \<rparr>,
     tn_sched = [], tn_contract = sample_ctx, tn_review = quiet_cfg,
     tn_ticks = [(5, late_decision), (1800, id)], tn_finish = 9, tn_audit = quiet_audit \<rparr>"

definition sample_cfg :: wf_cfg where
  "sample_cfg = \<lparr> wc_manifest = sample_manifest, wc_default_tenant = ''demo'', wc_hash = (\<lambda>_. ''h''), wc_limit = 25 \<rparr>"

text \<open>The state after some turns.\<close>

fun run_steps :: "wf_cfg \<Rightarrow> turn list \<Rightarrow> wf_state \<Rightarrow> wf_state option" where
  "run_steps cfg (t # ts) (At n r w k) =
     (case graph_step cfg t n r w k of None \<Rightarrow> None | Some s \<Rightarrow> run_steps cfg ts s)"
| "run_steps cfg ts s = (if ts = [] then Some s else None)"

lemma run_steps_reach:
  "wf_reach cfg w0 s \<Longrightarrow> list_all (\<lambda>t. \<forall>r w. fair_turn r w t) ts \<Longrightarrow> run_steps cfg ts s = Some s' \<Longrightarrow> wf_reach cfg w0 s'"
proof (induction cfg ts s rule: run_steps.induct)
  case (1 cfg t ts n r w k)
  then show ?case by (fastforce split: option.splits intro: wf_next)
qed (auto split: if_splits)

lemma sample_turn_fair: "fair_turn r w sample_turn"
  by (auto simp: fair_turn_def sample_turn_def only_decides_def others_ok_def late_decision_def
      heap_record_decision_ref decide_def intro: step_decide split: option.splits)

definition is_at :: "node \<Rightarrow> wf_state option \<Rightarrow> bool" where
  "is_at n s = (case s of Some (At n' r w k) \<Rightarrow> n' = n | _ \<Rightarrow> False)"

definition is_finished :: "wf_state option \<Rightarrow> bool" where
  "is_finished s = (case s of Some (Finished r w) \<Rightarrow> True | _ \<Rightarrow> False)"

lemma sample_honest: "honest_heap approved_world"
  by (simp add: honest_heap_def honest_def approved_world_def create_def empty_world_def new_contract_def Let_def)

lemma sample_reaches_execution:
  "is_at N_execution (run_steps sample_cfg (replicate 6 sample_turn) (At N_intake 0 approved_world 0))"
  by code_simp

text \<open>An operation that the policy store rejects.\<close>

definition rejected_turn :: turn where
  "rejected_turn = sample_turn
     \<lparr> tn_env := (\<lambda>_ x. if mc_tool x = ''evaluate_rules'' then Inr PNone else Inl (MCPCallError ''down'')),
       tn_decode := (\<lambda>_. Inr (safe_defaults\<lparr> gv_hard := True, gv_reason := Some ''no backup'' \<rparr>)) \<rparr>"

lemma rejected_turn_fair: "fair_turn r w rejected_turn"
  using sample_turn_fair [of r w] by (simp add: fair_turn_def rejected_turn_def)

lemma sample_finishes:
  "is_finished (run_steps sample_cfg (replicate 3 rejected_turn) (At N_intake 0 approved_world 0))"
  by code_simp

lemma is_atD: "is_at n s \<Longrightarrow> \<exists>r w k. s = Some (At n r w k)"
  by (auto simp: is_at_def split: option.splits wf_state.splits)

lemma is_finishedD: "is_finished s \<Longrightarrow> \<exists>r w. s = Some (Finished r w)"
  by (auto simp: is_finished_def split: option.splits wf_state.splits)

theorem only_approved_operations_execute_witness:
  "\<exists>r w k. wf_reach sample_cfg approved_world (At N_execution r w k)
    \<and> human_decision (w_heap w r) = Some ''APPROVE''"
proof -
  from is_atD [OF sample_reaches_execution] obtain r w k where
    s: "run_steps sample_cfg (replicate 6 sample_turn) (At N_intake 0 approved_world 0) = Some (At N_execution r w k)"
    by blast
  have r: "wf_reach sample_cfg approved_world (At N_execution r w k)"
    by (rule run_steps_reach [OF wf_start _ s]) (simp add: sample_turn_fair list_all_iff)
  with only_approved_operations_execute [OF r sample_honest] show ?thesis by blast
qed



end
