(* ===== verification/Approval_API.thy ===== *)
theory Approval_API
  imports Human_Review Audit_Node
begin

text \<open>
  \<open>proxy/async_protocol.py\<close>: the endpoints of the approval protocol. A handler answers with a JSON
  body or raises an \<open>HTTPException\<close>. Times are whole seconds; \<open>isoformat\<close> and the JSON dump of a
  contract are parameters. An event stream is a generator that other tasks run beside: opening
  it and each of its turns are operations of their own.
\<close>

section \<open>Responses\<close>

definition build_pending_response :: "string \<Rightarrow> pydict" where
  "build_pending_response k =
     [(''status'', PStr ''PENDING_HUMAN_APPROVAL''),
      (''approval_id'', PStr k),
      (''message'', PStr ''Action paused for ContraGate consequence review.''),
      (''poll_url'', PStr (''/v1/approvals/'' @ k @ ''/status'')),
      (''sse_url'', PStr (''/v1/approvals/'' @ k @ ''/stream'')),
      (''estimated_review_seconds'', PInt 300),
      (''contragate_version'', PStr ''0.2.0'')]"

record api_cfg =
  ap_timeout :: int
  ap_iso :: "int \<Rightarrow> string"
  ap_dump :: "HandoffContract \<Rightarrow> pyval"

definition tier_text :: "HandoffContract \<Rightarrow> string" where
  "tier_text c = (case risk_tier c of None \<Rightarrow> ''UNKNOWN'' | Some t \<Rightarrow> tier_value t)"

definition summary_text :: "HandoffContract \<Rightarrow> string" where
  "summary_text c = (if intent_summary c \<noteq> [] then intent_summary c else take 120 (raw_sql c))"

definition approval_item :: "api_cfg \<Rightarrow> int \<Rightarrow> world \<Rightarrow> WorkflowRecord \<Rightarrow> pydict" where
  "approval_item cfg now w r =
     (let c = stored_contract w r; age = now - wr_created_at r in
      [(''approval_id'', PStr (wr_approval_id r)),
       (''operation_id'', PStr (wr_operation_id r)),
       (''status'', PStr (status_value (wr_status r))),
       (''risk_tier'', PStr (tier_text c)),
       (''primary_table'', PStr (primary_table c)),
       (''estimated_rows'', PInt (estimated_primary_rows c)),
       (''reversibility'', PStr (case reversibility c of None \<Rightarrow> ''UNKNOWN'' | Some x \<Rightarrow> rev_value x)),
       (''intent_summary'', PStr (summary_text c)),
       (''operation_type'', PStr (op_value (operation_type c))),
       (''age_seconds'', PInt age),
       (''timeout_at_seconds'', PInt (ap_timeout cfg)),
       (''seconds_remaining'', PInt (max 0 (ap_timeout cfg - age))),
       (''historical_rejection_count'', PInt (int (length (filter
          (\<lambda>h. ho_outcome h = ''REJECTED'' \<or> ho_outcome h = ''ROLLED_BACK'') (historical_precedents c))))),
       (''prompt_injection_risk'', PBool (prompt_injection_risk c)),
       (''created_at'', PStr (ap_iso cfg (wr_created_at r)))])"

definition list_pending_approvals :: "api_cfg \<Rightarrow> int \<Rightarrow> world \<Rightarrow> pydict" where
  "list_pending_approvals cfg now w =
     [(''approvals'', PList (map (\<lambda>r. PDict (approval_item cfg now w r)) (list_pending w)))]"

definition not_found :: "string \<Rightarrow> exn" where
  "not_found k = HTTPException 404 (''Approval '' @ py_repr k @ '' not found'')"

definition get_full_contract :: "api_cfg \<Rightarrow> string \<Rightarrow> world \<Rightarrow> exn + pydict" where
  "get_full_contract cfg k w =
     (case lookup w k of
        None \<Rightarrow> Inl (not_found k)
      | Some r \<Rightarrow> Inr [(''status'', PStr (status_value (wr_status r))),
                       (''approval_id'', PStr (wr_approval_id r)),
                       (''contract'', ap_dump cfg (stored_contract w r))])"

definition audit_item :: "api_cfg \<Rightarrow> world \<Rightarrow> WorkflowRecord \<Rightarrow> pydict" where
  "audit_item cfg w r =
     (let c = stored_contract w r in
      [(''operation_id'', PStr (wr_operation_id r)),
       (''status'', PStr (status_value (wr_status r))),
       (''outcome'', PStr (determine_outcome c)),
       (''risk_tier'', PStr (tier_text c)),
       (''primary_table'', PStr (primary_table c)),
       (''operation_type'', PStr (op_value (operation_type c))),
       (''estimated_rows'', PInt (estimated_primary_rows c)),
       (''actual_rows'', opt_val PInt (actual_primary_rows c)),
       (''blast_radius_delta'', opt_val PFloat (blast_radius_accuracy_delta c)),
       (''intent_summary'', PStr (summary_text c)),
       (''decision'', opt_val PStr (human_decision c)),
       (''decision_reason'', opt_val PStr (decision_reason c)),
       (''reversibility'', opt_val (\<lambda>x. PStr (rev_value x)) (reversibility c)),
       (''execution_success'', opt_val PBool (execution_success c)),
       (''created_at'', PStr (ap_iso cfg (wr_created_at r))),
       (''updated_at'', PStr (ap_iso cfg (wr_updated_at r)))])"

definition list_audit_records :: "api_cfg \<Rightarrow> int \<Rightarrow> world \<Rightarrow> pydict" where
  "list_audit_records cfg limit w =
     [(''records'', PList (map (\<lambda>r. PDict (audit_item cfg w r)) (list_all_records limit w)))]"

definition get_approval_status :: "string \<Rightarrow> world \<Rightarrow> exn + pydict" where
  "get_approval_status k w =
     (case lookup w k of None \<Rightarrow> Inl (not_found k) | Some r \<Rightarrow> Inr (to_status_response w r))"

section \<open>Decisions\<close>

record DecisionPayload =
  dp_approval_id :: string
  dp_decision :: string
  dp_reason :: string
  dp_approver_id :: string
  dp_modification_constraints :: "string option"

definition DECISIONS :: "string list" where
  "DECISIONS = [''APPROVE'', ''REJECT'', ''MODIFY'', ''REQUEST_PREREQUISITE'']"

definition decision_status :: "string \<Rightarrow> WorkflowStatus" where
  "decision_status d =
     (if d = ''APPROVE'' then WS_APPROVED else if d = ''MODIFY'' then WS_RUNNING else WS_REJECTED)"

text \<open>The store is locked once for the decision and once for the status.\<close>

definition post_decision :: "int \<Rightarrow> DecisionPayload \<Rightarrow> world \<Rightarrow> (exn + pydict) \<times> world" where
  "post_decision now body w =
     (if length (dp_reason body) < 10 then
        (Inl (HTTPException 400 ''Decision reason must be at least 10 characters''), w)
      else if dp_decision body \<notin> set DECISIONS then
        (Inl (HTTPException 400 (''Invalid decision: '' @ py_repr (dp_decision body))), w)
      else
        (case record_decision (dp_approval_id body) (dp_decision body) (dp_reason body)
                (dp_approver_id body) (dp_modification_constraints body) now w of
           (False, w1) \<Rightarrow>
             (Inl (HTTPException 409 (''Approval '' @ py_repr (dp_approval_id body) @
                     '' not found or already decided (no replay allowed)'')), w1)
         | (True, w1) \<Rightarrow>
             (Inr [(''recorded'', PBool True), (''approval_id'', PStr (dp_approval_id body))],
              update_status (dp_approval_id body) (decision_status (dp_decision body)) now w1)))"

section \<open>Event streams\<close>

definition STREAM_TERMINAL :: "WorkflowStatus list" where
  "STREAM_TERMINAL = [WS_APPROVED, WS_REJECTED, WS_AUTO_REJECTED, WS_AUTO_EXECUTED, WS_COMPLETED,
     WS_FAILED, WS_TIMED_OUT]"

datatype frame = Data pydict | Heartbeat

record stream =
  st_queue :: nat
  st_sent :: "frame list"
  st_open :: bool

text \<open>\<open>WorkflowStatus(event.get('status', 'RUNNING')) in terminal\<close>; every event is a status
  response, whose status is a value of the enumeration.\<close>

definition ends_stream :: "pydict \<Rightarrow> bool" where
  "ends_stream ev = (dict_get ev ''status'' (PStr ''RUNNING'') \<in> set (map (\<lambda>s. PStr (status_value s)) STREAM_TERMINAL))"

definition stream_request :: "string \<Rightarrow> world \<Rightarrow> exn + unit" where
  "stream_request k w = (case lookup w k of None \<Rightarrow> Inl (not_found k) | Some _ \<Rightarrow> Inr ())"

definition close_stream :: "string \<Rightarrow> stream \<Rightarrow> world \<Rightarrow> stream \<times> world" where
  "close_stream k s w = (s\<lparr> st_open := False \<rparr>, unsubscribe k (st_queue s) w)"

text \<open>The generator up to its loop: the subscription, then the current state.\<close>

definition stream_start :: "string \<Rightarrow> world \<Rightarrow> stream \<times> world" where
  "stream_start k w =
     (case subscribe k w of
        (q, w1) \<Rightarrow>
          (let s = \<lparr> st_queue = q, st_sent = [], st_open = True \<rparr> in
           case lookup w1 k of
             None \<Rightarrow> (s, w1)
           | Some r \<Rightarrow>
               (let s1 = s\<lparr> st_sent := [Data (to_status_response w1 r)] \<rparr> in
                if wr_status r \<in> set STREAM_TERMINAL then close_stream k s1 w1 else (s1, w1))))"

text \<open>One turn of the loop: the next event of the queue, or a heartbeat when none came in time.\<close>

definition stream_turn :: "string \<Rightarrow> stream \<Rightarrow> world \<Rightarrow> stream \<times> world" where
  "stream_turn k s w =
     (case w_queues w (st_queue s) of
        [] \<Rightarrow> (s\<lparr> st_sent := st_sent s @ [Heartbeat] \<rparr>, w)
      | ev # evs \<Rightarrow>
          (let s1 = s\<lparr> st_sent := st_sent s @ [Data ev] \<rparr>;
               w1 = w\<lparr> w_queues := (w_queues w)(st_queue s := evs) \<rparr>
           in if ends_stream ev then close_stream k s1 w1 else (s1, w1)))"

section \<open>Lemmas on decisions\<close>

lemma post_decision_steps: "store_step\<^sup>*\<^sup>* w (snd (post_decision now body w))"
proof -
  let ?d = "record_decision (dp_approval_id body) (dp_decision body) (dp_reason body) (dp_approver_id body)
     (dp_modification_constraints body) now w"
  have "store_step w (snd ?d)" by (rule step_decide)
  moreover have "store_step (snd ?d) (update_status k st now (snd ?d))" for k st by (rule step_status)
  ultimately show ?thesis
    by (cases ?d) (auto simp: post_decision_def intro: rtranclp.rtrancl_into_rtrancl split: bool.splits)
qed

lemma post_decision_accepts:
  "\<not> isl (fst (post_decision now body w)) \<longleftrightarrow>
     10 \<le> length (dp_reason body) \<and> dp_decision body \<in> set DECISIONS
     \<and> (\<exists>r. lookup w (dp_approval_id body) = Some r \<and> approval_state (stored_contract w r) = PENDING)"
  using record_decision_True_iff [of "dp_approval_id body" "dp_decision body" "dp_reason body"
      "dp_approver_id body" "dp_modification_constraints body" now w]
  by (auto simp: post_decision_def split: prod.splits bool.splits)

lemma post_decision_refused: "isl (fst (post_decision now body w)) \<Longrightarrow> snd (post_decision now body w) = w"
  by (auto simp: post_decision_def record_decision_def Let_def split: prod.splits bool.splits option.splits if_splits)

lemma post_decision_ref [simp]: "ref_of (snd (post_decision now body w)) k = ref_of w k"
proof -
  let ?d = "record_decision (dp_approval_id body) (dp_decision body) (dp_reason body) (dp_approver_id body)
     (dp_modification_constraints body) now w"
  obtain b w1 where d: "?d = (b, w1)" by (cases ?d)
  have "ref_of (snd ?d) k = ref_of w k" by simp
  then show ?thesis by (simp add: post_decision_def d split: bool.splits)
qed

text \<open>A decision is written to the contract object of the record and nowhere else.\<close>

lemma post_decision_heap:
  "w_heap (snd (post_decision now body w)) =
     (if isl (fst (post_decision now body w)) then w_heap w
      else (w_heap w)(the (ref_of w (dp_approval_id body)) :=
              decide (dp_decision body) (dp_reason body) (dp_approver_id body)
                (dp_modification_constraints body) now (w_heap w (the (ref_of w (dp_approval_id body))))))"
proof (cases "isl (fst (post_decision now body w))")
  case True
  then show ?thesis by (simp add: post_decision_refused)
next
  case False
  then obtain r where "10 \<le> length (dp_reason body)" "dp_decision body \<in> set DECISIONS"
    "lookup w (dp_approval_id body) = Some r" "approval_state (stored_contract w r) = PENDING"
    unfolding post_decision_accepts by blast
  then show ?thesis by (simp add: post_decision_def ref_of_def record_decision_def Let_def not_less)
qed

lemma decision_reason_decide [simp]: "decision_reason (decide d reason a m now c) = Some reason"
  by (simp add: decide_def)

section \<open>Channels of decisions\<close>

text \<open>Every decided contract has a reason of at least ten characters.\<close>

definition accountable :: "world \<Rightarrow> bool" where
  "accountable w \<longleftrightarrow> (\<forall>x. human_decision (w_heap w x) \<noteq> None \<longrightarrow>
     (\<exists>s. decision_reason (w_heap w x) = Some s \<and> 10 \<le> length s))"

text \<open>A way by which decisions reach the store: it works through store operations, and what it
  decides has a reason of at least ten characters.\<close>

locale decision_channel =
  fixes submit :: "'r \<Rightarrow> world \<Rightarrow> world"
  assumes through_store: "store_step\<^sup>*\<^sup>* w (submit r w)"
    and with_reason: "decision_of (w_heap (submit r w) x) \<noteq> decision_of (w_heap w x) \<Longrightarrow>
      \<exists>s. decision_reason (w_heap (submit r w) x) = Some s \<and> 10 \<le> length s"
begin

lemma submissions_run: "store_step\<^sup>*\<^sup>* w (fold submit rs w)"
proof (induction rs arbitrary: w)
  case (Cons r rs)
  from rtranclp_trans [OF through_store Cons.IH] show ?case by simp
qed simp

lemma decided_for_good:
  "store_ok w \<Longrightarrow> terminal_decision w k = Some d \<Longrightarrow> terminal_decision (fold submit rs w) k = Some d"
  by (rule ws.run_keeps [OF submissions_run])

lemma submit_accountable: "accountable w \<Longrightarrow> accountable (submit r w)"
  unfolding accountable_def
proof (intro allI impI)
  fix x
  assume a: "\<forall>x. human_decision (w_heap w x) \<noteq> None \<longrightarrow> (\<exists>s. decision_reason (w_heap w x) = Some s \<and> 10 \<le> length s)"
    and d: "human_decision (w_heap (submit r w) x) \<noteq> None"
  show "\<exists>s. decision_reason (w_heap (submit r w) x) = Some s \<and> 10 \<le> length s"
  proof (cases "decision_of (w_heap (submit r w) x) = decision_of (w_heap w x)")
    case True
    then have "human_decision (w_heap (submit r w) x) = human_decision (w_heap w x)"
      "decision_reason (w_heap (submit r w) x) = decision_reason (w_heap w x)" by (simp_all add: decision_of_def)
    with a d show ?thesis by (metis (no_types))
  qed (rule with_reason)
qed

lemma submissions_accountable: "accountable w \<Longrightarrow> accountable (fold submit rs w)"
  by (induction rs arbitrary: w) (simp_all add: submit_accountable)

end

interpretation http_channel: decision_channel "\<lambda>(now, body). snd \<circ> post_decision now body"
proof
  fix w :: world and r :: "int \<times> DecisionPayload" and x
  obtain now body where r: "r = (now, body)" by (cases r)
  show "store_step\<^sup>*\<^sup>* w ((case r of (now, body) \<Rightarrow> snd \<circ> post_decision now body) w)"
    by (simp add: r post_decision_steps)
  assume "decision_of (w_heap ((case r of (now, body) \<Rightarrow> snd \<circ> post_decision now body) w) x) \<noteq> decision_of (w_heap w x)"
  then have ok: "\<not> isl (fst (post_decision now body w))"
    and x: "x = the (ref_of w (dp_approval_id body))"
    by (auto simp: r post_decision_heap split: if_splits)
  from ok have "10 \<le> length (dp_reason body)" by (simp add: post_decision_accepts)
  with ok x show "\<exists>s. decision_reason (w_heap ((case r of (now, body) \<Rightarrow> snd \<circ> post_decision now body) w) x) = Some s \<and> 10 \<le> length s"
    by (simp add: r post_decision_heap)
qed

section \<open>Properties\<close>

definition acceptable :: "DecisionPayload \<Rightarrow> bool" where
  "acceptable body \<longleftrightarrow> 10 \<le> length (dp_reason body) \<and> dp_decision body \<in> set DECISIONS"

definition awaiting :: "world \<Rightarrow> string \<Rightarrow> bool" where
  "awaiting w k = (case lookup w k of None \<Rightarrow> False | Some rec \<Rightarrow> approval_state (stored_contract w rec) = PENDING)"

text \<open>
  The decision endpoint: it accepts exactly a valid decision with a reason of at least ten
  characters for a workflow that exists and is pending; then the contract of that workflow is
  decided with the decision, reason and approver of the body, no other contract changes, and its
  status follows. Otherwise it answers 400 for a bad body, 409 else, and changes nothing.
\<close>

theorem decision_endpoint_exact:
  "case post_decision now body w of
     (Inr resp, w') \<Rightarrow>
       acceptable body \<and> awaiting w (dp_approval_id body)
       \<and> (\<exists>rec rec'. lookup w (dp_approval_id body) = Some rec
            \<and> lookup w' (dp_approval_id body) = Some rec' \<and> wr_status rec' = decision_status (dp_decision body)
            \<and> wr_contract rec' = wr_contract rec
            \<and> w_heap w' = (w_heap w)(wr_contract rec := decide (dp_decision body) (dp_reason body) (dp_approver_id body)
                 (dp_modification_constraints body) now (stored_contract w rec)))
   | (Inl e, w') \<Rightarrow>
       w' = w \<and> \<not> (acceptable body \<and> awaiting w (dp_approval_id body))
       \<and> (\<exists>m. e = HTTPException (if acceptable body then 409 else 400) m)"
  by (auto simp: post_decision_def record_decision_def acceptable_def awaiting_def Let_def
      split: prod.splits bool.splits option.splits if_splits)


definition sample_body :: "string \<Rightarrow> string \<Rightarrow> DecisionPayload" where
  "sample_body d reason = \<lparr> dp_approval_id = ''cg_1'', dp_decision = d, dp_reason = reason,
     dp_approver_id = ''alice'', dp_modification_constraints = None \<rparr>"

lemma pending_world_ok: "store_ok pending_world"
proof -
  have "ref_of pending_world k = (if k = ''cg_1'' then Some 0 else None)" for k
    by (simp add: pending_world_def empty_world_def new_contract_def ref_of_def [of "empty_world"])
      (simp add: ref_of_def)
  then show ?thesis by (auto simp: store_ok_def split: if_splits)
qed


section \<open>Streams\<close>

text \<open>What the store does to the queue of a subscriber: it appends.\<close>

lemma queues_fold: "fold (\<lambda>q Q. Q(q := Q q @ [event])) qs Q q0 = Q q0 @ replicate (count_list qs q0) event"
  by (induction qs arbitrary: Q) (auto simp: replicate_append_same)

lemma notify_queue:
  "w_queues (notify_subscribers k w) q = w_queues w q
     @ (case lookup w k of None \<Rightarrow> [] | Some rec \<Rightarrow> replicate (count_list (w_subscribers w k) q) (to_status_response w rec))"
  by (simp add: notify_subscribers_def queues_fold Let_def split: option.splits)

lemma queue_sel [simp]:
  "w_queues (persist rec w) = w_queues w" "w_queues (put_record k rec w) = w_queues w"
  "w_queues (write_contract r c w) = w_queues w" "w_queues (unsubscribe k q w) = w_queues w"
  "w_next_queue (persist rec w) = w_next_queue w" "w_next_queue (put_record k rec w) = w_next_queue w"
  "w_next_queue (write_contract r c w) = w_next_queue w" "w_next_queue (unsubscribe k q w) = w_next_queue w"
  "w_next_queue (notify_subscribers k w) = w_next_queue w"
  by (simp_all add: persist_def put_record_def write_contract_def unsubscribe_def notify_subscribers_def Let_def split: option.splits)

text \<open>No store operation takes from the queue of a subscriber or changes what is in it.\<close>

lemma store_step_queue:
  "store_step w w' \<Longrightarrow> q < w_next_queue w \<Longrightarrow>
   (\<exists>new. w_queues w' q = w_queues w q @ new) \<and> w_next_queue w \<le> w_next_queue w'"
  by (induction rule: store_step.induct)
    (auto simp: update_status_def set_execution_result_def update_contract_def record_decision_def create_def
      subscribe_def notify_queue Let_def split: option.splits)

text \<open>The run of a stream beside the other tasks, with the events that were put into its queue.\<close>

inductive stream_run :: "string \<Rightarrow> world \<Rightarrow> stream \<Rightarrow> world \<Rightarrow> pydict list \<Rightarrow> bool" for k w0 where
  opened: "stream_start k w0 = (s, w) \<Longrightarrow>
    stream_run k w0 s w (case lookup w0 k of None \<Rightarrow> [] | Some rec \<Rightarrow> [to_status_response w0 rec])"
| others: "stream_run k w0 s w h \<Longrightarrow> store_step w w' \<Longrightarrow>
    count_list (w_subscribers w' k) (st_queue s) = count_list (w_subscribers w k) (st_queue s) \<Longrightarrow>
    w_queues w' (st_queue s) = w_queues w (st_queue s) @ new \<Longrightarrow> stream_run k w0 s w' (h @ new)"
| turn: "stream_run k w0 s w h \<Longrightarrow> st_open s \<Longrightarrow> stream_turn k s w = (s', w') \<Longrightarrow> stream_run k w0 s' w' h"

fun data_of :: "frame list \<Rightarrow> pydict list" where
  "data_of [] = []"
| "data_of (Data ev # fs) = ev # data_of fs"
| "data_of (Heartbeat # fs) = data_of fs"

lemma data_of_append [simp]: "data_of (xs @ ys) = data_of xs @ data_of ys"
  by (induction xs rule: data_of.induct) auto

lemma status_value_inj: "status_value s = status_value t \<Longrightarrow> s = t"
  by (cases s; cases t) simp_all

lemma ends_stream_response [simp]: "ends_stream (to_status_response w rec) \<longleftrightarrow> wr_status rec \<in> set STREAM_TERMINAL"
  using status_value_inj by (fastforce simp: ends_stream_def to_status_response_def Let_def dict_get_def)

text \<open>Queues are numbered in the order of the subscriptions.\<close>

definition queues_ok :: "world \<Rightarrow> bool" where
  "queues_ok w \<longleftrightarrow> (\<forall>k. list_all (\<lambda>q. q < w_next_queue w) (w_subscribers w k))"

definition stream_inv :: "string \<Rightarrow> stream \<Rightarrow> world \<Rightarrow> pydict list \<Rightarrow> bool" where
  "stream_inv k s w h \<longleftrightarrow>
     data_of (st_sent s) @ w_queues w (st_queue s) = h
     \<and> st_queue s < w_next_queue w
     \<and> count_list (w_subscribers w k) (st_queue s) = (if st_open s then 1 else 0)
     \<and> st_open s = list_all (\<lambda>ev. \<not> ends_stream ev) (data_of (st_sent s))
     \<and> list_all (\<lambda>ev. \<not> ends_stream ev) (butlast (data_of (st_sent s)))"

lemma lookup_subscribe [simp]: "lookup (snd (subscribe k w)) k' = lookup w k'"
  by (simp add: subscribe_def)

lemma stream_start_inv:
  assumes "queues_ok w0" and "stream_start k w0 = (s, w)"
  shows "stream_inv k s w (case lookup w0 k of None \<Rightarrow> [] | Some rec \<Rightarrow> [to_status_response w0 rec])"
proof -
  have n: "count_list (w_subscribers w0 k) (w_next_queue w0) = 0"
    using assms(1) by (auto simp: queues_ok_def list_all_iff count_list_0_iff)
  have r: "to_status_response (w0\<lparr> w_subscribers := a, w_queues := b, w_next_queue := c \<rparr>) rec = to_status_response w0 rec" for a b c rec
    by (simp add: to_status_response_def)
  from assms(2) n show ?thesis
    by (auto simp: stream_inv_def stream_start_def subscribe_def close_stream_def unsubscribe_def r remove1_append Let_def count_list_0_iff
        split: option.splits if_splits)
qed

lemma stream_turn_inv:
  assumes "stream_inv k s w h" and "st_open s" and "stream_turn k s w = (s', w')"
  shows "stream_inv k s' w' h"
proof (cases "w_queues w (st_queue s)")
  case Nil
  with assms show ?thesis by (auto simp: stream_inv_def stream_turn_def)
next
  case (Cons ev evs)
  have c: "count_list (remove1 q xs) q = 0" if "count_list xs q = 1" for q :: nat and xs
    using that by (induction xs) (auto split: if_splits)
  from assms Cons show ?thesis
    by (auto simp: stream_inv_def stream_turn_def close_stream_def unsubscribe_def Let_def list_all_iff c
        split: if_splits dest: in_set_butlastD)
qed

lemma stream_run_inv:
  assumes "stream_run k w0 s w h" and "queues_ok w0"
  shows "stream_inv k s w h"
  using assms
proof (induction rule: stream_run.induct)
  case (opened s w)
  then show ?case using stream_start_inv by blast
next
  case (others s w h w' new)
  then have "st_queue s < w_next_queue w'" using store_step_queue [OF others(2), of "st_queue s"] by (auto simp: stream_inv_def)
  with others show ?case by (auto simp: stream_inv_def)
next
  case (turn s w h s' w')
  then show ?case using stream_turn_inv by blast
qed

lemma update_status_event:
  assumes "lookup w k = Some rec"
  shows "\<exists>ev. w_queues (update_status k st now w) q = w_queues w q @ replicate (count_list (w_subscribers w k) q) ev
    \<and> dict_get0 ev ''status'' = PStr (status_value st)"
  using assms
  by (intro exI [of _ "to_status_response (persist (rec\<lparr> wr_status := st, wr_updated_at := now \<rparr>)
        (put_record k (rec\<lparr> wr_status := st, wr_updated_at := now \<rparr>) w)) (rec\<lparr> wr_status := st, wr_updated_at := now \<rparr>)"])
    (simp add: update_status_def notify_queue Let_def to_status_response_def dict_get_def put_record_def)


lemma empty_queues_ok: "queues_ok pending_world"
  by (simp add: queues_ok_def pending_world_def create_def empty_world_def persist_def put_record_def Let_def)


end
