(* ===== verification/Proxy.thy ===== *)
theory Proxy
  imports Graph Approval_API
begin

text \<open>
  \<open>proxy/main.py\<close>, the interception endpoint with the background task it starts, and
  \<open>orchestrator/main.py\<close>, the other way to start a workflow. What the clock, the random ids, the
  services of the quick check and the target answer during a request is its \<open>moment\<close>.
\<close>

section \<open>The interception endpoint\<close>

record proxy_cfg =
  px_tenant :: string
  px_target_url :: string
  px_threshold :: rat
  px_hash :: "pyval \<Rightarrow> string"
  px_intake_tenant :: string

record tool_request =
  rq_body :: "pyval option"   \<comment> \<open>\<open>None\<close>: no JSON\<close>
  rq_source :: string
  rq_caller :: string
  rq_tenant :: "string option"

record moment =
  mo_now :: int
  mo_uid :: string
  mo_explain :: http_outcome
  mo_policy :: http_outcome
  mo_env :: mcp_env

definition request_tenant :: "proxy_cfg \<Rightarrow> tool_request \<Rightarrow> string" where
  "request_tenant cfg req =
     (case rq_tenant req of None \<Rightarrow> px_tenant cfg | Some t \<Rightarrow> if t = [] then px_tenant cfg else t)"

definition intercepted :: "proxy_cfg \<Rightarrow> tool_request \<Rightarrow> exn + ToolCallManifest" where
  "intercepted cfg req =
     (case rq_body req of
        None \<Rightarrow> Inl (HTTPException 400 ''Invalid JSON body'')
      | Some (PDict body) \<Rightarrow>
          (case intercept body (rq_caller req) (rq_source req) (request_tenant cfg req) (px_target_url cfg) of
             Inl (InterceptionError s) \<Rightarrow> Inl (HTTPException 422 s)
           | Inl e \<Rightarrow> Inl e
           | Inr m \<Rightarrow> Inr m)
      | Some _ \<Rightarrow> Inl (AttributeError ''get''))"

definition gate_result :: "proxy_cfg \<Rightarrow> moment \<Rightarrow> ToolCallManifest \<Rightarrow> RiskGateResult" where
  "gate_result cfg t m =
     quick_check (px_threshold cfg) (tm_sql m) (proxy_op_type (tm_sql m)) (tm_source_type m) (mo_explain t) (mo_policy t)"

definition rejected_response :: "RiskGateResult \<Rightarrow> pydict" where
  "rejected_response g =
     [(''status'', PStr ''AUTO_REJECTED''),
      (''reason'', PStr (case rg_auto_reject_reason g of
          None \<Rightarrow> ''Policy violation'' | Some s \<Rightarrow> if s = [] then ''Policy violation'' else s)),
      (''contragate_version'', PStr ''0.2.0'')]"

definition executed_response :: "RiskGateResult \<Rightarrow> pyval \<Rightarrow> pydict" where
  "executed_response g result =
     [(''status'', PStr ''AUTO_EXECUTED''), (''result'', result), (''explain_cost'', PFloat (rg_explain_cost g)),
      (''contragate_version'', PStr ''0.2.0'')]"

definition direct_call :: "proxy_cfg \<Rightarrow> ToolCallManifest \<Rightarrow> string \<Rightarrow> mcp_call" where
  "direct_call cfg m tid =
     \<lparr> mc_url = px_target_url cfg, mc_tool = detail_text (tm_tool_name m),
       mc_args = [(''sql'', PStr (tm_sql m)), (''tenant_id'', PStr tid)] \<rparr>"

text \<open>The manifest of the record: with the canonical operation id, hashed again.\<close>

definition stored_manifest :: "proxy_cfg \<Rightarrow> ToolCallManifest \<Rightarrow> string \<Rightarrow> pydict" where
  "stored_manifest cfg m oid =
     bind_manifest (px_hash cfg) (dict_set ''operation_id'' (PStr oid) (bind_manifest (px_hash cfg) (manifest_to_dict m)))"

text \<open>The background task that a request may leave behind.\<close>

record pipeline =
  pl_id :: string
  pl_manifest :: pydict

definition start_record :: "HandoffContract \<Rightarrow> pydict \<Rightarrow> int \<Rightarrow> world \<Rightarrow> world" where
  "start_record c m now w = (case alloc c w of (r, w1) \<Rightarrow> snd (create r m now w1))"

definition open_review :: "proxy_cfg \<Rightarrow> moment \<Rightarrow> ToolCallManifest \<Rightarrow> world \<Rightarrow>
    (exn + int \<times> pydict) \<times> pipeline option \<times> world" where
  "open_review cfg t m w =
     (case run_intake (px_intake_tenant cfg) (mo_uid t) (mo_now t) (bind_manifest (px_hash cfg) (manifest_to_dict m)) of
        Inl e \<Rightarrow> (Inl e, None, w)
      | Inr c \<Rightarrow>
          (let m3 = stored_manifest cfg m (operation_id c)
           in (Inr (202, build_pending_response (operation_id c)),
               Some \<lparr> pl_id = operation_id c, pl_manifest = m3 \<rparr>, start_record c m3 (mo_now t) w)))"

definition intercept_tool_call ::
  "proxy_cfg \<Rightarrow> moment \<Rightarrow> tool_request \<Rightarrow> world \<Rightarrow> (exn + int \<times> pydict) \<times> pipeline option \<times> world" where
  "intercept_tool_call cfg t req w =
     (case intercepted cfg req of
        Inl e \<Rightarrow> (Inl e, None, w)
      | Inr m \<Rightarrow>
          (let g = gate_result cfg t m in
           if rg_routing g = ''auto_reject'' then (Inr (200, rejected_response g), None, w)
           else if rg_routing g = ''auto_execute'' then
             (case wlift (invoke (mo_env t) (direct_call cfg m (request_tenant cfg req))) w of
                (Inr result, w1) \<Rightarrow> (Inr (200, executed_response g result), None, w1)
              | (Inl e, w1) \<Rightarrow> (Inl (HTTPException 502 (''MCP target error: '' @ exn_text e)), None, w1))
           else open_review cfg t m w))"

text \<open>The JSON-RPC endpoint: the same with the default tenant, its answer wrapped.\<close>

definition intercept_jsonrpc ::
  "proxy_cfg \<Rightarrow> moment \<Rightarrow> tool_request \<Rightarrow> world \<Rightarrow> (exn + int \<times> pydict) \<times> pipeline option \<times> world" where
  "intercept_jsonrpc cfg t req w =
     (case rq_body req of
        Some (PDict body) \<Rightarrow>
          map_prod (map_sum id (\<lambda>resp. (200, [(''jsonrpc'', PStr ''2.0''), (''id'', dict_get0 body ''id''),
             (''result'', PDict (snd resp))]))) id (intercept_tool_call cfg t (req\<lparr> rq_tenant := None \<rparr>) w)
      | Some _ \<Rightarrow> (Inl (AttributeError ''get''), None, w)
      | None \<Rightarrow> (Inl (ValueError ''Expecting value''), None, w))"

section \<open>The background task\<close>

definition final_status :: "ApprovalState \<Rightarrow> WorkflowStatus" where
  "final_status st =
     (case st of APPROVED \<Rightarrow> WS_COMPLETED | REJECTED \<Rightarrow> WS_REJECTED | AUTO_REJECTED \<Rightarrow> WS_AUTO_REJECTED
      | TIMED_OUT \<Rightarrow> WS_TIMED_OUT | MODIFIED \<Rightarrow> WS_RUNNING | _ \<Rightarrow> WS_COMPLETED)"

definition pipeline_begin :: "pipeline \<Rightarrow> int \<Rightarrow> world \<Rightarrow> world" where
  "pipeline_begin p now w = update_status (pl_id p) WS_RUNNING now w"

text \<open>After the workflow: its contract goes to the store, which may write a decision it already
  has into it; the status is read off afterwards.\<close>

definition pipeline_end :: "pipeline \<Rightarrow> int \<Rightarrow> wf_state \<Rightarrow> world option" where
  "pipeline_end p now s =
     (case s of
        At n r w k \<Rightarrow> None
      | Finished r w \<Rightarrow>
          (let w1 = update_contract (pl_id p) r now w
           in Some (update_status (pl_id p) (final_status (approval_state (w_heap w1 r))) now w1))
      | Failed e w \<Rightarrow> Some (update_status (pl_id p) WS_FAILED now w))"

definition pipeline_cfg :: "proxy_cfg \<Rightarrow> nat \<Rightarrow> pipeline \<Rightarrow> wf_cfg" where
  "pipeline_cfg cfg limit p = \<lparr> wc_manifest = pl_manifest p, wc_default_tenant = px_intake_tenant cfg,
     wc_hash = px_hash cfg, wc_limit = limit \<rparr>"

definition run_pipeline :: "wf_cfg \<Rightarrow> pipeline \<Rightarrow> int \<Rightarrow> turn list \<Rightarrow> int \<Rightarrow> world \<Rightarrow> world option" where
  "run_pipeline wcfg p now ts later w =
     (case run_workflow wcfg ts (pipeline_begin p now w) of
        None \<Rightarrow> None | Some s \<Rightarrow> pipeline_end p later s)"

section \<open>The orchestrator's endpoint\<close>

definition start_workflow ::
  "string \<Rightarrow> string \<Rightarrow> int \<Rightarrow> pydict \<Rightarrow> string option \<Rightarrow> world \<Rightarrow> (exn + pydict) \<times> pipeline option \<times> world" where
  "start_workflow dt uid now manifest approval w =
     (let m = (case approval of None \<Rightarrow> manifest
                | Some a \<Rightarrow> if a = [] then manifest else dict_set ''_override_operation_id'' (PStr a) manifest)
      in case run_intake dt uid now m of
           Inl e \<Rightarrow> (Inl e, None, w)
         | Inr c \<Rightarrow> (Inr [(''operation_id'', PStr (operation_id c)), (''status'', PStr ''RUNNING'')],
                     Some \<lparr> pl_id = operation_id c, pl_manifest = m \<rparr>, start_record c m now w))"

definition get_workflow_status :: "string \<Rightarrow> world \<Rightarrow> exn + pydict" where
  "get_workflow_status k w =
     (case lookup w k of
        None \<Rightarrow> Inl (HTTPException 404 (''Workflow '' @ py_repr k @ '' not found''))
      | Some r \<Rightarrow> Inr (to_status_response w r))"

section \<open>Lemmas\<close>

text \<open>The contract that INTAKE makes of an intercepted manifest.\<close>

lemma intake_of_manifest:
  assumes "run_intake dt uid now (bind_manifest H (manifest_to_dict m)) = Inr c"
  shows "operation_id c = generate_operation_id uid" and "raw_sql c = tm_sql m" and "tenant_id c = tm_tenant_id m"
    and "submitted_by c = tm_submitted_by m"
  using assms
  by (auto simp: run_intake_def bind_manifest_def manifest_to_dict_def dict_get_def py_or_def str_field_def
      new_contract_def add_provenance_def Let_def split: if_splits sum.splits prod.splits)

text \<open>INTAKE of the stored manifest finds the id that was injected: the workflow's contract is the
  recorded operation.\<close>

lemma intake_of_stored:
  assumes "run_intake dt uid now (bind_manifest (px_hash cfg) (manifest_to_dict m)) = Inr c"
  shows "\<exists>c'. run_intake dt uid' now' (stored_manifest cfg m (operation_id c)) = Inr c'
    \<and> operation_id c' = operation_id c \<and> raw_sql c' = tm_sql m \<and> tenant_id c' = tm_tenant_id m
    \<and> submitted_by c' = tm_submitted_by m \<and> source_type c' = source_type c"
  using assms intake_of_manifest [OF assms]
  by (auto simp: run_intake_def stored_manifest_def bind_manifest_def manifest_to_dict_def dict_get_def py_or_def str_field_def
      new_contract_def add_provenance_def generate_operation_id_def contract_identity_def Let_def detect_source_type_def
      split: if_splits sum.splits prod.splits)

lemma stored_manifest_intact: "manifest_intact (px_hash cfg) (stored_manifest cfg m oid)"
  by (simp add: stored_manifest_def manifest_intact_bound)

lemma start_record_lookup:
  "lookup (start_record c m now w) (operation_id c) =
     Some ((new_record (operation_id c) (w_next w) now)\<lparr> wr_manifest := Some m \<rparr>)"
  "w_heap (start_record c m now w) = (w_heap w)(w_next w := c)"
  "w_log (start_record c m now w) = w_log w"
  by (simp_all add: start_record_def alloc_def create_def Let_def)

lemma intercepted_fields:
  assumes "intercepted cfg req = Inr m"
  shows "tm_tenant_id m = request_tenant cfg req \<and> tm_submitted_by m = rq_caller req \<and> tm_source_type m = rq_source req
    \<and> tm_target_mcp_url m = px_target_url cfg \<and> tm_sql m \<noteq> []"
proof -
  from assms obtain body where
    "intercept body (rq_caller req) (rq_source req) (request_tenant cfg req) (px_target_url cfg) = Inr m"
    by (auto simp: intercepted_def split: option.splits pyval.splits sum.splits exn.splits)
  then show ?thesis
    by (auto simp: intercept_def Let_def split: sum.splits pyval.splits prod.splits if_splits)
qed

text \<open>The only way to a background task.\<close>

lemma pipeline_started:
  assumes "intercept_tool_call cfg t req w = (resp, Some p, w')"
  obtains m c where "intercepted cfg req = Inr m"
    "run_intake (px_intake_tenant cfg) (mo_uid t) (mo_now t) (bind_manifest (px_hash cfg) (manifest_to_dict m)) = Inr c"
    "p = \<lparr> pl_id = operation_id c, pl_manifest = stored_manifest cfg m (operation_id c) \<rparr>"
    "resp = Inr (202, build_pending_response (operation_id c))"
    "w' = start_record c (stored_manifest cfg m (operation_id c)) (mo_now t) w"
  using assms by (auto simp: intercept_tool_call_def open_review_def Let_def split: sum.splits prod.splits if_splits)

section \<open>Properties\<close>

text \<open>
  C7. The proxy itself sends to the target only what the fast path allows: a request that makes
  the proxy call anything makes exactly one call, to the configured target, with the intercepted
  SQL and the request's tenant; the statement is a SELECT from an internal system, no write by the
  write pattern, without an embedded semicolon, with a plan cost below the threshold and no hard
  violation; the store is not touched. A request that is answered with 202 or refused calls
  nothing.
\<close>

theorem proxy_direct_execution_safe:
  assumes "px_threshold cfg \<le> 999999" and "intercept_tool_call cfg t req w = (resp, p, w')"
    and "w_log w' \<noteq> w_log w"
  shows "\<exists>m. intercepted cfg req = Inr m
    \<and> w' = w\<lparr> w_log := w_log w @ [direct_call cfg m (request_tenant cfg req)] \<rparr> \<and> p = None
    \<and> proxy_op_type (tm_sql m) = ''SELECT'' \<and> \<not> is_write_sql (tm_sql m) \<and> rq_source req = ''internal_system''
    \<and> CHR '';'' \<notin> set (clean_sql (tm_sql m)) \<and> fst (quick_explain (tm_sql m) (mo_explain t)) < px_threshold cfg
    \<and> \<not> fst (quick_policy (mo_policy t))"
proof -
  from assms(2,3) obtain m where m: "intercepted cfg req = Inr m"
    by (auto simp: intercept_tool_call_def split: sum.splits)
  have "w_log w' = w_log w" if "\<not> rg_routing (gate_result cfg t m) = ''auto_execute''"
    using assms(2) that m
    by (auto simp: intercept_tool_call_def open_review_def Let_def start_record_lookup split: sum.splits if_splits)
  with assms(3) have ae: "rg_routing (gate_result cfg t m) = ''auto_execute''" by blast
  have "w' = w\<lparr> w_log := w_log w @ [direct_call cfg m (request_tenant cfg req)] \<rparr> \<and> p = None"
    using assms(2) m ae
    by (auto simp: intercept_tool_call_def Let_def wlift_def invoke_def split: sum.splits prod.splits)
  with m quick_check_auto_execute_safe [OF assms(1) ae [unfolded gate_result_def]] intercepted_fields [OF m]
  show ?thesis by auto
qed

definition sample_proxy :: proxy_cfg where
  "sample_proxy = \<lparr> px_tenant = ''demo'', px_target_url = ''http://target'', px_threshold = 50000, px_hash = (\<lambda>_. ''h''),
     px_intake_tenant = ''demo'' \<rparr>"

definition sample_tool_request :: "string \<Rightarrow> tool_request" where
  "sample_tool_request sql = \<lparr> rq_body = Some (PDict [(''tool_name'', PStr ''execute_query''), (''sql'', PStr sql)]),
     rq_source = ''internal_system'', rq_caller = ''agent'', rq_tenant = None \<rparr>"

definition sample_moment :: moment where
  "sample_moment = \<lparr> mo_now = 0, mo_uid = ''0123456789'', mo_explain = sample_plan_answer, mo_policy = HTimeout, mo_env = echo_env \<rparr>"

theorem proxy_direct_execution_safe_witness:
  "w_log (snd (snd (intercept_tool_call sample_proxy sample_moment (sample_tool_request ''SELECT 1'') empty_world)))
     = [\<lparr> mc_url = ''http://target'', mc_tool = ''execute_query'', mc_args = [(''sql'', PStr ''SELECT 1''), (''tenant_id'', PStr ''demo'')] \<rparr>]"
proof -
  let ?req = "sample_tool_request ''SELECT 1''"
  let ?r = "intercept_tool_call sample_proxy sample_moment ?req empty_world"
  have th: "px_threshold sample_proxy \<le> 999999" by (simp add: sample_proxy_def)
  have l: "length (w_log (snd (snd ?r))) = 1" "w_log empty_world = []" by code_simp+
  then have "w_log (snd (snd ?r)) \<noteq> w_log empty_world" by auto
  moreover have "?r = (fst ?r, fst (snd ?r), snd (snd ?r))" by simp
  ultimately obtain m where m: "intercepted sample_proxy ?req = Inr m"
    and w: "snd (snd ?r) = empty_world\<lparr> w_log := w_log empty_world @ [direct_call sample_proxy m (request_tenant sample_proxy ?req)] \<rparr>"
    using proxy_direct_execution_safe [OF th] by blast
  have "direct_call sample_proxy (projr (intercepted sample_proxy ?req)) (request_tenant sample_proxy ?req) =
      \<lparr> mc_url = ''http://target'', mc_tool = ''execute_query'', mc_args = [(''sql'', PStr ''SELECT 1''), (''tenant_id'', PStr ''demo'')] \<rparr>"
    by code_simp
  with m l(2) show ?thesis unfolding w by simp
qed

text \<open>
  C11. A request for review leaves a consistent record behind: the answer is 202 with the approval
  id, nothing is called, the record under that id is pending and not executed, and its manifest
  passes the hash guard of EXECUTION. Whenever the workflow then reads that manifest, it gets a
  contract with the same operation id, the intercepted SQL, tenant, caller and source, so that
  HUMAN_REVIEW and EXECUTION find the record of their operation.
\<close>

theorem proxy_review_record:
  assumes "intercept_tool_call cfg t req w = (resp, Some p, w')"
  shows "\<exists>m rec. intercepted cfg req = Inr m \<and> resp = Inr (202, build_pending_response (pl_id p))
    \<and> w_log w' = w_log w
    \<and> lookup w' (pl_id p) = Some rec \<and> wr_manifest rec = Some (pl_manifest p) \<and> \<not> wr_execution_completed rec
    \<and> approval_state (stored_contract w' rec) = PENDING
    \<and> manifest_intact (px_hash cfg) (pl_manifest p)
    \<and> (\<exists>c. run_intake (px_intake_tenant cfg) uid now (pl_manifest p) = Inr c \<and> operation_id c = pl_id p
         \<and> raw_sql c = tm_sql m \<and> tenant_id c = request_tenant cfg req \<and> submitted_by c = rq_caller req
         \<and> source_type c = source_type (stored_contract w' rec))"
proof -
  from assms obtain m c where m: "intercepted cfg req = Inr m"
    and c: "run_intake (px_intake_tenant cfg) (mo_uid t) (mo_now t) (bind_manifest (px_hash cfg) (manifest_to_dict m)) = Inr c"
    and p: "p = \<lparr> pl_id = operation_id c, pl_manifest = stored_manifest cfg m (operation_id c) \<rparr>"
    and r: "resp = Inr (202, build_pending_response (operation_id c))"
    and w': "w' = start_record c (stored_manifest cfg m (operation_id c)) (mo_now t) w"
    by (rule pipeline_started)
  have "approval_state c = PENDING" by (rule run_intake_Inr(2) [OF c])
  with intake_of_stored [OF c, of uid now] intercepted_fields [OF m] show ?thesis
    unfolding p r w' by (auto simp: m start_record_lookup new_record_def stored_manifest_intact)
qed

theorem proxy_review_record_witness:
  "\<exists>p w'. intercept_tool_call sample_proxy sample_moment (sample_tool_request ''DELETE FROM t'') empty_world =
       (Inr (202, build_pending_response ''cg_01234567''), Some p, w')
     \<and> manifest_intact (\<lambda>_. ''h'') (pl_manifest p)"
proof -
  let ?r = "intercept_tool_call sample_proxy sample_moment (sample_tool_request ''DELETE FROM t'') empty_world"
  have "fst (snd ?r) \<noteq> None" "map_option pl_id (fst (snd ?r)) = Some ''cg_01234567''" by code_simp+
  then obtain p where p: "fst (snd ?r) = Some p" "pl_id p = ''cg_01234567''" by auto
  have r: "?r = (fst ?r, Some p, snd (snd ?r))" by (simp add: prod_eq_iff p(1))
  from proxy_review_record [OF r] have "fst ?r = Inr (202, build_pending_response (pl_id p))"
    "manifest_intact (px_hash sample_proxy) (pl_manifest p)" by blast+
  with r p(2) show ?thesis by (auto simp: sample_proxy_def)
qed

section \<open>Manifests stay\<close>

text \<open>No visit of the workflow and no step of the other tasks changes or drops the manifest of a
  record.\<close>

definition manifest_of :: "world \<Rightarrow> string \<Rightarrow> pydict option option" where
  "manifest_of w k = map_option wr_manifest (lookup w k)"

lemma manifest_of_op [simp]:
  "manifest_of (update_status k st now w) k' = manifest_of w k'"
  "manifest_of (update_contract k r now w) k' = manifest_of w k'"
  "manifest_of (set_execution_result k res now w) k' = manifest_of w k'"
  "manifest_of (modify_contract r f w) k' = manifest_of w k'"
  by (cases "lookup w k'"; simp add: manifest_of_def)+

lemma manifest_of_store: "w_store w' = w_store w \<Longrightarrow> manifest_of w' k = manifest_of w k"
  by (simp add: manifest_of_def)

interpretation mf: write_once store_step "\<lambda>_. True" manifest_of
proof
  fix w w' k d
  assume "store_step w w'" "manifest_of w k = Some d"
  then show "manifest_of w' k = Some d"
    using store_step_record by (fastforce simp: manifest_of_def)
qed simp

lemma poll_loop_manifest:
  "list_all (\<lambda>(_, f). others_ok op f) ticks \<Longrightarrow> poll_loop r op deadline ticks w = Some w' \<Longrightarrow>
     manifest_of w k = Some m \<Longrightarrow> manifest_of w' k = Some m"
proof (induction ticks arbitrary: w)
  case (Cons tick ticks)
  obtain t f where tick: "tick = (t, f)" by (cases tick)
  from Cons.prems tick have "manifest_of (f w) k = Some m"
    using mf.run_keeps [of w "f w" k m] by (simp add: others_ok_def)
  with Cons tick show ?case
    by (cases "t < deadline") (auto simp: Let_def split: option.splits if_splits)
qed simp

lemma review_entry_manifest: "manifest_of (snd (review_entry r now w)) k = manifest_of w k"
  by (simp add: review_entry_def Let_def split: option.splits)

lemma run_human_review_manifest:
  assumes "run_human_review cfg start ticks finish r w = Some (res, w')"
    and "list_all (\<lambda>(_, f). others_ok (operation_id (w_heap w r)) f) ticks" and "manifest_of w k = Some m"
  shows "manifest_of w' k = Some m"
proof -
  obtain x w1 where s: "wlift (send_request cfg (w_heap w r)) w = (x, w1)" by fastforce
  obtain b w2 where e: "review_entry r start w1 = (b, w2)" by fastforce
  have w1: "manifest_of w1 k = Some m" "w_heap w1 = w_heap w" using wlift_sel [OF s] assms(3) by (simp_all add: manifest_of_def)
  have w2: "manifest_of w2 k = Some m" using review_entry_manifest [of r start w1 k] w1 e by simp
  have op: "operation_id (w_heap w2 r) = operation_id (w_heap w r)"
    using review_entry_safe [OF e] w1(2) unfolding safe_change_def contract_identity_def by (metis prod.inject)
  show ?thesis
  proof (cases "\<not> isl x \<and> \<not> b")
    case True
    then obtain w3 where "poll_loop r (operation_id (w_heap w r)) (start + rv_timeout cfg) ticks w2 = Some w3"
      "w' = modify_contract r (add_provenance ''HUMAN_REVIEW'' DECISION_FIELDS finish False) w3"
      using assms(1) s e op by (cases x) (auto simp: run_human_review_def)
    with poll_loop_manifest [OF assms(2) _ w2] show ?thesis by simp
  next
    case False
    with assms(1) s e have "w' = w1 \<or> w' = w2" by (cases x; cases b; simp add: run_human_review_def)
    with w1(1) w2 show ?thesis by blast
  qed
qed

lemma on_contract_store: "on_contract f r w = (res, w') \<Longrightarrow> w_store w' = w_store w"
  by (auto simp: on_contract_def wlift_def split: prod.splits sum.splits)

lemma keep_ref_world: "keep_ref r x = (res, w') \<Longrightarrow> snd x = w'"
  by (cases x) (simp add: keep_ref_def)

lemma run_execution_manifest: "manifest_of (snd (run_execution env H now r w)) k = manifest_of w k"
proof -
  have l: "manifest_of (w\<lparr> w_log := l \<rparr>) k = manifest_of w k" for l by (simp add: manifest_of_def)
  show ?thesis by (simp add: run_execution_def Let_def wlift_def l split: option.splits prod.splits sum.splits)
qed

lemma run_node_manifest:
  assumes "run_node cfg t n r w = Some (res, w')" and "manifest_of w k = Some m"
    and "list_all (\<lambda>(_, f). others_ok (operation_id (w_heap w r)) f \<and> only_decides r f) (tn_ticks t)"
  shows "manifest_of w' k = Some m"
proof -
  have on: "manifest_of (snd (on_contract f r w)) k = Some m" for f
    using on_contract_store [of f r w] assms(2) by (metis manifest_of_store prod.collapse)
  have ok: "list_all (\<lambda>(_, f). others_ok (operation_id (w_heap w r)) f) (tn_ticks t)"
    using assms(3) by (auto simp: list_all_iff)
  show ?thesis
  proof (cases n)
    case N_intake
    with assms(1,2) show ?thesis
      by (auto simp: run_node_def node_intake_def alloc_def manifest_of_def split: sum.splits)
  next
    case N_human_review
    with assms(1) obtain x where "run_human_review (tn_review t) (tn_now t) (tn_ticks t) (tn_finish t) r w = Some x" "snd x = w'"
      by (auto simp: run_node_def dest: keep_ref_world)
    with run_human_review_manifest [OF _ ok assms(2)] show ?thesis by (cases x) auto
  next
    case N_execution
    with assms(1,2) show ?thesis using run_execution_manifest by (auto simp: run_node_def dest: keep_ref_world)
  qed (use assms(1) on in \<open>auto simp: run_node_def dest: keep_ref_world\<close>)
qed

fun world_of :: "wf_state \<Rightarrow> world" where
  "world_of (At n r w k) = w"
| "world_of (Finished r w) = w"
| "world_of (Failed e w) = w"

lemma graph_step_manifest:
  assumes "graph_step cfg t n r w k = Some s" and "fair_turn r w t" and "manifest_of w op = Some m"
  shows "manifest_of (world_of s) op = Some m"
proof (cases "wc_limit cfg \<le> k")
  case True
  with assms show ?thesis by (auto simp: graph_step_def)
next
  case False
  with assms(1) obtain res w1 where v: "run_node cfg t n r (tn_others t w) = Some (res, w1)" and w1: "world_of s = w1"
    by (auto simp: graph_step_def split: option.splits sum.splits)
  have "manifest_of (tn_others t w) op = Some m"
    using assms(2,3) mf.run_keeps [of w "tn_others t w"] by (simp add: fair_turn_def)
  from run_node_manifest [OF v this fair_turn_world(2) [OF assms(2)]] show ?thesis by (simp add: w1)
qed

lemma wf_reach_manifest:
  assumes "wf_reach cfg w0 s" and "manifest_of w0 op = Some m"
  shows "manifest_of (world_of s) op = Some m"
  using assms
proof (induction rule: wf_reach.induct)
  case wf_start
  then show ?case by simp
next
  case (wf_next n r w k t s)
  then show ?case using graph_step_manifest by simp
qed

lemma honest_start_record: "honest_heap w \<Longrightarrow> honest c \<Longrightarrow> honest_heap (start_record c m now w)"
  by (simp add: honest_heap_def start_record_lookup)

text \<open>What EXECUTION sends for a stored manifest is what the proxy would have sent directly.\<close>

lemma execution_call_stored:
  assumes "tm_sql m \<noteq> []" and "tenant_id c = tid"
  shows "execution_call (stored_manifest cfg m oid) c = (direct_call cfg m tid)\<lparr> mc_url := tm_target_mcp_url m \<rparr>"
  using assms
  by (simp add: execution_call_def execution_sql_def direct_call_def stored_manifest_def bind_manifest_def manifest_to_dict_def
      dict_get_def py_or_def)

text \<open>
  C1. End to end: what reaches the target through the workflow is the intercepted call, and a human
  approved it. Take any request that the proxy answers with a pending approval, any steps of the
  other tasks, and any run of its workflow, with all interleavings and all answers of the services
  and models, up to EXECUTION. Then the contract is approved by a recorded APPROVE decision, and
  EXECUTION calls nothing or makes exactly one call: to the configured target, the intercepted
  tool, with the intercepted SQL and the request's tenant.
\<close>

theorem only_the_approved_call_reaches_the_target:
  assumes req: "intercept_tool_call cfg t req w0 = (resp, Some p, w1)" and "honest_heap w0"
    and between: "store_step\<^sup>*\<^sup>* w1 w2"
    and reach: "wf_reach (pipeline_cfg cfg limit p) (pipeline_begin p now w2) (At N_execution r w k)"
    and before: "store_step\<^sup>*\<^sup>* w w3"
  shows "\<exists>m. intercepted cfg req = Inr m \<and> approval_state (w_heap w r) = APPROVED
    \<and> human_decision (w_heap w r) = Some ''APPROVE''
    \<and> (\<exists>calls. set calls \<subseteq> {direct_call cfg m (request_tenant cfg req)} \<and> length calls \<le> 1
         \<and> w_log (snd (run_execution env (px_hash cfg) later r w3)) = w_log w3 @ calls)"
proof -
  from req obtain m c where m: "intercepted cfg req = Inr m"
    and c: "run_intake (px_intake_tenant cfg) (mo_uid t) (mo_now t) (bind_manifest (px_hash cfg) (manifest_to_dict m)) = Inr c"
    and p: "p = \<lparr> pl_id = operation_id c, pl_manifest = stored_manifest cfg m (operation_id c) \<rparr>"
    and w1: "w1 = start_record c (stored_manifest cfg m (operation_id c)) (mo_now t) w0"
    by (rule pipeline_started)
  have "honest c" using run_intake_Inr(2) [OF c] by (simp add: honest_def)
  then have "honest_heap (pipeline_begin p now w2)"
    using store_run_honest [OF between] honest_start_record [OF assms(2)] unfolding w1
    by (simp add: pipeline_begin_def honest_heap_def)
  from wf_reach_inv [OF reach this] have inv: "approval_state (w_heap w r) = APPROVED" "honest (w_heap w r)"
    "from_manifest (pipeline_cfg cfg limit p) (w_heap w r)"
    by (simp_all add: honest_heap_def)
  then obtain uid ts c0 where c0: "run_intake (px_intake_tenant cfg) uid ts (stored_manifest cfg m (operation_id c)) = Inr c0"
    "contract_identity (w_heap w r) = contract_identity c0" by (auto simp: from_manifest_def pipeline_cfg_def p)
  have id: "operation_id (w_heap w3 r) = operation_id c" "tenant_id (w_heap w3 r) = tm_tenant_id m"
    using c0 store_run_identity [OF before, of r] intake_of_stored [OF c, of uid ts] by (auto simp: contract_identity_def)
  have "manifest_of w1 (operation_id c) = Some (Some (stored_manifest cfg m (operation_id c)))"
    by (simp add: w1 manifest_of_def start_record_lookup)
  from mf.run_keeps [OF between _ this]
  have "manifest_of (pipeline_begin p now w2) (operation_id c) = Some (Some (stored_manifest cfg m (operation_id c)))"
    by (simp add: pipeline_begin_def)
  from wf_reach_manifest [OF reach this] mf.run_keeps [OF before]
  have man: "manifest_of w3 (operation_id c) = Some (Some (stored_manifest cfg m (operation_id c)))" by simp
  have "execution_call (stored_manifest cfg m (operation_id c)) (w_heap w3 r) = direct_call cfg m (request_tenant cfg req)"
    using execution_call_stored [of m "w_heap w3 r"] id intercepted_fields [OF m] by (simp add: direct_call_def)
  with run_execution_log [of env "px_hash cfg" later r w3] man id
  have "\<exists>calls. set calls \<subseteq> {direct_call cfg m (request_tenant cfg req)} \<and> length calls \<le> 1
         \<and> w_log (snd (run_execution env (px_hash cfg) later r w3)) = w_log w3 @ calls"
    by (auto simp: manifest_of_def intro: exI [of _ "[]"] exI [of _ "[direct_call cfg m (request_tenant cfg req)]"])
  with m inv show ?thesis by (auto simp: honest_def)
qed

text \<open>A sample run: a deletion is intercepted and approved while HUMAN_REVIEW waits.\<close>

definition approving_turn :: turn where
  "approving_turn = sample_turn\<lparr> tn_ticks :=
     [(5, \<lambda>w. snd (record_decision ''cg_01234567'' ''APPROVE'' ''looks fine to me'' ''alice'' None 7 w)), (1800, id)] \<rparr>"

lemma approving_turn_fair: "fair_turn r w approving_turn"
  by (auto simp: fair_turn_def approving_turn_def sample_turn_def only_decides_def others_ok_def
      heap_record_decision_ref decide_def intro: step_decide split: option.splits)

definition sample_review where
  "sample_review = intercept_tool_call sample_proxy sample_moment (sample_tool_request ''DELETE FROM t'') empty_world"

definition sample_pipeline :: pipeline where
  "sample_pipeline = the (fst (snd sample_review))"

lemma sample_review_started: "sample_review = (fst sample_review, Some sample_pipeline, snd (snd sample_review))"
proof -
  have "fst (snd sample_review) \<noteq> None" by code_simp
  then show ?thesis by (auto simp: prod_eq_iff sample_pipeline_def)
qed

lemma sample_review_approved:
  "is_at N_execution (run_steps (pipeline_cfg sample_proxy 25 sample_pipeline) (replicate 6 approving_turn)
     (At N_intake 0 (pipeline_begin sample_pipeline 0 (snd (snd sample_review))) 0))"
  by code_simp

theorem only_the_approved_call_reaches_the_target_witness:
  "\<exists>r w k. wf_reach (pipeline_cfg sample_proxy 25 sample_pipeline) (pipeline_begin sample_pipeline 0 (snd (snd sample_review)))
        (At N_execution r w k)
     \<and> human_decision (w_heap w r) = Some ''APPROVE''"
proof -
  let ?cfg = "pipeline_cfg sample_proxy 25 sample_pipeline" and ?w = "pipeline_begin sample_pipeline 0 (snd (snd sample_review))"
  from is_atD [OF sample_review_approved] obtain r w k where
    s: "run_steps ?cfg (replicate 6 approving_turn) (At N_intake 0 ?w 0) = Some (At N_execution r w k)"
    by blast
  have r: "wf_reach ?cfg ?w (At N_execution r w k)"
    by (rule run_steps_reach [OF wf_start _ s]) (simp add: approving_turn_fair list_all_iff)
  have "honest_heap empty_world" by (simp add: honest_heap_def honest_def empty_world_def new_contract_def)
  from only_the_approved_call_reaches_the_target [OF sample_review_started [unfolded sample_review_def] this
      rtranclp.rtrancl_refl r [unfolded sample_review_def] rtranclp.rtrancl_refl] r
  show ?thesis by blast
qed

section \<open>The end of a workflow\<close>

lemma pipeline_end_finished:
  assumes "lookup w (pl_id p) = Some rec"
  shows "\<exists>w' rec'. pipeline_end p now (Finished r w) = Some w' \<and> lookup w' (pl_id p) = Some rec' \<and> wr_contract rec' = r
    \<and> wr_status rec' = final_status (approval_state (w_heap w' r))
    \<and> w_heap w' r = (if approval_state (stored_contract w rec) \<in> set TERMINAL_STATES
         then copy_decision (stored_contract w rec) (w_heap w r) else w_heap w r)
    \<and> wr_execution_result rec' = wr_execution_result rec"
  using assms by (simp add: pipeline_end_def Let_def heap_update_contract)

text \<open>
  C38. A rejection can be reported as a completed operation. When an approval is recorded while the
  workflow still runs and the policy gate rejects the operation, the end of the background task
  copies the approval into the rejected contract and reports \<open>COMPLETED\<close>, although the contract says
  that a hard rule rejected it and no execution result exists.
\<close>

theorem rejected_workflow_reported_completed:
  assumes "lookup w (pl_id p) = Some rec" and "approval_state (stored_contract w rec) = APPROVED"
    and "approval_state (w_heap w r) = AUTO_REJECTED" and "auto_reject_triggered (w_heap w r)"
    and "wr_execution_result rec = None"
  shows "\<exists>w' rec'. pipeline_end p now (Finished r w) = Some w' \<and> lookup w' (pl_id p) = Some rec'
    \<and> wr_status rec' = WS_COMPLETED \<and> approval_state (stored_contract w' rec') = APPROVED
    \<and> auto_reject_triggered (stored_contract w' rec') \<and> wr_execution_result rec' = None"
proof -
  from pipeline_end_finished [OF assms(1), of now r] obtain w' rec' where
    e: "pipeline_end p now (Finished r w) = Some w'" "lookup w' (pl_id p) = Some rec'" "wr_contract rec' = r"
    "wr_status rec' = final_status (approval_state (w_heap w' r))" "wr_execution_result rec' = None"
    "w_heap w' r = copy_decision (stored_contract w rec) (w_heap w r)"
    using assms(2,5) by (auto simp: TERMINAL_STATES_def)
  with assms(2,4) show ?thesis by (auto simp: final_status_def copy_decision_def)
qed

text \<open>Such a state is the result of a run: the decision is posted before RISK_GATE ends.\<close>

definition early_decision :: world where
  "early_decision = snd (record_decision ''cg_1'' ''APPROVE'' ''looks fine to me'' ''alice'' None 1 approved_world)"

definition early_pipeline :: pipeline where
  "early_pipeline = \<lparr> pl_id = ''cg_1'', pl_manifest = sample_manifest \<rparr>"

definition rejected_early :: wf_state where
  "rejected_early = the (run_workflow sample_cfg (replicate 3 rejected_turn) early_decision)"

theorem rejected_workflow_reported_completed_witness:
  "\<exists>r w w' rec. rejected_early = Finished r w \<and> pipeline_end early_pipeline 9 (Finished r w) = Some w'
    \<and> lookup w' ''cg_1'' = Some rec \<and> wr_status rec = WS_COMPLETED"
proof -
  have "is_finished (Some rejected_early)" by code_simp
  from is_finishedD [OF this] obtain r w where f: "rejected_early = Finished r w" by auto
  have "case rejected_early of Finished r w \<Rightarrow> (case lookup w ''cg_1'' of None \<Rightarrow> False | Some rec \<Rightarrow>
      approval_state (stored_contract w rec) = APPROVED \<and> approval_state (w_heap w r) = AUTO_REJECTED
      \<and> auto_reject_triggered (w_heap w r) \<and> wr_execution_result rec = None) | _ \<Rightarrow> False"
    by code_simp
  then obtain rec where "lookup w (pl_id early_pipeline) = Some rec" "approval_state (stored_contract w rec) = APPROVED"
    "approval_state (w_heap w r) = AUTO_REJECTED" "auto_reject_triggered (w_heap w r)" "wr_execution_result rec = None"
    by (auto simp: f early_pipeline_def split: option.splits)
  from rejected_workflow_reported_completed [OF this, of 9] obtain w' rec' where
    "pipeline_end early_pipeline 9 (Finished r w) = Some w'" "lookup w' ''cg_1'' = Some rec'" "wr_status rec' = WS_COMPLETED"
    by (auto simp: early_pipeline_def)
  with f show ?thesis by metis
qed

text \<open>The id that a caller asks the orchestrator to use is not read.\<close>

lemma override_ignored: "run_intake dt uid now (dict_set ''_override_operation_id'' v m) = run_intake dt uid now m"
proof -
  have "dict_get (dict_set ''_override_operation_id'' v m) k z = dict_get m k z" if "k \<noteq> ''_override_operation_id''" for k z
    using that by simp
  then have e: "dict_get (dict_set ''_override_operation_id'' v m) (CHR ''s'' # k) z = dict_get m (CHR ''s'' # k) z"
    "dict_get (dict_set ''_override_operation_id'' v m) (CHR ''q'' # k) z = dict_get m (CHR ''q'' # k) z"
    "dict_get (dict_set ''_override_operation_id'' v m) (CHR ''o'' # k) z = dict_get m (CHR ''o'' # k) z"
    "dict_get (dict_set ''_override_operation_id'' v m) (CHR ''t'' # k) z = dict_get m (CHR ''t'' # k) z"
    "dict_get (dict_set ''_override_operation_id'' v m) (CHR ''i'' # k) z = dict_get m (CHR ''i'' # k) z" for k z
    by simp_all
  show ?thesis unfolding run_intake_def detect_source_type_def e ..
qed

lemma start_workflow_result:
  assumes "run_intake dt uid now manifest = Inr c"
  shows "\<exists>p. start_workflow dt uid now manifest a w =
      (Inr [(''operation_id'', PStr (operation_id c)), (''status'', PStr ''RUNNING'')], Some p,
       start_record c (pl_manifest p) now w)"
  using assms by (simp add: start_workflow_def Let_def override_ignored split: option.splits)

text \<open>
  The orchestrator's endpoint can undo a decision. It takes the operation id from the manifest
  of the caller, whatever approval id is asked for, and replaces a record that exists under it: a
  workflow that was decided and executed is then pending again and may be executed again.
\<close>

theorem start_workflow_resets_record:
  assumes "lookup w k = Some rec" and "map_of manifest ''operation_id'' = Some (PStr k)" and "k \<noteq> []"
    and "run_intake dt uid now manifest = Inr c"
  shows "\<exists>resp p w' rec'. start_workflow dt uid now manifest a w = (Inr resp, Some p, w')
    \<and> lookup w' k = Some rec' \<and> wr_status rec' = WS_RUNNING \<and> \<not> wr_execution_completed rec'
    \<and> terminal_decision w' k = None"
proof -
  from start_workflow_result [OF assms(4)] obtain p where
    s: "start_workflow dt uid now manifest a w = (Inr [(''operation_id'', PStr (operation_id c)), (''status'', PStr ''RUNNING'')],
      Some p, start_record c (pl_manifest p) now w)" by blast
  have k: "operation_id c = k" by (rule run_intake_operation_id [OF assms(4,2,3)])
  have "lookup (start_record c (pl_manifest p) now w) k = Some ((new_record k (w_next w) now)\<lparr> wr_manifest := Some (pl_manifest p) \<rparr>)"
    using start_record_lookup(1) [of c] k by simp
  moreover from this have "terminal_decision (start_record c (pl_manifest p) now w) k = None"
    using run_intake_Inr(2) [OF assms(4)]
    by (simp add: terminal_decision_def ref_of_def start_record_lookup(2) new_record_def TERMINAL_STATES_def)
  ultimately show ?thesis using s by (auto simp: new_record_def)
qed

theorem start_workflow_resets_record_witness:
  "\<exists>resp p w'. start_workflow ''demo'' [] 9 sample_manifest None early_decision = (Inr resp, Some p, w')
    \<and> terminal_decision early_decision ''cg_1'' \<noteq> None \<and> terminal_decision w' ''cg_1'' = None"
proof -
  have "lookup early_decision ''cg_1'' \<noteq> None" "\<not> isl (run_intake ''demo'' [] 9 sample_manifest)"
    "map_of sample_manifest ''operation_id'' = Some (PStr ''cg_1'')" "terminal_decision early_decision ''cg_1'' \<noteq> None"
    by code_simp+
  moreover from this obtain rec c where "lookup early_decision ''cg_1'' = Some rec" "run_intake ''demo'' [] 9 sample_manifest = Inr c"
    by (metis isl_def not_None_eq sum.collapse(2))
  ultimately show ?thesis
    using start_workflow_resets_record [of early_decision "''cg_1''" rec sample_manifest "''demo''" "[]" 9 c None] by auto
qed

end
