(* ===== verification/Slack.thy ===== *)
theory Slack
  imports Approval_API
begin

text \<open>
  How a human decides: \<open>mcp_servers/notifier/server.py\<close>, which sends the approval request and
  forwards decisions, and \<open>proxy/webhook_handler.py\<close>, which takes the decisions of Slack. Slack
  itself, the keyed hash and the JSON reader are parameters. Bytes and text are both lists of
  characters, a text being its UTF-8 encoding.
\<close>

section \<open>Bytes and forms\<close>

text \<open>\<open>bytes.decode()\<close>: strict UTF-8.\<close>

fun utf8_ok :: "nat list \<Rightarrow> bool" where
  "utf8_ok [] = True"
| "utf8_ok (b # bs) =
     (if b < 128 then utf8_ok bs
      else (case bs of
        c # cs \<Rightarrow>
          (if 194 \<le> b \<and> b < 224 then 128 \<le> c \<and> c < 192 \<and> utf8_ok cs
           else (case cs of
             d # ds \<Rightarrow>
               (if 224 \<le> b \<and> b < 240 then
                  (if b = 224 then 160 \<le> c else 128 \<le> c) \<and> (if b = 237 then c < 160 else c < 192)
                  \<and> 128 \<le> d \<and> d < 192 \<and> utf8_ok ds
                else (case ds of
                  e # es \<Rightarrow> 240 \<le> b \<and> b < 245
                    \<and> (if b = 240 then 144 \<le> c else 128 \<le> c) \<and> (if b = 244 then c < 144 else c < 192)
                    \<and> 128 \<le> d \<and> d < 192 \<and> 128 \<le> e \<and> e < 192 \<and> utf8_ok es
                | [] \<Rightarrow> False))
           | [] \<Rightarrow> False))
      | [] \<Rightarrow> False))"

definition decode_body :: "string \<Rightarrow> exn + string" where
  "decode_body b = (if utf8_ok (map of_char b) then Inr b else Inl (ValueError ''invalid utf-8''))"

text \<open>\<open>urllib.parse.parse_qs\<close>: fields without a value are dropped, \<open>+\<close> is a space and \<open>%XX\<close> a
  byte.\<close>

definition hex_digit :: "char \<Rightarrow> nat option" where
  "hex_digit c =
     (if is_digit c then Some (of_char c - 48)
      else if CHR ''a'' \<le> c \<and> c \<le> CHR ''f'' then Some (of_char c - 87)
      else if CHR ''A'' \<le> c \<and> c \<le> CHR ''F'' then Some (of_char c - 55)
      else None)"

fun unquote :: "string \<Rightarrow> string" where
  "unquote (a # b # c # s) =
     (if a = CHR ''%'' then
        (case (hex_digit b, hex_digit c) of
           (Some x, Some y) \<Rightarrow> char_of (16 * x + y) # unquote s
         | _ \<Rightarrow> a # unquote (b # c # s))
      else a # unquote (b # c # s))"
| "unquote s = s"

definition unquote_plus :: "string \<Rightarrow> string" where
  "unquote_plus s = unquote (map (\<lambda>c. if c = CHR ''+'' then CHR '' '' else c) s)"

fun split_on :: "char \<Rightarrow> string \<Rightarrow> string list" where
  "split_on c [] = [[]]"
| "split_on c (x # xs) =
     (if x = c then [] # split_on c xs else (case split_on c xs of [] \<Rightarrow> [[x]] | p # ps \<Rightarrow> (x # p) # ps))"

definition form_field :: "string \<Rightarrow> (string \<times> string) option" where
  "form_field f =
     (let (n, v) = (takeWhile (\<lambda>c. c \<noteq> CHR ''='') f, dropWhile (\<lambda>c. c \<noteq> CHR ''='') f)
      in if length v \<le> 1 then None else Some (unquote_plus n, unquote_plus (tl v)))"

definition parse_qs :: "string \<Rightarrow> (string \<times> string) list" where
  "parse_qs body = List.map_filter form_field (split_on (CHR ''&'') body)"

section \<open>The signature\<close>

record slack_cfg =
  sl_signing_secret :: string
  sl_bot_token :: string
  sl_use_mock :: bool
  sl_hmac :: "string \<Rightarrow> string \<Rightarrow> string"
  sl_loads :: "string \<Rightarrow> exn + pyval"

definition REPLAY_WINDOW_SECONDS :: rat where
  "REPLAY_WINDOW_SECONDS = 300"

text \<open>\<open>hmac.compare_digest\<close> on strings raises for characters that are not ASCII.\<close>

definition is_ascii :: "string \<Rightarrow> bool" where
  "is_ascii s = list_all (\<lambda>c. (of_char c :: nat) < 128) s"

definition verify_slack_signature :: "slack_cfg \<Rightarrow> rat \<Rightarrow> string \<Rightarrow> string \<Rightarrow> string \<Rightarrow> exn + bool" where
  "verify_slack_signature cfg now body timestamp signature =
     (if sl_signing_secret cfg = [] then Inr False
      else (case parse_int (str_strip timestamp) of
        None \<Rightarrow> Inr False
      | Some ts \<Rightarrow>
          (if \<bar>now - of_int ts\<bar> > REPLAY_WINDOW_SECONDS then Inr False
           else (case decode_body body of
             Inl e \<Rightarrow> Inl e
           | Inr text \<Rightarrow>
               (let expected = ''v0='' @ sl_hmac cfg (sl_signing_secret cfg) (''v0:'' @ timestamp @ '':'' @ text)
                in if is_ascii expected \<and> is_ascii signature then Inr (expected = signature)
                   else Inl (TypeError ''comparing strings with non-ASCII characters is not supported''))))))"

section \<open>Buttons and modals\<close>

definition OK_RESPONSE :: pydict where
  "OK_RESPONSE = [(''ok'', PBool True)]"

definition plain_text :: "string \<Rightarrow> pyval" where
  "plain_text t = PDict [(''type'', PStr ''plain_text''), (''text'', PStr t)]"

definition ellipsis :: string where
  "ellipsis = [CHR 0xE2, CHR 0x80, CHR 0xA6]"

definition decision_modal :: "string \<Rightarrow> string \<Rightarrow> pydict" where
  "decision_modal decision k =
     [(''type'', PStr ''modal''),
      (''callback_id'', PStr (decision @ ''_'' @ k)),
      (''title'', plain_text (if decision = ''approve'' then ''Approve Operation'' else ''Reject Operation'')),
      (''submit'', plain_text (if decision = ''approve'' then ''Confirm Approve'' else ''Confirm Reject'')),
      (''close'', plain_text ''Cancel''),
      (''blocks'', PList [PDict
         [(''type'', PStr ''input''),
          (''block_id'', PStr ''reason_block''),
          (''label'', plain_text ''Reason (minimum 10 characters)''),
          (''element'', PDict
             [(''type'', PStr ''plain_text_input''),
              (''action_id'', PStr ''reason_input''),
              (''multiline'', PBool True),
              (''min_length'', PInt 10),
              (''placeholder'', plain_text (''Provide a clear reason for your decision'' @ ellipsis))])]])]"

text \<open>The answer with the view that is sent to Slack, whose reply is ignored.\<close>

definition open_decision_modal :: "slack_cfg \<Rightarrow> string \<Rightarrow> string \<Rightarrow> pydict \<times> pydict option" where
  "open_decision_modal cfg decision k =
     (if sl_bot_token cfg = [] then ([(''ok'', PBool False), (''error'', PStr ''no_token'')], None)
      else (OK_RESPONSE, Some (decision_modal decision k)))"

text \<open>\<open>v.get(key, d)\<close> on a parsed value.\<close>

definition get_in :: "pyval \<Rightarrow> string \<Rightarrow> pyval \<Rightarrow> exn + pyval" where
  "get_in v k d = (case v of PDict m \<Rightarrow> Inr (dict_get m k d) | _ \<Rightarrow> Inl (AttributeError ''get''))"

text \<open>\<open>actions[0]\<close> of a truthy value.\<close>

definition first_of :: "pyval \<Rightarrow> exn + pyval" where
  "first_of v = (case v of PList (x # _) \<Rightarrow> Inr x | PStr (c # _) \<Rightarrow> Inr (PStr [c])
     | PDict _ \<Rightarrow> Inl (KeyError ''0'') | _ \<Rightarrow> Inl (TypeError ''object is not subscriptable''))"

definition as_text :: "pyval \<Rightarrow> exn + string" where
  "as_text v = (case v of PStr s \<Rightarrow> Inr s | _ \<Rightarrow> Inl (AttributeError ''startswith''))"

definition bind_exn :: "exn + 'a \<Rightarrow> ('a \<Rightarrow> exn + 'b) \<Rightarrow> exn + 'b" where
  "bind_exn x f = (case x of Inl e \<Rightarrow> Inl e | Inr v \<Rightarrow> f v)"

definition block_action :: "slack_cfg \<Rightarrow> string \<Rightarrow> pydict \<times> pydict option" where
  "block_action cfg action_id =
     (if action_id = ''view_contract'' then (OK_RESPONSE, None)
      else if is_prefix ''open_approve_modal_'' action_id
      then open_decision_modal cfg ''approve'' (drop (length ''open_approve_modal_'') action_id)
      else if is_prefix ''open_reject_modal_'' action_id
      then open_decision_modal cfg ''reject'' (drop (length ''open_reject_modal_'') action_id)
      else (OK_RESPONSE, None))"

definition handle_block_action :: "slack_cfg \<Rightarrow> pyval \<Rightarrow> exn + pydict \<times> pydict option" where
  "handle_block_action cfg payload =
     bind_exn (get_in payload ''actions'' (PList [])) (\<lambda>actions.
       if \<not> truthy actions then Inr (OK_RESPONSE, None)
       else bind_exn (first_of actions) (\<lambda>action.
         bind_exn (get_in action ''action_id'' (PStr '''')) (\<lambda>i.
           bind_exn (as_text i) (\<lambda>action_id. Inr (block_action cfg action_id)))))"

section \<open>Submissions\<close>

definition values_of :: "pyval \<Rightarrow> exn + pyval list" where
  "values_of v = (case v of PDict d \<Rightarrow> Inr (map snd d) | _ \<Rightarrow> Inl (AttributeError ''values''))"

text \<open>The first text input of a block; \<open>break\<close> leaves the block, so that the last block with a
  text input counts.\<close>

fun block_reason :: "pyval list \<Rightarrow> pyval \<Rightarrow> exn + pyval" where
  "block_reason [] reason = Inr reason"
| "block_reason (el # els) reason =
     bind_exn (get_in el ''type'' PNone) (\<lambda>ty.
       if ty = PStr ''plain_text_input'' then get_in el ''value'' (PStr '''')
       else block_reason els reason)"

fun submitted_reason :: "pyval list \<Rightarrow> pyval \<Rightarrow> exn + pyval" where
  "submitted_reason [] reason = Inr reason"
| "submitted_reason (b # bs) reason =
     bind_exn (values_of b) (\<lambda>els. bind_exn (block_reason els reason) (\<lambda>r. submitted_reason bs r))"

definition callback_decision :: "string \<Rightarrow> (string \<times> string) option" where
  "callback_decision callback_id =
     (if is_prefix ''approve_'' callback_id then Some (''APPROVE'', drop (length ''approve_'') callback_id)
      else if is_prefix ''reject_'' callback_id then Some (''REJECT'', drop (length ''reject_'') callback_id)
      else None)"

definition CLEAR_RESPONSE :: pydict where
  "CLEAR_RESPONSE = [(''response_action'', PStr ''clear'')]"

definition reason_error :: pydict where
  "reason_error = [(''response_action'', PStr ''errors''),
     (''errors'', PDict [(''reason_block'', PStr ''Reason must be at least 10 characters.'')])]"

text \<open>\<open>len(reason)\<close> of what Slack sends for a text input: a string or null.\<close>

definition reason_text :: "pyval \<Rightarrow> exn + string" where
  "reason_text v = (case v of PStr s \<Rightarrow> Inr s | _ \<Rightarrow> Inl (TypeError ''object has no len()''))"

definition submission_values :: "pyval \<Rightarrow> exn + string" where
  "submission_values view =
     bind_exn (get_in view ''state'' (PDict [])) (\<lambda>st.
     bind_exn (get_in st ''values'' (PDict [])) (\<lambda>vs.
     bind_exn (values_of vs) (\<lambda>blocks.
     bind_exn (submitted_reason blocks (PStr '''')) reason_text)))"

definition submitting_user :: "pyval \<Rightarrow> exn + string" where
  "submitting_user payload =
     bind_exn (get_in payload ''user'' (PDict [])) (\<lambda>u.
     bind_exn (get_in u ''id'' (PStr ''slack_user'')) need_str)"

definition record_slack_decision :: "int \<Rightarrow> string \<Rightarrow> string \<Rightarrow> string \<Rightarrow> string \<Rightarrow> world \<Rightarrow> world" where
  "record_slack_decision now decision k reason approver w =
     (case record_decision k decision reason approver None now w of
        (True, w1) \<Rightarrow> update_status k (if decision = ''APPROVE'' then WS_APPROVED else WS_REJECTED) now w1
      | (False, w1) \<Rightarrow> w1)"

definition handle_view_submission :: "int \<Rightarrow> pyval \<Rightarrow> world \<Rightarrow> (exn + pydict) \<times> world" where
  "handle_view_submission now payload w =
     (case bind_exn (get_in payload ''view'' (PDict [])) (\<lambda>view.
             bind_exn (get_in view ''callback_id'' (PStr '''')) (\<lambda>i.
             bind_exn (as_text i) (\<lambda>cid. Inr (view, cid)))) of
        Inl e \<Rightarrow> (Inl e, w)
      | Inr (view, cid) \<Rightarrow>
          (case callback_decision cid of
             None \<Rightarrow> (Inr CLEAR_RESPONSE, w)
           | Some (decision, k) \<Rightarrow>
               (case submission_values view of
                  Inl e \<Rightarrow> (Inl e, w)
                | Inr reason \<Rightarrow>
                    (if length reason < 10 then (Inr reason_error, w)
                     else (case submitting_user payload of
                       Inl e \<Rightarrow> (Inl e, w)
                     | Inr user \<Rightarrow> (Inr CLEAR_RESPONSE, record_slack_decision now decision k reason user w))))))"

section \<open>The webhook\<close>

record slack_request =
  sr_body :: string
  sr_timestamp :: string
  sr_signature :: string

definition slack_payload :: "slack_cfg \<Rightarrow> string \<Rightarrow> exn + pyval" where
  "slack_payload cfg raw =
     (case bind_exn (decode_body raw) (\<lambda>text. sl_loads cfg (dict_get (parse_qs text) ''payload'' ''{}'')) of
        Inl e \<Rightarrow> Inl (HTTPException 400 ''Malformed Slack payload'')
      | Inr v \<Rightarrow> Inr v)"

definition handle_payload :: "slack_cfg \<Rightarrow> int \<Rightarrow> pyval \<Rightarrow> world \<Rightarrow> (exn + pydict \<times> pydict option) \<times> world" where
  "handle_payload cfg now payload w =
     (case get_in payload ''type'' (PStr '''') of
        Inl e \<Rightarrow> (Inl e, w)
      | Inr ty \<Rightarrow>
          (if ty = PStr ''block_actions'' then (handle_block_action cfg payload, w)
           else if ty = PStr ''view_submission''
           then map_prod (map_sum id (\<lambda>r. (r, None))) id (handle_view_submission now payload w)
           else (Inr (OK_RESPONSE, None), w)))"

text \<open>\<open>t\<close> is \<open>time.time()\<close>, \<open>now\<close> the time of the decision.\<close>

definition slack_webhook ::
  "slack_cfg \<Rightarrow> rat \<Rightarrow> int \<Rightarrow> slack_request \<Rightarrow> world \<Rightarrow> (exn + pydict \<times> pydict option) \<times> world" where
  "slack_webhook cfg t now req w =
     (case (if sl_use_mock cfg then Inr True
            else verify_slack_signature cfg t (sr_body req) (sr_timestamp req) (sr_signature req)) of
        Inl e \<Rightarrow> (Inl e, w)
      | Inr ok \<Rightarrow>
          (if \<not> ok then (Inl (HTTPException 401 ''Invalid Slack signature''), w)
           else (case slack_payload cfg (sr_body req) of
             Inl e \<Rightarrow> (Inl e, w)
           | Inr payload \<Rightarrow> handle_payload cfg now payload w)))"

section \<open>The notifier\<close>

record approval_request =
  ar_approval_id :: string
  ar_operation_summary :: string
  ar_risk_tier :: string
  ar_primary_table :: string
  ar_estimated_rows :: int
  ar_reversibility :: string
  ar_historical_rejection_count :: int
  ar_ui_url :: string
  ar_poll_url :: string

text \<open>\<open>nc_slack\<close>: the reply of \<open>chat.postMessage\<close>; \<open>nc_reached\<close>: the callback reaches the proxy.\<close>

record notifier_cfg =
  nc_use_mock :: bool
  nc_token :: string
  nc_channel :: string
  nc_slack :: "pydict \<Rightarrow> exn + pyval"
  nc_reached :: bool

type_synonym pending = "(string \<times> pydict) list"

definition contract_info :: "string \<Rightarrow> approval_request \<Rightarrow> pydict" where
  "contract_info received r =
     [(''approval_id'', PStr (ar_approval_id r)),
      (''operation_summary'', PStr (ar_operation_summary r)),
      (''risk_tier'', PStr (ar_risk_tier r)),
      (''primary_table'', PStr (ar_primary_table r)),
      (''estimated_rows'', PInt (ar_estimated_rows r)),
      (''reversibility'', PStr (ar_reversibility r)),
      (''historical_rejection_count'', PInt (ar_historical_rejection_count r)),
      (''ui_url'', PStr (ar_ui_url r)),
      (''poll_url'', PStr (ar_poll_url r)),
      (''received_at'', PStr received)]"

definition slack_buttons :: "approval_request \<Rightarrow> pyval list" where
  "slack_buttons r =
     [PDict [(''type'', PStr ''button''), (''text'', plain_text ''View Full Contract''),
             (''action_id'', PStr ''view_contract''), (''url'', PStr (ar_ui_url r))],
      PDict [(''type'', PStr ''button''), (''text'', plain_text ''Approve''),
             (''action_id'', PStr (''open_approve_modal_'' @ ar_approval_id r)),
             (''style'', PStr ''primary''), (''value'', PStr (ar_approval_id r))],
      PDict [(''type'', PStr ''button''), (''text'', plain_text ''Reject''),
             (''action_id'', PStr (''open_reject_modal_'' @ ar_approval_id r)),
             (''style'', PStr ''danger''), (''value'', PStr (ar_approval_id r))]]"

definition slack_message :: "string \<Rightarrow> approval_request \<Rightarrow> pydict" where
  "slack_message channel r =
     [(''channel'', PStr channel),
      (''text'', PStr (''ContraGate Review Required '' @ em_dash @ '' '' @ ar_risk_tier r)),
      (''blocks'', PList
         [PDict [(''type'', PStr ''header''),
                 (''text'', plain_text (''ContraGate '' @ em_dash @ '' Approval Required''))],
          PDict [(''type'', PStr ''section''),
                 (''text'', PDict [(''type'', PStr ''mrkdwn''),
                    (''text'', PStr (''*'' @ ar_operation_summary r @ ''*'' @ nl @ ''Table: `'' @ ar_primary_table r
                       @ ''` | Rows: '' @ show_commas (ar_estimated_rows r) @ '' | Tier: `'' @ ar_risk_tier r
                       @ ''` | Reversibility: `'' @ ar_reversibility r @ ''`''))])],
          PDict [(''type'', PStr ''actions''), (''elements'', PList (slack_buttons r))]])]"

definition send_slack_approval :: "notifier_cfg \<Rightarrow> approval_request \<Rightarrow> exn + pydict" where
  "send_slack_approval cfg r =
     (if nc_token cfg = [] then Inl (RuntimeError ''SLACK_BOT_TOKEN not set for production notifier'')
      else bind_exn (nc_slack cfg (slack_message (nc_channel cfg) r)) (\<lambda>data.
             bind_exn (get_in data ''ok'' (PBool False)) (\<lambda>ok.
             bind_exn (get_in data ''ts'' PNone) (\<lambda>ts.
             Inr [(''sent'', ok), (''method'', PStr ''slack''), (''ts'', ts)]))))"

definition send_approval_request ::
  "notifier_cfg \<Rightarrow> string \<Rightarrow> approval_request \<Rightarrow> pending \<Rightarrow> (exn + pydict) \<times> pending" where
  "send_approval_request cfg received r p =
     (let p1 = dict_set (ar_approval_id r) (contract_info received r) p in
      if nc_use_mock cfg then (Inr [(''sent'', PBool True), (''method'', PStr ''mock_terminal'')], p1)
      else (send_slack_approval cfg r, p1))"

text \<open>A decision is posted to the proxy; its answer, if one comes, is not looked at.\<close>

definition callback_body :: "string \<Rightarrow> string \<Rightarrow> string \<Rightarrow> DecisionPayload" where
  "callback_body k decision reason =
     \<lparr> dp_approval_id = k, dp_decision = decision, dp_reason = reason, dp_approver_id = ''notifier'',
       dp_modification_constraints = None \<rparr>"

definition notifier_record_decision ::
  "notifier_cfg \<Rightarrow> int \<Rightarrow> string \<Rightarrow> string \<Rightarrow> string \<Rightarrow> pending \<times> world \<Rightarrow> (exn + pydict) \<times> pending \<times> world" where
  "notifier_record_decision cfg now k decision reason pw =
     (if length reason < 10 then (Inl (ValueError ''Decision reason must be at least 10 characters''), pw)
      else if decision \<notin> set DECISIONS then (Inl (ValueError (''Invalid decision: '' @ decision)), pw)
      else
        (Inr [(''recorded'', PBool True), (''approval_id'', PStr k), (''decision'', PStr decision)],
         dict_without k (fst pw),
         if nc_reached cfg then snd (post_decision now (callback_body k decision reason) (snd pw)) else snd pw))"

record DevDecisionPayload =
  dv_approval_id :: string
  dv_reason :: string
  dv_modification_constraints :: "string option"

definition dev_approve where
  "dev_approve cfg now body = notifier_record_decision cfg now (dv_approval_id body) ''APPROVE'' (dv_reason body)"

definition dev_reject where
  "dev_reject cfg now body = notifier_record_decision cfg now (dv_approval_id body) ''REJECT'' (dv_reason body)"

definition dev_modify ::
  "notifier_cfg \<Rightarrow> int \<Rightarrow> DevDecisionPayload \<Rightarrow> pending \<times> world \<Rightarrow> (exn + pydict) \<times> pending \<times> world" where
  "dev_modify cfg now body pw =
     (if dv_modification_constraints body \<in> {None, Some []}
      then (Inl (HTTPException 400 ''modification_constraints required for MODIFY''), pw)
      else notifier_record_decision cfg now (dv_approval_id body) ''MODIFY'' (dv_reason body) pw)"

definition dev_list_pending :: "pending \<Rightarrow> pydict" where
  "dev_list_pending p = [(''pending'', PList (map (\<lambda>kv. PDict (snd kv)) p))]"

section \<open>Lemmas\<close>

lemma record_slack_decision_steps: "store_step\<^sup>*\<^sup>* w (record_slack_decision now d k reason a w)"
proof -
  let ?d = "record_decision k d reason a None now w"
  have "store_step w (snd ?d)" by (rule step_decide)
  moreover have "store_step (snd ?d) (update_status k st now (snd ?d))" for st by (rule step_status)
  ultimately show ?thesis
    by (cases ?d) (auto simp: record_slack_decision_def intro: rtranclp.rtrancl_into_rtrancl split: bool.splits)
qed

lemma record_slack_decision_heap:
  "w_heap (record_slack_decision now d k reason a w) = w_heap (snd (record_decision k d reason a None now w))"
  by (simp add: record_slack_decision_def split: prod.splits bool.splits)

text \<open>What a submission does: nothing, or one decision with a long enough reason.\<close>

lemma handle_view_submission_cases:
  "snd (handle_view_submission now payload w) = w
   \<or> (\<exists>d k reason a. 10 \<le> length reason \<and> snd (handle_view_submission now payload w) = record_slack_decision now d k reason a w)"
  unfolding handle_view_submission_def
  by (fastforce simp: not_less split: sum.splits option.splits prod.splits if_splits)

lemma slack_webhook_cases:
  "snd (slack_webhook cfg t now req w) = w
   \<or> (\<exists>d k reason a. 10 \<le> length reason \<and> snd (slack_webhook cfg t now req w) = record_slack_decision now d k reason a w)"
  using handle_view_submission_cases [of now _ w]
  by (auto simp: slack_webhook_def handle_payload_def split: sum.splits)

lemma heap_decides_with_reason:
  assumes "decision_of (w_heap (snd (record_decision k d reason a m now w)) x) \<noteq> decision_of (w_heap w x)"
  shows "decision_reason (w_heap (snd (record_decision k d reason a m now w)) x) = Some reason"
  using assms by (auto simp: heap_record_decision split: option.splits if_splits)

interpretation slack_channel: decision_channel "\<lambda>(cfg, t, now, req). snd \<circ> slack_webhook cfg t now req"
proof
  fix w :: world and r :: "slack_cfg \<times> rat \<times> int \<times> slack_request" and x
  obtain cfg t now req where r: "r = (cfg, t, now, req)" by (cases r)
  note c = slack_webhook_cases [of cfg t now req w]
  show "store_step\<^sup>*\<^sup>* w ((case r of (cfg, t, now, req) \<Rightarrow> snd \<circ> slack_webhook cfg t now req) w)"
    using c record_slack_decision_steps by (auto simp: r)
  assume "decision_of (w_heap ((case r of (cfg, t, now, req) \<Rightarrow> snd \<circ> slack_webhook cfg t now req) w) x)
      \<noteq> decision_of (w_heap w x)"
  with c show "\<exists>s. decision_reason (w_heap ((case r of (cfg, t, now, req) \<Rightarrow> snd \<circ> slack_webhook cfg t now req) w) x)
      = Some s \<and> 10 \<le> length s"
    using heap_decides_with_reason by (fastforce simp: r record_slack_decision_heap)
qed

definition notifier_submit :: "notifier_cfg \<times> int \<times> string \<times> string \<times> string \<Rightarrow> world \<Rightarrow> world" where
  "notifier_submit = (\<lambda>(cfg, now, k, d, reason) w. snd (snd (notifier_record_decision cfg now k d reason ([], w))))"

lemma notifier_submit_cases:
  "notifier_submit (cfg, now, k, d, reason) w = w
   \<or> notifier_submit (cfg, now, k, d, reason) w = snd (post_decision now (callback_body k d reason) w)"
  by (simp add: notifier_submit_def notifier_record_decision_def)

interpretation notifier_channel: decision_channel notifier_submit
proof
  fix w :: world and r :: "notifier_cfg \<times> int \<times> string \<times> string \<times> string" and x
  obtain cfg now k d reason where r: "r = (cfg, now, k, d, reason)" by (cases r)
  note c = notifier_submit_cases [of cfg now k d reason w]
  show "store_step\<^sup>*\<^sup>* w (notifier_submit r w)" using c post_decision_steps by (auto simp: r)
  assume "decision_of (w_heap (notifier_submit r w) x) \<noteq> decision_of (w_heap w x)"
  with c show "\<exists>s. decision_reason (w_heap (notifier_submit r w) x) = Some s \<and> 10 \<le> length s"
    using http_channel.with_reason [of "(now, callback_body k d reason)" w x] by (auto simp: r)
qed

text \<open>The three channels together.\<close>

datatype submission =
    Via_http int DecisionPayload
  | Via_slack slack_cfg rat int slack_request
  | Via_notifier notifier_cfg int string string string

fun submit_decision :: "submission \<Rightarrow> world \<Rightarrow> world" where
  "submit_decision (Via_http now body) w = snd (post_decision now body w)"
| "submit_decision (Via_slack cfg t now req) w = snd (slack_webhook cfg t now req w)"
| "submit_decision (Via_notifier cfg now k d reason) w = notifier_submit (cfg, now, k, d, reason) w"

interpretation any_channel: decision_channel submit_decision
proof
  fix w :: world and r x
  show "store_step\<^sup>*\<^sup>* w (submit_decision r w)"
    using http_channel.through_store [of w "(now, body)" for now body]
      slack_channel.through_store [of w "(cfg, t, now, req)" for cfg t now req]
      notifier_channel.through_store
    by (cases r) simp_all
  assume "decision_of (w_heap (submit_decision r w) x) \<noteq> decision_of (w_heap w x)"
  then show "\<exists>s. decision_reason (w_heap (submit_decision r w) x) = Some s \<and> 10 \<le> length s"
    using http_channel.with_reason [of "(now, body)" w x for now body]
      slack_channel.with_reason [of "(cfg, t, now, req)" w x for cfg t now req]
      notifier_channel.with_reason
    by (cases r) simp_all
qed

section \<open>Properties\<close>



text \<open>
  C22. A Slack webhook is authenticated: outside mock mode, a request changes the store only if a
  signing secret is set, the timestamp lies within five minutes of the clock, and the signature is
  the keyed hash of the version, the timestamp and the body.
\<close>

theorem slack_decisions_authenticated:
  assumes "\<not> sl_use_mock cfg" and "snd (slack_webhook cfg t now req w) \<noteq> w"
  shows "sl_signing_secret cfg \<noteq> []
    \<and> (\<exists>ts. parse_int (str_strip (sr_timestamp req)) = Some ts \<and> \<bar>t - of_int ts\<bar> \<le> 300)
    \<and> sr_signature req = ''v0='' @ sl_hmac cfg (sl_signing_secret cfg) (''v0:'' @ sr_timestamp req @ '':'' @ sr_body req)"
  using assms
  by (auto simp: slack_webhook_def verify_slack_signature_def decode_body_def Let_def REPLAY_WINDOW_SECONDS_def
      split: sum.splits if_splits option.splits)

definition sample_payload :: pyval where
  "sample_payload = PDict [(''type'', PStr ''view_submission''),
     (''user'', PDict [(''id'', PStr ''U1'')]),
     (''view'', PDict [(''callback_id'', PStr ''approve_cg_1''),
        (''state'', PDict [(''values'', PDict [(''reason_block'', PDict [(''reason_input'',
           PDict [(''type'', PStr ''plain_text_input''), (''value'', PStr ''looks fine to me'')])])])])])]"

definition sample_slack :: slack_cfg where
  "sample_slack = \<lparr> sl_signing_secret = ''s'', sl_bot_token = ''t'', sl_use_mock = False,
     sl_hmac = (\<lambda>_ _. ''ab''), sl_loads = (\<lambda>_. Inr sample_payload) \<rparr>"

definition sample_request :: slack_request where
  "sample_request = \<lparr> sr_body = ''payload=%7B%7D'', sr_timestamp = ''1000'', sr_signature = ''v0=ab'' \<rparr>"

theorem slack_decisions_authenticated_witness:
  "approval_state (w_heap (snd (slack_webhook sample_slack 1100 7 sample_request pending_world)) 0) = APPROVED
   \<and> sr_signature sample_request = ''v0='' @ sl_hmac sample_slack ''s'' ''v0:1000:payload=%7B%7D''"
proof -
  have a: "approval_state (w_heap (snd (slack_webhook sample_slack 1100 7 sample_request pending_world)) 0) = APPROVED"
    "approval_state (w_heap pending_world 0) \<noteq> APPROVED" by code_simp+
  then have "snd (slack_webhook sample_slack 1100 7 sample_request pending_world) \<noteq> pending_world" by metis
  with slack_decisions_authenticated [of sample_slack 1100 7 sample_request pending_world] a(1) show ?thesis
    by (simp add: sample_slack_def sample_request_def)
qed

text \<open>The payload that Slack sends when a button is pressed, and when its modal is submitted.\<close>

definition pressed :: "pyval \<Rightarrow> pyval" where
  "pressed button = PDict [(''type'', PStr ''block_actions''), (''actions'', PList [button])]"

definition submitted :: "string \<Rightarrow> string \<Rightarrow> pydict \<Rightarrow> pyval" where
  "submitted user reason modal = PDict [(''type'', PStr ''view_submission''),
     (''user'', PDict [(''id'', PStr user)]),
     (''view'', PDict [(''callback_id'', dict_get0 modal ''callback_id''),
        (''state'', PDict [(''values'', PDict [(''reason_block'', PDict [(''reason_input'',
           PDict [(''type'', PStr ''plain_text_input''), (''value'', PStr reason)])])])])])]"

declare is_prefix_append [simp]

text \<open>
  The buttons decide what they say: for every approval id, pressing Approve (Reject) in the
  message that the notifier sends opens a modal whose submission with a reason of at least ten
  characters has the effect of an APPROVE (REJECT) decision for exactly that id, with the reason
  and the user of the submission.
\<close>

theorem slack_button_roundtrip:
  assumes "sl_bot_token cfg \<noteq> []" and "10 \<le> length reason"
  shows "(\<exists>modal. handle_block_action cfg (pressed (slack_buttons r ! 1)) = Inr (OK_RESPONSE, Some modal)
      \<and> handle_payload cfg now (submitted user reason modal) w =
          (Inr (CLEAR_RESPONSE, None), record_slack_decision now ''APPROVE'' (ar_approval_id r) reason user w))
    \<and> (\<exists>modal. handle_block_action cfg (pressed (slack_buttons r ! 2)) = Inr (OK_RESPONSE, Some modal)
      \<and> handle_payload cfg now (submitted user reason modal) w =
          (Inr (CLEAR_RESPONSE, None), record_slack_decision now ''REJECT'' (ar_approval_id r) reason user w))"
proof -
  note defs = handle_block_action_def pressed_def slack_buttons_def get_in_def dict_get_def bind_exn_def first_of_def
    as_text_def block_action_def open_decision_modal_def
  note defs2 = handle_payload_def submitted_def get_in_def dict_get_def handle_view_submission_def bind_exn_def as_text_def
    decision_modal_def callback_decision_def submission_values_def values_of_def reason_text_def submitting_user_def
    need_str_def
  have "handle_block_action cfg (pressed (slack_buttons r ! 1)) = Inr (OK_RESPONSE, Some (decision_modal ''approve'' (ar_approval_id r)))"
    "handle_block_action cfg (pressed (slack_buttons r ! 2)) = Inr (OK_RESPONSE, Some (decision_modal ''reject'' (ar_approval_id r)))"
    using assms(1) by (simp_all add: defs)
  moreover have "handle_payload cfg now (submitted user reason (decision_modal ''approve'' k)) w =
      (Inr (CLEAR_RESPONSE, None), record_slack_decision now ''APPROVE'' k reason user w)" for k
    using assms(2) by (simp add: defs2)
  moreover have "handle_payload cfg now (submitted user reason (decision_modal ''reject'' k)) w =
      (Inr (CLEAR_RESPONSE, None), record_slack_decision now ''REJECT'' k reason user w)" for k
    using assms(2) by (simp add: defs2)
  ultimately show ?thesis by blast
qed

definition sample_approval :: approval_request where
  "sample_approval = \<lparr> ar_approval_id = ''cg_1'', ar_operation_summary = ''delete'', ar_risk_tier = ''STANDARD'',
     ar_primary_table = ''t'', ar_estimated_rows = 10, ar_reversibility = ''REVERSIBLE'',
     ar_historical_rejection_count = 0, ar_ui_url = '''', ar_poll_url = '''' \<rparr>"

theorem slack_button_roundtrip_witness:
  "\<exists>modal. handle_block_action sample_slack (pressed (slack_buttons sample_approval ! 1)) = Inr (OK_RESPONSE, Some modal)
     \<and> handle_payload sample_slack 7 (submitted ''U1'' ''looks fine to me'' modal) pending_world =
          (Inr (CLEAR_RESPONSE, None), record_slack_decision 7 ''APPROVE'' ''cg_1'' ''looks fine to me'' ''U1'' pending_world)"
proof -
  have "sl_bot_token sample_slack \<noteq> []" "10 \<le> length ''looks fine to me''" by (simp_all add: sample_slack_def)
  from slack_button_roundtrip [OF this, of sample_approval 7 "''U1''" pending_world] show ?thesis
    unfolding sample_approval_def by (simp only: approval_request.select_convs)
qed

lemma notifier_keeps_constraints:
  "modification_constraints (w_heap (snd (snd (notifier_record_decision cfg now k d reason pw))) x)
     = modification_constraints (w_heap (snd pw) x)"
  by (simp add: notifier_record_decision_def post_decision_heap callback_body_def decide_def)

lemma dev_modify_keeps_constraints:
  "modification_constraints (w_heap (snd (snd (dev_modify cfg now body pw))) x) = modification_constraints (w_heap (snd pw) x)"
  by (simp add: dev_modify_def notifier_keeps_constraints)

lemma not_awaiting_refused: "\<not> awaiting w (dp_approval_id body) \<Longrightarrow> snd (post_decision now body w) = w"
  by (rule post_decision_refused) (use post_decision_accepts [of now body w] in \<open>auto simp: awaiting_def split: option.splits\<close>)

text \<open>
  What the notifier answers is no confirmation. It says \<open>recorded\<close> for every valid call and
  forgets the request, also when the proxy cannot be reached or refuses the decision, so that
  nothing was recorded; and a modification through \<open>/dev/modify\<close> never brings its constraints to
  the contract.
\<close>

theorem notifier_answer_unconfirmed:
  assumes "10 \<le> length reason" and "d \<in> set DECISIONS" and "\<not> (nc_reached cfg \<and> awaiting w k)"
  shows "fst (notifier_record_decision cfg now k d reason (p, w)) =
       Inr [(''recorded'', PBool True), (''approval_id'', PStr k), (''decision'', PStr d)]
    \<and> map_of (fst (snd (notifier_record_decision cfg now k d reason (p, w)))) k = None
    \<and> snd (snd (notifier_record_decision cfg now k d reason (p, w))) = w
    \<and> modification_constraints (w_heap (snd (snd (dev_modify cfg now body (p, w)))) x) = modification_constraints (w_heap w x)"
proof -
  have "map_of (dict_without k p) k = None" for p :: pending
    by (induction p) (auto simp: dict_without_def)
  moreover have "nc_reached cfg \<Longrightarrow> snd (post_decision now (callback_body k d reason) w) = w"
    using assms(3) not_awaiting_refused [of w "callback_body k d reason"] by (simp add: callback_body_def)
  ultimately show ?thesis
    using assms(1,2) by (simp add: dev_modify_keeps_constraints) (simp add: notifier_record_decision_def)
qed

definition mock_notifier :: notifier_cfg where
  "mock_notifier = \<lparr> nc_use_mock = True, nc_token = [], nc_channel = [], nc_slack = (\<lambda>_. Inr PNone), nc_reached = True \<rparr>"

theorem notifier_answer_unconfirmed_witness:
  "fst (notifier_record_decision mock_notifier 7 ''cg_2'' ''APPROVE'' ''looks fine to me'' ([], pending_world)) =
     Inr [(''recorded'', PBool True), (''approval_id'', PStr ''cg_2''), (''decision'', PStr ''APPROVE'')]"
proof -
  have a: "\<not> (nc_reached mock_notifier \<and> awaiting pending_world ''cg_2'')" by code_simp
  show ?thesis
    by (rule notifier_answer_unconfirmed [OF _ _ a, THEN conjunct1]) (simp_all add: DECISIONS_def)
qed

end
