(* ===== verification/Typed_Store.thy ===== *)
theory Typed_Store
  imports Slack
begin

text \<open>
  The type of a contract is more than its fields: the model validator of
  \<open>orchestrator/handoff_schema.py\<close> runs whenever a contract is read back, and a row of the table
  that fails it is silently skipped when the store of \<open>orchestrator/workflow_store.py\<close> starts. Here:
  through which steps every stored contract stays valid, so that a restart loses nothing.
\<close>

section \<open>Well-typed worlds\<close>

definition valid_contract :: "HandoffContract \<Rightarrow> bool" where
  "valid_contract c = (\<not> isl (validate_decision_reason_length c))"

definition well_typed :: "world \<Rightarrow> bool" where
  "well_typed w \<longleftrightarrow> (\<forall>x. valid_contract (w_heap w x))
     \<and> (\<forall>kr \<in> set (w_rows w). valid_contract (row_contract (snd kr))) \<and> distinct (map fst (w_rows w))"

text \<open>The steps of the store as the program takes them: decisions have a reason of ten characters or
  more, the agents leave the decision alone, and a review may time out.\<close>

inductive typed_step :: "world \<Rightarrow> world \<Rightarrow> bool" where
  typed_status: "typed_step w (update_status k st now w)"
| typed_result: "typed_step w (set_execution_result k res now w)"
| typed_contract: "typed_step w (update_contract k r now w)"
| typed_decide: "10 \<le> length reason \<Longrightarrow> typed_step w (snd (record_decision k d reason a m now w))"
| typed_create: "typed_step w (snd (create r manifest now w))"
| typed_write: "decision_of c = decision_of (w_heap w r) \<Longrightarrow> typed_step w (write_contract r c w)"
| typed_timeout: "typed_step w (modify_contract r (time_out t) w)"
| typed_subscribe: "typed_step w (snd (subscribe k w))"
| typed_unsubscribe: "typed_step w (unsubscribe k q w)"

lemma valid_contract_iff: "valid_contract c \<longleftrightarrow>
    (human_decision c \<in> {Some ''APPROVE'', Some ''REJECT''} \<longrightarrow>
       (case decision_reason c of None \<Rightarrow> True | Some s \<Rightarrow> s = [] \<or> 10 \<le> length s))"
  by (auto simp: valid_contract_def validate_decision_reason_length_def split: option.splits)

lemma valid_contract_cong: "decision_of c = decision_of d \<Longrightarrow> valid_contract c = valid_contract d"
  by (simp add: valid_contract_iff decision_of_def)

lemma valid_copy: "valid_contract src \<Longrightarrow> valid_contract (copy_decision src c)"
  by (simp add: valid_contract_iff copy_decision_def)

lemma valid_decide: "10 \<le> length reason \<Longrightarrow> valid_contract (decide d reason a m now c)"
  by (simp add: valid_contract_iff decide_def)

lemma set_dict_setD: "kr \<in> set (dict_set k v d) \<Longrightarrow> kr = (k, v) \<or> kr \<in> set d"
  by (induction k v d rule: dict_set.induct) (auto split: if_splits)

lemma valid_time_out: "valid_contract (time_out t c)"
  by (simp add: valid_contract_iff time_out_def)

lemma set_upsert: "kr \<in> set (upsert k row rows) \<Longrightarrow> kr \<in> set rows \<or> row_contract (snd kr) = row_contract row"
  by (auto simp: upsert_def split: option.splits dest!: set_dict_setD)

lemma well_typed_sel [simp]:
  "well_typed (notify_subscribers k w) = well_typed w"
  "well_typed (put_record k rec w) = well_typed w"
  by (simp_all add: well_typed_def)

lemma well_typed_persist: "well_typed w \<Longrightarrow> well_typed (persist rec w)"
  by (auto simp: well_typed_def persist_def row_of_def distinct_upsert dest!: set_upsert)

lemma well_typed_write: "well_typed w \<Longrightarrow> valid_contract c \<Longrightarrow> well_typed (write_contract r c w)"
  by (simp add: well_typed_def)

lemmas well_typed_intros = well_typed_persist well_typed_write valid_copy valid_decide valid_time_out

lemma heap_valid: "well_typed w \<Longrightarrow> valid_contract (w_heap w x)"
  by (simp add: well_typed_def)

lemma typed_step_keeps: "typed_step w w' \<Longrightarrow> well_typed w \<Longrightarrow> well_typed w'"
proof (induction rule: typed_step.induct)
  case (typed_contract w k r now)
  then show ?case
    by (auto simp: update_contract_def Let_def heap_valid intro!: well_typed_intros split: option.splits)
next
  case (typed_decide reason w k d a m now)
  then show ?case
    by (auto simp: record_decision_def Let_def intro!: well_typed_intros split: option.splits)
next
  case (typed_write c w r)
  then show ?case using valid_contract_cong [OF typed_write.hyps] by (simp add: well_typed_write heap_valid)
next
  case (typed_timeout w r t)
  then show ?case by (simp add: modify_contract_def well_typed_intros)
next
  case (typed_subscribe w k)
  then show ?case by (simp add: subscribe_def well_typed_def)
next
  case (typed_unsubscribe w k q)
  then show ?case by (simp add: unsubscribe_def well_typed_def)
qed (auto simp: update_status_def set_execution_result_def create_def Let_def intro!: well_typed_intros split: option.splits)

lemma typed_run_keeps: "typed_step\<^sup>*\<^sup>* w w' \<Longrightarrow> well_typed w \<Longrightarrow> well_typed w'"
  by (induction rule: rtranclp_induct) (auto intro: typed_step_keeps)

text \<open>Every submission of a decision is such a run.\<close>

lemma decide_then_status:
  assumes "10 \<le> length reason" and "record_decision k d reason a m now w = (ok, w1)"
  shows "typed_step\<^sup>*\<^sup>* w w1" and "typed_step\<^sup>*\<^sup>* w (update_status k' st now' w1)"
proof -
  from typed_decide [OF assms(1), of w k d a m now] assms(2) show 1: "typed_step\<^sup>*\<^sup>* w w1" by auto
  from rtranclp.rtrancl_into_rtrancl [OF 1 typed_status] show "typed_step\<^sup>*\<^sup>* w (update_status k' st now' w1)" .
qed

lemma post_decision_typed: "typed_step\<^sup>*\<^sup>* w (snd (post_decision now body w))"
proof (cases "isl (fst (post_decision now body w))")
  case True
  then show ?thesis by (simp add: post_decision_refused)
next
  case False
  then have "10 \<le> length (dp_reason body)" by (simp add: post_decision_accepts)
  from decide_then_status [OF this] show ?thesis
    by (fastforce simp: post_decision_def split: prod.splits bool.splits)
qed

lemma record_slack_decision_typed:
  "10 \<le> length reason \<Longrightarrow> typed_step\<^sup>*\<^sup>* w (record_slack_decision now d k reason a w)"
  using decide_then_status [of reason]
  by (fastforce simp: record_slack_decision_def split: prod.splits bool.splits)

lemma submit_decision_typed: "typed_step\<^sup>*\<^sup>* w (submit_decision sub w)"
proof (cases sub)
  case (Via_http now body)
  then show ?thesis by (simp add: post_decision_typed)
next
  case (Via_slack cfg t now req)
  then show ?thesis using slack_webhook_cases [of cfg t now req w] record_slack_decision_typed by auto
next
  case (Via_notifier cfg now k d reason)
  then show ?thesis using notifier_submit_cases [of cfg now k d reason w] post_decision_typed by auto
qed

section \<open>Properties\<close>



end
