(* ===== verification/Store_Concurrency.thy ===== *)
theory Store_Concurrency
  imports Typed_Store
begin

text \<open>
  \<open>orchestrator/workflow_store.py\<close> between its awaits. An operation changes the cache under the
  store's lock; only after the lock is released does it wait for a connection, read the record into
  the parameters of the upsert, wait for the database, and notify the subscribers. Other tasks run at
  each of these points, so several writes of one record may be under way, on different connections.
  The state here is the store's world with the tasks that are still on their way; the events are the
  critical sections and the later stages, one at a time, in any order. \<^verbatim>\<open>Workflow_Store\<close> takes an operation
  as one step: here that is a theorem about the uninterrupted sequence of its events, and the
  guarantees on decisions are carried over to every interleaving by a simulation.
\<close>

section \<open>Critical sections\<close>

definition status_locked :: "string \<Rightarrow> WorkflowStatus \<Rightarrow> int \<Rightarrow> world \<Rightarrow> world" where
  "status_locked k st now w =
     (case lookup w k of None \<Rightarrow> w
      | Some rec \<Rightarrow> put_record k (rec\<lparr> wr_status := st, wr_updated_at := now \<rparr>) w)"

definition contract_locked :: "string \<Rightarrow> nat \<Rightarrow> int \<Rightarrow> world \<Rightarrow> world" where
  "contract_locked k r now w =
     (case lookup w k of None \<Rightarrow> w
      | Some rec \<Rightarrow>
          (let old = stored_contract w rec;
               w1 = (if approval_state old \<in> set TERMINAL_STATES
                     then write_contract r (copy_decision old (w_heap w r)) w else w)
           in put_record k (rec\<lparr> wr_contract := r, wr_updated_at := now \<rparr>) w1))"

definition result_locked :: "string \<Rightarrow> pydict \<Rightarrow> int \<Rightarrow> world \<Rightarrow> world" where
  "result_locked k result now w =
     (case lookup w k of None \<Rightarrow> w
      | Some rec \<Rightarrow> put_record k (rec\<lparr> wr_execution_result := Some result,
          wr_execution_completed := True, wr_updated_at := now \<rparr>) w)"

definition create_locked :: "nat \<Rightarrow> pydict \<Rightarrow> int \<Rightarrow> world \<Rightarrow> world" where
  "create_locked r manifest now w =
     (let oid = operation_id (w_heap w r)
      in put_record oid ((new_record oid r now)\<lparr> wr_manifest := Some manifest \<rparr>) w)"

text \<open>The flag is what the operation will return.\<close>

definition decide_locked ::
  "string \<Rightarrow> string \<Rightarrow> string \<Rightarrow> string \<Rightarrow> string option \<Rightarrow> int \<Rightarrow> world \<Rightarrow> bool \<times> world" where
  "decide_locked k decision reason approver mods now w =
     (case lookup w k of None \<Rightarrow> (False, w)
      | Some rec \<Rightarrow>
          if approval_state (stored_contract w rec) \<noteq> PENDING then (False, w)
          else (True, put_record k (rec\<lparr> wr_updated_at := now \<rparr>)
                 (write_contract (wr_contract rec)
                   (decide decision reason approver mods now (stored_contract w rec)) w)))"

section \<open>The store with tasks under way\<close>

text \<open>\<open>s_waiting\<close>: the tasks in \<open>_persist\<close> that wait for a connection, with the key of their record and
  whether a notification follows; \<open>s_flight\<close>: the upserts sent and not yet answered, in the order in
  which their parameters were read; \<open>s_notify\<close>: the tasks about to notify.\<close>

record shared_store =
  s_world :: world
  s_waiting :: "(string \<times> bool) list"
  s_flight :: "(string \<times> workflow_row \<times> bool) list"
  s_notify :: "string list"

datatype store_event =
    Ev_create nat pydict int
  | Ev_status string WorkflowStatus int
  | Ev_contract string nat int
  | Ev_result string pydict int
  | Ev_decide string string string string "string option" int
  | Ev_write nat HandoffContract
  | Ev_subscribe string
  | Ev_unsubscribe string nat
  | Ev_acquire nat
  | Ev_refused nat
  | Ev_commit nat
  | Ev_lost nat
  | Ev_notify nat

definition drop_nth :: "nat \<Rightarrow> 'a list \<Rightarrow> 'a list" where
  "drop_nth i xs = take i xs @ drop (Suc i) xs"

definition then_notify :: "string \<Rightarrow> bool \<Rightarrow> shared_store \<Rightarrow> shared_store" where
  "then_notify k f s = (if f then s\<lparr> s_notify := s_notify s @ [k] \<rparr> else s)"

text \<open>After the lock: \<open>if record: await self._persist(record)\<close>, then the notification.\<close>

definition after_lock :: "string \<Rightarrow> bool \<Rightarrow> world \<Rightarrow> shared_store \<Rightarrow> shared_store" where
  "after_lock k f w s =
     (case lookup w k of
        None \<Rightarrow> then_notify k f (s\<lparr> s_world := w \<rparr>)
      | Some rec \<Rightarrow> s\<lparr> s_world := w, s_waiting := s_waiting s @ [(k, f)] \<rparr>)"

text \<open>\<open>_persist\<close> from its start: without a pool it returns, with a connection the arguments of the
  upsert are computed from the record as it is now.\<close>

definition begin_write :: "nat \<Rightarrow> shared_store \<Rightarrow> shared_store" where
  "begin_write i s =
     (if i < length (s_waiting s) then
        (let (k, f) = s_waiting s ! i; w = s_world s; s1 = s\<lparr> s_waiting := drop_nth i (s_waiting s) \<rparr>
         in if \<not> w_pool w then then_notify k f s1
            else case lookup w k of
                   None \<Rightarrow> s
                 | Some rec \<Rightarrow>
                     s1\<lparr> s_flight := s_flight s @ [(wr_operation_id rec, row_of w rec, f)] \<rparr>)
      else s)"

text \<open>No connection within the time limit: the exception is logged and swallowed.\<close>

definition refuse_connection :: "nat \<Rightarrow> shared_store \<Rightarrow> shared_store" where
  "refuse_connection i s =
     (if i < length (s_waiting s) then
        (let (k, f) = s_waiting s ! i in then_notify k f (s\<lparr> s_waiting := drop_nth i (s_waiting s) \<rparr>))
      else s)"

text \<open>The database executes one of the upserts under way, or the statement fails and the exception is
  logged and swallowed.\<close>

definition end_write :: "bool \<Rightarrow> nat \<Rightarrow> shared_store \<Rightarrow> shared_store" where
  "end_write done i s =
     (if i < length (s_flight s) then
        (let (k, row, f) = s_flight s ! i; w = s_world s
         in then_notify k f
              (s\<lparr> s_world := (if done then w\<lparr> w_rows := upsert k row (w_rows w) \<rparr> else w),
                 s_flight := drop_nth i (s_flight s) \<rparr>))
      else s)"

definition notify_one :: "nat \<Rightarrow> shared_store \<Rightarrow> shared_store" where
  "notify_one i s =
     (if i < length (s_notify s) then
        s\<lparr> s_world := notify_subscribers (s_notify s ! i) (s_world s),
           s_notify := drop_nth i (s_notify s) \<rparr>
      else s)"

fun exec_event :: "store_event \<Rightarrow> shared_store \<Rightarrow> shared_store" where
  "exec_event (Ev_create r manifest now) s =
     after_lock (operation_id (w_heap (s_world s) r)) False (create_locked r manifest now (s_world s)) s"
| "exec_event (Ev_status k st now) s = after_lock k True (status_locked k st now (s_world s)) s"
| "exec_event (Ev_contract k r now) s = after_lock k False (contract_locked k r now (s_world s)) s"
| "exec_event (Ev_result k res now) s = after_lock k True (result_locked k res now (s_world s)) s"
| "exec_event (Ev_decide k d reason a m now) s =
     (let (ok, w) = decide_locked k d reason a m now (s_world s)
      in if ok then after_lock k True w s else s)"
| "exec_event (Ev_write r c) s = s\<lparr> s_world := write_contract r c (s_world s) \<rparr>"
| "exec_event (Ev_subscribe k) s = s\<lparr> s_world := snd (subscribe k (s_world s)) \<rparr>"
| "exec_event (Ev_unsubscribe k q) s = s\<lparr> s_world := unsubscribe k q (s_world s) \<rparr>"
| "exec_event (Ev_acquire i) s = begin_write i s"
| "exec_event (Ev_refused i) s = refuse_connection i s"
| "exec_event (Ev_commit i) s = end_write True i s"
| "exec_event (Ev_lost i) s = end_write False i s"
| "exec_event (Ev_notify i) s = notify_one i s"

text \<open>The side conditions of \<^const>\<open>store_step\<close>: a contract object belongs to one workflow, operation ids
  are fresh, the agents leave decision and identity alone.\<close>

fun allowed :: "store_event \<Rightarrow> shared_store \<Rightarrow> bool" where
  "allowed (Ev_create r manifest now) s \<longleftrightarrow>
     lookup (s_world s) (operation_id (w_heap (s_world s) r)) = None
   \<and> owned (s_world s) (operation_id (w_heap (s_world s) r)) r"
| "allowed (Ev_contract k r now) s \<longleftrightarrow> owned (s_world s) k r"
| "allowed (Ev_write r c) s \<longleftrightarrow> decision_of c = decision_of (w_heap (s_world s) r)
     \<and> contract_identity c = contract_identity (w_heap (s_world s) r)"
| "allowed _ s \<longleftrightarrow> True"

text \<open>Nothing is lost, and the writes of one record reach the database in the order in which they were
  read.\<close>

fun in_order :: "store_event \<Rightarrow> shared_store \<Rightarrow> bool" where
  "in_order (Ev_commit i) s \<longleftrightarrow>
     i < length (s_flight s) \<longrightarrow> fst (s_flight s ! i) \<notin> fst ` set (take i (s_flight s))"
| "in_order (Ev_lost i) s \<longleftrightarrow> False"
| "in_order (Ev_refused i) s \<longleftrightarrow> False"
| "in_order _ s \<longleftrightarrow> True"

fun run_ok :: "(store_event \<Rightarrow> shared_store \<Rightarrow> bool) \<Rightarrow> store_event list \<Rightarrow> shared_store \<Rightarrow> bool" where
  "run_ok P [] s \<longleftrightarrow> True"
| "run_ok P (e # es) s \<longleftrightarrow> P e s \<and> run_ok P es (exec_event e s)"

abbreviation run_events :: "store_event list \<Rightarrow> shared_store \<Rightarrow> shared_store" where
  "run_events es s \<equiv> fold exec_event es s"

definition at_rest :: "world \<Rightarrow> shared_store" where
  "at_rest w = \<lparr> s_world = w, s_waiting = [], s_flight = [], s_notify = [] \<rparr>"

definition quiet :: "shared_store \<Rightarrow> bool" where
  "quiet s \<longleftrightarrow> s_waiting s = [] \<and> s_flight s = [] \<and> s_notify s = []"

section \<open>An uninterrupted operation is the atomic one\<close>

definition persist_key :: "string \<Rightarrow> world \<Rightarrow> world" where
  "persist_key k w = (case lookup w k of None \<Rightarrow> w | Some rec \<Rightarrow> persist rec w)"

lemma phases:
  "update_status k st now w = notify_subscribers k (persist_key k (status_locked k st now w))"
  "set_execution_result k res now w = notify_subscribers k (persist_key k (result_locked k res now w))"
  "update_contract k r now w = persist_key k (contract_locked k r now w)"
  "snd (create r manifest now w) = persist_key (operation_id (w_heap w r)) (create_locked r manifest now w)"
  "record_decision k d reason a m now w =
     (let (ok, w1) = decide_locked k d reason a m now w
      in (ok, if ok then notify_subscribers k (persist_key k w1) else w))"
  by (simp_all add: update_status_def set_execution_result_def update_contract_def create_def
      record_decision_def persist_key_def status_locked_def result_locked_def contract_locked_def
      create_locked_def decide_locked_def Let_def split: option.splits)

definition keys_ok :: "world \<Rightarrow> bool" where
  "keys_ok w \<longleftrightarrow> (\<forall>k rec. lookup w k = Some rec \<longrightarrow> wr_operation_id rec = k)"

definition settle :: "store_event list" where
  "settle = [Ev_acquire 0, Ev_commit 0, Ev_notify 0]"

lemma persist_key_sel [simp]:
  "w_heap (persist_key k w) = w_heap w" "w_store (persist_key k w) = w_store w"
  by (simp_all add: persist_key_def split: option.splits)

lemma settle_after_lock:
  assumes "keys_ok w'"
  shows "run_events settle (after_lock k f w' (at_rest w)) =
     at_rest (if f then notify_subscribers k (persist_key k w') else persist_key k w')"
proof (cases "lookup w' k")
  case None
  then show ?thesis
    by (simp add: settle_def after_lock_def at_rest_def then_notify_def begin_write_def end_write_def
        notify_one_def drop_nth_def persist_key_def)
next
  case (Some rec)
  with assms have "wr_operation_id rec = k" by (simp add: keys_ok_def)
  with Some show ?thesis
    by (simp add: settle_def after_lock_def at_rest_def then_notify_def begin_write_def end_write_def
        notify_one_def drop_nth_def persist_key_def persist_def)
qed

lemma keys_ok_put: "keys_ok w \<Longrightarrow> wr_operation_id rec = k \<Longrightarrow> keys_ok (put_record k rec w)"
  by (simp add: keys_ok_def)

lemma keys_ok_locked [simp]:
  assumes "keys_ok w"
  shows "keys_ok (status_locked k st now w)" "keys_ok (contract_locked k r now w)"
    "keys_ok (result_locked k res now w)" "keys_ok (create_locked r manifest now w)"
    "keys_ok (snd (decide_locked k d reason a m now w))"
  using assms
  by (auto simp: status_locked_def contract_locked_def result_locked_def create_locked_def decide_locked_def
      new_record_def keys_ok_def Let_def split: option.splits)

text \<open>
  The whole operation of \<^verbatim>\<open>Workflow_Store\<close> is what its critical section, its write and its
  notification do when nothing comes in between.
\<close>

theorem uninterrupted_operation_atomic:
  assumes "keys_ok w"
  shows "run_events (Ev_status k st now # settle) (at_rest w) = at_rest (update_status k st now w)"
    and "run_events (Ev_result k res now # settle) (at_rest w) = at_rest (set_execution_result k res now w)"
    and "run_events (Ev_contract k r now # settle) (at_rest w) = at_rest (update_contract k r now w)"
    and "run_events (Ev_create r manifest now # settle) (at_rest w) = at_rest (snd (create r manifest now w))"
    and "run_events (Ev_decide k d reason a m now # settle) (at_rest w) =
           at_rest (snd (record_decision k d reason a m now w))"
proof -
  have s: "s_world (at_rest w) = w" by (simp add: at_rest_def)
  have "run_events settle (at_rest w) = at_rest w"
    by (simp add: settle_def at_rest_def begin_write_def end_write_def notify_one_def)
  moreover have "fst (decide_locked k d reason a m now w) \<Longrightarrow>
      run_events settle (after_lock k True (snd (decide_locked k d reason a m now w)) (at_rest w)) =
      at_rest (notify_subscribers k (persist_key k (snd (decide_locked k d reason a m now w))))"
    using assms by (simp add: settle_after_lock)
  ultimately show "run_events (Ev_decide k d reason a m now # settle) (at_rest w) =
      at_rest (snd (record_decision k d reason a m now w))"
    by (simp add: phases s Let_def case_prod_beta)
qed (use assms in \<open>simp_all add: phases settle_after_lock at_rest_def [of w, THEN arg_cong [of _ _ s_world], simplified]\<close>)

section \<open>Every interleaving is simulated by atomic steps\<close>

text \<open>A concrete system follows an abstract one; what the abstract one writes once, the concrete one
  does.\<close>

locale simulation =
  fixes cstep :: "'c \<Rightarrow> 'c \<Rightarrow> bool" and astep :: "'a \<Rightarrow> 'a \<Rightarrow> bool" and rel :: "'c \<Rightarrow> 'a \<Rightarrow> bool"
  assumes follows: "cstep c c' \<Longrightarrow> rel c a \<Longrightarrow> \<exists>a'. astep\<^sup>*\<^sup>* a a' \<and> rel c' a'"
begin

lemma run_follows: "cstep\<^sup>*\<^sup>* c c' \<Longrightarrow> rel c a \<Longrightarrow> \<exists>a'. astep\<^sup>*\<^sup>* a a' \<and> rel c' a'"
proof (induction rule: rtranclp_induct)
  case (step y z)
  then show ?case by (meson follows rtranclp_trans)
qed auto

end

locale simulated_write_once = simulation cstep astep rel + write_once astep inv written
  for cstep :: "'c \<Rightarrow> 'c \<Rightarrow> bool" and astep :: "'a \<Rightarrow> 'a \<Rightarrow> bool" and rel :: "'c \<Rightarrow> 'a \<Rightarrow> bool"
    and inv :: "'a \<Rightarrow> bool" and written :: "'a \<Rightarrow> 'k \<Rightarrow> 'd option" +
  fixes cinv :: "'c \<Rightarrow> bool" and cwritten :: "'c \<Rightarrow> 'k \<Rightarrow> 'd option"
  assumes total: "\<exists>a. rel c a"
    and same_inv: "rel c a \<Longrightarrow> cinv c \<longleftrightarrow> inv a"
    and same_written: "rel c a \<Longrightarrow> cwritten c = written a"

sublocale simulated_write_once \<subseteq> conc: write_once cstep cinv cwritten
proof
  fix c c' assume st: "cstep c c'" and i: "cinv c"
  obtain a where a: "rel c a" using total by blast
  with st follows obtain a' where a': "astep\<^sup>*\<^sup>* a a'" "rel c' a'" by blast
  have inv: "inv a" using a i same_inv by blast
  with a' show "cinv c'" using run_inv same_inv by blast
  show "cwritten c' k = Some d" if "cwritten c k = Some d" for k d
    using run_keeps [OF a'(1) inv] that same_written [OF a] same_written [OF a'(2)] by simp
qed

text \<open>What the tasks of the process see: the objects and the cache.\<close>

definition mem_agree :: "shared_store \<Rightarrow> world \<Rightarrow> bool" where
  "mem_agree s w \<longleftrightarrow> w_heap w = w_heap (s_world s) \<and> w_store w = w_store (s_world s)"

inductive event_step :: "shared_store \<Rightarrow> shared_store \<Rightarrow> bool" where
  "allowed e s \<Longrightarrow> event_step s (exec_event e s)"

lemma then_notify_sel [simp]:
  "s_world (then_notify k f s) = s_world s" "s_waiting (then_notify k f s) = s_waiting s"
  "s_flight (then_notify k f s) = s_flight s"
  by (simp_all add: then_notify_def)

lemma after_lock_sel [simp]:
  "s_world (after_lock k f w s) = w" "s_flight (after_lock k f w s) = s_flight s"
  by (simp_all add: after_lock_def split: option.splits)

lemma later_stages_mem [simp]:
  "w_heap (s_world (begin_write i s)) = w_heap (s_world s)" "w_store (s_world (begin_write i s)) = w_store (s_world s)"
  "w_heap (s_world (refuse_connection i s)) = w_heap (s_world s)"
  "w_store (s_world (refuse_connection i s)) = w_store (s_world s)"
  "w_heap (s_world (end_write b i s)) = w_heap (s_world s)" "w_store (s_world (end_write b i s)) = w_store (s_world s)"
  "w_heap (s_world (notify_one i s)) = w_heap (s_world s)" "w_store (s_world (notify_one i s)) = w_store (s_world s)"
  by (simp_all add: begin_write_def refuse_connection_def end_write_def notify_one_def Let_def case_prod_beta
      split: option.splits)

text \<open>A critical section reads and writes memory only.\<close>

lemma locked_agree:
  assumes "mem_agree s w"
  shows "mem_agree (s\<lparr> s_world := status_locked k st now (s_world s) \<rparr>) (status_locked k st now w)"
    and "mem_agree (s\<lparr> s_world := contract_locked k r now (s_world s) \<rparr>) (contract_locked k r now w)"
    and "mem_agree (s\<lparr> s_world := result_locked k res now (s_world s) \<rparr>) (result_locked k res now w)"
    and "mem_agree (s\<lparr> s_world := create_locked r manifest now (s_world s) \<rparr>) (create_locked r manifest now w)"
    and "mem_agree (s\<lparr> s_world := snd (decide_locked k d reason a m now (s_world s)) \<rparr>)
           (snd (decide_locked k d reason a m now w))"
    and "fst (decide_locked k d reason a m now w) = fst (decide_locked k d reason a m now (s_world s))"
  using assms
  by (simp_all add: mem_agree_def status_locked_def contract_locked_def result_locked_def create_locked_def
      decide_locked_def put_record_def Let_def split: option.splits)

lemma mem_agree_simps [simp]:
  "mem_agree (after_lock k f w1 s) w \<longleftrightarrow> mem_agree (s\<lparr> s_world := w1 \<rparr>) w"
  "mem_agree s (persist_key k w) \<longleftrightarrow> mem_agree s w" "mem_agree s (notify_subscribers k w) \<longleftrightarrow> mem_agree s w"
  "mem_agree (begin_write i s) w \<longleftrightarrow> mem_agree s w" "mem_agree (refuse_connection i s) w \<longleftrightarrow> mem_agree s w"
  "mem_agree (end_write b i s) w \<longleftrightarrow> mem_agree s w" "mem_agree (notify_one i s) w \<longleftrightarrow> mem_agree s w"
  by (simp_all add: mem_agree_def)

lemma mem_agree_ref: "mem_agree s w \<Longrightarrow> ref_of (s_world s) = ref_of w"
  by (simp add: mem_agree_def ref_of_def fun_eq_iff)

lemma mem_agree_side:
  assumes "mem_agree s w"
  shows "owned (s_world s) k r = owned w k r" "lookup (s_world s) k = lookup w k" "w_heap (s_world s) = w_heap w"
  using assms mem_agree_ref [OF assms] by (simp_all add: owned_def mem_agree_def)

lemma exec_event_follows:
  assumes "allowed e s" and "mem_agree s w"
  shows "\<exists>w'. store_step\<^sup>*\<^sup>* w w' \<and> mem_agree (exec_event e s) w'"
proof (cases e)
  case (Ev_create r manifest now)
  with assms have "store_step w (snd (create r manifest now w))"
    by (simp add: mem_agree_side step_create)
  moreover have "mem_agree (exec_event e s) (snd (create r manifest now w))"
    using locked_agree(4) [OF assms(2)] Ev_create by (simp add: phases)
  ultimately show ?thesis by blast
next
  case (Ev_status k st now)
  have "mem_agree (exec_event e s) (update_status k st now w)"
    using locked_agree(1) [OF assms(2)] Ev_status by (simp add: phases)
  then show ?thesis using step_status by blast
next
  case (Ev_contract k r now)
  with assms have "store_step w (update_contract k r now w)" by (simp add: mem_agree_side step_contract)
  moreover have "mem_agree (exec_event e s) (update_contract k r now w)"
    using locked_agree(2) [OF assms(2)] Ev_contract by (simp add: phases)
  ultimately show ?thesis by blast
next
  case (Ev_result k res now)
  have "mem_agree (exec_event e s) (set_execution_result k res now w)"
    using locked_agree(3) [OF assms(2)] Ev_result by (simp add: phases)
  then show ?thesis using step_result by blast
next
  case (Ev_decide k d reason a m now)
  have "mem_agree (exec_event e s) (snd (record_decision k d reason a m now w))"
    using locked_agree(5,6) [OF assms(2)] assms(2) Ev_decide by (simp add: phases case_prod_beta Let_def)
  then show ?thesis using step_decide by blast
next
  case (Ev_write r c)
  with assms have "store_step w (write_contract r c w)" by (simp add: mem_agree_side step_write)
  moreover have "mem_agree (exec_event e s) (write_contract r c w)"
    using assms(2) Ev_write by (simp add: mem_agree_def)
  ultimately show ?thesis by blast
qed (use assms(2) in \<open>auto intro!: exI [of _ w] simp: mem_agree_def subscribe_def unsubscribe_def\<close>)

definition store_ok_now :: "shared_store \<Rightarrow> bool" where
  "store_ok_now s = store_ok (s_world s)"

definition decision_now where
  "decision_now s = terminal_decision (s_world s)"

interpretation il: simulated_write_once event_step store_step mem_agree store_ok terminal_decision
  store_ok_now decision_now
proof
  fix c c' a assume "event_step c c'" "mem_agree c a"
  then show "\<exists>a'. store_step\<^sup>*\<^sup>* a a' \<and> mem_agree c' a'" by (auto elim: event_step.cases dest: exec_event_follows)
next
  fix c show "\<exists>a. mem_agree c a" by (auto simp: mem_agree_def)
next
  fix c a assume a: "mem_agree c a"
  show "store_ok_now c \<longleftrightarrow> store_ok a" using mem_agree_ref [OF a] by (simp add: store_ok_now_def store_ok_def)
  show "decision_now c = terminal_decision a"
    using mem_agree_ref [OF a] a
    by (intro ext) (simp add: decision_now_def terminal_decision_def mem_agree_def split: option.splits)
qed

lemma run_event_steps: "run_ok allowed es s \<Longrightarrow> event_step\<^sup>*\<^sup>* s (run_events es s)"
proof (induction es arbitrary: s)
  case (Cons e es)
  then have "event_step s (exec_event e s)" by (auto intro: event_step.intros)
  with Cons show ?case by (auto intro: converse_rtranclp_into_rtranclp)
qed simp

section \<open>Writes in order keep the table up to date\<close>

text \<open>What a row must say about its record after a restart. The rest of the contract may be newer in
  memory, since the agents write to the object between two updates.\<close>

definition row_view where
  "row_view row = (row_status row, decision_of (row_contract row), row_manifest row,
     row_execution_result row, row_updated_at row, row_execution_completed row)"

definition record_view where
  "record_view w k = map_option (\<lambda>rec. row_view (row_of w rec)) (lookup w k)"

definition writes_of :: "string \<Rightarrow> (string \<times> workflow_row \<times> bool) list \<Rightarrow> workflow_row list" where
  "writes_of k xs = map (fst \<circ> snd) (filter (\<lambda>x. fst x = k) xs)"

text \<open>The row once everything under way has reached the table.\<close>

definition latest where
  "latest s k = last (map_option row_view (map_of (w_rows (s_world s)) k)
     # map (Some \<circ> row_view) (writes_of k (s_flight s)))"

definition in_sync :: "shared_store \<Rightarrow> bool" where
  "in_sync s \<longleftrightarrow> w_pool (s_world s) \<and> keys_ok (s_world s) \<and> distinct (map fst (w_rows (s_world s)))
     \<and> (\<forall>k \<in> fst ` set (s_waiting s). lookup (s_world s) k \<noteq> None)
     \<and> (\<forall>k. lookup (s_world s) k \<noteq> None \<longrightarrow> k \<in> fst ` set (s_waiting s) \<or> latest s k = record_view (s_world s) k)"

lemma view_upsert:
  "map_option row_view (map_of (upsert k row rows) k') =
     (if k' = k then Some (row_view row) else map_option row_view (map_of rows k'))"
  by (simp add: upsert_def row_view_def split: option.splits)

lemma split_drop_nth: "i < length xs \<Longrightarrow> xs = take i xs @ xs ! i # drop (Suc i) xs"
  by (rule id_take_nth_drop)

lemma writes_of_simps [simp]:
  "writes_of k [] = []" "writes_of k (xs @ ys) = writes_of k xs @ writes_of k ys"
  "writes_of k ((k', row, f) # xs) = (if k' = k then row # writes_of k xs else writes_of k xs)"
  by (simp_all add: writes_of_def)

lemma writes_of_none: "k \<notin> fst ` set xs \<Longrightarrow> writes_of k xs = []"
  by (force simp: writes_of_def filter_empty_conv)

lemma latest_commit:
  assumes "in_order (Ev_commit i) s"
  shows "latest (end_write True i s) k = latest s k"
proof (cases "i < length (s_flight s)")
  case True
  obtain k' row f where x: "s_flight s ! i = (k', row, f)" by (metis prod_cases3)
  let ?a = "take i (s_flight s)" and ?b = "drop (Suc i) (s_flight s)"
  have fl: "s_flight s = ?a @ (k', row, f) # ?b" using split_drop_nth [OF True] x by simp
  have none: "writes_of k' ?a = []" using assms True x by (simp add: writes_of_none)
  have "writes_of k (s_flight s) = writes_of k ?a @ (if k' = k then row # writes_of k ?b else writes_of k ?b)"
    using arg_cong [OF fl, of "writes_of k"] by (cases "k' = k") simp_all
  moreover have "s_flight (end_write True i s) = ?a @ ?b"
    "w_rows (s_world (end_write True i s)) = upsert k' row (w_rows (s_world s))"
    using True x by (simp_all add: end_write_def drop_nth_def Let_def)
  ultimately show ?thesis using none by (cases "k' = k") (simp_all add: latest_def view_upsert)
next
  case False
  then show ?thesis by (simp add: end_write_def)
qed

lemma latest_cong: "s_flight s' = s_flight s \<Longrightarrow> w_rows (s_world s') = w_rows (s_world s) \<Longrightarrow> latest s' k = latest s k"
  by (simp add: latest_def)

text \<open>A critical section touches the record it is called for.\<close>

definition only_changes where
  "only_changes K w w' \<longleftrightarrow> w_rows w' = w_rows w \<and> w_pool w' = w_pool w \<and> (keys_ok w \<longrightarrow> keys_ok w')
     \<and> (\<forall>k. lookup w k \<noteq> None \<longrightarrow> lookup w' k \<noteq> None)
     \<and> (\<forall>k. k \<notin> K \<longrightarrow> record_view w' k = record_view w k \<and> (lookup w' k = None) = (lookup w k = None))"

lemma in_sync_change:
  assumes "in_sync s" and ch: "only_changes (fst ` set (s_waiting s')) (s_world s) (s_world s')"
    and "s_flight s' = s_flight s" and sub: "set (s_waiting s) \<subseteq> set (s_waiting s')"
    and "\<forall>k \<in> fst ` set (s_waiting s'). lookup (s_world s') k \<noteq> None"
  shows "in_sync s'"
proof -
  have rows: "w_rows (s_world s') = w_rows (s_world s)" and "w_pool (s_world s') = w_pool (s_world s)"
    and "keys_ok (s_world s) \<longrightarrow> keys_ok (s_world s')" using ch unfolding only_changes_def by blast+
  then have base: "w_pool (s_world s')" "keys_ok (s_world s')" "distinct (map fst (w_rows (s_world s')))"
    using assms(1) by (simp_all add: in_sync_def)
  have "latest s' k = record_view (s_world s') k"
    if "lookup (s_world s') k \<noteq> None" and k: "k \<notin> fst ` set (s_waiting s')" for k
  proof -
    from k ch have v: "record_view (s_world s') k = record_view (s_world s) k"
      and "(lookup (s_world s') k = None) = (lookup (s_world s) k = None)"
      unfolding only_changes_def by blast+
    moreover have "k \<notin> fst ` set (s_waiting s)" using k sub by blast
    ultimately have "latest s k = record_view (s_world s) k"
      using assms(1) that unfolding in_sync_def by blast
    with latest_cong [OF assms(3) rows] v show ?thesis by simp
  qed
  with base assms(5) show ?thesis unfolding in_sync_def by blast
qed

lemma record_view_cong:
  assumes "lookup w' k = lookup w k"
    and "\<And>r. ref_of w k = Some r \<Longrightarrow> decision_of (w_heap w' r) = decision_of (w_heap w r)"
  shows "record_view w' k = record_view w k"
  using assms by (cases "lookup w k") (simp_all add: record_view_def row_view_def row_of_def ref_of_def)

lemma only_changes_one:
  assumes "w_rows w' = w_rows w" and "w_pool w' = w_pool w" and "keys_ok w \<Longrightarrow> keys_ok w'"
    and "lookup w k \<noteq> None \<Longrightarrow> lookup w' k \<noteq> None" and "k \<in> K"
    and same: "\<And>k'. k' \<noteq> k \<Longrightarrow> lookup w' k' = lookup w k'"
    and heap: "\<And>k' r. k' \<noteq> k \<Longrightarrow> ref_of w k' = Some r \<Longrightarrow> decision_of (w_heap w' r) = decision_of (w_heap w r)"
  shows "only_changes K w w'"
proof -
  have "record_view w' k' = record_view w k'" if "k' \<notin> K" for k'
  proof (rule record_view_cong)
    show "lookup w' k' = lookup w k'" using that assms(5) by (intro same) blast
    show "decision_of (w_heap w' r) = decision_of (w_heap w r)" if "ref_of w k' = Some r" for r
      using that \<open>k' \<notin> K\<close> assms(5) by (intro heap [of k']) blast+
  qed
  moreover have "lookup w' k' \<noteq> None" if "lookup w k' \<noteq> None" for k'
    using that assms(4) same [of k'] by (cases "k' = k") auto
  moreover have "(lookup w' k' = None) = (lookup w k' = None)" if "k' \<notin> K" for k'
    using that same [of k'] assms(5) by (cases "k' = k") auto
  ultimately show ?thesis using assms(1-3) unfolding only_changes_def by simp
qed

lemma only_changes_none:
  assumes "w_rows w' = w_rows w" and "w_pool w' = w_pool w" and "w_store w' = w_store w"
    and "\<And>r. decision_of (w_heap w' r) = decision_of (w_heap w r)"
  shows "only_changes K w w'"
proof -
  have "record_view w' k = record_view w k" for k using assms(3,4) by (intro record_view_cong) simp_all
  moreover have "keys_ok w' = keys_ok w" "lookup w' k = lookup w k" for k using assms(3) by (simp_all add: keys_ok_def)
  ultimately show ?thesis using assms(1,2) unfolding only_changes_def by simp
qed

lemma rows_locked [simp]:
  "w_rows (status_locked k st now w) = w_rows w" "w_pool (status_locked k st now w) = w_pool w"
  "w_rows (contract_locked k r now w) = w_rows w" "w_pool (contract_locked k r now w) = w_pool w"
  "w_rows (result_locked k res now w) = w_rows w" "w_pool (result_locked k res now w) = w_pool w"
  "w_rows (create_locked r manifest now w) = w_rows w" "w_pool (create_locked r manifest now w) = w_pool w"
  "w_rows (snd (decide_locked k d reason a m now w)) = w_rows w"
  "w_pool (snd (decide_locked k d reason a m now w)) = w_pool w"
  by (simp_all add: status_locked_def contract_locked_def result_locked_def create_locked_def decide_locked_def
      Let_def split: option.splits)

lemma lookup_locked:
  "k' \<noteq> k \<Longrightarrow> lookup (status_locked k st now w) k' = lookup w k'"
  "k' \<noteq> k \<Longrightarrow> lookup (contract_locked k r now w) k' = lookup w k'"
  "k' \<noteq> k \<Longrightarrow> lookup (result_locked k res now w) k' = lookup w k'"
  "k' \<noteq> operation_id (w_heap w r) \<Longrightarrow> lookup (create_locked r manifest now w) k' = lookup w k'"
  "k' \<noteq> k \<Longrightarrow> lookup (snd (decide_locked k d reason a m now w)) k' = lookup w k'"
  "(lookup (status_locked k st now w) k = None) = (lookup w k = None)"
  "(lookup (contract_locked k r now w) k = None) = (lookup w k = None)"
  "(lookup (result_locked k res now w) k = None) = (lookup w k = None)"
  "lookup (create_locked r manifest now w) (operation_id (w_heap w r)) \<noteq> None"
  "(lookup (snd (decide_locked k d reason a m now w)) k = None) = (lookup w k = None)"
  by (simp_all add: status_locked_def contract_locked_def result_locked_def create_locked_def decide_locked_def
      Let_def split: option.splits)

lemma heap_locked:
  "w_heap (status_locked k st now w) = w_heap w" "w_heap (result_locked k res now w) = w_heap w"
  "w_heap (create_locked r manifest now w) = w_heap w"
  "r' \<noteq> r \<Longrightarrow> w_heap (contract_locked k r now w) r' = w_heap w r'"
  "ref_of w k \<noteq> Some r' \<Longrightarrow> w_heap (snd (decide_locked k d reason a m now w)) r' = w_heap w r'"
  by (simp_all add: status_locked_def contract_locked_def result_locked_def create_locked_def decide_locked_def
      ref_of_def Let_def split: option.splits) auto

text \<open>The event of a critical section keeps the table in step: its record waits to be written.\<close>

lemma only_changes_lookup: "only_changes K w w' \<Longrightarrow> lookup w k \<noteq> None \<Longrightarrow> lookup w' k \<noteq> None"
  unfolding only_changes_def by blast

lemma only_changes_mono: "only_changes K w w' \<Longrightarrow> K \<subseteq> K' \<Longrightarrow> only_changes K' w w'"
  unfolding only_changes_def by blast

lemma only_changes_absent:
  assumes "only_changes {k} w w'" and "lookup w' k = None" and "lookup w k = None"
  shows "only_changes K w w'"
proof -
  have "record_view w' k = record_view w k" using assms(2,3) by (simp add: record_view_def)
  with assms have "record_view w' k' = record_view w k' \<and> (lookup w' k' = None) = (lookup w k' = None)" for k'
    unfolding only_changes_def by (cases "k' = k") blast+
  with assms(1) show ?thesis unfolding only_changes_def by blast
qed

lemma in_sync_after_lock:
  assumes "in_sync s" and "only_changes {k} (s_world s) w'"
  shows "in_sync (after_lock k f w' s)"
proof -
  have kept: "\<forall>k' \<in> fst ` set (s_waiting s). lookup w' k' \<noteq> None"
    using assms(1) only_changes_lookup [OF assms(2)] unfolding in_sync_def by blast
  show ?thesis
  proof (cases "lookup w' k")
    case None
    then have l: "lookup (s_world s) k = None" using only_changes_lookup [OF assms(2), of k] by blast
    have w: "s_waiting (after_lock k f w' s) = s_waiting s" using None by (simp add: after_lock_def)
    show ?thesis
      by (rule in_sync_change [OF assms(1)])
        (simp_all only: w after_lock_sel kept only_changes_absent [OF assms(2) None l] subset_refl,
         fact kept)
  next
    case (Some rec)
    then have w: "s_waiting (after_lock k f w' s) = s_waiting s @ [(k, f)]" by (simp add: after_lock_def)
    have "only_changes (fst ` set (s_waiting s @ [(k, f)])) (s_world s) w'"
      by (rule only_changes_mono [OF assms(2)]) simp
    moreover have "\<forall>k' \<in> fst ` set (s_waiting s @ [(k, f)]). lookup w' k' \<noteq> None" using kept Some by auto
    ultimately show ?thesis
      by (intro in_sync_change [OF assms(1)]) (simp_all only: w after_lock_sel, auto)
  qed
qed

lemma record_view_mem: "w_heap w' = w_heap w \<Longrightarrow> w_store w' = w_store w \<Longrightarrow> record_view w' k = record_view w k"
  by (rule record_view_cong) simp_all

lemma in_sync_commit:
  assumes "in_sync s" and "in_order (Ev_commit i) s"
  shows "in_sync (end_write True i s)"
proof -
  have "s_waiting (end_write True i s) = s_waiting s" by (simp add: end_write_def Let_def case_prod_beta)
  moreover have "w_pool (s_world (end_write True i s)) = w_pool (s_world s)"
    "distinct (map fst (w_rows (s_world s))) \<Longrightarrow> distinct (map fst (w_rows (s_world (end_write True i s))))"
    "keys_ok (s_world (end_write True i s)) = keys_ok (s_world s)"
    by (simp_all add: end_write_def Let_def case_prod_beta distinct_upsert keys_ok_def)
  moreover have "record_view (s_world (end_write True i s)) k = record_view (s_world s) k" for k
    by (rule record_view_mem) simp_all
  ultimately show ?thesis using assms(1) latest_commit [OF assms(2)] by (simp add: in_sync_def)
qed

lemma in_sync_begin:
  assumes "in_sync s" shows "in_sync (begin_write i s)"
proof (cases "i < length (s_waiting s)")
  case True
  obtain k f where x: "s_waiting s ! i = (k, f)" by fastforce
  have wt: "s_waiting s = take i (s_waiting s) @ (k, f) # drop (Suc i) (s_waiting s)"
    using split_drop_nth [OF True] x by simp
  then have "k \<in> fst ` set (s_waiting s)" using True x by (metis fst_conv image_eqI nth_mem)
  then obtain rec where rec: "lookup (s_world s) k = Some rec" "wr_operation_id rec = k"
    using assms by (auto simp: in_sync_def keys_ok_def)
  let ?w = "s_world s" and ?s = "begin_write i s"
  have b: "?s = s\<lparr> s_waiting := drop_nth i (s_waiting s), s_flight := s_flight s @ [(k, row_of ?w rec, f)] \<rparr>"
    using True x rec assms by (simp add: begin_write_def in_sync_def)
  have mem: "k' \<in> fst ` set (drop_nth i (s_waiting s)) \<or> k' = k" if "k' \<in> fst ` set (s_waiting s)" for k'
    using that arg_cong [OF wt, of set] unfolding drop_nth_def by auto
  have sub: "fst ` set (drop_nth i (s_waiting s)) \<subseteq> fst ` set (s_waiting s)"
    unfolding drop_nth_def by (auto dest: in_set_takeD in_set_dropD)
  have "latest ?s k = record_view ?w k" using rec by (simp add: b latest_def record_view_def)
  moreover have "latest ?s k' = latest s k'" if "k' \<noteq> k" for k' using that by (simp add: b latest_def)
  ultimately have "k' \<in> fst ` set (drop_nth i (s_waiting s)) \<or> latest ?s k' = record_view ?w k'"
    if "lookup ?w k' \<noteq> None" for k'
    using that mem [of k'] assms unfolding in_sync_def by metis
  moreover have "s_world ?s = ?w" "s_waiting ?s = drop_nth i (s_waiting s)" using b by simp_all
  moreover have "\<forall>k \<in> fst ` set (drop_nth i (s_waiting s)). lookup ?w k \<noteq> None"
    using assms sub unfolding in_sync_def by blast
  ultimately show ?thesis using assms unfolding in_sync_def by simp
next
  case False
  with assms show ?thesis by (simp add: begin_write_def)
qed

lemma in_sync_world:
  assumes "in_sync s" and "\<And>K. only_changes K (s_world s) w'" and "s_world s' = w'"
    and "s_waiting s' = s_waiting s" and "s_flight s' = s_flight s"
  shows "in_sync s'"
proof -
  have "\<forall>k \<in> fst ` set (s_waiting s). lookup w' k \<noteq> None"
    using assms(1) only_changes_lookup [OF assms(2)] unfolding in_sync_def by blast
  then show ?thesis
    by (intro in_sync_change [OF assms(1)]) (simp_all only: assms(2-5) subset_refl)
qed

lemma locked_changes:
  assumes "store_ok w"
  shows "only_changes {k} w (status_locked k st now w)"
    and "owned w k r \<Longrightarrow> only_changes {k} w (contract_locked k r now w)"
    and "only_changes {k} w (result_locked k res now w)"
    and "only_changes {operation_id (w_heap w r)} w (create_locked r manifest now w)"
    and "only_changes {k} w (snd (decide_locked k d reason a m now w))"
proof -
  show "only_changes {k} w (contract_locked k r now w)" if "owned w k r"
    using that by (intro only_changes_one [of _ _ k])
      (auto simp: lookup_locked owned_def intro!: heap_locked(4) arg_cong [of _ _ decision_of])
  show "only_changes {k} w (snd (decide_locked k d reason a m now w))"
    using assms by (intro only_changes_one [of _ _ k])
      (auto simp: lookup_locked store_ok_def intro!: heap_locked(5) arg_cong [of _ _ decision_of])
  show "only_changes {k} w (status_locked k st now w)" "only_changes {k} w (result_locked k res now w)"
    by (rule only_changes_one [of _ _ k]; simp add: lookup_locked heap_locked)+
  show "only_changes {operation_id (w_heap w r)} w (create_locked r manifest now w)"
    by (rule only_changes_one [of _ _ "operation_id (w_heap w r)"]; simp add: lookup_locked heap_locked)
qed

lemma exec_event_in_sync:
  assumes "in_sync s" and "store_ok_now s" and "allowed e s" and "in_order e s"
  shows "in_sync (exec_event e s)"
proof (cases e)
  case (Ev_write r c)
  have "only_changes K (s_world s) (write_contract r c (s_world s))" for K
    using assms(3) Ev_write by (intro only_changes_none) simp_all
  then show ?thesis using Ev_write by (intro in_sync_world [OF assms(1)]) simp_all
next
  case (Ev_subscribe k)
  have "only_changes K (s_world s) (snd (subscribe k (s_world s)))" for K
    by (rule only_changes_none) (simp_all add: subscribe_def)
  then show ?thesis using Ev_subscribe by (intro in_sync_world [OF assms(1)]) simp_all
next
  case (Ev_unsubscribe k q)
  have "only_changes K (s_world s) (unsubscribe k q (s_world s))" for K
    by (rule only_changes_none) (simp_all add: unsubscribe_def)
  then show ?thesis using Ev_unsubscribe by (intro in_sync_world [OF assms(1)]) simp_all
next
  case (Ev_notify i)
  have "only_changes K (s_world s) (notify_subscribers k (s_world s))" for K k
    by (rule only_changes_none) simp_all
  then show ?thesis
    using Ev_notify assms(1)
    by (cases "i < length (s_notify s)")
      (simp_all add: notify_one_def in_sync_world [OF assms(1), of "notify_subscribers (s_notify s ! i) (s_world s)"])
next
  case (Ev_decide k d reason a m now)
  then show ?thesis
    using in_sync_after_lock [OF assms(1) locked_changes(5)] assms(1,2)
    by (simp add: store_ok_now_def case_prod_beta Let_def)
qed (use assms in \<open>simp_all add: store_ok_now_def in_sync_after_lock locked_changes in_sync_commit in_sync_begin\<close>)

lemma run_in_sync:
  assumes "run_ok (\<lambda>e s. allowed e s \<and> in_order e s) es s" and "in_sync s" and "store_ok_now s"
  shows "in_sync (run_events es s)"
  using assms
proof (induction es arbitrary: s)
  case (Cons e es)
  then have "in_sync (exec_event e s)" by (simp add: exec_event_in_sync)
  moreover have "store_ok_now (exec_event e s)"
    using Cons.prems by (auto intro: il.conc.step_inv event_step.intros)
  ultimately show ?case using Cons by simp
qed simp

text \<open>A record with nothing under way has a row that says the same.\<close>

lemma in_sync_row:
  assumes "in_sync s" and "lookup (s_world s) k = Some rec"
    and "k \<notin> fst ` set (s_waiting s)" and "writes_of k (s_flight s) = []"
  obtains row where "map_of (w_rows (s_world s)) k = Some row" and "row_view row = row_view (row_of (s_world s) rec)"
proof -
  have "latest s k = record_view (s_world s) k" using assms(1-3) unfolding in_sync_def by blast
  then show ?thesis using that assms(2,4) by (auto simp: latest_def record_view_def)
qed

lemma restart_row:
  assumes "distinct (map fst (w_rows w))" and "map_of (w_rows w) k = Some row" and "valid_contract (row_contract row)"
  obtains rec where "lookup (restart w) k = Some rec" and "stored_contract (restart w) rec = row_contract row"
    and "wr_status rec = row_status row" and "wr_manifest rec = row_manifest row"
    and "wr_execution_result rec = row_execution_result row"
    and "wr_execution_completed rec = row_execution_completed row"
proof -
  obtain c where "validate_decision_reason_length (row_contract row) = Inr c"
    using assms(3) unfolding valid_contract_def by (cases "validate_decision_reason_length (row_contract row)") auto
  from restart_restores [OF assms(1,2) this] that show ?thesis by (auto simp: restores_def)
qed

lemma terminal_decision_lookup:
  "lookup w k = Some rec \<Longrightarrow> terminal_decision w k =
     (if approval_state (stored_contract w rec) \<in> set TERMINAL_STATES
      then Some (decision_of (stored_contract w rec)) else None)"
  by (simp add: terminal_decision_def ref_of_def)

section \<open>Every task gets through\<close>

text \<open>First the waiting writes, then the upserts under way, then the notifications.\<close>

definition drain :: "shared_store \<Rightarrow> store_event list" where
  "drain s = (let n = length (s_waiting s); m = length (s_flight s) + n; p = length (s_notify s) + m
     in replicate n (Ev_acquire 0) @ replicate m (Ev_commit 0) @ replicate p (Ev_notify 0))"

lemma run_ok_always: "(\<And>e t. e \<in> set es \<Longrightarrow> P e t) \<Longrightarrow> run_ok P es s"
  by (induction es arbitrary: s) auto

lemma drain_in_order: "run_ok (\<lambda>e s. allowed e s \<and> in_order e s) (drain s) t"
  by (rule run_ok_always) (auto simp: drain_def Let_def)

lemma begin_first:
  assumes "in_sync s" and "s_waiting s = x # xs"
  shows "s_waiting (begin_write 0 s) = xs \<and> length (s_flight (begin_write 0 s)) = Suc (length (s_flight s))
     \<and> s_notify (begin_write 0 s) = s_notify s"
proof -
  have "w_pool (s_world s)" "lookup (s_world s) (fst x) \<noteq> None" using assms by (simp_all add: in_sync_def)
  then show ?thesis using assms(2)
    by (cases x) (auto simp: begin_write_def drop_nth_def Let_def)
qed

lemma drain_waiting:
  "in_sync s \<Longrightarrow> length (s_waiting s) = n \<Longrightarrow> \<exists>t. run_events (replicate n (Ev_acquire 0)) s = t
     \<and> s_waiting t = [] \<and> length (s_flight t) = length (s_flight s) + n \<and> s_notify t = s_notify s"
proof (induction n arbitrary: s)
  case (Suc n)
  then obtain x xs where x: "s_waiting s = x # xs" by (cases "s_waiting s") auto
  note b = begin_first [OF Suc.prems(1) x]
  have "in_sync (begin_write 0 s)" by (rule in_sync_begin [OF Suc.prems(1)])
  from Suc.IH [OF this] b x Suc.prems(2) show ?case by simp
qed simp

lemma drain_flight:
  "length (s_flight s) = n \<Longrightarrow> \<exists>t. run_events (replicate n (Ev_commit 0)) s = t
     \<and> s_waiting t = s_waiting s \<and> s_flight t = [] \<and> length (s_notify t) \<le> length (s_notify s) + n"
proof (induction n arbitrary: s)
  case (Suc n)
  have "length (s_flight (end_write True 0 s)) = n" "s_waiting (end_write True 0 s) = s_waiting s"
    "length (s_notify (end_write True 0 s)) \<le> Suc (length (s_notify s))"
    using Suc.prems by (simp_all add: end_write_def drop_nth_def then_notify_def Let_def case_prod_beta)
  with Suc.IH [of "end_write True 0 s"] show ?case by simp
qed simp

lemma drain_notify:
  "length (s_notify s) \<le> n \<Longrightarrow> \<exists>t. run_events (replicate n (Ev_notify 0)) s = t
     \<and> s_waiting t = s_waiting s \<and> s_flight t = s_flight s \<and> s_notify t = []"
proof (induction n arbitrary: s)
  case (Suc n)
  have "length (s_notify (notify_one 0 s)) \<le> n" "s_waiting (notify_one 0 s) = s_waiting s"
    "s_flight (notify_one 0 s) = s_flight s"
    using Suc.prems by (auto simp: notify_one_def drop_nth_def)
  with Suc.IH [of "notify_one 0 s"] show ?case by simp
qed simp

lemma quiet_drain:
  assumes "in_sync s" shows "quiet (run_events (drain s) s)"
proof -
  let ?n = "length (s_waiting s)"
  obtain t where t: "run_events (replicate ?n (Ev_acquire 0)) s = t" "s_waiting t = []"
    "length (s_flight t) = length (s_flight s) + ?n" "s_notify t = s_notify s"
    using drain_waiting [OF assms refl] by blast
  obtain u where u: "run_events (replicate (length (s_flight s) + ?n) (Ev_commit 0)) t = u" "s_waiting u = []"
    "s_flight u = []" "length (s_notify u) \<le> length (s_notify s) + (length (s_flight s) + ?n)"
    using drain_flight [OF t(3)] t(2,4) by auto
  from drain_notify [OF u(4)] t u show ?thesis by (auto simp: drain_def Let_def quiet_def)
qed

lemma drain_mem:
  "w_heap (s_world (run_events (drain s) t)) = w_heap (s_world t)" (is ?h)
  "w_store (s_world (run_events (drain s) t)) = w_store (s_world t)" (is ?s)
proof -
  have "w_heap (s_world (run_events es t)) = w_heap (s_world t) \<and> w_store (s_world (run_events es t)) = w_store (s_world t)"
    if "set es \<subseteq> {Ev_acquire 0, Ev_commit 0, Ev_notify 0}" for es
    using that by (induction es arbitrary: t) auto
  moreover have "set (drain s) \<subseteq> {Ev_acquire 0, Ev_commit 0, Ev_notify 0}" by (auto simp: drain_def Let_def)
  ultimately show ?h ?s by blast+
qed

section \<open>Properties\<close>

text \<open>
  C5. Interleaving adds nothing to what the tasks of the process can see. Under the side conditions of the
  atomic steps, however the critical
  sections, the waits for connections, the upserts, their failures and the notifications of any number
  of operations are interleaved, the objects and the cache are those of a run of atomic steps; so a
  terminal decision keeps its state, decision, reason, time and approver, and every later decision
  is refused, also while the write of the first is still under way or has failed.
\<close>

theorem interleavings_refine_atomic_store:
  assumes "run_ok allowed es s" and "store_ok (s_world s)"
  shows "(\<exists>w'. store_step\<^sup>*\<^sup>* (s_world s) w' \<and> w_heap w' = w_heap (s_world (run_events es s))
            \<and> w_store w' = w_store (s_world (run_events es s)))
     \<and> (\<forall>k d. terminal_decision (s_world s) k = Some d \<longrightarrow>
            terminal_decision (s_world (run_events es s)) k = Some d
          \<and> exec_event (Ev_decide k dec reason a m now) (run_events es s) = run_events es s)"
proof (intro conjI allI impI)
  have steps: "event_step\<^sup>*\<^sup>* s (run_events es s)" by (rule run_event_steps [OF assms(1)])
  have "mem_agree s (s_world s)" by (simp add: mem_agree_def)
  from il.run_follows [OF steps this]
  show "\<exists>w'. store_step\<^sup>*\<^sup>* (s_world s) w' \<and> w_heap w' = w_heap (s_world (run_events es s))
            \<and> w_store w' = w_store (s_world (run_events es s))" by (auto simp: mem_agree_def)
  fix k d assume "terminal_decision (s_world s) k = Some d"
  then show t: "terminal_decision (s_world (run_events es s)) k = Some d"
    using il.conc.run_keeps [OF steps, of k d] assms(2) by (simp add: store_ok_now_def decision_now_def)
  then show "exec_event (Ev_decide k dec reason a m now) (run_events es s) = run_events es s"
    by (auto simp: terminal_decision_Some ref_of_def TERMINAL_STATES_def decide_locked_def)
qed

text \<open>An approval that overtakes the status update of the review, seen while both writes are under way.\<close>

definition overtaking :: "store_event list" where
  "overtaking = [Ev_status ''cg_1'' WS_PENDING_HUMAN_APPROVAL 1, Ev_acquire 0,
     Ev_decide ''cg_1'' ''APPROVE'' ''looks fine to me'' ''alice'' None 5, Ev_acquire 0]"

theorem interleavings_refine_atomic_store_witness:
  "let s = run_events overtaking (at_rest pending_world); t = run_events [Ev_lost 1, Ev_notify 0] s
   in terminal_decision (s_world t) ''cg_1'' =
        Some (APPROVED, Some ''APPROVE'', Some ''looks fine to me'', Some 5, Some ''alice'', None)
    \<and> exec_event (Ev_decide ''cg_1'' ''REJECT'' ''second thoughts'' ''bob'' None 9) t = t"
proof -
  let ?s = "run_events overtaking (at_rest pending_world)"
  have "event_step\<^sup>*\<^sup>* (at_rest pending_world) ?s"
    by (rule run_event_steps, rule run_ok_always) (auto simp: overtaking_def)
  from il.conc.run_inv [OF this] have "store_ok (s_world ?s)"
    using pending_world_ok by (simp add: store_ok_now_def at_rest_def)
  moreover have "run_ok allowed [Ev_lost 1, Ev_notify 0] ?s" by simp
  moreover have "terminal_decision (s_world ?s) ''cg_1'' =
      Some (APPROVED, Some ''APPROVE'', Some ''looks fine to me'', Some 5, Some ''alice'', None)"
    by code_simp
  ultimately show ?thesis
    using interleavings_refine_atomic_store [of "[Ev_lost 1, Ev_notify 0]" ?s "''REJECT''" "''second thoughts''" "''bob''" None 9]
    by (auto simp: Let_def simp del: exec_event.simps)
qed

text \<open>A restart brings the record back as it was: status, decision, manifest, result and the mark that it
  was executed.\<close>

definition survives_restart :: "world \<Rightarrow> string \<Rightarrow> bool" where
  "survives_restart w k =
     (case (lookup w k, lookup (restart w) k) of
        (Some rec, Some rec') \<Rightarrow>
          wr_status rec' = wr_status rec
        \<and> decision_of (stored_contract (restart w) rec') = decision_of (stored_contract w rec)
        \<and> wr_manifest rec' = dump_dict (wr_manifest rec)
        \<and> wr_execution_result rec' = dump_dict (wr_execution_result rec)
        \<and> wr_execution_completed rec' = wr_execution_completed rec
      | _ \<Rightarrow> False)"

lemma in_sync_survives:
  assumes "in_sync s" and "lookup (s_world s) k = Some rec" and "valid_contract (stored_contract (s_world s) rec)"
    and "k \<notin> fst ` set (s_waiting s)" and "writes_of k (s_flight s) = []"
  shows "survives_restart (s_world s) k"
proof -
  obtain row where row: "map_of (w_rows (s_world s)) k = Some row" "row_view row = row_view (row_of (s_world s) rec)"
    using in_sync_row [OF assms(1,2,4,5)] by blast
  then have "valid_contract (row_contract row)"
    using assms(3) valid_contract_cong [of "row_contract row" "stored_contract (s_world s) rec"]
    by (simp add: row_view_def row_of_def)
  moreover have "distinct (map fst (w_rows (s_world s)))" using assms(1) by (simp add: in_sync_def)
  ultimately obtain rec' where "lookup (restart (s_world s)) k = Some rec'"
    "stored_contract (restart (s_world s)) rec' = row_contract row" "wr_status rec' = row_status row"
    "wr_manifest rec' = row_manifest row" "wr_execution_result rec' = row_execution_result row"
    "wr_execution_completed rec' = row_execution_completed row"
    using restart_row row(1) by blast
  with assms(2) row(2) show ?thesis by (simp add: survives_restart_def row_view_def row_of_def)
qed


lemma pending_world_in_sync: "in_sync (at_rest pending_world)"
proof -
  have only: "lookup pending_world k = None" if "k \<noteq> ''cg_1''" for k
    using that by (simp add: pending_world_def empty_world_def create_def new_contract_def Let_def)
  have one: "latest (at_rest pending_world) ''cg_1'' = record_view pending_world ''cg_1''" by code_simp
  have "latest (at_rest pending_world) k = record_view pending_world k" if "lookup pending_world k \<noteq> None" for k
    using only [of k] that one by metis
  moreover have "w_pool pending_world" "distinct (map fst (w_rows pending_world))" by code_simp+
  moreover have "keys_ok pending_world"
    by (simp add: keys_ok_def pending_world_def empty_world_def create_def new_record_def new_contract_def Let_def)
  ultimately show ?thesis unfolding in_sync_def by (simp add: at_rest_def)
qed


text \<open>Two short runs for a record that awaits its decision: the upsert of an earlier status update
  arrives after that of the decision, and the upsert of the decision fails.\<close>

definition late_status :: "string \<Rightarrow> WorkflowStatus \<Rightarrow> store_event \<Rightarrow> store_event list" where
  "late_status k st e = [Ev_status k st 1, Ev_acquire 0, e, Ev_acquire 0, Ev_commit 1, Ev_commit 0, Ev_notify 0, Ev_notify 0]"

definition lost_write :: "store_event \<Rightarrow> store_event list" where
  "lost_write e = [e, Ev_acquire 0, Ev_lost 0, Ev_notify 0]"

lemma restart_pending:
  assumes "distinct (map fst (w_rows w))" and "map_of (w_rows w) k = Some row"
    and "decision_of (row_contract row) = decision_of c" and "valid_contract c" and "approval_state c = PENDING"
  shows "fst (record_decision k d reason a m now (restart w))"
proof -
  have "valid_contract (row_contract row)" "approval_state (row_contract row) = PENDING"
    using assms(3-5) valid_contract_cong [OF assms(3)] decision_of_state [OF assms(3)] by simp_all
  with restart_row [OF assms(1,2)] obtain rec where "lookup (restart w) k = Some rec"
    "approval_state (stored_contract (restart w) rec) = PENDING" by metis
  then show ?thesis unfolding record_decision_True_iff by blast
qed

text \<open>
  C39. Without that order the promise of a decision made once is not kept across a restart. For every
  record that awaits its decision there is a run in which a decision is accepted, its subscribers are told and
  nothing remains under way, yet the table still has the undecided contract: because an upsert read before the
  decision arrived after it, or because the failure of the upsert is logged and swallowed. After a restart the
  record is pending again, and another decision, of whatever kind, is accepted.
\<close>

theorem unordered_writes_lose_decisions:
  assumes "in_sync (at_rest w)" and "lookup w k = Some rec" and "approval_state (stored_contract w rec) = PENDING"
    and "valid_contract (stored_contract w rec)" and "e = Ev_decide k d reason a m now"
    and "es = late_status k st e \<or> es = lost_write e"
  shows "let s = run_events es (at_rest w) in
     run_ok allowed es (at_rest w) \<and> quiet s
   \<and> approval_state (w_heap (s_world s) (wr_contract rec)) = decision_map d
   \<and> \<not> fst (record_decision k d2 reason2 a2 m2 now2 (s_world s))
   \<and> fst (record_decision k d2 reason2 a2 m2 now2 (restart (s_world s)))"
proof -
  have base: "w_pool w" "wr_operation_id rec = k" "distinct (map fst (w_rows w))"
    using assms(1,2) by (auto simp: in_sync_def at_rest_def keys_ok_def)
  obtain row where row: "map_of (w_rows w) k = Some row" "decision_of (row_contract row) = decision_of (stored_contract w rec)"
    using in_sync_row [OF assms(1), of k rec] assms(2) by (auto simp: at_rest_def row_view_def row_of_def)
  have ok: "run_ok allowed es (at_rest w)"
    using assms(5,6) by (intro run_ok_always) (auto simp: late_status_def lost_write_def)
  let ?c = "decide d reason a m now (stored_contract w rec)"
  from assms(6) show ?thesis
  proof
    assume es: "es = lost_write e"
    have "run_events es (at_rest w) = at_rest (notify_subscribers k
        (put_record k (rec\<lparr> wr_updated_at := now \<rparr>) (write_contract (wr_contract rec) ?c w)))"
      using assms(2,3,5) base es
      by (simp add: lost_write_def at_rest_def decide_locked_def after_lock_def begin_write_def end_write_def
          notify_one_def then_notify_def drop_nth_def Let_def)
    then show ?thesis
      using ok restart_pending [OF _ _ row(2) assms(4,3)] row(1) base(3)
      by (simp add: Let_def at_rest_def quiet_def record_decision_True_iff decide_def)
  next
    assume es: "es = late_status k st e"
    let ?r1 = "rec\<lparr> wr_status := st, wr_updated_at := 1 \<rparr>" and ?r2 = "rec\<lparr> wr_status := st, wr_updated_at := now \<rparr>"
    let ?w1 = "put_record k ?r1 w"
    let ?w2 = "put_record k ?r2 (write_contract (wr_contract rec) ?c ?w1)"
    let ?w3 = "?w2\<lparr> w_rows := upsert k (row_of ?w1 ?r1) (upsert k (row_of ?w2 ?r2) (w_rows w)) \<rparr>"
    have "run_events es (at_rest w) = at_rest (notify_subscribers k (notify_subscribers k ?w3))"
      using assms(2,3,5) base es
      by (simp add: late_status_def at_rest_def status_locked_def decide_locked_def after_lock_def begin_write_def
          end_write_def notify_one_def then_notify_def drop_nth_def Let_def)
    moreover obtain row' where "map_of (w_rows ?w3) k = Some row'" "row_contract row' = stored_contract w rec"
      using map_of_upsert [of k "row_of ?w1 ?r1" "upsert k (row_of ?w2 ?r2) (w_rows w)"]
      by (auto simp: row_of_def)
    moreover have "distinct (map fst (w_rows ?w3))" using base(3) by (simp add: distinct_upsert)
    ultimately show ?thesis
      using ok restart_pending [of "notify_subscribers k (notify_subscribers k ?w3)", OF _ _ _ assms(4,3)]
      by (simp add: Let_def at_rest_def quiet_def record_decision_True_iff decide_def)
  qed
qed

theorem unordered_writes_lose_decisions_witness:
  "let s = run_events (late_status ''cg_1'' WS_PENDING_HUMAN_APPROVAL
         (Ev_decide ''cg_1'' ''REJECT'' ''too many rows'' ''bob'' None 5)) (at_rest pending_world)
   in quiet s \<and> fst (record_decision ''cg_1'' ''APPROVE'' ''never seen this'' ''carol'' None 9 (restart (s_world s)))"
proof -
  have "lookup pending_world ''cg_1'' = Some (the (lookup pending_world ''cg_1''))"
    "approval_state (stored_contract pending_world (the (lookup pending_world ''cg_1''))) = PENDING"
    "valid_contract (stored_contract pending_world (the (lookup pending_world ''cg_1'')))" by code_simp+
  from unordered_writes_lose_decisions [OF pending_world_in_sync this refl disjI1 [OF refl],
      of WS_PENDING_HUMAN_APPROVAL "''REJECT''" "''too many rows''" "''bob''" None 5
         "''APPROVE''" "''never seen this''" "''carol''" None 9]
  show ?thesis unfolding Let_def by blast
qed

end
