(* ===== verification/Postgres_Reader.thy ===== *)
theory Postgres_Reader
  imports Analyzer
begin

text \<open>
  \<open>mcp_servers/postgres_reader/server.py\<close>: the tools that read the production catalog for the
  analyzer. Each opens a read-only connection, runs one function of \<open>sql_analysis_lib\<close> or some
  catalog queries and returns a JSON object; the rows of the queries are the catalog's.
\<close>

section \<open>The catalog\<close>

record pg_catalog = pg_db +
  ct_columns :: "string \<Rightarrow> pydict list"
  ct_foreign_keys :: "string \<Rightarrow> pydict list"
  ct_indexes :: "string \<Rightarrow> pydict list"
  ct_pii_registry :: "string \<Rightarrow> exn + pyval option"
  ct_comment :: "string \<Rightarrow> string option"

section \<open>The tools\<close>

definition str_or_none :: "string option \<Rightarrow> pyval" where
  "str_or_none s = (case s of None \<Rightarrow> PNone | Some x \<Rightarrow> PStr x)"

definition int_or_none :: "int option \<Rightarrow> pyval" where
  "int_or_none n = (case n of None \<Rightarrow> PNone | Some x \<Rightarrow> PInt x)"

definition get_table_schema :: "pg_catalog \<Rightarrow> string \<Rightarrow> exn + pydict" where
  "get_table_schema db table =
     Inr [(''table_name'', PStr table),
          (''columns'', PList (map PDict (ct_columns db table))),
          (''foreign_keys'', PList (map PDict (ct_foreign_keys db table))),
          (''indexes'', PList (map PDict (ct_indexes db table)))]"

definition run_explain_tool :: "pg_catalog \<Rightarrow> string \<Rightarrow> bool \<Rightarrow> exn + pydict" where
  "run_explain_tool db sql with_analyze =
     map_sum id (\<lambda>r.
       [(''estimated_rows'', PInt (er_estimated_rows r)),
        (''actual_rows'', int_or_none (er_actual_rows r)),
        (''total_cost'', PFloat (er_total_cost r)),
        (''startup_cost'', PFloat (er_startup_cost r)),
        (''scan_type'', er_scan_type r),
        (''partitions_involved'', PInt (er_partitions_involved r)),
        (''shared_hit_blocks'', int_or_none (er_shared_hit_blocks r)),
        (''shared_read_blocks'', int_or_none (er_shared_read_blocks r)),
        (''execution_time_ms'', er_execution_time_ms r),
        (''planning_time_ms'', er_planning_time_ms r)])
     (run_explain sql (pg_db.truncate db) with_analyze)"

text \<open>The age of statistics that do not exist is an infinite float, which a JSON response of the
  server cannot carry: rendering it raises.\<close>

definition estimate_row_count :: "pg_catalog \<Rightarrow> string \<Rightarrow> string option \<Rightarrow> exn + pydict" where
  "estimate_row_count db table cond =
     (let r = estimate_rows table cond (pg_db.truncate db) in
      case re_stats_age_hours r of
        None \<Rightarrow> Inl (ValueError ''Out of range float values are not JSON compliant'')
      | Some age \<Rightarrow>
          Inr [(''table'', PStr (re_table r)),
               (''condition'', str_or_none (re_condition r)),
               (''estimated_rows'', PInt (re_estimated_rows r)),
               (''confidence'', PFloat (re_confidence r)),
               (''estimation_strategy'', PStr (re_estimation_strategy r)),
               (''stats_age_hours'', PFloat age),
               (''stats_stale'', PBool (re_stats_stale r))])"

definition level_dict :: "CascadeLevel \<Rightarrow> pydict" where
  "level_dict l =
     [(''table_name'', PStr (cl_table_name l)),
      (''column_name'', PStr (cl_column_name l)),
      (''parent_table'', PStr (cl_parent_table l)),
      (''parent_column'', PStr (cl_parent_column l)),
      (''cascade_action'', PStr (cl_cascade_action l)),
      (''estimated_rows'', PInt (cl_estimated_rows l)),
      (''confidence'', PFloat (cl_confidence l)),
      (''depth'', PInt (int (cl_depth l)))]"

definition get_fk_graph :: "(rat \<Rightarrow> rat) \<Rightarrow> pg_catalog \<Rightarrow> string \<Rightarrow> nat \<Rightarrow> exn + pydict" where
  "get_fk_graph fl db table max_depth =
     (let g = trace_cascades fl table None (pg_db.truncate db) max_depth None in
      Inr [(''root_table'', PStr (cg_root_table g)),
           (''root_condition'', str_or_none (cg_root_condition g)),
           (''levels'', PList (map (\<lambda>l. PDict (level_dict l)) (cg_levels g))),
           (''total_estimated_rows'', PInt (cg_total_estimated_rows g)),
           (''has_circular_reference'', PBool (cg_has_circular_reference g)),
           (''max_depth_reached'', PBool (cg_max_depth_reached g))])"

definition trigger_dict :: "TriggerInfo \<Rightarrow> pydict" where
  "trigger_dict t =
     [(''trigger_name'', PStr (ti_trigger_name t)),
      (''table_name'', PStr (ti_table_name t)),
      (''event'', PStr (ti_event t)),
      (''timing'', PStr (ti_timing t)),
      (''function_name'', PStr (ti_function_name t)),
      (''invokes_non_transactional'', PBool (ti_invokes_non_transactional t)),
      (''non_transactional_extension'', str_or_none (ti_non_transactional_extension t)),
      (''estimated_external_calls'', int_or_none (ti_estimated_external_calls t)),
      (''target_endpoint'', str_or_none (ti_target_endpoint t))]"

definition nt_trigger_dict :: "TriggerInfo \<Rightarrow> pydict" where
  "nt_trigger_dict t =
     [(''trigger_name'', PStr (ti_trigger_name t)),
      (''non_transactional_extension'', str_or_none (ti_non_transactional_extension t)),
      (''target_endpoint'', str_or_none (ti_target_endpoint t))]"

definition list_triggers :: "pg_catalog \<Rightarrow> string \<Rightarrow> exn + pydict" where
  "list_triggers db table =
     (let a = detect_triggers table (pg_db.truncate db) None in
      Inr [(''table'', PStr (ta_table a)),
           (''triggers'', PList (map (\<lambda>t. PDict (trigger_dict t)) (ta_triggers a))),
           (''has_permanent_side_effects'', PBool (ta_has_permanent_side_effects a)),
           (''non_transactional_triggers'', PList (map (\<lambda>t. PDict (nt_trigger_dict t)) (ta_non_transactional_triggers a)))])"

definition check_soft_delete :: "pg_catalog \<Rightarrow> string \<Rightarrow> exn + pydict" where
  "check_soft_delete db table =
     (case db_soft_delete db table of
        Some col \<Rightarrow> Inr [(''has_soft_delete'', PBool True), (''column_name'', PStr col)]
      | None \<Rightarrow> Inr [(''has_soft_delete'', PBool False), (''column_name'', PNone)])"

text \<open>An error of the registry query is swallowed; the connection commits each statement by
  itself, so that the second query still runs.\<close>

definition get_pii_tags :: "pg_catalog \<Rightarrow> string \<Rightarrow> exn + pydict" where
  "get_pii_tags db table =
     (case ct_pii_registry db table of
        Inr (Some tags) \<Rightarrow> Inr [(''is_pii'', PBool True), (''tagged_columns'', py_or tags (PList []))]
      | _ \<Rightarrow>
          (let comment = (case ct_comment db table of None \<Rightarrow> '''' | Some s \<Rightarrow> s) in
           Inr [(''is_pii'', PBool (comment \<noteq> [] \<and> str_contains ''pii'' (str_lower comment))),
                (''tagged_columns'', PList [])]))"

section \<open>The server\<close>

text \<open>The parameters of a tool and what it does with its arguments. \<open>psycopg2\<close> binds a table name
  that is no string as a value of its own type, so that no row matches; the callers send strings.\<close>

definition text_arg :: "pydict \<Rightarrow> string \<Rightarrow> (string \<Rightarrow> exn + pydict) \<Rightarrow> exn + pyval" where
  "text_arg args k f =
     (case dict_get0 args k of PStr s \<Rightarrow> map_sum id PDict (f s) | _ \<Rightarrow> Inl (TypeError ''expected str''))"

definition estimate_fn :: "pg_catalog \<Rightarrow> tool_fn" where
  "estimate_fn db a =
     text_arg a ''table'' (\<lambda>t. case dict_get0 a ''condition'' of
        PNone \<Rightarrow> estimate_row_count db t None
      | PStr s \<Rightarrow> estimate_row_count db t (Some s)
      | _ \<Rightarrow> Inl (TypeError ''expected str''))"

definition fk_graph_fn :: "(rat \<Rightarrow> rat) \<Rightarrow> pg_catalog \<Rightarrow> tool_fn" where
  "fk_graph_fn fl db a =
     text_arg a ''table'' (\<lambda>t. case dict_get a ''max_depth'' (PInt 5) of
        PInt i \<Rightarrow> get_fk_graph fl db t (nat i)
      | _ \<Rightarrow> Inl (TypeError ''expected int''))"

definition reader_tools :: "(rat \<Rightarrow> rat) \<Rightarrow> pg_catalog \<Rightarrow> (string \<times> (tool_sig \<times> tool_fn)) list" where
  "reader_tools fl db =
     [(''get_table_schema'', (\<lparr> ts_required = [''table_name''], ts_optional = [] \<rparr>,
         \<lambda>a. text_arg a ''table_name'' (get_table_schema db))),
      (''run_explain'', (\<lparr> ts_required = [''sql''], ts_optional = [''analyze''] \<rparr>,
         \<lambda>a. text_arg a ''sql'' (\<lambda>s. run_explain_tool db s (truthy (dict_get a ''analyze'' (PBool False)))))),
      (''estimate_row_count'', (\<lparr> ts_required = [''table''], ts_optional = [''condition''] \<rparr>, estimate_fn db)),
      (''get_fk_graph'', (\<lparr> ts_required = [''table''], ts_optional = [''max_depth''] \<rparr>, fk_graph_fn fl db)),
      (''list_triggers'', (\<lparr> ts_required = [''table''], ts_optional = [] \<rparr>,
         \<lambda>a. text_arg a ''table'' (list_triggers db))),
      (''check_soft_delete'', (\<lparr> ts_required = [''table''], ts_optional = [] \<rparr>,
         \<lambda>a. text_arg a ''table'' (check_soft_delete db))),
      (''get_pii_tags'', (\<lparr> ts_required = [''table''], ts_optional = [] \<rparr>,
         \<lambda>a. text_arg a ''table'' (get_pii_tags db)))]"

definition postgres_reader_server :: "(rat \<Rightarrow> rat) \<Rightarrow> pg_catalog \<Rightarrow> mcp_server" where
  "postgres_reader_server fl db =
     \<lparr> sv_name = ''postgres-reader'', sv_require_auth = True, sv_tools = reader_tools fl db \<rparr>"

section \<open>Reading the answers back\<close>

lemma map_exn_map: "(\<And>x. x \<in> set xs \<Longrightarrow> f (g x) = Inr (h x)) \<Longrightarrow> map_exn f (map g xs) = Inr (map h xs)"
  by (induction xs) auto

lemma dict_entries_list:
  "map_of d k = Some (PList (map (\<lambda>x. PDict (g x)) xs)) \<Longrightarrow> dict_entries d k = Inr (map g xs)"
  by (simp add: dict_entries_def list_entry_def dict_get_def as_list_def as_dict_def map_exn_map)

definition level_entry :: "CascadeLevel \<Rightarrow> CascadeEntry" where
  "level_entry l = \<lparr> ce_table = cl_table_name l, ce_estimated_rows = cl_estimated_rows l, ce_actual_rows = None,
     ce_cascade_action = cl_cascade_action l, ce_depth = int (cl_depth l) \<rparr>"

lemma cascade_entries_back:
  "get_fk_graph fl db t n = Inr d \<Longrightarrow>
     build_cascade_entries d = Inr (map level_entry (cg_levels (trace_cascades fl t None (pg_db.truncate db) n None)))"
  by (auto simp: get_fk_graph_def Let_def build_cascade_entries_def dict_entries_list
      intro!: map_exn_map) (simp add: cascade_entry_def level_dict_def level_entry_def dict_get_def need_str_def need_int_def)

text \<open>Names of triggers are unique on a table.\<close>

definition unique_triggers :: "pg_catalog \<Rightarrow> string \<Rightarrow> bool" where
  "unique_triggers db t \<longleftrightarrow> distinct (map tg_name (db_triggers db t))"

definition read_triggers :: "pg_catalog \<Rightarrow> string \<Rightarrow> TriggerAnalysis" where
  "read_triggers db t = detect_triggers t (pg_db.truncate db) None"

lemma ti_name_trigger_info [simp]: "ti_trigger_name (trigger_info exts inst row) = tg_name row"
  "ti_estimated_external_calls (trigger_info exts inst row) = None"
  by (simp_all add: trigger_info_def Let_def)

lemma read_triggers_sel:
  "ta_table (read_triggers db t) = t"
  "ta_non_transactional_triggers (read_triggers db t) = filter ti_invokes_non_transactional (ta_triggers (read_triggers db t))"
  "ta_has_permanent_side_effects (read_triggers db t) = (ta_non_transactional_triggers (read_triggers db t) \<noteq> [])"
  "map ti_trigger_name (ta_triggers (read_triggers db t)) = map tg_name (db_triggers db t)"
  "i \<in> set (ta_triggers (read_triggers db t)) \<Longrightarrow> ti_estimated_external_calls i = None"
  by (auto simp: read_triggers_def detect_triggers_def Let_def pg_db.truncate_def)

lemma trigger_name_unique:
  assumes "unique_triggers db t" and "i \<in> set (ta_triggers (read_triggers db t))" "j \<in> set (ta_triggers (read_triggers db t))"
    and "ti_trigger_name i = ti_trigger_name j"
  shows "i = j"
proof -
  have "inj_on ti_trigger_name (set (ta_triggers (read_triggers db t)))"
    using assms(1) unfolding unique_triggers_def read_triggers_sel(4) [symmetric] distinct_map by blast
  with assms(2-4) show ?thesis by (auto dest: inj_onD)
qed

lemma mcp_trigger_info_back:
  assumes "ti_estimated_external_calls i = None" and "PStr (ti_trigger_name i) \<in> set names \<Longrightarrow> ti_invokes_non_transactional i"
  shows "mcp_trigger_info table names (trigger_dict i) = Inr i"
  using assms
  by (cases i) (auto simp: mcp_trigger_info_def trigger_dict_def dict_get_def need_str_def need_opt_str_def str_or_none_def
      Let_def split: option.splits)

lemma nt_trigger_name [simp]: "dict_get (nt_trigger_dict i) ''trigger_name'' z = PStr (ti_trigger_name i)"
  by (simp add: nt_trigger_dict_def dict_get_def)

lemma list_triggers_entries:
  assumes "list_triggers db t = Inr d"
  shows "dict_entries d ''triggers'' = Inr (map trigger_dict (ta_triggers (read_triggers db t)))"
    "dict_entries d ''non_transactional_triggers'' = Inr (map nt_trigger_dict (ta_non_transactional_triggers (read_triggers db t)))"
    "dict_get d ''has_permanent_side_effects'' z = PBool (ta_has_permanent_side_effects (read_triggers db t))"
  using assms
  by (auto simp: list_triggers_def Let_def read_triggers_def dict_get_def intro!: dict_entries_list)

text \<open>What the analyzer reads is what the server found.\<close>

lemma trigger_analysis_back:
  assumes "unique_triggers db t" and "list_triggers db t = Inr d"
  shows "build_trigger_analysis_from_mcp t d = Inr (read_triggers db t)"
proof -
  let ?a = "read_triggers db t"
  let ?names = "map (\<lambda>x. dict_get x ''trigger_name'' (PStr '''')) (map nt_trigger_dict (ta_non_transactional_triggers ?a))"
  have m: "map_exn (mcp_trigger_info t ?names) (map trigger_dict (ta_triggers ?a)) = Inr (map id (ta_triggers ?a))"
  proof (rule map_exn_map)
    fix i assume i: "i \<in> set (ta_triggers ?a)"
    have "ti_invokes_non_transactional i" if "PStr (ti_trigger_name i) \<in> set ?names"
      using that trigger_name_unique [OF assms(1) i] by (auto simp: read_triggers_sel(2))
    then show "mcp_trigger_info t ?names (trigger_dict i) = Inr (id i)"
      unfolding id_apply by (rule mcp_trigger_info_back [OF read_triggers_sel(5) [OF i]])
  qed
  have "build_trigger_analysis_from_mcp t d = Inr \<lparr> ta_table = t, ta_triggers = ta_triggers ?a,
      ta_has_permanent_side_effects = ta_has_permanent_side_effects ?a,
      ta_non_transactional_triggers = ta_non_transactional_triggers ?a \<rparr>"
    using m unfolding build_trigger_analysis_from_mcp_def list_triggers_entries [OF assms(2)]
    by (simp add: Let_def read_triggers_sel)
  also have "\<dots> = Inr ?a" by (cases ?a) (use read_triggers_sel(1) [of db t] in simp)
  finally show ?thesis .
qed

definition external_of :: "TriggerInfo \<Rightarrow> ExternalTrigger" where
  "external_of i = \<lparr> et_trigger_name = ti_trigger_name i, et_event = ti_event i,
     et_extension = (case ti_non_transactional_extension i of None \<Rightarrow> ''unknown'' | Some x \<Rightarrow> if x = [] then ''unknown'' else x),
     et_estimated_calls = None, et_target_endpoint = ti_target_endpoint i, et_sandbox_log_entry = None \<rparr>"

lemma event_by_name_back:
  assumes "unique_triggers db t" and "i \<in> set (ta_triggers (read_triggers db t))"
  shows "event_by_name (map trigger_dict (ta_triggers (read_triggers db t))) (PStr (ti_trigger_name i)) = PStr (ti_event i)"
proof -
  let ?ts = "map trigger_dict (ta_triggers (read_triggers db t))"
  let ?hits = "filter (\<lambda>x. dict_get x ''trigger_name'' (PStr '''') = PStr (ti_trigger_name i)) (rev ?ts)"
  have name: "dict_get (trigger_dict j) ''trigger_name'' (PStr '''') = PStr (ti_trigger_name j)" for j
    by (simp add: trigger_dict_def dict_get_def)
  have hit: "x = trigger_dict i" if "x \<in> set ?hits" for x
  proof -
    from that obtain j where j: "j \<in> set (ta_triggers (read_triggers db t))" "x = trigger_dict j" "ti_trigger_name j = ti_trigger_name i"
      by (auto simp: name)
    with trigger_name_unique [OF assms(1) j(1) assms(2)] show ?thesis by simp
  qed
  have "trigger_dict i \<in> set ?hits" using assms(2) by (simp add: name)
  then obtain x xs where x: "?hits = x # xs" by (cases ?hits) auto
  with hit [of x] have "x = trigger_dict i" by simp
  with x show ?thesis by (simp add: event_by_name_def trigger_dict_def dict_get_def)
qed

lemma external_triggers_back:
  assumes "unique_triggers db t" and "list_triggers db t = Inr d"
  shows "build_external_triggers d = Inr (map external_of (ta_non_transactional_triggers (read_triggers db t)))"
proof -
  have "external_trigger (map trigger_dict (ta_triggers (read_triggers db t))) (nt_trigger_dict i) = Inr (external_of i)"
    if "i \<in> set (ta_non_transactional_triggers (read_triggers db t))" for i
  proof -
    have "i \<in> set (ta_triggers (read_triggers db t))" using that by (simp add: read_triggers_sel(2))
    from event_by_name_back [OF assms(1) this] show ?thesis
      by (auto simp: external_trigger_def nt_trigger_dict_def external_of_def dict_get_def need_str_def need_opt_str_def
          str_or_none_def py_or_def Let_def split: option.splits)
  qed
  then show ?thesis
    unfolding build_external_triggers_def list_triggers_entries [OF assms(2)] by (simp add: map_exn_map)
qed

section \<open>The analysis of a catalog\<close>

text \<open>An environment in which the calls to the reader end as its tools do: the abstract service
  that the agent's transport stands for.\<close>

definition answers_as_reader :: "(rat \<Rightarrow> rat) \<Rightarrow> pg_catalog \<Rightarrow> mcp_env \<Rightarrow> bool" where
  "answers_as_reader fl db env \<longleftrightarrow> (\<forall>l x. mc_url x = POSTGRES_READER_URL \<longrightarrow>
     env l x = (case map_of (reader_tools fl db) (mc_tool x) of
                  None \<Rightarrow> Inl (MCPCallError ''not found'')
                | Some tool \<Rightarrow> (case call_fn tool (mc_args x) of
                    Inl e \<Rightarrow> Inl (MCPCallError (exn_text e)) | Inr v \<Rightarrow> Inr v)))"

text \<open>What the analysis of a statement is, computed from the catalog without agents and services.\<close>

definition catalog_rows :: "pg_catalog \<Rightarrow> string \<Rightarrow> string \<Rightarrow> int \<times> rat" where
  "catalog_rows db t cond =
     (if t = [] then (0, 0)
      else let e = estimate_rows t (if cond = [] then None else Some cond) (pg_db.truncate db) in
        if re_stats_age_hours e = None then (0, 0) else (re_estimated_rows e, re_confidence e))"

definition quiet_triggers :: "string \<Rightarrow> TriggerAnalysis" where
  "quiet_triggers t = \<lparr> ta_table = t, ta_triggers = [], ta_has_permanent_side_effects = False, ta_non_transactional_triggers = [] \<rparr>"

definition catalog_analysis ::
  "(rat \<Rightarrow> rat) \<Rightarrow> (rat \<Rightarrow> string) \<Rightarrow> pg_catalog \<Rightarrow> HandoffContract \<Rightarrow> HandoffContract" where
  "catalog_analysis fl sf db c =
     (let c1 = parse_step c; t = primary_table c1; changes = (t \<noteq> [] \<and> operation_type c1 \<in> {OT_DELETE, OT_UPDATE});
          (n, x) = catalog_rows db t (condition c1);
          ta = (if t = [] then quiet_triggers t else read_triggers db t);
          c2 = c1\<lparr> estimated_primary_rows := n, row_confidence := x \<rparr>;
          c3 = (if t = [] then c2
                else c2\<lparr> external_triggers := estimate_api_fanout (map external_of (ta_non_transactional_triggers ta)) n \<rparr>);
          c4 = (if changes
                then c3\<lparr> cascade := map level_entry (cg_levels (trace_cascades fl t None (pg_db.truncate db) 5 None)) \<rparr>
                else c3)
      in reversibility_step sf ta (changes \<and> db_soft_delete db t \<noteq> None) c4)"

text \<open>A call of the agent to the reader, with the handler that the agent wraps around it.\<close>

lemma reader_call:
  assumes "answers_as_reader fl db (cx_env cx)" and "map_of (reader_tools fl db) tool = Some (sg, f)" and "binds sg args"
  shows "\<exists>l'. catch_mcp (call_tool cx ''postgres-reader'' tool args) (ret dflt) l =
    (Inr (case f args of Inl e \<Rightarrow> dflt | Inr v \<Rightarrow> v), l')"
proof -
  let ?x = "\<lparr> mc_url = POSTGRES_READER_URL, mc_tool = tool, mc_args = args \<rparr>"
  have "cx_env cx l ?x = (case f args of Inl e \<Rightarrow> Inl (MCPCallError (exn_text e)) | Inr v \<Rightarrow> Inr v)"
    using assms by (simp add: answers_as_reader_def call_fn_def)
  then show ?thesis
    by (cases "f args") (simp_all add: catch_mcp_def try_eff_def call_tool_def bind_eff_def mcp_def eff_simps)
qed

lemma reader_lookup:
  "map_of (reader_tools fl db) ''estimate_row_count'' = Some (\<lparr> ts_required = [''table''], ts_optional = [''condition''] \<rparr>, estimate_fn db)"
  "map_of (reader_tools fl db) ''get_fk_graph'' = Some (\<lparr> ts_required = [''table''], ts_optional = [''max_depth''] \<rparr>, fk_graph_fn fl db)"
  "map_of (reader_tools fl db) ''list_triggers'' = Some (\<lparr> ts_required = [''table''], ts_optional = [] \<rparr>, \<lambda>a. text_arg a ''table'' (list_triggers db))"
  "map_of (reader_tools fl db) ''check_soft_delete'' = Some (\<lparr> ts_required = [''table''], ts_optional = [] \<rparr>, \<lambda>a. text_arg a ''table'' (check_soft_delete db))"
  by (simp_all add: reader_tools_def)

lemma count_affected_rows_reader:
  assumes "answers_as_reader fl db (cx_env cx)"
  shows "\<exists>l' d. count_affected_rows cx t cond l = (Inr (PDict d), l')
    \<and> dict_get d ''estimated_rows'' (PInt 0) = PInt (fst (catalog_rows db t cond))
    \<and> dict_get d ''confidence'' (PFloat (1/2)) = PFloat (snd (catalog_rows db t cond))"
proof (cases "t = []")
  case True
  then show ?thesis by (simp add: count_affected_rows_def eff_simps catalog_rows_def dict_get_def)
next
  case False
  let ?args = "[(''table'', PStr t), (''condition'', if cond = [] then PNone else PStr cond)]"
  let ?dflt = "[(''estimated_rows'', PInt 0), (''confidence'', PFloat 0)]"
  let ?r = "estimate_row_count db t (if cond = [] then None else Some cond)"
  have "estimate_fn db ?args = map_sum id PDict (estimate_row_count db t (if cond = [] then None else Some cond))"
    by (simp add: estimate_fn_def text_arg_def dict_get_def)
  then have v: "(case estimate_fn db ?args of Inl e \<Rightarrow> PDict ?dflt | Inr v \<Rightarrow> v) = PDict (case ?r of Inl e \<Rightarrow> ?dflt | Inr d \<Rightarrow> d)"
    by (cases ?r) simp_all
  have "\<exists>l'. count_affected_rows cx t cond l = (Inr (PDict (case ?r of Inl e \<Rightarrow> ?dflt | Inr d \<Rightarrow> d)), l')"
    using reader_call [OF assms reader_lookup(1), of ?args "PDict ?dflt" l] False unfolding v count_affected_rows_def Let_def
    by (simp add: binds_def)
  moreover have "dict_get (case ?r of Inl e \<Rightarrow> ?dflt | Inr d \<Rightarrow> d) ''estimated_rows'' (PInt 0) = PInt (fst (catalog_rows db t cond))"
    "dict_get (case ?r of Inl e \<Rightarrow> ?dflt | Inr d \<Rightarrow> d) ''confidence'' (PFloat (1/2)) = PFloat (snd (catalog_rows db t cond))"
    using False by (simp_all add: estimate_row_count_def catalog_rows_def dict_get_def Let_def split: option.splits)
  ultimately show ?thesis by blast
qed

lemma detect_triggers_reader:
  assumes "answers_as_reader fl db (cx_env cx)"
  shows "\<exists>l' d. analyzer_detect_triggers cx t l = (Inr (PDict d), l') \<and> list_triggers db t = Inr d"
proof -
  obtain d where d: "list_triggers db t = Inr d" by (simp add: list_triggers_def Let_def)
  then have "text_arg [(''table'', PStr t)] ''table'' (list_triggers db) = Inr (PDict d)" by (simp add: text_arg_def dict_get_def)
  with reader_call [OF assms reader_lookup(3), of "[(''table'', PStr t)]"] d show ?thesis
    unfolding analyzer_detect_triggers_def by (simp add: binds_def)
qed

lemma trace_fk_graph_reader:
  assumes "answers_as_reader fl db (cx_env cx)"
  shows "\<exists>l' d. trace_fk_graph cx t l = (Inr (PDict d), l') \<and> get_fk_graph fl db t 5 = Inr d"
proof -
  obtain d where d: "get_fk_graph fl db t 5 = Inr d" by (simp add: get_fk_graph_def Let_def)
  then have "fk_graph_fn fl db [(''table'', PStr t)] = Inr (PDict d)" by (simp add: fk_graph_fn_def text_arg_def dict_get_def)
  with reader_call [OF assms reader_lookup(2), of "[(''table'', PStr t)]"] d show ?thesis
    unfolding trace_fk_graph_def by (simp add: binds_def)
qed

lemma check_soft_delete_reader:
  assumes "answers_as_reader fl db (cx_env cx)"
  shows "\<exists>l' d. analyzer_check_soft_delete cx t l = (Inr (PDict d), l')
    \<and> truthy (dict_get d ''has_soft_delete'' (PBool False)) = (db_soft_delete db t \<noteq> None)"
proof -
  obtain d where d: "check_soft_delete db t = Inr d" by (cases "db_soft_delete db t") (simp_all add: check_soft_delete_def)
  then have "text_arg [(''table'', PStr t)] ''table'' (check_soft_delete db) = Inr (PDict d)" by (simp add: text_arg_def dict_get_def)
  moreover have "truthy (dict_get d ''has_soft_delete'' (PBool False)) = (db_soft_delete db t \<noteq> None)"
    using d by (auto simp: check_soft_delete_def dict_get_def split: option.splits)
  moreover have "\<exists>l'. analyzer_check_soft_delete cx t l = (Inr (PDict d), l')"
    using reader_call [OF assms reader_lookup(4), of "[(''table'', PStr t)]"] calculation(1)
    unfolding analyzer_check_soft_delete_def by (simp add: binds_def)
  ultimately show ?thesis by blast
qed

lemma rows_step_reader:
  assumes "answers_as_reader fl db (cx_env cx)"
  shows "\<exists>l1. rows_step cx c l = (Inr (c\<lparr> estimated_primary_rows := fst (catalog_rows db (primary_table c) (condition c)),
    row_confidence := snd (catalog_rows db (primary_table c) (condition c)) \<rparr>), l1)"
proof -
  obtain l1 d where d: "count_affected_rows cx (primary_table c) (condition c) l = (Inr (PDict d), l1)"
    "dict_get d ''estimated_rows'' (PInt 0) = PInt (fst (catalog_rows db (primary_table c) (condition c)))"
    "dict_get d ''confidence'' (PFloat (1/2)) = PFloat (snd (catalog_rows db (primary_table c) (condition c)))"
    using count_affected_rows_reader [OF assms] by blast
  then show ?thesis by (simp add: rows_step_def bind_eff_def eff_simps as_dict_def need_int_def need_num_def)
qed

section \<open>Properties\<close>

text \<open>
  C10. The analysis refines the catalog: with a reader service that answers as the repository's tools
  do, what the analyzer agent computes through calls, JSON objects and their parsing is exactly the
  analysis computed directly from the catalog: the row estimate, the external calls of the
  triggers, the cascade, and the reversibility class of the true trigger analysis. In particular a
  table without statistics counts as zero rows with confidence zero.
\<close>

theorem analysis_refines_catalog:
  assumes "answers_as_reader fl db (cx_env (az_agent az))" and "unique_triggers db (primary_table (parse_step c))"
  shows "fst (analyze_facts az c l) = Inr (catalog_analysis fl (az_show_float az) db c)"
proof -
  let ?cx = "az_agent az" and ?c1 = "parse_step c"
  let ?t = "primary_table ?c1"
  let ?c2 = "?c1\<lparr> estimated_primary_rows := fst (catalog_rows db ?t (condition ?c1)), row_confidence := snd (catalog_rows db ?t (condition ?c1)) \<rparr>"
  obtain l1 where 1: "rows_step ?cx ?c1 l = (Inr ?c2, l1)" using rows_step_reader [OF assms(1)] by blast
  obtain l2 d2 where d2: "analyzer_detect_triggers ?cx ?t l1 = (Inr (PDict d2), l2)" "list_triggers db ?t = Inr d2"
    using detect_triggers_reader [OF assms(1)] by blast
  show ?thesis
  proof (cases "?t = []")
    case True
    have "build_trigger_analysis_from_mcp [] [] = Inr (quiet_triggers [])"
      by (simp add: build_trigger_analysis_from_mcp_def dict_entries_def list_entry_def dict_get_def as_list_def quiet_triggers_def)
    with True show ?thesis
      by (simp add: analyze_facts_def 1 bind_eff_def triggers_step_def cascade_step_def soft_delete_step_def eff_simps
          catalog_analysis_def Let_def case_prod_beta)
  next
    case False
    let ?c3 = "?c2\<lparr> external_triggers := estimate_api_fanout (map external_of (ta_non_transactional_triggers (read_triggers db ?t)))
        (fst (catalog_rows db ?t (condition ?c1))) \<rparr>"
    have 2: "triggers_step ?cx ?c2 l1 = (Inr (?c3, d2), l2)"
      using False by (simp add: triggers_step_def bind_eff_def eff_simps as_dict_def d2(1) external_triggers_back [OF assms(2) d2(2)])
    obtain l3 d3 where d3: "trace_fk_graph ?cx ?t l2 = (Inr (PDict d3), l3)" "get_fk_graph fl db ?t 5 = Inr d3"
      using trace_fk_graph_reader [OF assms(1)] by blast
    obtain l4 d4 where d4: "analyzer_check_soft_delete ?cx ?t l3 = (Inr (PDict d4), l4)"
      "truthy (dict_get d4 ''has_soft_delete'' (PBool False)) = (db_soft_delete db ?t \<noteq> None)"
      using check_soft_delete_reader [OF assms(1)] by blast
    show ?thesis
    proof (cases "operation_type ?c1 \<in> {OT_DELETE, OT_UPDATE}")
      case True
      with False show ?thesis
        by (simp add: analyze_facts_def 1 2 bind_eff_def cascade_step_def soft_delete_step_def eff_simps as_dict_def d3(1) d4
            cascade_entries_back [OF d3(2)] trigger_analysis_back [OF assms(2) d2(2)] catalog_analysis_def Let_def case_prod_beta)
    next
      case nochange: False
      with False show ?thesis
        by (simp add: analyze_facts_def 1 2 bind_eff_def cascade_step_def soft_delete_step_def eff_simps
            trigger_analysis_back [OF assms(2) d2(2)] catalog_analysis_def Let_def case_prod_beta)
    qed
  qed
qed

definition sample_catalog :: pg_catalog where
  "sample_catalog = pg_db.extend sample_pg
     (pg_catalog.fields (\<lambda>_. []) (\<lambda>_. []) (\<lambda>_. []) (\<lambda>_. Inr None) (\<lambda>_. None))"

definition reader_env :: mcp_env where
  "reader_env l x =
     (if mc_url x = POSTGRES_READER_URL then
        (case map_of (reader_tools id sample_catalog) (mc_tool x) of
           None \<Rightarrow> Inl (MCPCallError ''not found'')
         | Some tool \<Rightarrow> (case call_fn tool (mc_args x) of Inl e \<Rightarrow> Inl (MCPCallError (exn_text e)) | Inr v \<Rightarrow> Inr v))
      else Inl (MCPCallError ''down''))"

definition reader_ctx :: analyzer_ctx where
  "reader_ctx = down_ctx\<lparr> az_agent := (az_agent down_ctx)\<lparr> cx_env := reader_env \<rparr> \<rparr>"

definition delete_users :: HandoffContract where
  "delete_users = new_contract ''cg_1'' ''demo'' ''agent'' INTERNAL_SYSTEM 0 ''DELETE FROM users''"

lemma reversibility_step_keeps:
  "cascade (reversibility_step sf ta soft c) = cascade c"
  "estimated_primary_rows (reversibility_step sf ta soft c) = estimated_primary_rows c"
  by (simp_all add: reversibility_step_def Let_def split: sum.splits)

lemma sample_catalog_reads:
  "primary_table (parse_step delete_users) = ''users''" "classify_operation_type (raw_sql delete_users) = OT_DELETE"
  "condition (parse_step delete_users) = []" "catalog_rows sample_catalog ''users'' [] = (100, 8 / 10)"
  "map cl_table_name (cg_levels (trace_cascades id ''users'' None (pg_db.truncate sample_catalog) 5 None)) = [''orders'', ''invoices'']"
  by code_simp+

theorem analysis_refines_catalog_witness:
  "\<exists>c'. fst (analyze_facts reader_ctx delete_users []) = Inr c'
    \<and> map ce_table (cascade c') = [''orders'', ''invoices''] \<and> estimated_primary_rows c' = 100"
proof -
  have a: "answers_as_reader id sample_catalog (cx_env (az_agent reader_ctx))"
    by (simp add: answers_as_reader_def reader_ctx_def reader_env_def)
  have "unique_triggers sample_catalog t" for t
    by (simp add: unique_triggers_def sample_catalog_def pg_db.extend_def sample_pg_def)
  from analysis_refines_catalog [OF a this] have
    "fst (analyze_facts reader_ctx delete_users []) = Inr (catalog_analysis id (az_show_float reader_ctx) sample_catalog delete_users)" .
  moreover have "map ce_table (cascade (catalog_analysis id (az_show_float reader_ctx) sample_catalog delete_users))
      = map cl_table_name (cg_levels (trace_cascades id ''users'' None (pg_db.truncate sample_catalog) 5 None))"
    by (simp add: catalog_analysis_def reversibility_step_keeps sample_catalog_reads(1-4) level_entry_def comp_def Let_def)
  moreover have "estimated_primary_rows (catalog_analysis id (az_show_float reader_ctx) sample_catalog delete_users) = 100"
    by (simp add: catalog_analysis_def reversibility_step_keeps sample_catalog_reads(1-4) Let_def)
  ultimately show ?thesis by (simp add: sample_catalog_reads(5))
qed

end
