(* ===== verification/Analysis_State.thy ===== *)
theory Analysis_State
  imports Analyzer Risk_Rules
begin

text \<open>
  \<open>orchestrator/states/analysis.py\<close>: the ANALYSIS node, which delegates to the analyzer agent, and
  the earlier helpers it keeps as documentation of what the agent is to compute. They are modelled
  as that: a specification of the classification against which the agent's is compared.
\<close>

section \<open>The node\<close>

definition run_analysis :: "analyzer_ctx \<Rightarrow> HandoffContract \<Rightarrow> HandoffContract eff" where
  "run_analysis az c = analyze az c"

section \<open>The documented helpers\<close>

definition spec_after :: "string \<Rightarrow> regex" where
  "spec_after kw = rseqs [rlit_ci kw, rspaces1, RGrp rword1]"

definition SPEC_WHERE :: regex where
  "SPEC_WHERE = rseqs [rlit_ci ''WHERE'', rspaces1, RGrp (RSeq rany (RStar False rany)),
     ralts [RSeq rspaces1 (rlit_ci ''ORDER''), RSeq rspaces1 (rlit_ci ''LIMIT''), RSeq rspaces1 (rlit_ci ''GROUP''),
       RSeq rspaces1 (rlit_ci ''HAVING''), RCls (\<lambda>c. c = CHR '';''), REnd]]"

definition spec_extract_where :: "string \<Rightarrow> string" where
  "spec_extract_where sql =
     (case re_search SPEC_WHERE sql of None \<Rightarrow> '''' | Some (_, m) \<Rightarrow> str_strip (group1 m))"

text \<open>The patterns are tried in order. The second search for \<open>FROM\<close> can find nothing that the
  first did not.\<close>

definition spec_parse_sql_intent :: "string \<Rightarrow> string \<times> string" where
  "spec_parse_sql_intent raw =
     (let sql = str_strip raw in
      case search_group (spec_after ''UPDATE'') sql of
        Some t \<Rightarrow> (t, spec_extract_where sql)
      | None \<Rightarrow>
     (case search_group (spec_after ''FROM'') sql of
        Some t \<Rightarrow> (t, spec_extract_where sql)
      | None \<Rightarrow>
     (case search_group (spec_after ''INTO'') sql of
        Some t \<Rightarrow> (t, '''')
      | None \<Rightarrow>
     (case search_group (spec_after ''FROM'') sql of
        Some t \<Rightarrow> (t, spec_extract_where sql)
      | None \<Rightarrow>
     (case search_group (spec_after ''TABLE'') sql of
        Some t \<Rightarrow> (t, '''')
      | None \<Rightarrow> ('''', ''''))))))"

definition spec_cascade_entry :: "int \<Rightarrow> pydict \<Rightarrow> exn + CascadeEntry" where
  "spec_cascade_entry parent dep =
     (case (need_num (dict_get dep ''selectivity'' (PFloat 2)), need_str (dict_get dep ''table'' (PStr ''unknown'')),
            need_str (dict_get dep ''action'' (PStr ''CASCADE'')), need_int (dict_get dep ''depth'' (PInt 1))) of
        (Inr s, Inr t, Inr a, Inr d) \<Rightarrow>
          Inr \<lparr> ce_table = t, ce_estimated_rows = py_int (of_int parent * s), ce_actual_rows = None,
                ce_cascade_action = a, ce_depth = d \<rparr>
      | _ \<Rightarrow> Inl (ValueError ''CascadeEntry''))"

definition spec_build_cascade_entries :: "pydict list \<Rightarrow> int \<Rightarrow> exn + CascadeEntry list" where
  "spec_build_cascade_entries deps parent = map_exn (spec_cascade_entry parent) deps"

definition spec_external_trigger :: "pydict \<Rightarrow> exn + ExternalTrigger" where
  "spec_external_trigger t =
     (case (need_str (dict_get t ''trigger_name'' (PStr ''unknown'')), need_str (dict_get t ''event'' (PStr ''UNKNOWN'')),
            need_str (dict_get t ''extension'' (PStr ''unknown'')), need_opt_str (dict_get0 t ''target_endpoint'')) of
        (Inr n, Inr e, Inr x, Inr ep) \<Rightarrow>
          Inr \<lparr> et_trigger_name = n, et_event = e, et_extension = x, et_estimated_calls = None,
                et_target_endpoint = ep, et_sandbox_log_entry = None \<rparr>
      | _ \<Rightarrow> Inl (ValueError ''ExternalTrigger''))"

definition spec_build_external_triggers :: "pydict list \<Rightarrow> exn + ExternalTrigger list" where
  "spec_build_external_triggers ts =
     map_exn spec_external_trigger (filter (\<lambda>t. truthy (dict_get t ''is_non_transactional'' (PBool False))) ts)"

text \<open>The reason joins a set of extension names; the order in which Python enumerates it is the
  argument \<open>enum\<close>.\<close>

definition spec_classify_reversibility ::
  "(string set \<Rightarrow> string list) \<Rightarrow> HandoffContract \<Rightarrow> bool \<Rightarrow> ReversibilityClass \<times> string" where
  "spec_classify_reversibility enum c soft =
     (let op = operation_type c in
      if op = OT_DDL then
        (PERMANENT, ''DDL operations (DROP, ALTER, TRUNCATE) are irreversible without restore'')
      else if external_triggers c \<noteq> [] then
        (PERMANENT, ''Non-transactional external effects via ''
           @ str_join '', '' (enum (et_extension ` set (external_triggers c))) @ '' cannot be rolled back'')
      else if op \<in> {OT_DELETE, OT_UPDATE} \<and> \<not> soft then
        (PERMANENT, ''Table '' @ py_repr (primary_table c) @ '' has no soft-delete column '' @ em_dash
           @ '' deletion is permanent without PITR'')
      else if op \<in> {OT_DELETE, OT_UPDATE} \<and> soft then
        (REVERSIBLE_AUTOMATED, ''Soft-delete column present '' @ em_dash @ '' recovery by setting deleted_at = NULL'')
      else if op = OT_INSERT then
        (REVERSIBLE_AUTOMATED, ''INSERT can be reversed by deleting the inserted rows using the same condition'')
      else if op = OT_SELECT then (REVERSIBLE_AUTOMATED, ''SELECT operations do not modify data'')
      else (PARTIAL, ''Reversibility depends on downstream state '' @ em_dash @ '' review required''))"

definition spec_permanent_components :: "HandoffContract \<Rightarrow> string list" where
  "spec_permanent_components c =
     (if reversibility c = Some PERMANENT then
        (if operation_type c = OT_DDL then [''DDL schema change''] else [])
        @ map (\<lambda>t. ''External '' @ et_extension t @ '' trigger: '' @ et_trigger_name t) (external_triggers c)
        @ (if primary_table c \<noteq> [] then [''Row deletion from '' @ primary_table c] else [])
        @ map (\<lambda>x. ''Cascade deletion from '' @ ce_table x @ '' (~'' @ show_int (ce_estimated_rows x) @ '' rows)'') (cascade c)
      else [])"

section \<open>Lemmas\<close>

interpretation analysis_node: agent_step "run_analysis az" for az
  by unfold_locales (use analyzer_node.keeps analyzer_node.keeps_verdict in \<open>auto simp: run_analysis_def\<close>)

section \<open>Properties\<close>

text \<open>
  C30. The agent's classification against the documented priority order. Without confirmed
  point-in-time recovery, which the agent never claims, both agree on every operation without
  external triggers, and on DDL and unrecoverable changes with them; an unrecognised operation is
  PERMANENT for the agent (the documentation has PARTIAL at best). The one place where the agent is
  more lenient is a recoverable change with external triggers: documented as PERMANENT, classified
  as PARTIAL.
\<close>

theorem documented_reversibility:
  assumes "ta_has_permanent_side_effects ta \<longleftrightarrow> external_triggers c \<noteq> []"
  shows "reversibility (reversibility_step sf ta soft c)
    = Some (if operation_type c = OT_UNKNOWN then PERMANENT
            else if external_triggers c \<noteq> [] \<and> operation_type c \<noteq> OT_DDL
                    \<and> (operation_type c \<in> {OT_DELETE, OT_UPDATE} \<longrightarrow> soft) then PARTIAL
            else fst (spec_classify_reversibility enum c soft))"
  using assms
  by (cases "operation_type c")
    (simp_all add: reversibility_step_def Let_def classify_reversibility_def classify_db_change_def DDL_OPERATIONS_def
      KNOWN_DML_OPERATIONS_def rr_result_def spec_classify_reversibility_def str_upper_def to_upper_def is_lower_def less_eq_char_def)

definition webhook_insert :: HandoffContract where
  "webhook_insert = (new_contract ''cg_1'' ''demo'' ''agent'' INTERNAL_SYSTEM 0 ''INSERT INTO orders VALUES (1)'')
     \<lparr> operation_type := OT_INSERT, primary_table := ''orders'', row_confidence := 1,
       external_triggers := [\<lparr> et_trigger_name = ''notify'', et_event = ''INSERT'', et_extension = ''pg_net'',
         et_estimated_calls = Some 1, et_target_endpoint = None, et_sandbox_log_entry = None \<rparr>] \<rparr>"

definition webhook_triggers :: TriggerAnalysis where
  "webhook_triggers = \<lparr> ta_table = ''orders'', ta_triggers = [], ta_has_permanent_side_effects = True,
     ta_non_transactional_triggers = [] \<rparr>"

theorem documented_reversibility_witness:
  "reversibility (reversibility_step (\<lambda>_. []) webhook_triggers False webhook_insert) = Some PARTIAL
   \<and> fst (spec_classify_reversibility (\<lambda>_. []) webhook_insert False) = PERMANENT"
proof -
  have "ta_has_permanent_side_effects webhook_triggers \<longleftrightarrow> external_triggers webhook_insert \<noteq> []"
    by (simp add: webhook_triggers_def webhook_insert_def)
  from documented_reversibility [OF this, of "\<lambda>_. []" False "\<lambda>_. []"] show ?thesis
    by (simp add: webhook_insert_def spec_classify_reversibility_def)
qed

text \<open>The difference reaches the human: such an operation gets a standard review, where the
  documented class asks for the full contract.\<close>

lemma lenient_class_lowers_tier:
  "fst (classify_risk (reversibility_step (\<lambda>_. []) webhook_triggers False webhook_insert)) = TIER_STANDARD
   \<and> fst (classify_risk (webhook_insert\<lparr> reversibility := Some (fst (spec_classify_reversibility (\<lambda>_. []) webhook_insert False)) \<rparr>))
     = TIER_FULL_CONTRACT"
  by code_simp

text \<open>On the tables and conditions the two parsers agree for ordinary statements; the earlier one
  takes a keyword inside a literal for the statement's own.\<close>

lemma parsers_agree:
  "list_all (\<lambda>q. parse_sql_intent q = spec_parse_sql_intent q)
     [''SELECT * FROM users WHERE id = 1'', ''DELETE FROM users WHERE a < 2 LIMIT 3'', ''UPDATE orders SET s = 1 WHERE id = 5;'',
      ''INSERT INTO notes (u) VALUES (1)'', ''TRUNCATE TABLE logs'', ''VACUUM'']"
  by code_simp

lemma parsers_differ:
  "parse_sql_intent ''SELECT * FROM a WHERE n = 1 -- update b'' = (''a'', ''n = 1 -- update b'')
   \<and> spec_parse_sql_intent ''SELECT * FROM a WHERE n = 1 -- update b'' = (''b'', ''n = 1 -- update b'')"
  by code_simp

end
