(* ===== verification/Context_State.thy ===== *)
theory Context_State
  imports Context_Sim
begin

text \<open>
  \<open>orchestrator/states/context_sim.py\<close>: the CONTEXT_SIM node, which delegates to the context agent,
  and the retrieval and simulation it had before. The earlier simulation is compared with the
  agent's: where they agree, and what the agent does better.
\<close>

section \<open>The node\<close>

text \<open>The node makes an agent for the operation of the contract and returns what it returns.\<close>

definition context_sim_state :: "context_sim_ctx \<Rightarrow> bool list \<Rightarrow> HandoffContract \<Rightarrow> HandoffContract eff" where
  "context_sim_state cs sched c =
     run_context_sim (cs\<lparr> cs_agent := (cs_agent cs)\<lparr> cx_agent := ''CONTEXT_SIM_AGENT'',
       cx_operation_id := operation_id c \<rparr> \<rparr>) sched c"

section \<open>Retrieval\<close>

definition client_task :: "string \<Rightarrow> string \<Rightarrow> pydict \<Rightarrow> pydict etask" where
  "client_task url tool args =
     Call \<lparr> mc_url = url, mc_tool = tool, mc_args = args \<rparr> (\<lambda>a. case a of Inl e \<Rightarrow> Done (Inl e) | Inr v \<Rightarrow> tlift (as_dict v))"

text \<open>The set of tables is sent as a list whose order Python chooses: \<open>enum\<close>.\<close>

definition old_table_set :: "HandoffContract \<Rightarrow> string set" where
  "old_table_set c = (if primary_table c \<noteq> [] then {primary_table c} else {}) \<union> set (map ce_table (cascade c))"

definition old_historical_operation :: "pyval \<Rightarrow> exn + HistoricalOperation" where
  "old_historical_operation v =
     (case as_dict v of Inl e \<Rightarrow> Inl e
      | Inr raw \<Rightarrow>
          (case (need_str (dict_get raw ''operation_id'' (PStr ''unknown'')), need_str (dict_get raw ''intent_summary'' (PStr [])),
                 str_list (dict_get raw ''tables'' (PList [])), need_str (dict_get raw ''outcome'' (PStr ''UNKNOWN'')),
                 need_str (dict_get raw ''decision_reason'' (PStr []))) of
             (Inr i, Inr s, Inr ts, Inr out, Inr reason) \<Rightarrow>
               (case (py_float (dict_get raw ''similarity_score'' (PFloat 0)), py_float (dict_get raw ''jaccard_score'' (PFloat 0)),
                      py_float (dict_get raw ''rerank_score'' (PFloat 0))) of
                  (Inr sim, Inr jac, Inr rer) \<Rightarrow>
                    Inr \<lparr> ho_operation_id = i, ho_intent_summary = s, ho_tables = ts, ho_outcome = out,
                          ho_decision_reason = reason, ho_similarity_score = sim, ho_jaccard_score = jac, ho_rerank_score = rer \<rparr>
                | _ \<Rightarrow> Inl (ValueError ''could not convert to float''))
           | _ \<Rightarrow> Inl (ValueError ''validation error for HistoricalOperation'')))"

definition old_run_retrieval :: "(string set \<Rightarrow> string list) \<Rightarrow> HandoffContract \<Rightarrow> HistoricalOperation list etask" where
  "old_run_retrieval enum c =
     tseq (client_task MEMORY_STORE_URL ''semantic_search''
             [(''intent'', PStr (if intent_summary c \<noteq> [] then intent_summary c else take 200 (raw_sql c))),
              (''tenant_id'', PStr (tenant_id c)), (''top_k'', PInt 20)])
       (\<lambda>d1. let cands = dict_get d1 ''candidates'' (PList []) in
         if \<not> truthy cands then Done (Inr [])
         else tseq (client_task MEMORY_STORE_URL ''filter_by_table_overlap''
                      [(''candidates'', cands), (''current_tables'', PList (map PStr (enum (old_table_set c)))),
                       (''tenant_id'', PStr (tenant_id c))])
           (\<lambda>d2. let filtered = dict_get d2 ''filtered'' cands in
             if \<not> truthy filtered then Done (Inr [])
             else tseq (client_task MEMORY_STORE_URL ''rerank_by_outcome''
                          [(''candidates'', filtered), (''tenant_id'', PStr (tenant_id c)), (''top_k'', PInt 3)])
               (\<lambda>d3. tseq (tlift (py_iter (dict_get d3 ''top3'' (PList []))))
                  (\<lambda>ranked. tlift (map_exn old_historical_operation ranked)))))"

section \<open>Simulation\<close>

record sim_outcome =
  so_skipped :: "string option"
  so_pre :: pyval
  so_post :: pyval
  so_trigger_log :: "pyval list"

definition old_tables_to_count :: "HandoffContract \<Rightarrow> string list" where
  "old_tables_to_count c = filter (\<lambda>t. t \<noteq> []) (primary_table c # map ce_table (cascade c))"

definition old_in_session :: "HandoffContract \<Rightarrow> pyval \<Rightarrow> sim_outcome etask" where
  "old_in_session c sid =
     (let tabs = PList (map PStr (old_tables_to_count c)); call = client_task TRANSACTION_SANDBOX_URL in
      tseq (call ''capture_diff'' [(''session_id'', sid), (''tables'', tabs), (''phase'', PStr ''pre'')])
        (\<lambda>pre. tseq (Call \<lparr> mc_url = TRANSACTION_SANDBOX_URL, mc_tool = ''execute_in_sandbox'',
                            mc_args = [(''session_id'', sid), (''sql'', PStr (raw_sql c))] \<rparr> Done)
          (\<lambda>_. tseq (call ''capture_diff'' [(''session_id'', sid), (''tables'', tabs), (''phase'', PStr ''post'')])
            (\<lambda>post. tseq (call ''get_trigger_log'' [(''session_id'', sid)])
              (\<lambda>tl. tseq (tlift (as_list (dict_get tl ''trigger_log'' (PList []))))
                 (\<lambda>tlog. Done (Inr \<lparr> so_skipped = None, so_pre = dict_get pre ''table_counts'' (PDict []),
                                     so_post = dict_get post ''table_counts'' (PDict []), so_trigger_log = tlog \<rparr>)))))))"

definition old_rollback :: "pyval \<Rightarrow> unit task" where
  "old_rollback sid =
     Call \<lparr> mc_url = TRANSACTION_SANDBOX_URL, mc_tool = ''rollback_sandbox'', mc_args = [(''session_id'', sid)] \<rparr> (\<lambda>_. Done ())"

definition old_simulation_attempt :: "HandoffContract \<Rightarrow> sim_outcome etask" where
  "old_simulation_attempt c =
     tseq (client_task TRANSACTION_SANDBOX_URL ''begin_sandbox'' [(''tenant_id'', PStr (tenant_id c))])
       (\<lambda>d. let sid = dict_get0 d ''session_id'' in
            if \<not> truthy sid then Done (Inl (RuntimeError ''Sandbox did not return a session_id''))
            else tfinally (old_in_session c sid) (old_rollback sid))"

text \<open>\<open>attempt k\<close> is how the attempt number \<open>k\<close> ends, a timeout included.\<close>

definition skipped :: "string \<Rightarrow> sim_outcome" where
  "skipped why = \<lparr> so_skipped = Some why, so_pre = PDict [], so_post = PDict [], so_trigger_log = [] \<rparr>"

definition old_run_simulation :: "(nat \<Rightarrow> exn + sim_outcome) \<Rightarrow> HandoffContract \<Rightarrow> (exn + sim_outcome) \<times> HandoffContract" where
  "old_run_simulation attempt c =
     (if primary_table c = [] then (Inr (skipped ''no_primary_table''), c)
      else if operation_type c = OT_SELECT then (Inr (skipped ''select_operation''), c)
      else (case fst (retry_with_backoff attempt 2 1 2) of
              Inr r \<Rightarrow> (Inr r, c)
            | Inl e \<Rightarrow> (Inl (RuntimeError (''Simulation failed after 2 attempts: '' @ exn_text e)),
                        c\<lparr> simulation_timeout := True \<rparr>)))"

definition old_delta :: "pyval \<Rightarrow> pyval \<Rightarrow> string \<Rightarrow> exn + int option" where
  "old_delta pre post t = map_sum id (map_option (\<lambda>(a, b). \<bar>a - b\<bar>)) (both_counts pre post t)"

definition old_actual_entry :: "pyval \<Rightarrow> pyval \<Rightarrow> CascadeEntry \<Rightarrow> exn + CascadeEntry" where
  "old_actual_entry pre post e =
     map_sum id (\<lambda>o'. case o' of None \<Rightarrow> e | Some d \<Rightarrow> e\<lparr> ce_actual_rows := Some d \<rparr>) (old_delta pre post (ce_table e))"

definition old_apply_simulation_result :: "HandoffContract \<Rightarrow> sim_outcome \<Rightarrow> exn + HandoffContract" where
  "old_apply_simulation_result c sim =
     (if so_skipped sim \<noteq> None then Inr (c\<lparr> simulation_available := True, simulation_executed := False \<rparr>)
      else (case (if primary_table c = [] then Inr None else old_delta (so_pre sim) (so_post sim) (primary_table c)) of
              Inl e \<Rightarrow> Inl e
            | Inr primary \<Rightarrow>
                (case map_exn (old_actual_entry (so_pre sim) (so_post sim)) (cascade c) of
                   Inl e \<Rightarrow> Inl e
                 | Inr entries \<Rightarrow>
                     (let c1 = (case primary of None \<Rightarrow> c | Some n \<Rightarrow> c\<lparr> actual_primary_rows := Some n \<rparr>) in
                      Inr (c1\<lparr> actual_cascade := entries, sandbox_trigger_log := so_trigger_log sim,
                               simulation_executed := True, simulation_available := True \<rparr>)))))"

section \<open>Lemmas\<close>

text \<open>No count is negative: the sandbox server counts -1 for a table it could not count.\<close>

definition counts_available :: "pyval \<Rightarrow> pyval \<Rightarrow> string \<Rightarrow> bool" where
  "counts_available pre post t = (case both_counts pre post t of Inr (Some (a, b)) \<Rightarrow> 0 \<le> a \<and> 0 \<le> b | _ \<Rightarrow> True)"

lemma old_delta_agrees: "counts_available pre post t \<Longrightarrow> old_delta pre post t = row_delta pre post t"
  by (auto simp: counts_available_def old_delta_def row_delta_def split: sum.splits option.splits)

lemma old_entry_agrees: "counts_available pre post (ce_table e) \<Longrightarrow> old_actual_entry pre post e = actual_entry pre post e"
  by (simp add: old_actual_entry_def actual_entry_def old_delta_agrees split: sum.splits option.splits)

lemma map_exn_cong_on: "list_all (\<lambda>x. f x = g x) xs \<Longrightarrow> map_exn f xs = map_exn g xs"
  by (induction xs) (auto split: sum.splits)

text \<open>The node never fails, keeps the identity of the operation, runs no SQL but that of the contract and
  logs its output last, however retrieval and simulation are interleaved.\<close>

interpretation context_state: agent_step "context_sim_state cx sched" for cx sched
  by unfold_locales (auto simp: context_sim_state_def dest: context_node.keeps context_node.keeps_verdict)

lemma context_sim_state_contained:
  obtains c' cs cl where "context_sim_state cx sched c l = (Inr c', l @ cs @ [cl])"
    and "contract_identity c' = contract_identity c" and "mc_url cl = AUDIT_LOGGER_URL"
    and "list_all (runs_only (raw_sql c)) cs"
proof -
  let ?cx = "cx\<lparr> cs_agent := (cs_agent cx)\<lparr> cx_agent := ''CONTEXT_SIM_AGENT'', cx_operation_id := operation_id c \<rparr> \<rparr>"
  obtain cs cl where l: "snd (run_context_sim ?cx sched c l) = l @ cs @ [cl]" "mc_url cl = AUDIT_LOGGER_URL"
    "list_all (runs_only (raw_sql c)) cs" by (rule run_context_sim_log)
  have "\<exists>c'. fst (run_context_sim ?cx sched c l) = Inr c'" by (simp add: run_context_sim_def Let_def case_prod_beta)
  then obtain c' where c': "fst (run_context_sim ?cx sched c l) = Inr c'" by blast
  with l(1) have r: "run_context_sim ?cx sched c l = (Inr c', l @ cs @ [cl])" by (metis prod.collapse)
  then have "contract_identity c' = contract_identity c" by (rule context_node.keeps_identity)
  with r l(2,3) show ?thesis using that unfolding context_sim_state_def by blast
qed

section \<open>Properties\<close>

text \<open>
  The agent's simulation computes what the node's own one did: on a contract that has no
  simulation result yet, with the same counts and trigger log, both write the same contract or
  fail alike, provided that no count is negative. A negative count marks a table the sandbox could
  not count.
\<close>

theorem simulation_state_agrees:
  assumes "list_all (counts_available pre post) (primary_table c # map ce_table (cascade c))"
    and "actual_primary_rows c = None" and "\<not> simulation_timeout c"
  shows "old_apply_simulation_result c \<lparr> so_skipped = None, so_pre = pre, so_post = post, so_trigger_log = tlog \<rparr>
    = map_sum id (\<lambda>r. apply_simulation r c) (build_result c pre post tlog)"
proof -
  have "map_exn (old_actual_entry pre post) (cascade c) = map_exn (actual_entry pre post) (cascade c)"
    using assms(1) by (intro map_exn_cong_on) (auto simp: list_all_iff old_entry_agrees)
  moreover have "old_delta pre post (primary_table c) = row_delta pre post (primary_table c)"
    using assms(1) by (simp add: old_delta_agrees)
  ultimately show ?thesis using assms(2,3)
    by (simp add: old_apply_simulation_result_def build_result_def apply_simulation_def sim_default_def Let_def
        split: sum.splits option.splits)
qed

theorem simulation_state_agrees_witness:
  "map_sum id actual_primary_rows (old_apply_simulation_result sim_contract
     \<lparr> so_skipped = None, so_pre = PDict [(''orders'', PInt 7)], so_post = PDict [(''orders'', PInt 2)], so_trigger_log = [] \<rparr>)
   = Inr (Some 5)"
proof -
  let ?a = "PDict [(''orders'', PInt 7)]" and ?b = "PDict [(''orders'', PInt 2)]"
  have "list_all (counts_available ?a ?b) (primary_table sim_contract # map ce_table (cascade sim_contract))"
    "actual_primary_rows sim_contract = None" "\<not> simulation_timeout sim_contract" by code_simp+
  moreover have "map_sum id (\<lambda>r. actual_primary_rows (apply_simulation r sim_contract)) (build_result sim_contract ?a ?b []) = Inr (Some 5)"
    by code_simp
  ultimately show ?thesis
    using simulation_state_agrees [of ?a ?b sim_contract "[]"] by (cases "build_result sim_contract ?a ?b []") simp_all
qed

text \<open>With a table that could not be counted the earlier simulation reports that no row is affected,
  the agent's that the number is unknown.\<close>

lemma uncounted_table_reported_as_zero:
  assumes "primary_table c \<noteq> []" and "cascade c = []" and "actual_primary_rows c = None"
    and "pre = PDict [(primary_table c, PInt (- 1))]"
  shows "map_sum id actual_primary_rows (old_apply_simulation_result c
      \<lparr> so_skipped = None, so_pre = pre, so_post = pre, so_trigger_log = [] \<rparr>) = Inr (Some 0)"
    and "map_sum id sm_actual_primary_rows (build_result c pre pre []) = Inr None"
  using assms by (simp_all add: old_apply_simulation_result_def old_delta_def build_result_def row_delta_def
      both_counts_def count_of_def sim_default_def)

end
