(* ===== verification/Agent_Service.thy ===== *)
theory Agent_Service
  imports Analysis_State Context_State Contract_Agent
begin

text \<open>
  \<open>agents/main.py\<close>: the three agents as HTTP endpoints, and the CONTRACT node of
  \<open>orchestrator/states/contract.py\<close>. Which agents could be imported is fixed when the process starts.
  Validation and serialisation of a contract by pydantic are arguments.
\<close>

section \<open>Endpoints\<close>

record readiness =
  rd_analyzer :: bool
  rd_context_sim :: bool
  rd_contract :: bool

definition all_ready :: "readiness \<Rightarrow> bool" where
  "all_ready r = (rd_analyzer r \<and> rd_context_sim r \<and> rd_contract r)"

definition readiness_dict :: "readiness \<Rightarrow> pydict" where
  "readiness_dict r = [(''analyzer'', PBool (rd_analyzer r)), (''context_sim'', PBool (rd_context_sim r)),
     (''contract'', PBool (rd_contract r))]"

text \<open>A status code with the body of the response.\<close>

definition health :: "readiness \<Rightarrow> string \<Rightarrow> int \<times> pydict" where
  "health r now =
     (if \<not> all_ready r then (503, (''status'', PStr ''degraded'') # readiness_dict r)
      else (200, [(''status'', PStr ''ok''), (''service'', PStr ''contragate-agents''), (''version'', PStr ''0.2.0''),
                  (''agents'', PDict (readiness_dict r)), (''timestamp'', PStr (now @ ''Z''))]))"

record codec =
  cd_validate :: "pydict \<Rightarrow> exn + HandoffContract"
  cd_dump :: "HandoffContract \<Rightarrow> pydict"

text \<open>What the three endpoints share.\<close>

definition agent_endpoint ::
  "bool \<Rightarrow> string \<Rightarrow> codec \<Rightarrow> (HandoffContract \<Rightarrow> HandoffContract eff) \<Rightarrow> pydict \<Rightarrow> pydict eff" where
  "agent_endpoint ready name cd agent body =
     (if \<not> ready then lift_exn (Inl (HTTPException 503 (name @ '' is not ready'')))
      else bind_eff (lift_exn (cd_validate cd body)) (\<lambda>c. bind_eff (agent c) (\<lambda>c'. ret [(''contract'', PDict (cd_dump cd c'))])))"

definition post_analyze :: "readiness \<Rightarrow> codec \<Rightarrow> analyzer_ctx \<Rightarrow> pydict \<Rightarrow> pydict eff" where
  "post_analyze r cd az = agent_endpoint (rd_analyzer r) ''AnalyzerAgent'' cd (analyze az)"

definition post_context_sim :: "readiness \<Rightarrow> codec \<Rightarrow> context_sim_ctx \<Rightarrow> bool list \<Rightarrow> pydict \<Rightarrow> pydict eff" where
  "post_context_sim r cd cs sched = agent_endpoint (rd_context_sim r) ''ContextSimAgent'' cd (run_context_sim cs sched)"

definition post_contract :: "readiness \<Rightarrow> codec \<Rightarrow> contract_ctx \<Rightarrow> pydict \<Rightarrow> pydict eff" where
  "post_contract r cd cc = agent_endpoint (rd_contract r) ''ContractAgent'' cd (run_contract_agent cc)"

section \<open>The CONTRACT node\<close>

definition run_contract :: "contract_ctx \<Rightarrow> HandoffContract \<Rightarrow> HandoffContract eff" where
  "run_contract cc c = run_contract_agent cc c"

interpretation contract_state: agent_step "run_contract cc" for cc
  by unfold_locales (use contract_node.keeps contract_node.keeps_verdict in \<open>auto simp: run_contract_def\<close>)

section \<open>What a caller may rely on\<close>

context agent_step
begin

lemma endpoint_keeps:
  assumes "agent_endpoint ready name cd step body l = (Inr resp, l')"
  obtains c c' where "cd_validate cd body = Inr c" "resp = [(''contract'', PDict (cd_dump cd c'))]"
    "contract_identity c' = contract_identity c" "decision_of c' = decision_of c"
    "auto_reject_triggered c' = auto_reject_triggered c" "provenance_grows c c'" "ready"
proof -
  from assms obtain c c' l1 where c: "cd_validate cd body = Inr c" "step c l = (Inr c', l1)" "ready"
    "resp = [(''contract'', PDict (cd_dump cd c'))]"
    by (auto simp: agent_endpoint_def bind_eff_def eff_simps split: if_splits sum.splits prod.splits)
  with keeps [OF c(2)] keeps_verdict [OF c(2)] show ?thesis by (intro that [of c c']) auto
qed

end

text \<open>A caller that sends a contract from endpoint to endpoint, as the orchestrator does with the
  agents in process.\<close>

datatype agent_call = Ask_analyzer analyzer_ctx | Ask_context context_sim_ctx "bool list" | Ask_contract contract_ctx

fun serve :: "readiness \<Rightarrow> codec \<Rightarrow> agent_call \<Rightarrow> pydict \<Rightarrow> pydict eff" where
  "serve r cd (Ask_analyzer az) = post_analyze r cd az"
| "serve r cd (Ask_context cs sched) = post_context_sim r cd cs sched"
| "serve r cd (Ask_contract cc) = post_contract r cd cc"

fun serve_all :: "readiness \<Rightarrow> codec \<Rightarrow> agent_call list \<Rightarrow> pydict \<Rightarrow> pydict eff" where
  "serve_all r cd [] body = ret body"
| "serve_all r cd (a # as) body =
     bind_eff (serve r cd a body) (\<lambda>resp. bind_eff (lift_exn (as_dict (dict_get0 resp ''contract''))) (serve_all r cd as))"

definition undecided_change :: "HandoffContract \<Rightarrow> HandoffContract \<Rightarrow> bool" where
  "undecided_change c c' \<longleftrightarrow> contract_identity c' = contract_identity c \<and> decision_of c' = decision_of c
     \<and> auto_reject_triggered c' = auto_reject_triggered c \<and> provenance_grows c c'"

fun available :: "readiness \<Rightarrow> agent_call \<Rightarrow> bool" where
  "available r (Ask_analyzer az) = rd_analyzer r"
| "available r (Ask_context cs sched) = rd_context_sim r"
| "available r (Ask_contract cc) = rd_contract r"

lemma serve_keeps:
  assumes "serve r cd a body l = (Inr resp, l')"
  obtains c c' where "cd_validate cd body = Inr c" "resp = [(''contract'', PDict (cd_dump cd c'))]" "undecided_change c c'"
    "available r a"
proof (cases a)
  case (Ask_analyzer az)
  from assms [unfolded Ask_analyzer serve.simps post_analyze_def] show ?thesis
    by (rule analyzer_node.endpoint_keeps) (simp add: that undecided_change_def Ask_analyzer)
next
  case (Ask_context cs sched)
  from assms [unfolded Ask_context serve.simps post_context_sim_def] show ?thesis
    by (rule context_node.endpoint_keeps) (simp add: that undecided_change_def Ask_context)
next
  case (Ask_contract cc)
  from assms [unfolded Ask_contract serve.simps post_contract_def] show ?thesis
    by (rule contract_node.endpoint_keeps) (simp add: that undecided_change_def Ask_contract)
qed

lemma undecided_change_trans: "undecided_change a b \<Longrightarrow> undecided_change b c \<Longrightarrow> undecided_change a c"
  by (auto simp: undecided_change_def intro: provenance_grows_trans)

section \<open>Properties\<close>

text \<open>
  The agents behind HTTP decide nothing. If what the service dumps is read back as it was, then a
  contract sent through any sequence of the three endpoints comes back with the same identity, the
  same decision and policy verdict, and its provenance only grown, whatever the services and the
  language models answer. It gets an answer only if every agent asked could be imported, and
  the health check is good exactly if all could.
\<close>

theorem agent_service_decides_nothing:
  assumes "\<And>c d. cd_validate cd (cd_dump cd c) = Inr d \<Longrightarrow> d = c"
    and "serve_all r cd as (cd_dump cd c) l = (Inr body, l')"
  shows "\<exists>c'. body = cd_dump cd c' \<and> undecided_change c c' \<and> list_all (available r) as
    \<and> (fst (health r now) = 200 \<longleftrightarrow> all_ready r)"
proof -
  have "\<exists>c'. body = cd_dump cd c' \<and> undecided_change c c' \<and> list_all (available r) as" using assms(2)
  proof (induction as arbitrary: c l)
    case Nil
    then show ?case by (auto simp: eff_simps undecided_change_def provenance_grows_def)
  next
    case (Cons a as)
    then obtain resp l1 where s: "serve r cd a (cd_dump cd c) l = (Inr resp, l1)"
      by (auto simp: bind_eff_def split: prod.splits sum.splits)
    from serve_keeps [OF s] obtain d c1 where d: "cd_validate cd (cd_dump cd c) = Inr d"
      "resp = [(''contract'', PDict (cd_dump cd c1))]" "undecided_change d c1" "available r a" .
    with assms(1) have "d = c" by blast
    from Cons.prems s d(2) have "serve_all r cd as (cd_dump cd c1) l1 = (Inr body, l')"
      by (simp add: bind_eff_def eff_simps dict_get_def as_dict_def)
    from Cons.IH [OF this] d(3,4) \<open>d = c\<close> show ?case by (auto intro: undecided_change_trans)
  qed
  then show ?thesis by (auto simp: health_def)
qed

definition twin_codec :: "HandoffContract \<Rightarrow> HandoffContract \<Rightarrow> codec" where
  "twin_codec c0 c1 =
     \<lparr> cd_validate = (\<lambda>b. if b = [(''1'', PNone)] then Inr c1 else if b = [(''0'', PNone)] then Inr c0 else Inl (ValueError ''contract'')),
       cd_dump = (\<lambda>c. if c = c1 then [(''1'', PNone)] else if c = c0 then [(''0'', PNone)] else []) \<rparr>"

definition served_contract :: HandoffContract where
  "served_contract = projr (fst (run_contract_agent sample_ctx sim_contract []))"

theorem agent_service_decides_nothing_witness:
  "fst (serve_all \<lparr> rd_analyzer = False, rd_context_sim = False, rd_contract = True \<rparr> (twin_codec sim_contract served_contract)
      [Ask_contract sample_ctx] (cd_dump (twin_codec sim_contract served_contract) sim_contract) [])
     = Inr [(''1'', PNone)]
   \<and> undecided_change sim_contract served_contract"
proof -
  let ?cd = "twin_codec sim_contract served_contract" and ?r = "\<lparr> rd_analyzer = False, rd_context_sim = False, rd_contract = True \<rparr>"
  have rt: "d = c" if "cd_validate ?cd (cd_dump ?cd c) = Inr d" for c d
    using that by (auto simp: twin_codec_def split: if_splits)
  have ne: "sim_contract \<noteq> served_contract"
  proof
    assume "sim_contract = served_contract"
    then have "length (workflow_provenance sim_contract) = length (workflow_provenance served_contract)" by simp
    moreover have "length (workflow_provenance sim_contract) = 0" "length (workflow_provenance served_contract) = 1" by code_simp+
    ultimately show False by simp
  qed
  obtain l' where "run_contract_agent sample_ctx sim_contract [] = (Inr served_contract, l')"
    by (cases "assemble sample_ctx sim_contract") (auto simp: served_contract_def run_contract_agent_def Let_def)
  then have run: "serve_all ?r ?cd [Ask_contract sample_ctx] (cd_dump ?cd sim_contract) [] = (Inr (cd_dump ?cd served_contract), l')"
    using ne by (simp add: post_contract_def agent_endpoint_def bind_eff_def eff_simps dict_get_def as_dict_def)
      (simp add: twin_codec_def bind_eff_def eff_simps)
  from agent_service_decides_nothing [OF rt run] obtain c' where "cd_dump ?cd served_contract = cd_dump ?cd c'" "undecided_change sim_contract c'"
    by blast
  then have "undecided_change sim_contract served_contract" using ne by (auto simp: twin_codec_def split: if_splits)
  with run show ?thesis by (simp add: twin_codec_def)
qed

end
