(* ===== verification/Embeddings.thy ===== *)
theory Embeddings
  imports Memory_Store "HOL-Library.Word"
begin

text \<open>
  The providers of \<open>mcp_servers/memory_store/embeddings.py\<close> behind \<open>get_embedding\<close>. The mock
  provider expands the MD5 digest of the text by a linear congruential generator on 32-bit words;
  the digest and the square fsqrt of the floating-point unit are arguments. The other provider
  asks one of two third-party packages, each of which may be absent.
\<close>

section \<open>The mock provider\<close>

text \<open>\<open>struct.unpack("4I", h)\<close> on a little-endian machine.\<close>

fun unpack_words :: "8 word list \<Rightarrow> 32 word list" where
  "unpack_words (a # b # c # d # bs) =
     (ucast a + 0x100 * ucast b + 0x10000 * ucast c + 0x1000000 * ucast d) # unpack_words bs"
| "unpack_words bs = []"

definition lcg :: "32 word \<Rightarrow> 32 word" where
  "lcg r = r * 1664525 + 1013904223"

fun lcg_values :: "nat \<Rightarrow> 32 word \<Rightarrow> 32 word list" where
  "lcg_values 0 r = []"
| "lcg_values (Suc n) r = lcg r # lcg_values n (lcg r)"

definition centred :: "32 word \<Rightarrow> rat" where
  "centred r = of_int (uint r) / 0x80000000 - 1"

definition raw_vector :: "nat \<Rightarrow> 32 word list \<Rightarrow> rat list" where
  "raw_vector dims seeds = take dims (concat (map (\<lambda>s. map centred (lcg_values (dims div 4) s)) seeds))"

definition sum_squares :: "rat list \<Rightarrow> rat" where
  "sum_squares v = sum_list (map (\<lambda>x. x * x) v)"

definition normalise :: "(rat \<Rightarrow> rat) \<Rightarrow> rat list \<Rightarrow> rat list" where
  "normalise fsqrt v = (let n = fsqrt (sum_squares v); n' = (if n = 0 then 1 else n) in map (\<lambda>x. x / n') v)"

definition mock_embedding :: "(string \<Rightarrow> 8 word list) \<Rightarrow> (rat \<Rightarrow> rat) \<Rightarrow> nat \<Rightarrow> string \<Rightarrow> embedding" where
  "mock_embedding md5 fsqrt dims t = normalise fsqrt (raw_vector dims (unpack_words (md5 t)))"

section \<open>The Voyage provider\<close>

datatype 'a package = Not_installed string | Installed 'a

type_synonym embedder = "string \<Rightarrow> exn + embedding"

definition voyage_embedding ::
  "string option \<Rightarrow> string option \<Rightarrow> embedder package \<Rightarrow> embedder package \<Rightarrow> string \<Rightarrow> exn + embedding" where
  "voyage_embedding voyage_key anthropic_key voyageai anthropic t =
     (if voyage_key \<in> {None, Some []} \<and> anthropic_key \<in> {None, Some []} then
        Inl (EmbeddingUnavailableError ''VOYAGE_API_KEY (or ANTHROPIC_API_KEY) is required for embedding generation.'')
      else (case voyageai of
        Installed ask \<Rightarrow> ask t
      | Not_installed _ \<Rightarrow>
          (let unavailable = (\<lambda>why. Inl (EmbeddingUnavailableError
                 (''Neither voyageai nor anthropic.embeddings is available: '' @ why))) in
           case anthropic of
             Not_installed why \<Rightarrow> unavailable why
           | Installed ask \<Rightarrow>
               (case ask t of
                  Inl (AttributeError why) \<Rightarrow> unavailable why
                | r \<Rightarrow> r))))"

definition clear_cache :: "(string \<times> embedding) list \<Rightarrow> (string \<times> embedding) list" where
  "clear_cache cache = []"

definition cache_size :: "(string \<times> embedding) list \<Rightarrow> nat" where
  "cache_size cache = length cache"

section \<open>Lemmas\<close>

text \<open>The wrap-around of the word is the mask of the source.\<close>

lemma uint_lcg: "uint (lcg r) = (uint r * 1664525 + 1013904223) mod 2 ^ 32"
  by (simp add: lcg_def uint_word_arith_bintrs take_bit_eq_mod mod_simps)

lemma length_lcg_values [simp]: "length (lcg_values n r) = n"
  by (induction n arbitrary: r) auto

lemma centred_bounds: "- 1 \<le> centred r" "centred r < 1"
proof -
  have "0 \<le> uint r" "uint r < 2 ^ 32" using uint_lt2p [of r] by simp_all
  then have "0 \<le> (of_int (uint r) :: rat)" "(of_int (uint r) :: rat) < of_int (2 ^ 32)"
    by (simp_all only: of_int_less_iff of_int_0_le_iff)
  then show "- 1 \<le> centred r" "centred r < 1" by (simp_all add: centred_def field_simps)
qed

lemma length_raw_vector: "length (raw_vector dims seeds) = min dims (length seeds * (dims div 4))"
  by (simp add: raw_vector_def length_concat o_def sum_list_triv)

lemma raw_vector_bounds: "x \<in> set (raw_vector dims seeds) \<Longrightarrow> - 1 \<le> x \<and> x < 1"
  by (auto simp: raw_vector_def centred_bounds dest!: in_set_takeD)

lemma sum_squares_scale: "sum_squares (map (\<lambda>x. x / n) v) = sum_squares v / (n * n)"
  by (induction v) (simp_all add: sum_squares_def add_divide_distrib)

lemma length_unpack_words: "length (unpack_words bs) = length bs div 4"
  by (induction bs rule: unpack_words.induct) auto

lemma quotient_near_one:
  fixes s m \<epsilon> :: rat
  assumes "0 < s" and "\<bar>m - s\<bar> \<le> \<epsilon> * s" and "\<epsilon> < 1"
  shows "\<bar>s / m - 1\<bar> \<le> \<epsilon> / (1 - \<epsilon>)"
proof -
  have m: "(1 - \<epsilon>) * s \<le> m" using assms(2) by (simp add: algebra_simps abs_le_iff)
  have pos: "0 < (1 - \<epsilon>) * s" using assms(1,3) by simp
  with m have "0 < m" by linarith
  then have "s / m - 1 = (s - m) / m" by (simp add: diff_divide_distrib)
  with \<open>0 < m\<close> have "\<bar>s / m - 1\<bar> = \<bar>m - s\<bar> / m" by (simp add: abs_minus_commute)
  also have "\<dots> \<le> (\<epsilon> * s) / m" using assms(2) \<open>0 < m\<close> by (simp add: divide_right_mono)
  also have "\<dots> \<le> (\<epsilon> * s) / ((1 - \<epsilon>) * s)"
    using assms m pos \<open>0 < m\<close> by (intro divide_left_mono mult_pos_pos) (auto intro: order_trans [OF abs_ge_zero])
  also have "\<dots> = \<epsilon> / (1 - \<epsilon>)" using assms(1) by simp
  finally show ?thesis .
qed

section \<open>Properties\<close>

text \<open>
  Mock embeddings are unit vectors, up to the rounding of the square root: for a 16-byte digest
  the vector has four entries per full group of four dimensions (so it is too short exactly when
  the configured dimension is no multiple of four), and if the square root of the sum of squares is
  off by a relative error \<open>\<epsilon>\<close> of its square, the length of the vector is off by at most
  \<open>\<epsilon> / (1 - \<epsilon>)\<close>. The generator's values stay in 32 bits.
\<close>

theorem mock_embedding_normal:
  assumes "length (md5 t) = 16" and "s = sum_squares (raw_vector dims (unpack_words (md5 t)))" and "0 < s"
    and "\<bar>fsqrt s * fsqrt s - s\<bar> \<le> \<epsilon> * s" and "\<epsilon> < 1"
  shows "length (mock_embedding md5 fsqrt dims t) = 4 * (dims div 4)
    \<and> (length (mock_embedding md5 fsqrt dims t) = dims \<longleftrightarrow> 4 dvd dims)
    \<and> \<bar>sum_squares (mock_embedding md5 fsqrt dims t) - 1\<bar> \<le> \<epsilon> / (1 - \<epsilon>)
    \<and> uint (lcg r) = (uint r * 1664525 + 1013904223) mod 2 ^ 32"
proof -
  have len: "length (mock_embedding md5 fsqrt dims t) = 4 * (dims div 4)"
    using assms(1) by (simp add: mock_embedding_def normalise_def Let_def length_raw_vector length_unpack_words)
  have "fsqrt s \<noteq> 0"
  proof
    assume "fsqrt s = 0"
    with assms(3,4) have "s \<le> \<epsilon> * s" by simp
    with assms(3,5) show False by (simp add: mult_le_cancel_right1)
  qed
  then have "sum_squares (mock_embedding md5 fsqrt dims t) = s / (fsqrt s * fsqrt s)"
    by (simp add: mock_embedding_def normalise_def Let_def assms(2) sum_squares_scale)
  moreover have "4 * (dims div 4) = dims \<longleftrightarrow> 4 dvd dims" by presburger
  ultimately show ?thesis using quotient_near_one [OF assms(3-5)] len by (simp add: uint_lcg)
qed

theorem mock_embedding_normal_witness:
  "length (mock_embedding (\<lambda>_. replicate 16 0) (\<lambda>_. 2 * (1 - 1013904223 / 0x80000000)) 4 ''text'') = 4
   \<and> sum_squares (mock_embedding (\<lambda>_. replicate 16 0) (\<lambda>_. 2 * (1 - 1013904223 / 0x80000000)) 4 ''text'') = 1"
proof -
  have seeds: "unpack_words (replicate 16 0) = [0, 0, 0, 0]" by code_simp
  have v: "raw_vector 4 [0, 0, 0, 0] = (let x = 1013904223 / 0x80000000 - 1 in [x, x, x, x])"
    by (simp add: raw_vector_def centred_def lcg_def Let_def)
  have "sum_squares (raw_vector 4 (unpack_words (replicate 16 0))) = 4 * (1 - 1013904223 / 0x80000000) * (1 - 1013904223 / 0x80000000)"
    unfolding seeds v by (simp add: sum_squares_def Let_def)
  from mock_embedding_normal [of "\<lambda>_. replicate 16 0" "''text''" _ 4 "\<lambda>_. 2 * (1 - 1013904223 / 0x80000000)" 0 0, OF _ this [symmetric]]
  show ?thesis by simp
qed

end
