(* ===== verification/Connections.thy ===== *)
theory Connections
  imports Sandbox_Server
begin

text \<open>
  \<open>sql_analysis_lib/connection.py\<close>: how the two databases are told apart, and
  \<open>_get_staging_conn\<close> of \<open>mcp_servers/transaction_sandbox/server.py\<close>, which chooses the database
  of the sandbox. The process environment is a map from names to strings; a connection is what the
  library knows of it: the URL and the settings of its session. Whether the server answers is an
  argument.
\<close>

datatype config_error = Missing_variable string | EnvironmentError string | Invalid_number string | Connect_failed string

type_synonym environ = "string \<Rightarrow> string option"

record ConnectionConfig =
  cc_production_url :: string
  cc_staging_url :: string
  cc_statement_timeout_ms :: int

definition from_env :: "environ \<Rightarrow> config_error + ConnectionConfig" where
  "from_env env =
     (case env ''DATABASE_URL'' of
        None \<Rightarrow> Inl (Missing_variable ''DATABASE_URL'')
      | Some purl \<Rightarrow>
          (case env ''STAGING_DATABASE_URL'' of
             None \<Rightarrow> Inl (EnvironmentError (''STAGING_DATABASE_URL must be set explicitly. ''
               @ ''Falling back to DATABASE_URL is prohibited '' @ em_dash
               @ '' the staging database must be a separate, writable instance, never the production database. ''
               @ ''(ContraGate security invariant #4: no production writes from simulation)''))
           | Some staging \<Rightarrow>
               (if staging = purl then Inl (EnvironmentError (''STAGING_DATABASE_URL must not equal DATABASE_URL. ''
                  @ ''The staging sandbox instance must be physically separate from ''
                  @ ''production to prevent simulation writes from touching production data. ''
                  @ ''(ContraGate security invariant #4)''))
                else (let t = (case env ''STATEMENT_TIMEOUT_MS'' of None \<Rightarrow> ''5000'' | Some s \<Rightarrow> s) in
                      case parse_int (str_strip t) of
                        None \<Rightarrow> Inl (Invalid_number t)
                      | Some n \<Rightarrow> Inr \<lparr> cc_production_url = purl, cc_staging_url = staging, cc_statement_timeout_ms = n \<rparr>))))"

record connection =
  cn_url :: string
  cn_timeout_ms :: "int option"
  cn_read_only :: bool

definition connect :: "(string \<Rightarrow> string option) \<Rightarrow> string \<Rightarrow> config_error + connection" where
  "connect refused url = (case refused url of Some why \<Rightarrow> Inl (Connect_failed why)
     | None \<Rightarrow> Inr \<lparr> cn_url = url, cn_timeout_ms = None, cn_read_only = False \<rparr>)"

definition apply_timeout :: "connection \<Rightarrow> int \<Rightarrow> connection" where
  "apply_timeout conn ms = conn\<lparr> cn_timeout_ms := Some ms \<rparr>"

definition get_production_conn :: "(string \<Rightarrow> string option) \<Rightarrow> ConnectionConfig \<Rightarrow> config_error + connection" where
  "get_production_conn refused cfg =
     map_sum id (\<lambda>conn. (apply_timeout conn (cc_statement_timeout_ms cfg))\<lparr> cn_read_only := True \<rparr>)
       (connect refused (cc_production_url cfg))"

definition get_staging_conn :: "(string \<Rightarrow> string option) \<Rightarrow> ConnectionConfig \<Rightarrow> config_error + connection" where
  "get_staging_conn refused cfg =
     map_sum id (\<lambda>conn. apply_timeout conn (cc_statement_timeout_ms cfg)) (connect refused (cc_staging_url cfg))"

text \<open>The sandbox server's own choice.\<close>

definition sandbox_url :: "environ \<Rightarrow> string" where
  "sandbox_url env = (case env ''STAGING_DATABASE_URL'' of None \<Rightarrow> [] | Some u \<Rightarrow> u)"

section \<open>Properties\<close>

lemma from_env_separates: "from_env env = Inr cfg \<Longrightarrow> cc_staging_url cfg \<noteq> cc_production_url cfg"
  by (auto simp: from_env_def Let_def split: option.splits if_splits)

text \<open>
  C35. The guard between the databases, and that the sandbox does not use it. Connections made from a
  configuration of \<open>from_env\<close> lead to two different URLs, and the one to production is read-only
  with the configured timeout. The transaction sandbox reads the variable itself: with the staging
  URL set to production's, \<open>from_env\<close> refuses, but the sandbox opens its session there, and a
  statement with a COMMIT of its own changes the production data for good.
\<close>

theorem sandbox_bypasses_staging_guard:
  assumes "from_env env = Inr cfg" and "get_production_conn refused cfg = Inr p" and "get_staging_conn refused cfg = Inr q"
    and "env' ''DATABASE_URL'' = Some u" and "env' ''STAGING_DATABASE_URL'' = Some u" and "u \<noteq> []"
    and "sg_url sg = sandbox_url env'" and "sg_exec sg sql (sb_committed s) = Inr r" and "er_commits r"
  shows "cn_url p \<noteq> cn_url q \<and> cn_read_only p \<and> cn_timeout_ms p = Some (cc_statement_timeout_ms cfg)
    \<and> cn_timeout_ms q = Some (cc_statement_timeout_ms cfg)
    \<and> (\<exists>why. from_env env' = Inl (EnvironmentError why))
    \<and> sb_committed (snd (rollback_sandbox sid (snd (execute_in_sandbox sg sid sql (snd (begin_sandbox sg sid s)))))) = er_data r"
proof -
  have "cn_url p = cc_production_url cfg" "cn_url q = cc_staging_url cfg" "cn_read_only p"
    "cn_timeout_ms p = Some (cc_statement_timeout_ms cfg)" "cn_timeout_ms q = Some (cc_statement_timeout_ms cfg)"
    using assms(2,3) by (auto simp: get_production_conn_def get_staging_conn_def connect_def apply_timeout_def split: option.splits)
  with from_env_separates [OF assms(1)] have "cn_url p \<noteq> cn_url q \<and> cn_read_only p \<and> cn_timeout_ms p = Some (cc_statement_timeout_ms cfg)
    \<and> cn_timeout_ms q = Some (cc_statement_timeout_ms cfg)" by simp
  moreover have "\<exists>why. from_env env' = Inl (EnvironmentError why)" using assms(4,5) by (simp add: from_env_def)
  moreover have "sb_committed (snd (rollback_sandbox sid (snd (execute_in_sandbox sg sid sql (snd (begin_sandbox sg sid s)))))) = er_data r"
    using assms(5-9) by (simp add: sandbox_url_def begin_sandbox_def set_session_def execute_in_sandbox_def rollback_sandbox_def)
  ultimately show ?thesis by blast
qed

definition two_databases :: environ where
  "two_databases = [''DATABASE_URL'' \<mapsto> ''pg://prod'', ''STAGING_DATABASE_URL'' \<mapsto> ''pg://staging'']"

definition one_database :: environ where
  "one_database = [''DATABASE_URL'' \<mapsto> ''pg://prod'', ''STAGING_DATABASE_URL'' \<mapsto> ''pg://prod'']"

definition committing_staging :: "int staging" where
  "committing_staging = \<lparr> sg_url = sandbox_url one_database, sg_exec = (\<lambda>_ n. Inr \<lparr> er_rows = n, er_data = 0, er_commits = True \<rparr>),
     sg_count = (\<lambda>_ _ n. Inr n), sg_trigger_log = (\<lambda>_ _. Inr []) \<rparr>"

theorem sandbox_bypasses_staging_guard_witness:
  "(\<exists>why. from_env one_database = Inl (EnvironmentError why))
   \<and> sb_committed (snd (rollback_sandbox ''s'' (snd (execute_in_sandbox committing_staging ''s'' ''DELETE FROM users; COMMIT''
       (snd (begin_sandbox committing_staging ''s'' \<lparr> sb_committed = 7, sb_sessions = [] \<rparr>)))))) = 0"
proof -
  have 1: "from_env two_databases = Inr \<lparr> cc_production_url = ''pg://prod'', cc_staging_url = ''pg://staging'', cc_statement_timeout_ms = 5000 \<rparr>"
    by code_simp
  have 2: "get_production_conn (\<lambda>_. None) \<lparr> cc_production_url = ''pg://prod'', cc_staging_url = ''pg://staging'', cc_statement_timeout_ms = 5000 \<rparr>
      = Inr \<lparr> cn_url = ''pg://prod'', cn_timeout_ms = Some 5000, cn_read_only = True \<rparr>"
    and 3: "get_staging_conn (\<lambda>_. None) \<lparr> cc_production_url = ''pg://prod'', cc_staging_url = ''pg://staging'', cc_statement_timeout_ms = 5000 \<rparr>
      = Inr \<lparr> cn_url = ''pg://staging'', cn_timeout_ms = Some 5000, cn_read_only = False \<rparr>"
    by (simp_all add: get_production_conn_def get_staging_conn_def connect_def apply_timeout_def)
  have 4: "one_database ''DATABASE_URL'' = Some ''pg://prod''" "one_database ''STAGING_DATABASE_URL'' = Some ''pg://prod''"
    by (simp_all add: one_database_def)
  have 5: "sg_url committing_staging = sandbox_url one_database"
    "sg_exec committing_staging ''DELETE FROM users; COMMIT'' (sb_committed (\<lparr> sb_committed = 7, sb_sessions = [] \<rparr> :: int sandbox))
      = Inr \<lparr> er_rows = 7, er_data = 0, er_commits = True \<rparr>"
    by (simp_all add: committing_staging_def)
  from sandbox_bypasses_staging_guard [OF 1 2 3 4 _ 5, of "''s''"] show ?thesis by simp
qed

end
