(* ===== verification/Spec2Isabelle.thy ===== *)
theory Spec2Isabelle
  imports Proxy Store_Concurrency Postgres_Reader Prompts Agent_Service Embeddings Connections
begin

text \<open>
  A verification library for ContraGate, a gateway that stands between an AI agent and a production
  database. The agent's tool calls are intercepted, risky ones are analysed, explained to a human
  and held until the human decides; what is executed afterwards is what was reviewed.

  \<^bold>\<open>The program and how its parts interact.\<close> The proxy (\<open>proxy/\<close>) parses a tool call into a manifest,
  asks two services for a quick check and either forwards a cheap internal read, refuses, or binds the
  manifest by a hash, stores it and starts the workflow in the background, answering 202. The
  workflow (\<open>orchestrator/\<close>) is a graph of eight nodes over one shared handoff contract: INTAKE,
  RISK_GATE, ANALYSIS, CONTEXT_SIM, CONTRACT, HUMAN_REVIEW, EXECUTION and AUDIT. Three of the nodes
  are agents (\<open>agents/\<close>): the analyzer computes what the statement does from the catalog
  (\<open>sql_analysis_lib/\<close>, \<open>mcp_servers/postgres_reader\<close>), the context agent retrieves precedents
  (\<open>mcp_servers/memory_store\<close>) and simulates the statement in a transaction that is rolled back
  (\<open>mcp_servers/transaction_sandbox\<close>), the contract agent scores the risk, chooses the tier and
  writes the approval contract. The human decides over the HTTP endpoints, Slack or the notifier;
  the decision meets the waiting workflow in the workflow store, which several tasks share and
  which is written through to PostgreSQL.

  \<^bold>\<open>The theories\<close>, in the order of their imports, with the sources they model.
  \<^item> \<^verbatim>\<open>Prelude\<close>, \<^verbatim>\<open>PyRegex\<close>: what the sources use of Python: dynamic values and dictionaries,
    strings, rounding and number formats, exceptions as values, effects that log service calls, and
    the fragment of \<open>re\<close>. The locales \<^verbatim>\<open>write_once\<close> (data that a system of steps keeps once it is
    there) and \<^verbatim>\<open>ranking\<close> (a stable sort by a key) are the contracts several components share.
  \<^item> \<^verbatim>\<open>Handoff_Schema\<close> (\<open>orchestrator/handoff_schema.py\<close>): the contract as a record with its
    enumerations. The locales \<^verbatim>\<open>contract_step\<close> and \<^verbatim>\<open>agent_step\<close> say what a node may change of
    it; every node that works on the contract alone is an interpretation.
  \<^item> \<^verbatim>\<open>Policy_Rules\<close> (\<open>mcp_servers/policy_store/\<close>): the rule engine and its server; the locale
    \<^verbatim>\<open>verdict_algebra\<close> relates the loop to a declarative verdict.
  \<^item> \<^verbatim>\<open>MCP_Transport\<close> (\<open>mcp_servers/base/\<close>, \<open>orchestrator/mcp_client.py\<close>,
    \<open>agents/base_agent.py\<close>): authentication, the common endpoint, the client and the agents' logged
    calls. \<^verbatim>\<open>Guards\<close> (\<open>orchestrator/guards.py\<close>), \<^verbatim>\<open>Intake\<close> (\<open>proxy/interceptor.py\<close>,
    \<open>orchestrator/states/intake.py\<close>), \<^verbatim>\<open>Risk_Gate\<close> (\<open>orchestrator/states/risk_gate.py\<close>,
    \<open>proxy/risk_gate.py\<close>).
  \<^item> \<^verbatim>\<open>Reversibility\<close>, \<^verbatim>\<open>Sql_Analysis\<close> (\<open>sql_analysis_lib/\<close>), \<^verbatim>\<open>Analyzer\<close> (\<open>agents/analyzer/\<close>),
    \<^verbatim>\<open>Postgres_Reader\<close> (\<open>mcp_servers/postgres_reader/server.py\<close>).
  \<^item> \<^verbatim>\<open>Risk_Rules\<close>, \<^verbatim>\<open>Contract_Builder\<close>, \<^verbatim>\<open>Contract_Agent\<close> (\<open>agents/contract/\<close>); \<^verbatim>\<open>Prompts\<close> (the
    messages for the language models, \<open>prompts.py\<close> of both agents); \<^verbatim>\<open>Agent_Service\<close>
    (\<open>agents/main.py\<close>, \<open>orchestrator/states/contract.py\<close>).
  \<^item> \<^verbatim>\<open>Analysis_State\<close>, \<^verbatim>\<open>Context_State\<close> (\<open>orchestrator/states/analysis.py\<close> and \<open>context_sim.py\<close>): the nodes
    that delegate to the agents, with the earlier helpers they keep, taken as specifications of what
    the agents compute.
  \<^item> \<^verbatim>\<open>Memory_Store\<close>, \<^verbatim>\<open>Embeddings\<close> (\<open>mcp_servers/memory_store/\<close>), \<^verbatim>\<open>Sandbox_Server\<close>
    (\<open>mcp_servers/transaction_sandbox/server.py\<close>), \<^verbatim>\<open>Connections\<close> (\<open>sql_analysis_lib/connection.py\<close>), \<^verbatim>\<open>Tasks\<close> (tasks that await service calls, and
    \<open>asyncio.gather\<close>), \<^verbatim>\<open>Context_Sim\<close> (\<open>agents/context_sim/\<close>, \<open>orchestrator/retry.py\<close>).
  \<^item> \<^verbatim>\<open>Workflow_Store\<close> (\<open>orchestrator/workflow_store.py\<close>), \<^verbatim>\<open>Human_Review\<close>, \<^verbatim>\<open>Execution\<close>,
    \<^verbatim>\<open>Audit_Node\<close> (\<open>orchestrator/states/\<close>), \<^verbatim>\<open>Audit_Log\<close> (\<open>mcp_servers/audit_logger/\<close>),
    \<^verbatim>\<open>Graph\<close> (\<open>orchestrator/graph.py\<close>).
  \<^item> \<^verbatim>\<open>Approval_API\<close> (\<open>proxy/async_protocol.py\<close>), \<^verbatim>\<open>Slack\<close> (\<open>proxy/webhook_handler.py\<close>,
    \<open>mcp_servers/notifier/server.py\<close>), \<^verbatim>\<open>Proxy\<close> (\<open>proxy/main.py\<close>, \<open>orchestrator/main.py\<close>). The
    locale \<^verbatim>\<open>decision_channel\<close> is the contract of a way to decide; the HTTP endpoint, the Slack
    webhook, the notifier and any mixture of them are interpretations. \<^verbatim>\<open>Typed_Store\<close>: the model
    validator as a type that every step of the store keeps. \<^verbatim>\<open>Store_Concurrency\<close>: the store's operations cut
    at their awaits (critical section, wait for a connection, upsert, notification) as events on a
    state with the tasks under way. The locale \<^verbatim>\<open>simulation\<close> and its extension
    \<^verbatim>\<open>simulated_write_once\<close> carry the finality of decisions from atomic steps to all interleavings.
  \<^item> This theory: the precedents of the memory service and the tier rules of the contract agent.

  \<^bold>\<open>How state and effects correspond.\<close> Contracts are mutable Python objects that the workflow and
  the store share, so they live in a heap (\<^const>\<open>w_heap\<close>) and records hold references; the
  database table holds snapshots. The services behind a URL are one function from the log of
  earlier calls and the call to an answer or an exception (\<open>mcp_env\<close>), so that a service may answer
  anything at any time; where a property needs the repository's own server, that server's tools
  are put in. The language models, the embeddings, the hash functions, the clock and the random ids
  are arguments. What other tasks do between two steps of a task is a sequence of store steps in a
  tick of the review loop or a turn of the graph, so a property that holds for all of them holds
  for all interleavings at the awaits. Floating-point numbers are rationals, with infinity a value
  of its own where the sources use it.

  \<^bold>\<open>What the lemmas show.\<close>
  \<^item> From request to execution: the workflow executes only with a recorded approval, at most once,
    and exactly the intercepted call (\<^verbatim>\<open>Proxy\<close>, \<^verbatim>\<open>Graph\<close>, \<^verbatim>\<open>Execution\<close>); the proxy's own direct
    path is limited to cheap internal reads; a changed manifest is detected; every run ends, with
    its audit calls made.
  \<^item> Decisions: recorded once, final under every sequence of store operations, durable, not
    replayable, accountable on every channel, authenticated on Slack; the event stream reports every
    update in order; stored contracts stay valid, so a restart loses none; all of it also when the
    stages of concurrent operations interleave, durability only if the database receives the writes of a
    record in order (\<^verbatim>\<open>Workflow_Store\<close>, \<^verbatim>\<open>Store_Concurrency\<close>, \<^verbatim>\<open>Approval_API\<close>, \<^verbatim>\<open>Slack\<close>, \<^verbatim>\<open>Human_Review\<close>).
  \<^item> Classification: the rule engine, the tier rules, the risk score, the reversibility table and the
    cascade trace against declarative specifications; the analysis refines the catalog and is compared
    with the documented priority order; the language models influence prose only, and that prose is
    sanitised; untrusted text reaches them between tags.
  \<^item> Simulation: sessions are always rolled back, staging is untouched, the reported differences are
    the effect of the statement.
  \<^item> Memory and audit: a rejected precedent forces the full review; an audit record is permanent
    and verifies, a changed one is noticed.
  \<^item> Deviations found while modelling are stated as theorems too: the client rejects every answer of
    the repository's own servers, the AUDIT node's keywords do not fit the tools it calls, EXPLAIN
    validation can be bypassed by dollar quotes inside string literals, a policy rejection can end as
    COMPLETED, the orchestrator's endpoint can replace a decided record, the tags around untrusted
    text can be closed from inside, the sandbox accepts the production database, and writes of the store
    that overtake each other or fail lose an accepted decision at the next restart.

  \<^bold>\<open>Bounds.\<close> The graph's runs are bounded by LangGraph's recursion limit, which is part of the
  model: a run that reaches it fails, as in the library; one turn more than the limit is enough for
  every run to end. The review loop consumes one tick per poll and is proved to return as soon as one
  tick's clock has passed the deadline. The cascade trace carries its own depth limit as in the
  source. Retries are bounded by the source's counters. All other recursions are structural or have
  a termination proof.

  \<^bold>\<open>Not modelled.\<close> The web console (\<open>ui/\<close>), the SQL seeds and container files: no Python, or data.
  \<open>mcp_servers/base/logging.py\<close>, \<open>mcp_servers/run_all.py\<close> and the set-up of HTTP servers, clients and
  connection pools: input and output only. What a language model makes of a prompt. Concurrent
  writers from outside the process. Cancellation of tasks (a simulation attempt that is cut
  off by its timeout is an outcome of the attempt) and crashes between two database statements of a
  service; those of the workflow store are taken apart.
\<close>

section \<open>Precedents and the tier\<close>

lemma run_memory_call:
  "\<exists>l'. run_task env (call_task cx ''memory-store'' tool args) l =
     (env l \<lparr> mc_url = MEMORY_STORE_URL, mc_tool = tool, mc_args = args \<rparr>, l')"
  by (simp add: call_task_def split: sum.splits)

text \<open>A memory service whose second and third retrieval stages are the tools of the repository; what
  the semantic search finds, which rests on the embeddings, is left open.\<close>

definition answers_as_memory :: "mcp_env \<Rightarrow> bool" where
  "answers_as_memory env \<longleftrightarrow> (\<forall>l args.
     env l \<lparr> mc_url = MEMORY_STORE_URL, mc_tool = ''filter_by_table_overlap'', mc_args = args \<rparr> = filter_tool args
   \<and> env l \<lparr> mc_url = MEMORY_STORE_URL, mc_tool = ''rerank_by_outcome'', mc_args = args \<rparr> = rerank_tool args)"

text \<open>The first call of the retrieval.\<close>

definition search_call :: "HandoffContract \<Rightarrow> mcp_call" where
  "search_call c = \<lparr> mc_url = MEMORY_STORE_URL, mc_tool = ''semantic_search'',
     mc_args = [(''intent'', PStr (if intent_summary c \<noteq> [] then intent_summary c else take 200 (raw_sql c))),
              (''tenant_id'', PStr (tenant_id c)), (''top_k'', PInt 20)] \<rparr>"

text \<open>The two pure stages on the search result: a rejected candidate that overlaps is followed by a
  rejected one at the head of the ranking.\<close>

lemma stages_surface:
  assumes "filter_by_table_overlap cs cur None = Inr fs" and "rerank_by_outcome fs = Inr tops"
    and "d \<in> set cs" and "is_rejected d" and "reaches cur JACCARD_THRESHOLD d" and "list_all bounded_similarity cs"
  shows "fs \<noteq> [] \<and> tops \<noteq> [] \<and> is_rejected (hd tops)"
proof -
  from filter_parts [OF assms(1)] obtain js where js: "map snd js = cs" "list_all (\<lambda>(j, c). overlap cur c = Inr j) js"
    and fs: "fs = map snd (sort_desc fst (map (\<lambda>(j, c). (py_round 4 j, dict_set ''jaccard_score'' (PFloat (py_round 4 j)) c))
              (filter (\<lambda>(j, c). j \<ge> (case None of None \<Rightarrow> JACCARD_THRESHOLD | Some t \<Rightarrow> t)) js)))" by blast
  have set_fs: "set fs = (\<lambda>(j, c). dict_set ''jaccard_score'' (PFloat (py_round 4 j)) c) ` {(j, c) \<in> set js. j \<ge> JACCARD_THRESHOLD}"
    unfolding fs set_map rk.set_order by force
  from assms(3) js(1) obtain j where j: "(j, d) \<in> set js" by auto
  with js(2) have "overlap cur d = Inr j" by (auto simp: list_all_iff)
  with assms(5) have "j \<ge> JACCARD_THRESHOLD" by (simp add: reaches_def)
  with j have m: "dict_set ''jaccard_score'' (PFloat (py_round 4 j)) d \<in> set fs" unfolding set_fs by force
  moreover have "is_rejected (dict_set ''jaccard_score'' (PFloat (py_round 4 j)) d)" using assms(4) by (simp add: is_rejected_def)
  moreover have "list_all bounded_similarity fs"
  proof -
    have "bounded_similarity (dict_set ''jaccard_score'' v x) = bounded_similarity x" for v x by (simp add: bounded_similarity_def)
    moreover have "bounded_similarity x" if "(i, x) \<in> set js" for i x using that assms(6) js(1) by (force simp: list_all_iff)
    ultimately show ?thesis unfolding list_all_iff set_fs by auto
  qed
  ultimately have t: "length tops = min 3 (length fs)" "is_rejected (hd tops)"
    using rerank_rejected [OF assms(2)] by blast+
  from m have "fs \<noteq> []" by auto
  moreover from this t(1) have "tops \<noteq> []" by (cases fs) auto
  ultimately show ?thesis using t(2) by blast
qed

lemma rejected_operation:
  assumes "to_historical_operation (PDict d) = Inr h" and "is_rejected d"
  shows "ho_outcome h = ''REJECTED''"
proof -
  have "map_of d ''outcome'' = Some (PStr ''REJECTED'')"
    using assms(2) by (auto simp: is_rejected_def dict_get_def split: option.splits)
  with assms(1) show ?thesis
    by (auto simp: to_historical_operation_def as_dict_def dict_get_def need_str_def split: sum.splits prod.splits)
qed

text \<open>The retrieval with a memory service, stage by stage.\<close>

lemma retrieve_available:
  assumes "answers_as_memory env" and "env l (search_call c) = Inr (PDict ans)"
    and "dict_get ans ''candidates'' (PList []) = PList (map PDict cs)" and "cs \<noteq> []"
    and "run_task env (retrieve cx c) l = (Inr r, l')" and "rt_available r"
  obtains fs where "filter_by_table_overlap cs (map PStr (extract_table_set c)) None = Inr fs"
    and "fs = [] \<or> (\<exists>tops. rerank_by_outcome fs = Inr tops
       \<and> map_exn to_historical_operation (map PDict tops) = Inr (rt_precedents r))"
proof -
  let ?cur = "map PStr (extract_table_set c)"
  let ?fargs = "[(''candidates'', PList (map PDict cs)), (''current_tables'', PList ?cur)]"
  have fl: "env v \<lparr> mc_url = MEMORY_STORE_URL, mc_tool = ''filter_by_table_overlap'', mc_args = args \<rparr> = filter_tool args" for v args
    using assms(1) by (simp add: answers_as_memory_def)
  have rr: "env v \<lparr> mc_url = MEMORY_STORE_URL, mc_tool = ''rerank_by_outcome'', mc_args = args \<rparr> = rerank_tool args" for v args
    using assms(1) by (simp add: answers_as_memory_def)
  have ft: "filter_tool ?fargs = map_sum id (\<lambda>out. PDict [(''filtered'', PList (map PDict out)), (''count'', PInt (int (length out)))])
      (filter_by_table_overlap cs ?cur None)"
    by (simp add: filter_tool_def dict_get_def dict_list_map py_set_def py_iter_def opt_num_def list_all_iff)
  have rt: "rerank_tool [(''candidates'', PList (map PDict fs))] = map_sum id (\<lambda>out. PDict [(''top3'', PList (map PDict out))]) (rerank_by_outcome fs)" for fs
    by (simp add: rerank_tool_def dict_get_def dict_list_map)
  obtain l1 where c1: "run_task env (call_task cx ''memory-store'' ''semantic_search'' (mc_args (search_call c))) l = (Inr (PDict ans), l1)"
    using run_memory_call [of env cx "''semantic_search''" "mc_args (search_call c)" l] assms(2) by (auto simp: search_call_def)
  obtain l2 where c2: "run_task env (call_task cx ''memory-store'' ''filter_by_table_overlap'' ?fargs) l1 = (filter_tool ?fargs, l2)"
    using run_memory_call [of env cx "''filter_by_table_overlap''" ?fargs l1] by (auto simp: fl)
  from assms(5) have st: "\<exists>l3. run_task env (retrieve_stages cx c) l = (Inr r, l3)"
    using assms(6) by (auto simp: retrieve_def run_task_ttry split: prod.splits sum.splits)
  have "\<not> isl (filter_by_table_overlap cs ?cur None)"
    using st assms(3,4) c1 c2 unfolding ft
    by (auto simp: retrieve_stages_def run_task_tseq search_call_def list_in_def run_task_tlift as_dict_def as_list_def isl_def)
  then obtain fs where fs: "filter_by_table_overlap cs ?cur None = Inr fs" by (auto simp: isl_def) (metis sum.exhaust_sel isl_def)
  obtain l3 where c3: "run_task env (call_task cx ''memory-store'' ''rerank_by_outcome'' [(''candidates'', PList (map PDict fs))]) l2
      = (rerank_tool [(''candidates'', PList (map PDict fs))], l3)"
    using run_memory_call [of env cx "''rerank_by_outcome''" "[(''candidates'', PList (map PDict fs))]" l2] by (auto simp: rr)
  have "\<exists>tops. rerank_by_outcome fs = Inr tops \<and> map_exn to_historical_operation (map PDict tops) = Inr (rt_precedents r)" if "fs \<noteq> []"
    using st assms(3,4) c1 c2 c3 that unfolding ft fs rt
    by (cases "rerank_by_outcome fs")
      (auto simp: retrieve_stages_def run_task_tseq search_call_def list_in_def run_task_tlift as_dict_def as_list_def dict_get_def
        found_def split: sum.splits)
  with fs that show ?thesis by blast
qed

text \<open>
  C9. A rejection in the memory forces a full review. If the semantic search finds a precedent that
  was rejected and whose tables overlap those of the operation to the threshold, the memory service
  runs its two other tools as written, and the retrieval is not reported as unavailable, then the
  contract agent classifies the operation as FULL_CONTRACT, however many other precedents there are
  and whatever else is known of the operation.
\<close>

theorem rejected_precedent_forces_full_review:
  assumes "answers_as_memory env" and "env l (search_call c) = Inr (PDict ans)"
    and "dict_get ans ''candidates'' (PList []) = PList (map PDict cs)"
    and "d \<in> set cs" and "is_rejected d" and "reaches (map PStr (extract_table_set c)) JACCARD_THRESHOLD d"
    and "list_all bounded_similarity cs"
    and "run_task env (retrieve cx c) l = (Inr r, l')" and "rt_available r"
  shows "fst (classify_risk (apply_retrieval r c)) = TIER_FULL_CONTRACT"
proof -
  from assms(4) have "cs \<noteq> []" by auto
  from retrieve_available [OF assms(1-3) this assms(8,9)] obtain fs where
    fs: "filter_by_table_overlap cs (map PStr (extract_table_set c)) None = Inr fs"
    and rk: "fs = [] \<or> (\<exists>tops. rerank_by_outcome fs = Inr tops
       \<and> map_exn to_historical_operation (map PDict tops) = Inr (rt_precedents r))" by blast
  from filter_out_mset [OF fs] have "length fs = length (filter (reaches (map PStr (extract_table_set c)) JACCARD_THRESHOLD) cs)"
    by (metis length_map option.simps(4) size_mset)
  moreover have "filter (reaches (map PStr (extract_table_set c)) JACCARD_THRESHOLD) cs \<noteq> []"
    using assms(4,6) by (auto simp: filter_empty_conv)
  ultimately obtain tops where t: "rerank_by_outcome fs = Inr tops" "map_exn to_historical_operation (map PDict tops) = Inr (rt_precedents r)"
    using rk by auto
  from stages_surface [OF fs t(1) assms(4-7)] obtain x xs where x: "tops = x # xs" "is_rejected x"
    by (cases tops) auto
  from t(2) x(1) have "\<exists>h hs. to_historical_operation (PDict x) = Inr h \<and> h # hs = rt_precedents r"
    by (auto split: sum.splits)
  then obtain h hs where "to_historical_operation (PDict x) = Inr h" "rt_precedents r = h # hs" by metis
  with rejected_operation [of x h] x(2) have "\<exists>h \<in> set (historical_precedents (apply_retrieval r c)). ho_outcome h = ''REJECTED''"
    by (simp add: apply_retrieval_def)
  then show ?thesis by (simp add: classify_risk_def Let_def apply_tier_full_iff full_contract_reason_def)
qed

definition remembering_env :: mcp_env where
  "remembering_env l x =
     (if mc_tool x = ''filter_by_table_overlap'' then filter_tool (mc_args x)
      else if mc_tool x = ''rerank_by_outcome'' then rerank_tool (mc_args x)
      else Inr (PDict [(''candidates'', PList (map PDict [sample_candidate ''APPROVED'', sample_candidate ''REJECTED'']))]))"

definition orders_contract :: HandoffContract where
  "orders_contract = (new_contract ''cg_1'' ''demo'' ''agent'' INTERNAL_SYSTEM 0 ''UPDATE orders SET a = 1'')
     \<lparr> primary_table := ''orders'', row_confidence := 1 \<rparr>"

theorem rejected_precedent_forces_full_review_witness:
  "fst (classify_risk (apply_retrieval (projr (fst (run_task remembering_env (retrieve sim_agent orders_contract) []))) orders_contract))
     = TIER_FULL_CONTRACT"
proof -
  let ?cs = "[sample_candidate ''APPROVED'', sample_candidate ''REJECTED'']"
  let ?run = "run_task remembering_env (retrieve sim_agent orders_contract) []"
  have 1: "answers_as_memory remembering_env" by (simp add: answers_as_memory_def remembering_env_def)
  have 2: "remembering_env [] (search_call orders_contract) = Inr (PDict [(''candidates'', PList (map PDict ?cs))])"
    by (simp add: remembering_env_def search_call_def)
  have 3: "dict_get [(''candidates'', PList (map PDict ?cs))] ''candidates'' (PList []) = PList (map PDict ?cs)"
    by (simp add: dict_get_def)
  have 4: "sample_candidate ''REJECTED'' \<in> set ?cs" by simp
  have 5: "is_rejected (sample_candidate ''REJECTED'')" "list_all bounded_similarity ?cs"
    "reaches (map PStr (extract_table_set orders_contract)) JACCARD_THRESHOLD (sample_candidate ''REJECTED'')"
    by code_simp+
  have "\<not> isl (fst ?run)" "rt_available (projr (fst ?run))" by code_simp+
  moreover from this(1) have "?run = (Inr (projr (fst ?run)), snd ?run)" by (simp add: prod_eq_iff sum.collapse(2))
  ultimately show ?thesis
    using rejected_precedent_forces_full_review [OF 1 2 3 4 5(1,3,2)] by blast
qed

end
